(* ===== verification/Go_Strings.thy ===== *)
theory Go_Strings
  imports Main "HOL-Library.Sublist" "HOL-Library.Code_Target_Nat"
begin

text \<open>
  The prelude of the development: what the program uses of Go's packages \<open>strings\<close>,
  \<open>unicode/utf8\<close>, \<open>strconv\<close> and \<open>time\<close>, and the theorem collections the other theories
  extend.

  A Go string is a sequence of bytes; it is modelled by \<^typ>\<open>string\<close>, whose characters are
  exactly the 256 byte values, so \<^const>\<open>length\<close> is Go's \<open>len\<close>. Functions that work on runes
  decode UTF-8 as Go does: an ill-formed byte is the rune U+FFFD of width one. A
  \<open>time.Time\<close> is an \<^typ>\<open>int\<close>, the nanoseconds since the Unix epoch, and a \<open>time.Duration\<close> an
  \<^typ>\<open>int\<close> of nanoseconds.
\<close>

named_theorems string_laws \<open>laws of the string functions that carry the component proofs\<close>
named_theorems table_laws \<open>laws of lists of table rows\<close>

subsection \<open>Searching lists\<close>

lemma find_in: "find Q rows = Some r \<Longrightarrow> r \<in> set rows \<and> Q r"
  by (auto simp: find_Some_iff)

subsection \<open>Bytes and ASCII\<close>

abbreviation byte :: "char \<Rightarrow> nat" where
  "byte c \<equiv> of_char c"

definition is_ascii :: "char \<Rightarrow> bool" where
  "is_ascii c \<longleftrightarrow> byte c < 128"

definition is_digit :: "char \<Rightarrow> bool" where
  "is_digit c \<longleftrightarrow> 48 \<le> byte c \<and> byte c \<le> 57"

definition is_lower :: "char \<Rightarrow> bool" where
  "is_lower c \<longleftrightarrow> 97 \<le> byte c \<and> byte c \<le> 122"

definition is_upper :: "char \<Rightarrow> bool" where
  "is_upper c \<longleftrightarrow> 65 \<le> byte c \<and> byte c \<le> 90"

definition is_alpha :: "char \<Rightarrow> bool" where
  "is_alpha c \<longleftrightarrow> is_lower c \<or> is_upper c"

definition is_alnum :: "char \<Rightarrow> bool" where
  "is_alnum c \<longleftrightarrow> is_alpha c \<or> is_digit c"

definition hex_val :: "char \<Rightarrow> nat option" where
  "hex_val c =
     (if is_digit c then Some (byte c - 48)
      else if 97 \<le> byte c \<and> byte c \<le> 102 then Some (byte c - 87)
      else if 65 \<le> byte c \<and> byte c \<le> 70 then Some (byte c - 55)
      else None)"

lemmas ascii_defs = is_ascii_def is_digit_def is_lower_def is_upper_def is_alpha_def is_alnum_def

lemma digit_not_alpha: "is_digit c \<Longrightarrow> \<not> is_alpha c"
  by (simp add: ascii_defs)

subsection \<open>UTF-8\<close>

definition rune_error :: nat where
  "rune_error = 65533"

definition cont_byte :: "nat \<Rightarrow> bool" where
  "cont_byte b \<longleftrightarrow> 128 \<le> b \<and> b \<le> 191"

text \<open>\<open>utf8.DecodeRune\<close> on a non-empty byte list: the rune and its width.\<close>

fun decode_rune :: "nat list \<Rightarrow> nat \<times> nat" where
  "decode_rune [] = (rune_error, 0)"
| "decode_rune (a # rest) =
     (if a < 128 then (a, 1)
      else if 194 \<le> a \<and> a \<le> 223 then
        (case rest of
           b # _ \<Rightarrow> if cont_byte b then ((a - 192) * 64 + (b - 128), 2) else (rune_error, 1)
         | _ \<Rightarrow> (rune_error, 1))
      else if 224 \<le> a \<and> a \<le> 239 then
        (case rest of
           b # c # _ \<Rightarrow>
             if cont_byte b \<and> cont_byte c \<and> (a = 224 \<longrightarrow> 160 \<le> b) \<and> (a = 237 \<longrightarrow> b \<le> 159)
             then ((a - 224) * 4096 + (b - 128) * 64 + (c - 128), 3) else (rune_error, 1)
         | _ \<Rightarrow> (rune_error, 1))
      else if 240 \<le> a \<and> a \<le> 244 then
        (case rest of
           b # c # d # _ \<Rightarrow>
             if cont_byte b \<and> cont_byte c \<and> cont_byte d \<and> (a = 240 \<longrightarrow> 144 \<le> b) \<and> (a = 244 \<longrightarrow> b \<le> 143)
             then ((a - 240) * 262144 + (b - 128) * 4096 + (c - 128) * 64 + (d - 128), 4)
             else (rune_error, 1)
         | _ \<Rightarrow> (rune_error, 1))
      else (rune_error, 1))"

lemma decode_rune_width: "bs \<noteq> [] \<Longrightarrow> 1 \<le> snd (decode_rune bs)"
  by (cases bs) (auto split: list.splits)

function decode_bytes :: "nat list \<Rightarrow> nat list" where
  "decode_bytes [] = []"
| "decode_bytes (b # bs) =
     fst (decode_rune (b # bs)) # decode_bytes (drop (snd (decode_rune (b # bs))) (b # bs))"
  by pat_completeness auto
termination
proof (relation "measure length", simp)
  fix b :: nat and bs
  have "1 \<le> snd (decode_rune (b # bs))" by (rule decode_rune_width) simp
  then have "length (drop (snd (decode_rune (b # bs))) (b # bs)) < length (b # bs)" by auto
  then show "(drop (snd (decode_rune (b # bs))) (b # bs), b # bs) \<in> measure length" by simp
qed

definition utf8_runes :: "string \<Rightarrow> nat list" where
  "utf8_runes s = decode_bytes (map of_char s)"

lemma utf8_runes_ascii: "list_all is_ascii s \<Longrightarrow> utf8_runes s = map of_char s"
  by (induction s) (simp_all add: utf8_runes_def is_ascii_def)

definition encode_rune :: "nat \<Rightarrow> nat list" where
  "encode_rune r =
     (if r < 128 then [r]
      else if r < 2048 then [192 + r div 64, 128 + r mod 64]
      else if (55296 \<le> r \<and> r \<le> 57343) \<or> 1114111 < r then [239, 191, 189]
      else if r < 65536 then [224 + r div 4096, 128 + r div 64 mod 64, 128 + r mod 64]
      else [240 + r div 262144, 128 + r div 4096 mod 64, 128 + r div 64 mod 64, 128 + r mod 64])"

definition utf8_encode :: "nat list \<Rightarrow> string" where
  "utf8_encode rs = map char_of (concat (map encode_rune rs))"

subsection \<open>Case mapping\<close>

text \<open>
  \<open>unicode.ToLower\<close> beyond ASCII, as ranges \<open>(first, last, stride, delta)\<close> of Unicode's simple
  lower-case mapping; and the runes whose simple case folding is not their lower case.
\<close>

definition lower_ranges :: "(nat \<times> nat \<times> nat \<times> int) list" where
  "lower_ranges = [
   (192, 214, 1, 32), (216, 222, 1, 32), (256, 302, 2, 1), (304, 304, 1, -199),
   (306, 310, 2, 1), (313, 327, 2, 1), (330, 374, 2, 1), (376, 376, 1, -121),
   (377, 381, 2, 1), (385, 385, 1, 210), (386, 388, 2, 1), (390, 390, 1, 206),
   (391, 391, 1, 1), (393, 394, 1, 205), (395, 395, 1, 1), (398, 398, 1, 79),
   (399, 399, 1, 202), (400, 400, 1, 203), (401, 401, 1, 1), (403, 403, 1, 205),
   (404, 404, 1, 207), (406, 406, 1, 211), (407, 407, 1, 209), (408, 408, 1, 1),
   (412, 412, 1, 211), (413, 413, 1, 213), (415, 415, 1, 214), (416, 420, 2, 1),
   (422, 422, 1, 218), (423, 423, 1, 1), (425, 425, 1, 218), (428, 428, 1, 1),
   (430, 430, 1, 218), (431, 431, 1, 1), (433, 434, 1, 217), (435, 437, 2, 1),
   (439, 439, 1, 219), (440, 440, 1, 1), (444, 444, 1, 1), (452, 452, 1, 2),
   (453, 453, 1, 1), (455, 455, 1, 2), (456, 456, 1, 1), (458, 458, 1, 2),
   (459, 475, 2, 1), (478, 494, 2, 1), (497, 497, 1, 2), (498, 500, 2, 1),
   (502, 502, 1, -97), (503, 503, 1, -56), (504, 542, 2, 1), (544, 544, 1, -130),
   (546, 562, 2, 1), (570, 570, 1, 10795), (571, 571, 1, 1), (573, 573, 1, -163),
   (574, 574, 1, 10792), (577, 577, 1, 1), (579, 579, 1, -195), (580, 580, 1, 69),
   (581, 581, 1, 71), (582, 590, 2, 1), (880, 882, 2, 1), (886, 886, 1, 1),
   (895, 895, 1, 116), (902, 902, 1, 38), (904, 906, 1, 37), (908, 908, 1, 64),
   (910, 911, 1, 63), (913, 929, 1, 32), (931, 939, 1, 32), (975, 975, 1, 8),
   (984, 1006, 2, 1), (1012, 1012, 1, -60), (1015, 1015, 1, 1), (1017, 1017, 1, -7),
   (1018, 1018, 1, 1), (1021, 1023, 1, -130), (1024, 1039, 1, 80), (1040, 1071, 1, 32),
   (1120, 1152, 2, 1), (1162, 1214, 2, 1), (1216, 1216, 1, 15), (1217, 1229, 2, 1),
   (1232, 1326, 2, 1), (1329, 1366, 1, 48), (4256, 4293, 1, 7264), (4295, 4295, 1, 7264),
   (4301, 4301, 1, 7264), (5024, 5103, 1, 38864), (5104, 5109, 1, 8), (7312, 7354, 1, -3008),
   (7357, 7359, 1, -3008), (7680, 7828, 2, 1), (7838, 7838, 1, -7615), (7840, 7934, 2, 1),
   (7944, 7951, 1, -8), (7960, 7965, 1, -8), (7976, 7983, 1, -8), (7992, 7999, 1, -8),
   (8008, 8013, 1, -8), (8025, 8031, 2, -8), (8040, 8047, 1, -8), (8072, 8079, 1, -8),
   (8088, 8095, 1, -8), (8104, 8111, 1, -8), (8120, 8121, 1, -8), (8122, 8123, 1, -74),
   (8124, 8124, 1, -9), (8136, 8139, 1, -86), (8140, 8140, 1, -9), (8152, 8153, 1, -8),
   (8154, 8155, 1, -100), (8168, 8169, 1, -8), (8170, 8171, 1, -112), (8172, 8172, 1, -7),
   (8184, 8185, 1, -128), (8186, 8187, 1, -126), (8188, 8188, 1, -9), (8486, 8486, 1, -7517),
   (8490, 8490, 1, -8383), (8491, 8491, 1, -8262), (8498, 8498, 1, 28), (8544, 8559, 1, 16),
   (8579, 8579, 1, 1), (9398, 9423, 1, 26), (11264, 11311, 1, 48), (11360, 11360, 1, 1),
   (11362, 11362, 1, -10743), (11363, 11363, 1, -3814), (11364, 11364, 1, -10727), (11367, 11371, 2, 1),
   (11373, 11373, 1, -10780), (11374, 11374, 1, -10749), (11375, 11375, 1, -10783), (11376, 11376, 1, -10782),
   (11378, 11378, 1, 1), (11381, 11381, 1, 1), (11390, 11391, 1, -10815), (11392, 11490, 2, 1),
   (11499, 11501, 2, 1), (11506, 11506, 1, 1), (42560, 42604, 2, 1), (42624, 42650, 2, 1),
   (42786, 42798, 2, 1), (42802, 42862, 2, 1), (42873, 42875, 2, 1), (42877, 42877, 1, -35332),
   (42878, 42886, 2, 1), (42891, 42891, 1, 1), (42893, 42893, 1, -42280), (42896, 42898, 2, 1),
   (42902, 42920, 2, 1), (42922, 42922, 1, -42308), (42923, 42923, 1, -42319), (42924, 42924, 1, -42315),
   (42925, 42925, 1, -42305), (42926, 42926, 1, -42308), (42928, 42928, 1, -42258), (42929, 42929, 1, -42282),
   (42930, 42930, 1, -42261), (42931, 42931, 1, 928), (42932, 42946, 2, 1), (42948, 42948, 1, -48),
   (42949, 42949, 1, -42307), (42950, 42950, 1, -35384), (42951, 42953, 2, 1), (42960, 42960, 1, 1),
   (42966, 42968, 2, 1), (42997, 42997, 1, 1), (65313, 65338, 1, 32), (66560, 66599, 1, 40),
   (66736, 66771, 1, 40), (66928, 66938, 1, 39), (66940, 66954, 1, 39), (66956, 66962, 1, 39),
   (66964, 66965, 1, 39), (68736, 68786, 1, 64), (71840, 71871, 1, 32), (93760, 93791, 1, 32),
   (125184, 125217, 1, 34)]"

definition fold_extra :: "(nat \<times> nat) list" where
  "fold_extra = [
   (181, 956), (383, 115), (837, 953), (962, 963), (976, 946), (977, 952),
   (981, 966), (982, 960), (1008, 954), (1009, 961), (1013, 949), (7296, 1074),
   (7297, 1076), (7298, 1086), (7299, 1089), (7300, 1090), (7301, 1090), (7302, 1098),
   (7303, 1123), (7304, 42571), (7835, 7777), (8126, 953)]"

definition lower_rune :: "nat \<Rightarrow> nat" where
  "lower_rune r =
     (if r < 128 then (if 65 \<le> r \<and> r \<le> 90 then r + 32 else r)
      else (case find (\<lambda>(lo, hi, st, d). lo \<le> r \<and> r \<le> hi \<and> (r - lo) mod st = 0) lower_ranges of
              None \<Rightarrow> r
            | Some (lo, hi, st, d) \<Rightarrow> nat (int r + d)))"

definition fold_rune :: "nat \<Rightarrow> nat" where
  "fold_rune r =
     (case map_of fold_extra r of
        Some f \<Rightarrow> f
      | None \<Rightarrow> if r = 304 then r else lower_rune r)"

definition lower_char :: "char \<Rightarrow> char" where
  "lower_char c = (if is_upper c then char_of (byte c + 32) else c)"

text \<open>\<open>strings.ToLower\<close>: a fast path for ASCII strings, \<open>strings.Map(unicode.ToLower, s)\<close> otherwise.\<close>

definition toLower :: "string \<Rightarrow> string" where
  "toLower s =
     (if list_all is_ascii s then map lower_char s
      else utf8_encode (map lower_rune (utf8_runes s)))"

text \<open>\<open>strings.EqualFold\<close>: the runes agree under simple case folding.\<close>

definition equalFold :: "string \<Rightarrow> string \<Rightarrow> bool" where
  "equalFold s t \<longleftrightarrow> map fold_rune (utf8_runes s) = map fold_rune (utf8_runes t)"

lemma equalFold_refl [simp]: "equalFold s s"
  by (simp add: equalFold_def)

lemma equalFold_sym: "equalFold s t \<Longrightarrow> equalFold t s"
  by (simp add: equalFold_def)

lemma lower_char_not_upper [simp]: "\<not> is_upper (lower_char c)"
proof (cases "is_upper c")
  case True
  then have "byte c + 32 < 256" by (simp add: is_upper_def)
  with True show ?thesis by (simp add: lower_char_def is_upper_def)
next
  case False
  then show ?thesis by (simp add: lower_char_def)
qed

lemma lower_char_idem [simp]: "lower_char (lower_char c) = lower_char c"
  using lower_char_not_upper [of c] by (simp add: lower_char_def [of "lower_char c"])

lemma lower_char_ascii: "is_ascii c \<Longrightarrow> is_ascii (lower_char c)"
  by (simp add: lower_char_def is_ascii_def is_upper_def)

lemma toLower_ascii: "list_all is_ascii s \<Longrightarrow> toLower s = map lower_char s"
  by (simp add: toLower_def)

lemma toLower_ascii_idem: "list_all is_ascii s \<Longrightarrow> toLower (toLower s) = toLower s"
  by (simp add: toLower_def list_all_iff lower_char_ascii)

lemma toLower_Nil [simp]: "toLower [] = []"
  by (simp add: toLower_def)

subsection \<open>Trimming\<close>

text \<open>The UTF-8 encodings of the runes of \<open>unicode.IsSpace\<close>.\<close>

definition space_runes :: "string list" where
  "space_runes = map (map char_of)
     ([[9 :: nat], [10], [11], [12], [13], [32], [194, 133], [194, 160], [225, 154, 128]]
      @ map (\<lambda>b. [226, 128, b]) [128, 129, 130, 131, 132, 133, 134, 135, 136, 137, 138, 168, 169, 175]
      @ [[226, 129, 159], [227, 128, 128]])"

text \<open>Repeatedly remove a leading member of \<open>ps\<close>.\<close>

function strip_leading :: "string list \<Rightarrow> string \<Rightarrow> string" where
  "strip_leading ps s =
     (case find (\<lambda>p. p \<noteq> [] \<and> prefix p s) ps of
        None \<Rightarrow> s
      | Some p \<Rightarrow> strip_leading ps (drop (length p) s))"
  by pat_completeness auto
termination
  by (relation "measure (\<lambda>(ps, s). length s)") (auto simp: find_Some_iff prefix_def)

declare strip_leading.simps [simp del]

text \<open>
  \<open>strings.TrimSpace\<close>. A space rune is at the end of a string exactly when its encoding is a
  suffix, so the right end is trimmed on the reversed string with reversed encodings.
\<close>

definition trimSpace :: "string \<Rightarrow> string" where
  "trimSpace s =
     rev (strip_leading (map rev space_runes) (rev (strip_leading space_runes s)))"

lemma strip_leading_suffix: "suffix (strip_leading ps s) s"
proof (induction ps s rule: strip_leading.induct)
  case (1 ps s)
  show ?case
  proof (cases "find (\<lambda>p. p \<noteq> [] \<and> prefix p s) ps")
    case None
    then show ?thesis by (simp add: strip_leading.simps [of ps s])
  next
    case (Some p)
    with 1 have "suffix (strip_leading ps (drop (length p) s)) (drop (length p) s)" by simp
    then have "suffix (strip_leading ps (drop (length p) s)) s"
      by (rule suffix_order.trans) (rule suffix_drop)
    with Some show ?thesis by (simp add: strip_leading.simps [of ps s])
  qed
qed

lemma strip_leading_clean:
  "p \<in> set ps \<Longrightarrow> p \<noteq> [] \<Longrightarrow> \<not> prefix p (strip_leading ps s)"
proof (induction ps s rule: strip_leading.induct)
  case (1 ps s)
  show ?case
  proof (cases "find (\<lambda>q. q \<noteq> [] \<and> prefix q s) ps")
    case None
    then have "\<not> prefix p s" using "1.prems" by (auto simp: find_None_iff)
    with None show ?thesis by (simp add: strip_leading.simps [of ps s])
  next
    case (Some q)
    with "1.IH" "1.prems" show ?thesis by (simp add: strip_leading.simps [of ps s])
  qed
qed

lemma strip_leading_id:
  assumes "\<And>p. p \<in> set ps \<Longrightarrow> p \<noteq> [] \<Longrightarrow> \<not> prefix p s"
  shows "strip_leading ps s = s"
proof -
  have "find (\<lambda>p. p \<noteq> [] \<and> prefix p s) ps = None"
    using assms by (auto simp: find_None_iff)
  then show ?thesis by (simp add: strip_leading.simps [of ps s])
qed

lemma trimSpace_prefix: "prefix (trimSpace s) (strip_leading space_runes s)"
  unfolding trimSpace_def
  using strip_leading_suffix [of "map rev space_runes" "rev (strip_leading space_runes s)"]
  by (simp add: suffix_to_prefix)

lemma trimSpace_sublist: "sublist (trimSpace s) s"
  using prefix_imp_sublist [OF trimSpace_prefix [of s]]
    suffix_imp_sublist [OF strip_leading_suffix [of space_runes s]]
  by (rule sublist_order.order.trans)

lemma trimSpace_set: "set (trimSpace s) \<subseteq> set s"
  using trimSpace_sublist by (rule set_mono_sublist)

lemma trimSpace_length: "length (trimSpace s) \<le> length s"
  using trimSpace_sublist by (rule sublist_length_le)

lemma trimSpace_no_leading:
  assumes "p \<in> set space_runes" and "p \<noteq> []"
  shows "\<not> prefix p (trimSpace s)"
  using strip_leading_clean [OF assms, of s] trimSpace_prefix [of s] prefix_order.trans by blast

lemma trimSpace_no_trailing:
  assumes "p \<in> set space_runes" and "p \<noteq> []"
  shows "\<not> suffix p (trimSpace s)"
proof -
  have "rev p \<in> set (map rev space_runes)" and "rev p \<noteq> []" using assms by auto
  from strip_leading_clean [OF this] show ?thesis by (simp add: trimSpace_def suffix_to_prefix)
qed

lemma trimSpace_idI:
  assumes "\<And>p. p \<in> set space_runes \<Longrightarrow> p \<noteq> [] \<Longrightarrow> \<not> prefix p s \<and> \<not> suffix p s"
  shows "trimSpace s = s"
proof -
  have "strip_leading space_runes s = s" by (rule strip_leading_id) (simp add: assms)
  moreover have "strip_leading (map rev space_runes) (rev s) = rev s"
    by (rule strip_leading_id) (use assms in \<open>auto simp: suffix_to_prefix\<close>)
  ultimately show ?thesis by (simp add: trimSpace_def)
qed

lemma trimSpace_idem [simp]: "trimSpace (trimSpace s) = trimSpace s"
  by (rule trimSpace_idI) (simp add: trimSpace_no_leading trimSpace_no_trailing)

text \<open>A string whose first and last bytes are printable ASCII has nothing to trim.\<close>

definition plain_char :: "char \<Rightarrow> bool" where
  "plain_char c \<longleftrightarrow> 33 \<le> byte c \<and> byte c \<le> 126"

lemma space_rune_ends:
  "list_all (\<lambda>p. p \<noteq> [] \<and> \<not> plain_char (hd p) \<and> \<not> plain_char (last p)) space_runes"
  by (simp add: space_runes_def plain_char_def)

lemma trimSpace_plain:
  assumes "s \<noteq> []" and "plain_char (hd s)" and "plain_char (last s)"
  shows "trimSpace s = s"
proof (rule trimSpace_idI)
  fix p assume p: "p \<in> set space_runes" "p \<noteq> []"
  with space_rune_ends have e: "\<not> plain_char (hd p)" "\<not> plain_char (last p)"
    by (auto simp: list_all_iff)
  have "\<not> prefix p s" using e(1) p(2) assms(2) by (auto simp: prefix_def)
  moreover have "\<not> suffix p s" using e(2) p(2) assms(3) by (auto simp: suffix_def)
  ultimately show "\<not> prefix p s \<and> \<not> suffix p s" ..
qed

lemma trimSpace_Nil [simp]: "trimSpace [] = []"
  by (rule trimSpace_idI) auto

lemma trimSpace_plain_all: "list_all plain_char s \<Longrightarrow> trimSpace s = s"
  by (cases "s = []") (auto simp: list_all_iff intro!: trimSpace_plain)

text \<open>\<open>strings.TrimRight(s, cutset)\<close> for a one-byte cutset, and \<open>strings.Trim\<close> for a set of bytes.\<close>

definition trimRight_char :: "char \<Rightarrow> string \<Rightarrow> string" where
  "trimRight_char c s = rev (dropWhile (\<lambda>x. x = c) (rev s))"

definition trim_chars :: "(char \<Rightarrow> bool) \<Rightarrow> string \<Rightarrow> string" where
  "trim_chars P s = rev (dropWhile P (rev (dropWhile P s)))"

lemma trim_chars_Nil_iff: "trim_chars P s = [] \<longleftrightarrow> list_all P s"
proof -
  have "dropWhile P (rev (dropWhile P s)) = [] \<longleftrightarrow> (\<forall>x \<in> set (dropWhile P s). P x)"
    by (simp add: dropWhile_eq_Nil_conv)
  also have "\<dots> \<longleftrightarrow> list_all P s"
    by (induction s) (auto simp: list_all_iff)
  finally show ?thesis by (simp add: trim_chars_def)
qed

subsection \<open>Searching and splitting\<close>

text \<open>\<open>strings.Cut(s, sep)\<close> for a one-byte separator: before, after, found.\<close>

definition cut_at :: "char \<Rightarrow> string \<Rightarrow> string \<times> string \<times> bool" where
  "cut_at c s = (takeWhile (\<lambda>x. x \<noteq> c) s, tl (dropWhile (\<lambda>x. x \<noteq> c) s), c \<in> set s)"

text \<open>\<open>s[:i]\<close> and \<open>s[i+1:]\<close> for \<open>i = strings.LastIndexByte(s, c)\<close>, when it is not \<open>-1\<close>.\<close>

definition cut_last :: "char \<Rightarrow> string \<Rightarrow> (string \<times> string) option" where
  "cut_last c s =
     (if c \<in> set s then
        Some (rev (tl (dropWhile (\<lambda>x. x \<noteq> c) (rev s))), rev (takeWhile (\<lambda>x. x \<noteq> c) (rev s)))
      else None)"

text \<open>\<open>strings.Split(s, sep)\<close> for a one-byte separator.\<close>

fun split_on :: "char \<Rightarrow> string \<Rightarrow> string list" where
  "split_on c [] = [[]]"
| "split_on c (x # xs) =
     (if x = c then [] # split_on c xs
      else (case split_on c xs of [] \<Rightarrow> [[x]] | w # ws \<Rightarrow> (x # w) # ws))"

lemma split_on_nonempty [simp]: "split_on c s \<noteq> []"
  by (induction s) (auto split: list.splits)

lemma split_on_no_sep: "w \<in> set (split_on c s) \<Longrightarrow> c \<notin> set w"
  by (induction s arbitrary: w) (auto split: if_splits list.splits)

fun join_with :: "string \<Rightarrow> string list \<Rightarrow> string" where
  "join_with sep [] = []"
| "join_with sep [w] = w"
| "join_with sep (w # v # ws) = w @ sep @ join_with sep (v # ws)"

lemma join_split: "join_with [c] (split_on c s) = s"
proof (induction s)
  case Nil
  then show ?case by simp
next
  case (Cons x xs)
  obtain w ws where w: "split_on c xs = w # ws" by (cases "split_on c xs") auto
  with Cons.IH show ?case by (cases ws) auto
qed

subsection \<open>Prefix truncation\<close>

text \<open>\<open>value[:max]\<close> of the program's \<open>truncate\<close> is a byte prefix.\<close>

lemma take_prefix: "prefix (take n s) s"
  by (simp add: take_is_prefix)

subsection \<open>Decimal numbers\<close>

fun show_nat :: "nat \<Rightarrow> string" where
  "show_nat n = (if n < 10 then [char_of (48 + n)] else show_nat (n div 10) @ [char_of (48 + n mod 10)])"

declare show_nat.simps [simp del]

text \<open>\<open>strconv.FormatInt(i, 10)\<close>.\<close>

definition show_int :: "int \<Rightarrow> string" where
  "show_int i = (if i < 0 then CHR ''-'' # show_nat (nat (- i)) else show_nat (nat i))"

definition digits_val :: "string \<Rightarrow> nat" where
  "digits_val s = foldl (\<lambda>n c. n * 10 + (byte c - 48)) 0 s"

lemma digit_char: "n < 10 \<Longrightarrow> is_digit (char_of (48 + n)) \<and> byte (char_of (48 + n)) - 48 = n"
  by (simp add: is_digit_def)

lemma show_nat_digits: "list_all is_digit (show_nat n)"
proof (induction n rule: show_nat.induct)
  case (1 n)
  then show ?case
    using digit_char [of n] digit_char [of "n mod 10"]
    by (cases "n < 10") (simp_all add: show_nat.simps [of n])
qed

lemma show_nat_nonempty [simp]: "show_nat n \<noteq> []"
  by (simp add: show_nat.simps [of n])

lemma digits_val_show_nat [simp]: "digits_val (show_nat n) = n"
proof (induction n rule: show_nat.induct)
  case (1 n)
  show ?case
  proof (cases "n < 10")
    case True
    then show ?thesis using digit_char [OF True] by (simp add: show_nat.simps [of n] digits_val_def)
  next
    case False
    with 1 have "digits_val (show_nat (n div 10)) = n div 10" by simp
    then have "digits_val (show_nat n) = n div 10 * 10 + n mod 10"
      using False digit_char [of "n mod 10"] by (simp add: show_nat.simps [of n] digits_val_def)
    then show ?thesis by simp
  qed
qed

lemma show_nat_inj: "show_nat m = show_nat n \<longleftrightarrow> m = n"
  by (metis digits_val_show_nat)

lemma show_int_inj: "show_int i = show_int j \<longleftrightarrow> i = j"
proof -
  have minus: "CHR ''-'' # s \<noteq> show_nat n" for s n
    using show_nat_digits [of n] by (auto simp: is_digit_def dest: arg_cong [of _ _ "list_all is_digit"])
  show ?thesis
    using minus minus [symmetric] by (auto simp: show_int_def show_nat_inj)
qed

subsection \<open>Time\<close>

definition nanosecond :: int where "nanosecond = 1"
definition millisecond :: int where "millisecond = 1000000"
definition second :: int where "second = 1000000000"
definition minute :: int where "minute = 60 * second"
definition hour :: int where "hour = 60 * minute"

lemmas time_units = nanosecond_def millisecond_def second_def minute_def hour_def

text \<open>The zero \<open>time.Time\<close>: January 1, year 1, 00:00:00 UTC.\<close>

definition zero_time :: int where
  "zero_time = - 62135596800 * second"

end
