(* ===== verification/Go_Netip.thy ===== *)
theory Go_Netip
  imports Go_Strings
begin

text \<open>
  What the program uses of Go's \<open>net/netip\<close> and \<open>net\<close>: \<open>ParseAddr\<close> and \<open>Addr.String\<close>,
  \<open>ParsePrefix\<close>, \<open>Prefix.Masked\<close> and \<open>Prefix.Contains\<close>, and \<open>SplitHostPort\<close>. An address is its
  numeric value; an IPv6 address carries its zone. IPv4-mapped IPv6 addresses are IPv6 addresses,
  as in Go, so no IPv4 prefix contains them.
\<close>

datatype addr = V4 nat | V6 nat string

record ip_prefix =
  px_addr :: addr
  px_bits :: nat

subsection \<open>Parsing addresses\<close>

definition parse_octet :: "string \<Rightarrow> nat option" where
  "parse_octet s =
     (if s \<noteq> [] \<and> list_all is_digit s \<and> length s \<le> 3 \<and> (hd s = CHR ''0'' \<longrightarrow> length s = 1)
        \<and> digits_val s \<le> 255
      then Some (digits_val s) else None)"

definition parse_ipv4 :: "string \<Rightarrow> nat option" where
  "parse_ipv4 s =
     (case map parse_octet (split_on CHR ''.'' s) of
        [Some a, Some b, Some c, Some d] \<Rightarrow> Some (((a * 256 + b) * 256 + c) * 256 + d)
      | _ \<Rightarrow> None)"

definition is_hex :: "char \<Rightarrow> bool" where
  "is_hex c \<longleftrightarrow> hex_val c \<noteq> None"

definition hex_group :: "string \<Rightarrow> nat" where
  "hex_group s = foldl (\<lambda>n c. n * 16 + the (hex_val c)) 0 s"

text \<open>
  The group loop of \<open>parseIPv6\<close>: the first argument counts the sixteen-bit groups that still fit,
  \<open>gs\<close> are the groups read, \<open>ell\<close> the position of \<open>::\<close>.
\<close>

fun ipv6_groups :: "nat \<Rightarrow> string \<Rightarrow> nat list \<Rightarrow> nat option \<Rightarrow> (nat list \<times> nat option) option" where
  "ipv6_groups 0 s gs ell = (if s = [] then Some (gs, ell) else None)"
| "ipv6_groups (Suc n) s gs ell =
     (let h = takeWhile is_hex s; r = dropWhile is_hex s in
      if h = [] \<or> 4 < length h then None
      else if r \<noteq> [] \<and> hd r = CHR ''.'' then
        (if ell = None \<and> length gs \<noteq> 6 then None
         else if 6 < length gs then None
         else map_option (\<lambda>v. (gs @ [v div 65536, v mod 65536], ell)) (parse_ipv4 s))
      else
        (let gs' = gs @ [hex_group h] in
         case r of
           [] \<Rightarrow> Some (gs', ell)
         | c # r1 \<Rightarrow>
             if c \<noteq> CHR '':'' then None
             else (case r1 of
                     [] \<Rightarrow> None
                   | d # r2 \<Rightarrow>
                       if d = CHR '':'' then
                         (if ell \<noteq> None then None
                          else if r2 = [] then Some (gs', Some (length gs'))
                          else ipv6_groups n r2 gs' (Some (length gs')))
                       else ipv6_groups n r1 gs' ell)))"

definition groups_val :: "nat list \<Rightarrow> nat" where
  "groups_val gs = foldl (\<lambda>n g. n * 65536 + g) 0 gs"

definition expand_groups :: "nat list \<times> nat option \<Rightarrow> nat option" where
  "expand_groups p =
     (case p of (gs, ell) \<Rightarrow>
        if length gs < 8 then
          (case ell of
             None \<Rightarrow> None
           | Some e \<Rightarrow> Some (groups_val (take e gs @ replicate (8 - length gs) 0 @ drop e gs)))
        else if ell \<noteq> None then None
        else Some (groups_val gs))"

definition parse_ipv6 :: "string \<Rightarrow> addr option" where
  "parse_ipv6 input =
     (let (s, zone, pct) = cut_at CHR ''%'' input in
      if pct \<and> zone = [] then None
      else if take 2 s = ''::'' then
        (if length s = 2 then Some (V6 0 zone)
         else map_option (\<lambda>v. V6 v zone)
                (Option.bind (ipv6_groups 8 (drop 2 s) [] (Some 0)) expand_groups))
      else map_option (\<lambda>v. V6 v zone) (Option.bind (ipv6_groups 8 s [] None) expand_groups))"

definition parseAddr :: "string \<Rightarrow> addr option" where
  "parseAddr s =
     (case find (\<lambda>c. c \<in> {CHR ''.'', CHR '':'', CHR ''%''}) s of
        Some c \<Rightarrow>
          if c = CHR ''.'' then map_option V4 (parse_ipv4 s)
          else if c = CHR '':'' then parse_ipv6 s
          else None
      | None \<Rightarrow> None)"

subsection \<open>Rendering addresses\<close>

definition ipv4_string :: "nat \<Rightarrow> string" where
  "ipv4_string v =
     join_with ''.'' (map show_nat [v div 16777216 mod 256, v div 65536 mod 256, v div 256 mod 256, v mod 256])"

definition hex_low :: "nat \<Rightarrow> char" where
  "hex_low n = (if n < 10 then char_of (48 + n) else char_of (87 + n))"

fun show_hex :: "nat \<Rightarrow> string" where
  "show_hex n = (if n < 16 then [hex_low n] else show_hex (n div 16) @ [hex_low (n mod 16)])"

declare show_hex.simps [simp del]

definition groups_of :: "nat \<Rightarrow> nat list" where
  "groups_of v = map (\<lambda>i. v div 65536 ^ (7 - i) mod 65536) [0..<8]"

text \<open>The first longest run of at least two zero groups, as start and length.\<close>

definition zero_run :: "nat list \<Rightarrow> nat \<times> nat" where
  "zero_run gs =
     foldl (\<lambda>best i. let l = length (takeWhile (\<lambda>g. g = 0) (drop i gs))
                     in if 2 \<le> l \<and> snd best < l then (i, l) else best)
       (8, 0) [0..<8]"

definition ipv6_string :: "nat \<Rightarrow> string" where
  "ipv6_string v =
     (let gs = groups_of v; (z, l) = zero_run gs; hexes = (\<lambda>xs. join_with '':'' (map show_hex xs))
      in if l = 0 then hexes gs
         else hexes (take z gs) @ ''::'' @ hexes (drop (z + l) gs))"

definition zone_string :: "string \<Rightarrow> string" where
  "zone_string z = (if z = [] then [] else CHR ''%'' # z)"

fun addr_string :: "addr \<Rightarrow> string" where
  "addr_string (V4 v) = ipv4_string v"
| "addr_string (V6 v z) =
     (if v div 4294967296 = 65535 then ''::ffff:'' @ ipv4_string (v mod 4294967296) @ zone_string z
      else ipv6_string v @ zone_string z)"

subsection \<open>Prefixes\<close>

fun addr_bitlen :: "addr \<Rightarrow> nat" where
  "addr_bitlen (V4 _) = 32"
| "addr_bitlen (V6 _ _) = 128"

fun addr_val :: "addr \<Rightarrow> nat" where
  "addr_val (V4 v) = v"
| "addr_val (V6 v _) = v"

fun addr_zone :: "addr \<Rightarrow> string" where
  "addr_zone (V4 _) = []"
| "addr_zone (V6 _ z) = z"

definition parsePrefix :: "string \<Rightarrow> ip_prefix option" where
  "parsePrefix s =
     (case cut_last CHR ''/'' s of
        None \<Rightarrow> None
      | Some (a, bits) \<Rightarrow>
          (case parseAddr a of
             None \<Rightarrow> None
           | Some ip \<Rightarrow>
               if addr_zone ip \<noteq> [] then None
               else if bits = [] \<or> \<not> list_all is_digit bits \<or> (1 < length bits \<and> hd bits = CHR ''0'') then None
               else if addr_bitlen ip < digits_val bits then None
               else Some \<lparr>px_addr = ip, px_bits = digits_val bits\<rparr>))"

definition low_bits :: "ip_prefix \<Rightarrow> nat" where
  "low_bits p = 2 ^ (addr_bitlen (px_addr p) - px_bits p)"

definition masked :: "ip_prefix \<Rightarrow> ip_prefix" where
  "masked p =
     (case px_addr p of
        V4 v \<Rightarrow> p\<lparr>px_addr := V4 (v div low_bits p * low_bits p)\<rparr>
      | V6 v z \<Rightarrow> p\<lparr>px_addr := V6 (v div low_bits p * low_bits p) z\<rparr>)"

definition prefix_contains :: "ip_prefix \<Rightarrow> addr \<Rightarrow> bool" where
  "prefix_contains p ip \<longleftrightarrow>
     addr_zone ip = [] \<and> addr_bitlen ip = addr_bitlen (px_addr p)
     \<and> addr_val ip div low_bits p = addr_val (px_addr p) div low_bits p"

lemma low_bits_masked: "low_bits (masked p) = low_bits p"
  by (simp add: low_bits_def masked_def split: addr.splits)

text \<open>Masking a prefix, as the server does when it reads its configuration, keeps the set of addresses.\<close>

lemma contains_masked: "prefix_contains (masked p) ip = prefix_contains p ip"
proof -
  have "0 < low_bits p" by (simp add: low_bits_def)
  then show ?thesis
    by (cases "px_addr p")
       (simp_all add: prefix_contains_def low_bits_masked, simp_all add: masked_def)
qed

subsection \<open>Host and port\<close>

definition splitHostPort :: "string \<Rightarrow> (string \<times> string) option" where
  "splitHostPort hp =
     (case cut_last CHR '':'' hp of
        None \<Rightarrow> None
      | Some (pre, port) \<Rightarrow>
          if hd hp = CHR ''['' then
            (case cut_at CHR '']'' hp of
               (inner, rest, found) \<Rightarrow>
                 if \<not> found \<or> length inner + 1 \<noteq> length pre then None
                 else if CHR ''['' \<in> set (tl hp) \<or> CHR '']'' \<in> set rest then None
                 else Some (tl inner, port))
          else if CHR '':'' \<in> set pre then None
          else if CHR ''['' \<in> set hp \<or> CHR '']'' \<in> set hp then None
          else Some (pre, port))"

end
