(* ===== verification/Go_Url.thy ===== *)
theory Go_Url
  imports Go_Netip "HOL-Library.List_Lexorder" "HOL-Library.Char_ord"
begin

text \<open>
  What the program uses of Go's \<open>net/url\<close>: \<open>Parse\<close>, the accessors \<open>Hostname\<close>, \<open>Port\<close>,
  \<open>EscapedPath\<close>, \<open>Query\<close>, the rendering \<open>String\<close>, and \<open>Values.Get\<close>, \<open>Set\<close> and \<open>Encode\<close>.
  Percent-encoding follows the modes of the package; a parse error is \<^const>\<open>None\<close>. Query values
  are a list of pairs in the order they were read; \<open>Encode\<close> sorts them by key, keeping the order of
  the values of one key. The package's limit of 10000 query parameters is not modelled.
\<close>

datatype enc_mode = EncPath | EncHost | EncZone | EncUserPassword | EncQuery | EncFragment

record url =
  url_scheme :: string
  url_opaque :: string
  url_user :: "(string \<times> string option) option"
  url_host :: string
  url_path :: string
  url_rawPath :: string
  url_omitHost :: bool
  url_forceQuery :: bool
  url_rawQuery :: string
  url_fragment :: string
  url_rawFragment :: string

definition empty_url :: url where
  "empty_url = \<lparr>url_scheme = [], url_opaque = [], url_user = None, url_host = [], url_path = [],
     url_rawPath = [], url_omitHost = False, url_forceQuery = False, url_rawQuery = [],
     url_fragment = [], url_rawFragment = []\<rparr>"

subsection \<open>Percent-encoding\<close>

definition shouldEscape :: "enc_mode \<Rightarrow> char \<Rightarrow> bool" where
  "shouldEscape m c =
     (if is_alnum c then False
      else if (m = EncHost \<or> m = EncZone) \<and> c \<in> set ''!$&()*+,;=:[]<>'' \<union> {CHR 0x27, CHR 0x22} then False
      else if c \<in> set ''-_.~'' then False
      else if c \<in> set ''$&+,/:;=?@'' then
        (case m of
           EncPath \<Rightarrow> c = CHR ''?''
         | EncUserPassword \<Rightarrow> c \<in> set ''@/?:''
         | EncQuery \<Rightarrow> True
         | EncFragment \<Rightarrow> False
         | _ \<Rightarrow> True)
      else if m = EncFragment \<and> c \<in> set ''!()*'' then False
      else True)"

definition upper_hex :: "nat \<Rightarrow> char" where
  "upper_hex n = (if n < 10 then char_of (48 + n) else char_of (55 + n))"

definition escape_char :: "enc_mode \<Rightarrow> char \<Rightarrow> string" where
  "escape_char m c =
     (if shouldEscape m c then
        (if c = CHR '' '' \<and> m = EncQuery then ''+''
         else [CHR ''%'', upper_hex (byte c div 16), upper_hex (byte c mod 16)])
      else [c])"

definition escape :: "enc_mode \<Rightarrow> string \<Rightarrow> string" where
  "escape m s = concat (map (escape_char m) s)"

definition hex_byte :: "char \<Rightarrow> char \<Rightarrow> char option" where
  "hex_byte a b =
     (case (hex_val a, hex_val b) of (Some x, Some y) \<Rightarrow> Some (char_of (x * 16 + y)) | _ \<Rightarrow> None)"

definition escape_refused :: "enc_mode \<Rightarrow> char \<Rightarrow> char \<Rightarrow> char \<Rightarrow> bool" where
  "escape_refused m a b v \<longleftrightarrow>
     (m = EncHost \<and> the (hex_val a) < 8 \<and> [a, b] \<noteq> ''25'')
     \<or> (m = EncZone \<and> [a, b] \<noteq> ''25'' \<and> v \<noteq> CHR '' '' \<and> shouldEscape EncHost v)"

fun unescape :: "enc_mode \<Rightarrow> string \<Rightarrow> string option" where
  "unescape m [] = Some []"
| "unescape m (c # s) =
     (if c = CHR ''%'' then
        (case s of
           a # b # rest \<Rightarrow>
             (case hex_byte a b of
                None \<Rightarrow> None
              | Some v \<Rightarrow> if escape_refused m a b v then None
                          else map_option ((#) v) (unescape m rest))
         | _ \<Rightarrow> None)
      else if c = CHR ''+'' then
        map_option ((#) (if m = EncQuery then CHR '' '' else c)) (unescape m s)
      else if (m = EncHost \<or> m = EncZone) \<and> is_ascii c \<and> shouldEscape m c then None
      else map_option ((#) c) (unescape m s))"

definition validEncoded :: "enc_mode \<Rightarrow> string \<Rightarrow> bool" where
  "validEncoded m s \<longleftrightarrow>
     list_all (\<lambda>c. c \<in> set ''!$&()*+,;=:@[]%'' \<union> {CHR 0x27} \<or> \<not> shouldEscape m c) s"

subsection \<open>Parsing\<close>

definition is_ctl :: "char \<Rightarrow> bool" where
  "is_ctl c \<longleftrightarrow> byte c < 32 \<or> byte c = 127"

definition scheme_char :: "char \<Rightarrow> bool" where
  "scheme_char c \<longleftrightarrow> is_alnum c \<or> c \<in> set ''+-.''"

text \<open>\<open>getScheme\<close>: the scheme (empty if there is none) and the rest, or an error.\<close>

definition getScheme :: "string \<Rightarrow> (string \<times> string) option" where
  "getScheme raw =
     (let p = takeWhile scheme_char raw; r = dropWhile scheme_char raw in
      if r \<noteq> [] \<and> hd r = CHR '':'' then
        (if p = [] then None
         else if is_alpha (hd p) then Some (p, tl r)
         else Some ([], raw))
      else Some ([], raw))"

definition validOptionalPort :: "string \<Rightarrow> bool" where
  "validOptionalPort s \<longleftrightarrow> s = [] \<or> (hd s = CHR '':'' \<and> list_all is_digit (tl s))"

definition validUserinfo :: "string \<Rightarrow> bool" where
  "validUserinfo s \<longleftrightarrow> list_all (\<lambda>c. is_alnum c \<or> c \<in> set ''-._:~!$&()*+,;=%@'' \<union> {CHR 0x27}) s"

text \<open>The position of \<open>%25\<close> in a host, as the text before it and from it on.\<close>

fun cut_zone :: "string \<Rightarrow> (string \<times> string) option" where
  "cut_zone [] = None"
| "cut_zone (c # s) =
     (if take 3 (c # s) = ''%25'' then Some ([], c # s)
      else map_option (\<lambda>(a, b). (c # a, b)) (cut_zone s))"

definition parse_ip_literal :: "string \<Rightarrow> string option" where
  "parse_ip_literal host =
     (case cut_last CHR '']'' host of
        None \<Rightarrow> None
      | Some (inner, colonPort) \<Rightarrow>
          if \<not> validOptionalPort colonPort then None
          else
            (let hostname = tl inner;
                 plain = (case cut_zone hostname of
                            None \<Rightarrow> unescape EncHost hostname
                          | Some (h, z) \<Rightarrow>
                              (case (unescape EncHost h, unescape EncZone z) of
                                 (Some a, Some b) \<Rightarrow> Some (a @ b) | _ \<Rightarrow> None))
             in case (plain, unescape EncHost colonPort) of
                  (Some h, Some p) \<Rightarrow>
                    (case parseAddr h of
                       Some (V6 _ _) \<Rightarrow> Some (''['' @ h @ '']'' @ p)
                     | _ \<Rightarrow> None)
                | _ \<Rightarrow> None))"

definition parseHost :: "string \<Rightarrow> string option" where
  "parseHost host =
     (if CHR ''['' \<in> set host then
        (if hd host = CHR ''['' \<and> CHR ''['' \<notin> set (tl host) then parse_ip_literal host else None)
      else if CHR '':'' \<in> set host \<and> \<not> validOptionalPort (dropWhile (\<lambda>c. c \<noteq> CHR '':'') host) then None
      else unescape EncHost host)"

definition parse_userinfo :: "string \<Rightarrow> (string \<times> string option) option" where
  "parse_userinfo ui =
     (if \<not> validUserinfo ui then None
      else if CHR '':'' \<notin> set ui then map_option (\<lambda>n. (n, None)) (unescape EncUserPassword ui)
      else
        (case cut_at CHR '':'' ui of
           (n, p, _) \<Rightarrow>
             (case (unescape EncUserPassword n, unescape EncUserPassword p) of
                (Some n', Some p') \<Rightarrow> Some (n', Some p') | _ \<Rightarrow> None)))"

definition parseAuthority :: "string \<Rightarrow> ((string \<times> string option) option \<times> string) option" where
  "parseAuthority a =
     (case cut_last CHR ''@'' a of
        None \<Rightarrow> map_option (\<lambda>h. (None, h)) (parseHost a)
      | Some (ui, h) \<Rightarrow>
          (case (parseHost h, parse_userinfo ui) of
             (Some h', Some u) \<Rightarrow> Some (Some u, h') | _ \<Rightarrow> None))"

definition setPath :: "string \<Rightarrow> url \<Rightarrow> url option" where
  "setPath p u =
     map_option (\<lambda>path. u\<lparr>url_path := path,
                          url_rawPath := (if p = escape EncPath path then [] else p)\<rparr>)
       (unescape EncPath p)"

definition setFragment :: "string \<Rightarrow> url \<Rightarrow> url option" where
  "setFragment f u =
     map_option (\<lambda>frag. u\<lparr>url_fragment := frag,
                          url_rawFragment := (if f = escape EncFragment frag then [] else f)\<rparr>)
       (unescape EncFragment f)"

text \<open>The path and query of what follows the scheme: \<open>(rest, rawQuery, forceQuery)\<close>.\<close>

definition cut_query :: "string \<Rightarrow> string \<times> string \<times> bool" where
  "cut_query rest =
     (if rest \<noteq> [] \<and> last rest = CHR ''?'' \<and> CHR ''?'' \<notin> set (butlast rest)
      then (butlast rest, [], True)
      else (case cut_at CHR ''?'' rest of (p, q, _) \<Rightarrow> (p, q, False)))"

definition parse_no_fragment :: "string \<Rightarrow> url option" where
  "parse_no_fragment raw =
     (if list_ex is_ctl raw then None
      else if raw = ''*'' then Some (empty_url\<lparr>url_path := ''*''\<rparr>)
      else
        (case getScheme raw of
           None \<Rightarrow> None
         | Some (sch, rest0) \<Rightarrow>
             (let scheme = toLower sch;
                  (rest, q, force) = cut_query rest0;
                  u = empty_url\<lparr>url_scheme := scheme, url_rawQuery := q, url_forceQuery := force\<rparr>
              in
              if \<not> prefix ''/'' rest \<and> scheme \<noteq> [] then Some (u\<lparr>url_opaque := rest\<rparr>)
              else if \<not> prefix ''/'' rest \<and> CHR '':'' \<in> set (takeWhile (\<lambda>c. c \<noteq> CHR ''/'') rest) then None
              else if (scheme \<noteq> [] \<or> \<not> prefix ''///'' rest) \<and> prefix ''//'' rest then
                (let a = drop 2 rest;
                     authority = takeWhile (\<lambda>c. c \<noteq> CHR ''/'') a;
                     path = dropWhile (\<lambda>c. c \<noteq> CHR ''/'') a
                 in case parseAuthority authority of
                      None \<Rightarrow> None
                    | Some (user, host) \<Rightarrow> setPath path (u\<lparr>url_user := user, url_host := host\<rparr>))
              else if scheme \<noteq> [] \<and> prefix ''/'' rest then setPath rest (u\<lparr>url_omitHost := True\<rparr>)
              else setPath rest u)))"

definition url_parse :: "string \<Rightarrow> url option" where
  "url_parse raw =
     (case cut_at CHR ''#'' raw of
        (s, frag, _) \<Rightarrow>
          (case parse_no_fragment s of
             None \<Rightarrow> None
           | Some u \<Rightarrow> if frag = [] then Some u else setFragment frag u))"

subsection \<open>Accessors and rendering\<close>

text \<open>\<open>splitHostPort\<close> of \<open>net/url\<close>: the host without brackets, and the port.\<close>

definition host_port :: "string \<Rightarrow> string \<times> string" where
  "host_port hp =
     (let (h, p) = (case cut_last CHR '':'' hp of
                      Some (h, p) \<Rightarrow> if list_all is_digit p then (h, p) else (hp, [])
                    | None \<Rightarrow> (hp, []))
      in (if prefix ''['' h \<and> suffix '']'' h \<and> 2 \<le> length h then butlast (tl h) else h, p))"

definition url_hostname :: "url \<Rightarrow> string" where
  "url_hostname u = fst (host_port (url_host u))"

definition url_port :: "url \<Rightarrow> string" where
  "url_port u = snd (host_port (url_host u))"

definition escapedPath :: "url \<Rightarrow> string" where
  "escapedPath u =
     (if url_rawPath u \<noteq> [] \<and> validEncoded EncPath (url_rawPath u)
         \<and> unescape EncPath (url_rawPath u) = Some (url_path u) then url_rawPath u
      else if url_path u = ''*'' then ''*''
      else escape EncPath (url_path u))"

definition escapedFragment :: "url \<Rightarrow> string" where
  "escapedFragment u =
     (if url_rawFragment u \<noteq> [] \<and> validEncoded EncFragment (url_rawFragment u)
         \<and> unescape EncFragment (url_rawFragment u) = Some (url_fragment u) then url_rawFragment u
      else escape EncFragment (url_fragment u))"

definition user_string :: "string \<times> string option \<Rightarrow> string" where
  "user_string u =
     (case u of
        (n, None) \<Rightarrow> escape EncUserPassword n
      | (n, Some p) \<Rightarrow>
          if n = [] \<and> p = [] then [] else escape EncUserPassword n @ '':'' @ escape EncUserPassword p)"

definition authority_string :: "url \<Rightarrow> string" where
  "authority_string u =
     (if url_scheme u = [] \<and> url_host u = [] \<and> url_user u = None then []
      else if url_omitHost u \<and> url_host u = [] \<and> url_user u = None then []
      else (if url_host u \<noteq> [] \<or> url_path u \<noteq> [] \<or> url_user u \<noteq> None then ''//'' else [])
           @ (case url_user u of None \<Rightarrow> [] | Some ui \<Rightarrow> user_string ui @ ''@'')
           @ escape EncHost (url_host u))"

definition hierarchy_string :: "url \<Rightarrow> string" where
  "hierarchy_string u =
     (let sch = (if url_scheme u = [] then [] else url_scheme u @ '':'') in
      if url_opaque u \<noteq> [] then sch @ url_opaque u
      else
        (let pre = sch @ authority_string u; path = escapedPath u;
             pre' = (if path \<noteq> [] \<and> hd path \<noteq> CHR ''/'' \<and> url_host u \<noteq> [] then pre @ ''/'' else pre);
             pre'' = (if pre' = [] \<and> CHR '':'' \<in> set (takeWhile (\<lambda>c. c \<noteq> CHR ''/'') path) then ''./'' else pre')
         in pre'' @ path))"

definition url_string :: "url \<Rightarrow> string" where
  "url_string u =
     hierarchy_string u
     @ (if url_forceQuery u \<or> url_rawQuery u \<noteq> [] then ''?'' @ url_rawQuery u else [])
     @ (if url_fragment u \<noteq> [] then ''#'' @ escapedFragment u else [])"

subsection \<open>Query values\<close>

type_synonym query_values = "(string \<times> string) list"

definition query_pair :: "string \<Rightarrow> (string \<times> string) option" where
  "query_pair kv =
     (if CHR '';'' \<in> set kv \<or> kv = [] then None
      else
        (case cut_at CHR ''='' kv of
           (k, v, _) \<Rightarrow>
             (case (unescape EncQuery k, unescape EncQuery v) of
                (Some k', Some v') \<Rightarrow> Some (k', v') | _ \<Rightarrow> None)))"

definition parse_query :: "string \<Rightarrow> query_values" where
  "parse_query q = List.map_filter query_pair (split_on CHR ''&'' q)"

definition url_query :: "url \<Rightarrow> query_values" where
  "url_query u = parse_query (url_rawQuery u)"

definition values_get :: "query_values \<Rightarrow> string \<Rightarrow> string" where
  "values_get vs k = (case find (\<lambda>p. fst p = k) vs of None \<Rightarrow> [] | Some p \<Rightarrow> snd p)"

definition values_set :: "string \<Rightarrow> string \<Rightarrow> query_values \<Rightarrow> query_values" where
  "values_set k v vs = filter (\<lambda>p. fst p \<noteq> k) vs @ [(k, v)]"

definition values_encode :: "query_values \<Rightarrow> string" where
  "values_encode vs =
     join_with ''&''
       (map (\<lambda>(k, v). escape EncQuery k @ ''='' @ escape EncQuery v) (sort_key fst vs))"

end
