(* ===== verification/Go_Crypto.thy ===== *)
theory Go_Crypto
  imports Go_Strings "HOL-Library.Word"
begin

text \<open>
  What the program uses of \<open>crypto/sha256\<close>, \<open>encoding/hex\<close> and \<open>encoding/base64\<close>: SHA-256 on byte
  strings with \<^typ>\<open>32 word\<close> arithmetic, lower-case hexadecimal, and the unpadded URL-safe base64
  encoding, with the facts the stores need of them (a digest renders as 64 hexadecimal digits, the
  encodings are injective and use printable characters only).
\<close>

unbundle bit_operations_syntax

type_synonym w32 = "32 word"

subsection \<open>SHA-256\<close>

definition sha_k :: "w32 list" where
  "sha_k = [
   1116352408, 1899447441, 3049323471, 3921009573, 961987163, 1508970993,
   2453635748, 2870763221, 3624381080, 310598401, 607225278, 1426881987,
   1925078388, 2162078206, 2614888103, 3248222580, 3835390401, 4022224774,
   264347078, 604807628, 770255983, 1249150122, 1555081692, 1996064986,
   2554220882, 2821834349, 2952996808, 3210313671, 3336571891, 3584528711,
   113926993, 338241895, 666307205, 773529912, 1294757372, 1396182291,
   1695183700, 1986661051, 2177026350, 2456956037, 2730485921, 2820302411,
   3259730800, 3345764771, 3516065817, 3600352804, 4094571909, 275423344,
   430227734, 506948616, 659060556, 883997877, 958139571, 1322822218,
   1537002063, 1747873779, 1955562222, 2024104815, 2227730452, 2361852424,
   2428436474, 2756734187, 3204031479, 3329325298]"

definition sha_h0 :: "w32 list" where
  "sha_h0 = [
   1779033703, 3144134277, 1013904242, 2773480762, 1359893119, 2600822924,
   528734635, 1541459225]"

definition small0 :: "w32 \<Rightarrow> w32" where
  "small0 x = word_rotr 7 x XOR word_rotr 18 x XOR drop_bit 3 x"

definition small1 :: "w32 \<Rightarrow> w32" where
  "small1 x = word_rotr 17 x XOR word_rotr 19 x XOR drop_bit 10 x"

definition big0 :: "w32 \<Rightarrow> w32" where
  "big0 x = word_rotr 2 x XOR word_rotr 13 x XOR word_rotr 22 x"

definition big1 :: "w32 \<Rightarrow> w32" where
  "big1 x = word_rotr 6 x XOR word_rotr 11 x XOR word_rotr 25 x"

definition choice :: "w32 \<Rightarrow> w32 \<Rightarrow> w32 \<Rightarrow> w32" where
  "choice x y z = (x AND y) XOR (NOT x AND z)"

definition majority :: "w32 \<Rightarrow> w32 \<Rightarrow> w32 \<Rightarrow> w32" where
  "majority x y z = (x AND y) XOR (x AND z) XOR (y AND z)"

text \<open>The message schedule, newest word first.\<close>

fun schedule :: "nat \<Rightarrow> w32 list \<Rightarrow> w32 list" where
  "schedule 0 r = r"
| "schedule (Suc n) r =
     schedule n ((small1 (r ! 1) + r ! 6 + small0 (r ! 14) + r ! 15) # r)"

definition sha_round :: "w32 list \<Rightarrow> w32 \<times> w32 \<Rightarrow> w32 list" where
  "sha_round st kw =
     (case st of
        [a, b, c, d, e, f, g, h] \<Rightarrow>
          (let t1 = h + big1 e + choice e f g + fst kw + snd kw;
               t2 = big0 a + majority a b c
           in [t1 + t2, a, b, c, d + t1, e, f, g])
      | _ \<Rightarrow> st)"

definition sha_block :: "w32 list \<Rightarrow> w32 list \<Rightarrow> w32 list" where
  "sha_block st ws =
     map2 (+) st (foldl sha_round st (zip sha_k (rev (schedule 48 (rev ws)))))"

text \<open>Padding: a one bit, zeros, and the bit length in eight bytes.\<close>

definition be_bytes :: "nat \<Rightarrow> nat \<Rightarrow> nat list" where
  "be_bytes n v = map (\<lambda>i. v div 256 ^ (n - 1 - i) mod 256) [0..<n]"

definition sha_pad :: "nat list \<Rightarrow> nat list" where
  "sha_pad m = m @ [128] @ replicate ((119 - length m mod 64) mod 64) 0 @ be_bytes 8 (8 * length m)"

fun be_words :: "nat list \<Rightarrow> w32 list" where
  "be_words (a # b # c # d # rest) =
     word_of_nat (((a * 256 + b) * 256 + c) * 256 + d) # be_words rest"
| "be_words _ = []"

function sha_blocks :: "w32 list \<Rightarrow> w32 list \<Rightarrow> w32 list" where
  "sha_blocks st ws =
     (if ws = [] then st else sha_blocks (sha_block st (take 16 ws)) (drop 16 ws))"
  by pat_completeness auto
termination
  by (relation "measure (\<lambda>(st, ws). length ws)") auto

declare sha_blocks.simps [simp del]

definition sha256 :: "string \<Rightarrow> nat list" where
  "sha256 s =
     concat (map (\<lambda>w. be_bytes 4 (unat w)) (sha_blocks sha_h0 (be_words (sha_pad (map of_char s)))))"

lemma sha_round_length: "length st = 8 \<Longrightarrow> length (sha_round st kw) = 8"
  by (auto simp: sha_round_def Let_def split: list.splits)

lemma sha_rounds_length: "length st = 8 \<Longrightarrow> length (foldl sha_round st kws) = 8"
  by (induction kws arbitrary: st) (simp_all add: sha_round_length)

lemma sha_block_length: "length st = 8 \<Longrightarrow> length (sha_block st ws) = 8"
  by (simp add: sha_block_def sha_rounds_length)

lemma sha_blocks_length: "length st = 8 \<Longrightarrow> length (sha_blocks st ws) = 8"
proof (induction st ws rule: sha_blocks.induct)
  case (1 st ws)
  then show ?case by (simp add: sha_blocks.simps [of st ws] sha_block_length)
qed

lemma length_be_bytes [simp]: "length (be_bytes n v) = n"
  by (simp add: be_bytes_def)

lemma be_bytes_bound: "b \<in> set (be_bytes n v) \<Longrightarrow> b < 256"
  by (auto simp: be_bytes_def)

lemma sha256_length: "length (sha256 s) = 32"
proof -
  have len: "length (concat (map (\<lambda>w :: w32. be_bytes 4 (unat w)) ws)) = 4 * length ws" for ws
    by (induction ws) simp_all
  have "length (sha_blocks sha_h0 ws) = 8" for ws
    by (rule sha_blocks_length) (simp add: sha_h0_def)
  then show ?thesis by (simp add: sha256_def len)
qed

lemma sha256_bound: "b \<in> set (sha256 s) \<Longrightarrow> b < 256"
  by (auto simp: sha256_def dest: be_bytes_bound)

subsection \<open>Hexadecimal\<close>

definition hex_digit :: "nat \<Rightarrow> char" where
  "hex_digit n = (if n < 10 then char_of (48 + n) else char_of (87 + n))"

definition hex_encode :: "nat list \<Rightarrow> string" where
  "hex_encode bs = concat (map (\<lambda>b. [hex_digit (b div 16), hex_digit (b mod 16)]) bs)"

lemma hex_encode_length: "length (hex_encode bs) = 2 * length bs"
  by (induction bs) (simp_all add: hex_encode_def)

lemma hex_digit_val: "n < 16 \<Longrightarrow> hex_val (hex_digit n) = Some n"
  by (simp add: hex_digit_def hex_val_def is_digit_def)

lemma hex_digit_plain: "n < 16 \<Longrightarrow> plain_char (hex_digit n)"
  by (simp add: hex_digit_def plain_char_def)

lemma hex_digit_inj: "m < 16 \<Longrightarrow> n < 16 \<Longrightarrow> hex_digit m = hex_digit n \<longleftrightarrow> m = n"
  by (metis hex_digit_val option.inject)

lemma hex_encode_plain:
  assumes "\<forall>b \<in> set bs. b < 256"
  shows "list_all plain_char (hex_encode bs)"
  using assms by (induction bs) (auto simp: hex_encode_def intro!: hex_digit_plain)

lemma hex_encode_inj:
  assumes "\<forall>b \<in> set xs. b < 256" and "\<forall>b \<in> set ys. b < 256"
    and "hex_encode xs = hex_encode ys"
  shows "xs = ys"
  using assms
proof (induction xs arbitrary: ys)
  case Nil
  then show ?case by (cases ys) (simp_all add: hex_encode_def)
next
  case (Cons x xs)
  then obtain y ys' where ys: "ys = y # ys'" by (cases ys) (auto simp: hex_encode_def)
  have "x div 16 < 16" "x mod 16 < 16" "y div 16 < 16" "y mod 16 < 16"
    using Cons.prems ys by auto
  moreover have "hex_digit (x div 16) = hex_digit (y div 16)"
    and "hex_digit (x mod 16) = hex_digit (y mod 16)" and tl: "hex_encode xs = hex_encode ys'"
    using Cons.prems(3) ys by (auto simp: hex_encode_def)
  ultimately have "x div 16 = y div 16" "x mod 16 = y mod 16" by (simp_all add: hex_digit_inj)
  then have "x = y" by (metis div_mult_mod_eq)
  moreover have "xs = ys'" using Cons.IH [of ys'] Cons.prems ys tl by simp
  ultimately show ?case using ys by simp
qed

subsection \<open>Base64, URL alphabet, no padding\<close>

definition b64_char :: "nat \<Rightarrow> char" where
  "b64_char n =
     (if n < 26 then char_of (65 + n) else if n < 52 then char_of (71 + n)
      else if n < 62 then char_of (n - 4) else if n = 62 then CHR ''-'' else CHR ''_'')"

fun b64_encode :: "nat list \<Rightarrow> string" where
  "b64_encode (a # b # c # rest) =
     [b64_char (a div 4), b64_char (a mod 4 * 16 + b div 16),
      b64_char (b mod 16 * 4 + c div 64), b64_char (c mod 64)] @ b64_encode rest"
| "b64_encode [a, b] =
     [b64_char (a div 4), b64_char (a mod 4 * 16 + b div 16), b64_char (b mod 16 * 4)]"
| "b64_encode [a] = [b64_char (a div 4), b64_char (a mod 4 * 16)]"
| "b64_encode [] = []"

lemma b64_char_plain: "plain_char (b64_char n)"
  by (auto simp: b64_char_def plain_char_def)

lemma b64_encode_plain: "list_all plain_char (b64_encode bs)"
  by (induction bs rule: b64_encode.induct) (simp_all add: b64_char_plain)

lemma b64_encode_length: "length (b64_encode bs) = (4 * length bs + 2) div 3"
  by (induction bs rule: b64_encode.induct) simp_all

definition b64_val :: "char \<Rightarrow> nat" where
  "b64_val c =
     (if is_upper c then byte c - 65 else if is_lower c then byte c - 71
      else if is_digit c then byte c + 4 else if c = CHR ''-'' then 62 else 63)"

lemma b64_val_char: "n < 64 \<Longrightarrow> b64_val (b64_char n) = n"
  by (auto simp: b64_char_def b64_val_def ascii_defs)

lemma b64_char_inj: "m < 64 \<Longrightarrow> n < 64 \<Longrightarrow> b64_char m = b64_char n \<longleftrightarrow> m = n"
  by (metis b64_val_char)

end
