(* ===== verification/Auth_Types.thy ===== *)
theory Auth_Types
  imports Go_Url Go_Crypto
begin

text \<open>
  The data of package \<open>auth\<close> (\<open>internal/auth/store.go\<close>, \<open>google.go\<close>) and the pure helpers of
  \<open>store.go\<close> and \<open>server.go\<close> on e-mail addresses, verification codes, tokens and their hashes.
  The bytes read from \<open>crypto/rand\<close> are an explicit stream (a \<^typ>\<open>string\<close>) that the helpers
  consume from the front; an exhausted stream is a failed read.
\<close>

subsection \<open>Users and identities\<close>

record user =
  usr_id :: int
  usr_email :: string
  usr_displayName :: string
  usr_avatarURL :: string
  usr_authProvider :: string
  usr_authSub :: string
  usr_role :: string
  usr_enabled :: bool
  usr_lastLoginAt :: "int option"
  usr_passwordHash :: string

record google_identity =
  gi_subject :: string
  gi_email :: string
  gi_emailVerified :: bool
  gi_name :: string
  gi_picture :: string

record authentik_identity =
  ai_subject :: string
  ai_email :: string
  ai_name :: string
  ai_username :: string
  ai_picture :: string

record login_log =
  ll_userID :: "int option"
  ll_email :: string
  ll_displayName :: string
  ll_authMethod :: string
  ll_loginResult :: string
  ll_failureReason :: string
  ll_ip :: string
  ll_userAgent :: string
  ll_loginAt :: int

text \<open>The zero value of \<open>LoginLog\<close>, which Go's composite literals fill in.\<close>

definition emptyLog :: login_log where
  "emptyLog = \<lparr>ll_userID = None, ll_email = [], ll_displayName = [], ll_authMethod = [],
     ll_loginResult = [], ll_failureReason = [], ll_ip = [], ll_userAgent = [], ll_loginAt = zero_time\<rparr>"

record email_code_challenge =
  ch_id :: int
  ch_email :: string
  ch_codeHash :: string
  ch_expiresAt :: int

record oauth_request =
  oq_kind :: string
  oq_nonce :: string
  oq_codeVerifier :: string
  oq_returnTo :: string
  oq_callbackURL :: string
  oq_desktopState :: string
  oq_expiresAt :: int

definition emptyOAuthRequest :: oauth_request where
  "emptyOAuthRequest = \<lparr>oq_kind = [], oq_nonce = [], oq_codeVerifier = [], oq_returnTo = [],
     oq_callbackURL = [], oq_desktopState = [], oq_expiresAt = zero_time\<rparr>"

text \<open>
  The errors of the store. \<open>ErrDisabledUser\<close> carries the user that Go returns next to the error;
  \<open>ErrDatabase\<close> is any other error of the database driver.
\<close>

datatype store_error =
    ErrNotFound
  | ErrDisabledUser user
  | ErrAdminPasswordEmpty
  | ErrDatabase

subsection \<open>E-mail addresses and codes\<close>

definition normalizeEmail :: "string \<Rightarrow> string" where
  "normalizeEmail email = toLower (trimSpace email)"

definition truncateStr :: "string \<Rightarrow> nat \<Rightarrow> string" where
  "truncateStr v n = (if length v \<le> n then v else take n v)"

lemma truncate_length: "length (truncateStr v n) \<le> n"
  by (simp add: truncateStr_def)

lemma truncate_prefix: "prefix (truncateStr v n) v"
  by (simp add: truncateStr_def take_prefix)

text \<open>
  \<open>emailPattern\<close> is \<open>^[^@\s]+@[^@\s]+\.[^@\s]+$\<close>; \<open>\s\<close> is tab, newline, form feed, carriage return
  and space. The class accepts every byte of a multi-byte rune.
\<close>

definition email_class :: "char \<Rightarrow> bool" where
  "email_class c \<longleftrightarrow> c \<noteq> CHR ''@'' \<and> byte c \<notin> {9, 10, 12, 13, 32}"

definition emailPattern :: "string \<Rightarrow> bool" where
  "emailPattern s =
     (case split_on CHR ''@'' s of
        [l, d] \<Rightarrow> l \<noteq> [] \<and> list_all email_class l \<and> list_all email_class d
                 \<and> CHR ''.'' \<in> set (butlast (tl d))
      | _ \<Rightarrow> False)"

definition validEmail :: "string \<Rightarrow> bool" where
  "validEmail email \<longleftrightarrow> length email \<le> 255 \<and> emailPattern email"

definition validEmailCode :: "string \<Rightarrow> bool" where
  "validEmailCode code \<longleftrightarrow> length code = 6 \<and> list_all is_digit code"

lemma split_on_none: "c \<notin> set xs \<Longrightarrow> split_on c xs = [xs]"
  by (induction xs) auto

lemma split_on_append: "c \<notin> set xs \<Longrightarrow> split_on c (xs @ c # ys) = xs # split_on c ys"
  by (induction xs) auto

lemma interior_dot:
  "CHR ''.'' \<in> set (butlast (tl d)) \<longleftrightarrow> (\<exists>a b. d = a @ ''.'' @ b \<and> a \<noteq> [] \<and> b \<noteq> [])"
proof
  assume "CHR ''.'' \<in> set (butlast (tl d))"
  then obtain x xs where d: "d = x # xs" and "CHR ''.'' \<in> set (butlast xs)" by (cases d) auto
  then obtain us vs where "butlast xs = us @ CHR ''.'' # vs" by (auto dest: split_list)
  moreover from this have "xs = butlast xs @ [last xs]" by (metis append_butlast_last_id append_is_Nil_conv butlast.simps(1) list.distinct(1))
  ultimately have "d = (x # us) @ ''.'' @ (vs @ [last xs])" using d by simp
  then show "\<exists>a b. d = a @ ''.'' @ b \<and> a \<noteq> [] \<and> b \<noteq> []" by blast
next
  assume "\<exists>a b. d = a @ ''.'' @ b \<and> a \<noteq> [] \<and> b \<noteq> []"
  then obtain a b where "d = a @ CHR ''.'' # b" "a \<noteq> []" "b \<noteq> []" by auto
  then show "CHR ''.'' \<in> set (butlast (tl d))"
    by (auto simp: neq_Nil_conv butlast_append)
qed

text \<open>The recogniser accepts exactly the language of the regular expression.\<close>

lemma emailPattern_iff:
  "emailPattern s \<longleftrightarrow>
     (\<exists>l a b. s = l @ ''@'' @ a @ ''.'' @ b \<and> l \<noteq> [] \<and> a \<noteq> [] \<and> b \<noteq> []
        \<and> list_all email_class l \<and> list_all email_class a \<and> list_all email_class b)"
  (is "_ \<longleftrightarrow> ?R")
proof
  assume "emailPattern s"
  then obtain l d where sp: "split_on CHR ''@'' s = [l, d]"
    and l: "l \<noteq> []" "list_all email_class l" and d: "list_all email_class d"
    and dot: "CHR ''.'' \<in> set (butlast (tl d))"
    by (auto simp: emailPattern_def split: list.splits)
  from dot obtain a b where ab: "d = a @ ''.'' @ b" "a \<noteq> []" "b \<noteq> []"
    by (auto simp: interior_dot)
  have "s = l @ ''@'' @ d" using join_split [of "CHR ''@''" s] sp by simp
  with l d ab show ?R by (metis list_all_append)
next
  assume ?R
  then obtain l a b where s: "s = l @ CHR ''@'' # (a @ ''.'' @ b)"
    and ne: "l \<noteq> []" "a \<noteq> []" "b \<noteq> []"
    and cl: "list_all email_class l" "list_all email_class a" "list_all email_class b" by auto
  have noat: "CHR ''@'' \<notin> set xs" if "list_all email_class xs" for xs
    using that by (auto simp: list_all_iff email_class_def)
  have "CHR ''@'' \<notin> set (a @ ''.'' @ b)" using cl noat by auto
  then have "split_on CHR ''@'' s = [l, a @ ''.'' @ b]"
    using s split_on_append [OF noat [OF cl(1)]] split_on_none by metis
  moreover have "list_all email_class (a @ ''.'' @ b)"
    using cl by (simp add: email_class_def)
  moreover have "CHR ''.'' \<in> set (butlast (tl (a @ ''.'' @ b)))"
    using ne by (subst interior_dot) blast
  ultimately show "emailPattern s" using ne cl by (simp add: emailPattern_def)
qed

lemma validEmail_nonempty: "validEmail e \<Longrightarrow> e \<noteq> []"
  by (auto simp: validEmail_def emailPattern_def)

subsection \<open>Tokens, codes and hashes\<close>

definition bytes_of :: "string \<Rightarrow> nat list" where
  "bytes_of s = map of_char s"

text \<open>\<open>randomToken\<close>: 32 random bytes in unpadded URL-safe base64.\<close>

definition randomToken :: "string \<Rightarrow> (string \<times> string) option" where
  "randomToken rnd =
     (if length rnd < 32 then None
      else Some (b64_encode (bytes_of (take 32 rnd)), drop 32 rnd))"

text \<open>
  The loop of \<open>randomDigits\<close>: bytes above 249 are rejected, any other byte gives the digit
  \<open>b % 10\<close>.
\<close>

fun digits_loop :: "nat \<Rightarrow> string \<Rightarrow> (string \<times> string) option" where
  "digits_loop 0 rnd = Some ([], rnd)"
| "digits_loop (Suc n) [] = None"
| "digits_loop (Suc n) (b # rnd) =
     (if 249 < byte b then digits_loop (Suc n) rnd
      else map_option (\<lambda>(ds, r). (show_nat (byte b mod 10) @ ds, r)) (digits_loop n rnd))"

definition randomDigits :: "int \<Rightarrow> string \<Rightarrow> (string \<times> string) option" where
  "randomDigits n rnd = (if n \<le> 0 then None else digits_loop (nat n) rnd)"

definition tokenHash :: "string \<Rightarrow> string" where
  "tokenHash token = hex_encode (sha256 token)"

definition pkceChallenge :: "string \<Rightarrow> string" where
  "pkceChallenge verifier = b64_encode (sha256 verifier)"

definition emailCodeHash :: "string \<Rightarrow> string \<Rightarrow> string" where
  "emailCodeHash email code =
     hex_encode (sha256 (normalizeEmail email @ '':'' @ trimSpace code))"

lemma tokenHash_length: "length (tokenHash t) = 64"
  by (simp add: tokenHash_def hex_encode_length sha256_length)

lemma tokenHash_plain: "list_all plain_char (tokenHash t)"
  unfolding tokenHash_def by (rule hex_encode_plain) (auto dest: sha256_bound)

lemma randomToken_length: "randomToken rnd = Some (t, r) \<Longrightarrow> length t = 43"
  by (auto simp: randomToken_def b64_encode_length bytes_of_def split: if_splits)

lemma randomToken_plain: "randomToken rnd = Some (t, r) \<Longrightarrow> list_all plain_char t"
  by (auto simp: randomToken_def b64_encode_plain split: if_splits)

text \<open>A token survives the trimming that the handlers apply to what the client sends back.\<close>

lemma randomToken_trim [simp]: "randomToken rnd = Some (t, r) \<Longrightarrow> trimSpace t = t"
  by (rule trimSpace_plain_all) (rule randomToken_plain)

lemma randomToken_nonempty: "randomToken rnd = Some (t, r) \<Longrightarrow> t \<noteq> []"
  using randomToken_length by fastforce

lemma show_digit: "n < 10 \<Longrightarrow> show_nat n = [char_of (48 + n)]"
  by (simp add: show_nat.simps [of n])

lemma digits_loop_digits:
  "digits_loop n rnd = Some (ds, r) \<Longrightarrow> length ds = n \<and> list_all is_digit ds"
proof (induction n rnd arbitrary: ds r rule: digits_loop.induct)
  case (3 n b rnd)
  then show ?case
    using digit_char [of "byte b mod 10"]
    by (cases "249 < byte b") (auto simp: show_digit)
qed auto

text \<open>Every code the server makes is one its verification accepts.\<close>

lemma randomDigits_code: "randomDigits 6 rnd = Some (code, r) \<Longrightarrow> validEmailCode code"
  using digits_loop_digits [of 6 rnd code r] by (simp add: randomDigits_def validEmailCode_def)

lemma digit_trim: "list_all is_digit ds \<Longrightarrow> trimSpace ds = ds"
  by (rule trimSpace_plain_all) (auto simp: list_all_iff is_digit_def plain_char_def)

lemma validEmailCode_trim: "validEmailCode code \<Longrightarrow> trimSpace code = code"
  by (simp add: validEmailCode_def digit_trim)

text \<open>Enough accepted bytes in the stream make the loop return.\<close>

lemma digits_loop_returns:
  "n \<le> length (filter (\<lambda>b. byte b \<le> 249) rnd) \<Longrightarrow> \<exists>ds r. digits_loop n rnd = Some (ds, r)"
proof (induction n rnd rule: digits_loop.induct)
  case (3 n b rnd)
  then show ?case by (cases "249 < byte b") fastforce+
qed auto

end
