(* ===== verification/Auth_Store.thy ===== *)
theory Auth_Store
  imports Auth_Types
begin

text \<open>
  The MySQL store of \<open>internal/auth/store.go\<close>: the tables of \<open>EnsureSchema\<close> as lists of rows in
  insertion order, and every operation of the \<open>Store\<close> interface as a function on the tables, with
  the meaning of its SQL statements written out. Transactions that fail leave the tables as they
  were.

  The database engine is not part of the program; what the statements need of it is a parameter of
  every operation, the record \<open>dbenv\<close>: the collation key that decides \<open>=\<close> on text columns
  (\<open>utf8mb4_unicode_ci\<close> identifies strings that differ in case or accents), the rounding of
  \<open>DATETIME(3)\<close> columns, whether \<open>LAST_INSERT_ID\<close> reports the row that \<open>ON DUPLICATE KEY UPDATE\<close>
  changed, which operations fail with a driver error, and the clock that \<open>time.Now()\<close> reads.
\<close>

subsection \<open>Tables\<close>

record user_row =
  u_id :: int
  u_email :: string
  u_displayName :: string
  u_avatarURL :: string
  u_provider :: string
  u_sub :: string
  u_role :: string
  u_enabled :: bool
  u_createdAt :: int
  u_updatedAt :: int
  u_lastLoginAt :: "int option"

record credential_row =
  c_user :: int
  c_passwordHash :: string
  c_passwordUpdatedAt :: int
  c_createdAt :: int

record identity_row =
  i_id :: int
  i_user :: int
  i_provider :: string
  i_subject :: string
  i_email :: string
  i_emailVerified :: bool
  i_createdAt :: int
  i_updatedAt :: int

record session_row =
  s_id :: int
  s_user :: int
  s_tokenHash :: string
  s_csrfToken :: string
  s_expiresAt :: int
  s_createdAt :: int
  s_lastSeenAt :: int
  s_userAgent :: string
  s_ip :: string

record oauth_row =
  o_id :: int
  o_stateHash :: string
  o_kind :: string
  o_nonce :: string
  o_codeVerifier :: string
  o_returnTo :: string
  o_callbackURL :: string
  o_desktopState :: string
  o_expiresAt :: int
  o_consumedAt :: "int option"
  o_createdAt :: int

record ticket_row =
  t_id :: int
  t_user :: int
  t_ticketHash :: string
  t_expiresAt :: int
  t_consumedAt :: "int option"
  t_createdAt :: int
  t_ip :: string
  t_userAgent :: string

record code_row =
  k_id :: int
  k_email :: string
  k_codeHash :: string
  k_expiresAt :: int
  k_consumedAt :: "int option"
  k_createdAt :: int

record log_row =
  g_id :: int
  g_user :: "int option"
  g_email :: string
  g_displayName :: string
  g_authMethod :: string
  g_loginResult :: string
  g_failureReason :: string
  g_ip :: string
  g_userAgent :: string
  g_loginAt :: int

text \<open>The database: the rows and the \<open>AUTO_INCREMENT\<close> counter of each table.\<close>

record db =
  db_users :: "user_row list"
  db_nextUser :: int
  db_credentials :: "credential_row list"
  db_identities :: "identity_row list"
  db_nextIdentity :: int
  db_sessions :: "session_row list"
  db_nextSession :: int
  db_oauth :: "oauth_row list"
  db_nextOAuth :: int
  db_tickets :: "ticket_row list"
  db_nextTicket :: int
  db_codes :: "code_row list"
  db_nextCode :: int
  db_logins :: "log_row list"
  db_nextLogin :: int

definition emptyDb :: db where
  "emptyDb = \<lparr>db_users = [], db_nextUser = 1, db_credentials = [], db_identities = [],
     db_nextIdentity = 1, db_sessions = [], db_nextSession = 1, db_oauth = [], db_nextOAuth = 1,
     db_tickets = [], db_nextTicket = 1, db_codes = [], db_nextCode = 1, db_logins = [],
     db_nextLogin = 1\<rparr>"

subsection \<open>The engine\<close>

datatype store_op =
    OpEnsureAdmin | OpFindLocalUser | OpFindUserBySession | OpTouchSession
  | OpUpsertIdentity | OpUpsertAuthentik | OpSelectAuthentik
  | OpSaveEmailCode | OpConsumeEmailCode | OpSaveOAuth | OpConsumeOAuth
  | OpCreateSession | OpFindCSRF | OpFindStartedAt | OpRevokeSession
  | OpSaveTicket | OpConsumeTicket | OpTouchLastLogin | OpRecordLogin

record dbenv =
  db_collate :: "string \<Rightarrow> string"
  db_time :: "int \<Rightarrow> int"
  db_dupId :: bool
  db_fails :: "store_op \<Rightarrow> bool"
  db_now :: int

type_synonym 'a store_result = "(store_error + 'a) \<times> db"

text \<open>\<open>column = ?\<close> on a text column.\<close>

definition sqlEq :: "dbenv \<Rightarrow> string \<Rightarrow> string \<Rightarrow> bool" where
  "sqlEq E a b \<longleftrightarrow> db_collate E a = db_collate E b"

lemma sqlEq_refl [simp]: "sqlEq E a a"
  by (simp add: sqlEq_def)

lemma sqlEq_sym: "sqlEq E a b \<longleftrightarrow> sqlEq E b a"
  by (auto simp: sqlEq_def)

lemma sqlEq_trans: "sqlEq E a b \<Longrightarrow> sqlEq E b c \<Longrightarrow> sqlEq E a c"
  by (simp add: sqlEq_def)

text \<open>\<open>UPDATE\<close>: rewrite the rows that match.\<close>

definition update_rows :: "('r \<Rightarrow> bool) \<Rightarrow> ('r \<Rightarrow> 'r) \<Rightarrow> 'r list \<Rightarrow> 'r list" where
  "update_rows P f rows = map (\<lambda>r. if P r then f r else r) rows"

text \<open>\<open>TRIM\<close> of SQL removes spaces only.\<close>

definition sql_trim :: "string \<Rightarrow> string" where
  "sql_trim s = trim_chars (\<lambda>c. c = CHR '' '') s"

subsection \<open>Reading users\<close>

text \<open>\<open>userSelectList\<close> with \<open>scanUserWithPassword\<close>: the Go value of a row.\<close>

definition scanUserWithPassword :: "string \<Rightarrow> user_row \<Rightarrow> user" where
  "scanUserWithPassword pw r =
     \<lparr>usr_id = u_id r, usr_email = u_email r, usr_displayName = u_displayName r,
      usr_avatarURL = u_avatarURL r, usr_authProvider = u_provider r, usr_authSub = u_sub r,
      usr_role = u_role r, usr_enabled = u_enabled r, usr_lastLoginAt = u_lastLoginAt r,
      usr_passwordHash = pw\<rparr>"

definition user_by_id :: "db \<Rightarrow> int \<Rightarrow> user_row option" where
  "user_by_id d i = find (\<lambda>r. u_id r = i) (db_users d)"

definition FindLocalUserByEmail :: "dbenv \<Rightarrow> string \<Rightarrow> db \<Rightarrow> user store_result" where
  "FindLocalUserByEmail E email d =
     (if db_fails E OpFindLocalUser then (Inl ErrDatabase, d)
      else
        (let rows = List.map_filter
               (\<lambda>r. if sqlEq E (u_provider r) ''local'' \<and> sqlEq E (u_email r) (normalizeEmail email)
                    then map_option (\<lambda>c. (r, c)) (find (\<lambda>c. c_user c = u_id r) (db_credentials d))
                    else None) (db_users d)
         in case rows of
              [] \<Rightarrow> (Inl ErrNotFound, d)
            | (r, c) # _ \<Rightarrow> (Inr (scanUserWithPassword (c_passwordHash c) r), d)))"

text \<open>
  \<open>FindUserBySession\<close> joins the live session with its user. The update of \<open>LAST_SEEN_AT_\<close> is a
  separate statement whose error is ignored.
\<close>

definition live_session :: "dbenv \<Rightarrow> string \<Rightarrow> int \<Rightarrow> db \<Rightarrow> session_row option" where
  "live_session E th now d = find (\<lambda>r. sqlEq E (s_tokenHash r) th \<and> now < s_expiresAt r) (db_sessions d)"

definition FindUserBySession :: "dbenv \<Rightarrow> string \<Rightarrow> int \<Rightarrow> db \<Rightarrow> user store_result" where
  "FindUserBySession E th now d =
     (if db_fails E OpFindUserBySession then (Inl ErrDatabase, d)
      else
        (case Option.bind (live_session E th now d) (\<lambda>r. user_by_id d (s_user r)) of
           None \<Rightarrow> (Inl ErrNotFound, d)
         | Some row \<Rightarrow>
             (let u = scanUserWithPassword [] row in
              if \<not> usr_enabled u then (Inl (ErrDisabledUser u), d)
              else if db_fails E OpTouchSession then (Inr u, d)
              else (Inr u, d\<lparr>db_sessions :=
                      update_rows (\<lambda>r. sqlEq E (s_tokenHash r) th)
                        (\<lambda>r. r\<lparr>s_lastSeenAt := db_time E now\<rparr>) (db_sessions d)\<rparr>))))"

subsection \<open>The initial administrator\<close>

definition local_user :: "dbenv \<Rightarrow> string \<Rightarrow> user_row \<Rightarrow> bool" where
  "local_user E email r \<longleftrightarrow> sqlEq E (u_provider r) ''local'' \<and> sqlEq E (u_sub r) email"

text \<open>\<open>INSERT INTO auth_user \<dots> ON DUPLICATE KEY UPDATE\<close>: the tables and \<open>LastInsertId\<close>.\<close>

definition upsert_admin :: "dbenv \<Rightarrow> string \<Rightarrow> int \<Rightarrow> db \<Rightarrow> db \<times> int" where
  "upsert_admin E email now d =
     (case find (local_user E email) (db_users d) of
        None \<Rightarrow>
          (d\<lparr>db_users := db_users d @
               [\<lparr>u_id = db_nextUser d, u_email = email, u_displayName = email,
                 u_avatarURL = [], u_provider = ''local'', u_sub = email,
                 u_role = ''admin'', u_enabled = True, u_createdAt = now,
                 u_updatedAt = now, u_lastLoginAt = None\<rparr>],
             db_nextUser := db_nextUser d + 1\<rparr>, db_nextUser d)
      | Some r0 \<Rightarrow>
          (d\<lparr>db_users := update_rows (\<lambda>r. u_id r = u_id r0)
               (\<lambda>r. r\<lparr>u_role := (if sqlEq E (u_role r) ''admin'' then u_role r else ''admin''),
                       u_updatedAt := now\<rparr>) (db_users d)\<rparr>,
           if db_dupId E then u_id r0 else 0))"

text \<open>\<open>INSERT INTO auth_local_credential\<close>; the update on a duplicate key changes nothing.\<close>

definition insert_credential :: "int \<Rightarrow> string \<Rightarrow> int \<Rightarrow> db \<Rightarrow> db" where
  "insert_credential userID h now d =
     (if \<exists>c \<in> set (db_credentials d). c_user c = userID then d
      else d\<lparr>db_credentials := db_credentials d @
             [\<lparr>c_user = userID, c_passwordHash = h, c_passwordUpdatedAt = now, c_createdAt = now\<rparr>]\<rparr>)"

definition EnsureAdmin :: "dbenv \<Rightarrow> string \<Rightarrow> string \<Rightarrow> db \<Rightarrow> unit store_result" where
  "EnsureAdmin E email0 passwordHash d =
     (if db_fails E OpEnsureAdmin then (Inl ErrDatabase, d)
      else
        (let email = normalizeEmail email0;
             now = db_time E (db_now E);
             (d1, insertId) = upsert_admin E email now d
         in case (if insertId = 0 then map_option u_id (find (local_user E email) (db_users d1))
                  else Some insertId) of
              None \<Rightarrow> (Inl ErrDatabase, d)
            | Some userID \<Rightarrow> (Inr (), insert_credential userID passwordHash now d1)))"

subsection \<open>Identity upserts\<close>

text \<open>\<open>updateIdentityUserProfileSQL\<close>: a login by e-mail code keeps a name already there.\<close>

definition updateIdentityUserProfileSQL ::
  "dbenv \<Rightarrow> string \<Rightarrow> string \<Rightarrow> string \<Rightarrow> string \<Rightarrow> int \<Rightarrow> user_row \<Rightarrow> user_row" where
  "updateIdentityUserProfileSQL E email provider displayName avatarURL now r =
     r\<lparr>u_email := email,
       u_displayName :=
         (if sqlEq E provider ''email_code'' \<and> \<not> sqlEq E (sql_trim (u_displayName r)) [] then u_displayName r
          else if sqlEq E displayName [] then u_displayName r else displayName),
       u_avatarURL := (if sqlEq E avatarURL [] then u_avatarURL r else avatarURL),
       u_updatedAt := now, u_lastLoginAt := Some now\<rparr>"

text \<open>\<open>ORDER BY (ROLE_ = 'admin') DESC, ID_ ASC LIMIT 1\<close> over the users with an address.\<close>

definition user_for_email :: "dbenv \<Rightarrow> string \<Rightarrow> db \<Rightarrow> user_row option" where
  "user_for_email E email d =
     (let rows = sort_key u_id (filter (\<lambda>r. sqlEq E (u_email r) email) (db_users d))
      in case filter (\<lambda>r. sqlEq E (u_role r) ''admin'') rows of
           r # _ \<Rightarrow> Some r
         | [] \<Rightarrow> (case rows of r # _ \<Rightarrow> Some r | [] \<Rightarrow> None))"

definition identity_of :: "dbenv \<Rightarrow> string \<Rightarrow> string \<Rightarrow> identity_row \<Rightarrow> bool" where
  "identity_of E provider subject r \<longleftrightarrow>
     sqlEq E (i_provider r) provider \<and> sqlEq E (i_subject r) subject"

text \<open>The user an identity is linked to on its first login: by address, or a new row.\<close>

definition linked_user ::
  "dbenv \<Rightarrow> string \<Rightarrow> string \<Rightarrow> string \<Rightarrow> string \<Rightarrow> string \<Rightarrow> int \<Rightarrow> db \<Rightarrow> (int \<times> db) option" where
  "linked_user E provider subject email displayName avatarURL now d =
     (case user_for_email E email d of
        Some r \<Rightarrow> Some (u_id r, d)
      | None \<Rightarrow>
          if \<exists>r \<in> set (db_users d). sqlEq E (u_provider r) provider \<and> sqlEq E (u_sub r) subject
          then None
          else Some (db_nextUser d,
            d\<lparr>db_users := db_users d @
                 [\<lparr>u_id = db_nextUser d, u_email = email, u_displayName = displayName,
                   u_avatarURL = avatarURL, u_provider = provider, u_sub = subject,
                   u_role = ''user'', u_enabled = True, u_createdAt = now,
                   u_updatedAt = now, u_lastLoginAt = Some now\<rparr>],
               db_nextUser := db_nextUser d + 1\<rparr>))"

definition insert_identity :: "int \<Rightarrow> string \<Rightarrow> string \<Rightarrow> string \<Rightarrow> int \<Rightarrow> db \<Rightarrow> db" where
  "insert_identity userID provider subject email now d =
     d\<lparr>db_identities := db_identities d @
         [\<lparr>i_id = db_nextIdentity d, i_user = userID, i_provider = provider, i_subject = subject,
           i_email = email, i_emailVerified = True, i_createdAt = now, i_updatedAt = now\<rparr>],
       db_nextIdentity := db_nextIdentity d + 1\<rparr>"

text \<open>The lookup or insertion part of the transaction: the user id and the tables so far.\<close>

definition resolve_identity ::
  "dbenv \<Rightarrow> string \<Rightarrow> string \<Rightarrow> string \<Rightarrow> string \<Rightarrow> string \<Rightarrow> int \<Rightarrow> db \<Rightarrow> (int \<times> db) option" where
  "resolve_identity E provider subject email displayName avatarURL now d =
     (case find (identity_of E provider subject) (db_identities d) of
        Some r \<Rightarrow> Some (i_user r, d)
      | None \<Rightarrow>
          map_option (\<lambda>(userID, d1). (userID, insert_identity userID provider subject email now d1))
            (linked_user E provider subject email displayName avatarURL now d))"

text \<open>The two \<open>UPDATE\<close> statements that refresh the user and the identity.\<close>

definition refresh_identity ::
  "dbenv \<Rightarrow> string \<Rightarrow> string \<Rightarrow> string \<Rightarrow> string \<Rightarrow> string \<Rightarrow> int \<Rightarrow> int \<Rightarrow> db \<Rightarrow> db" where
  "refresh_identity E provider subject email displayName avatarURL now userID d =
     d\<lparr>db_users := update_rows (\<lambda>r. u_id r = userID)
         (updateIdentityUserProfileSQL E email provider displayName avatarURL now) (db_users d),
       db_identities := update_rows (identity_of E provider subject)
         (\<lambda>r. r\<lparr>i_email := email, i_emailVerified := True, i_updatedAt := now\<rparr>) (db_identities d)\<rparr>"

definition upsertIdentityUser ::
  "dbenv \<Rightarrow> string \<Rightarrow> string \<Rightarrow> string \<Rightarrow> string \<Rightarrow> string \<Rightarrow> db \<Rightarrow> user store_result" where
  "upsertIdentityUser E provider0 subject0 email0 displayName0 avatarURL d =
     (let provider = trimSpace provider0;
          subject = trimSpace subject0;
          email = normalizeEmail email0;
          displayName = (if trimSpace displayName0 = [] then email else trimSpace displayName0);
          now = db_time E (db_now E)
      in
      if provider = [] \<or> subject = [] \<or> \<not> validEmail email then (Inl ErrNotFound, d)
      else if db_fails E OpUpsertIdentity then (Inl ErrDatabase, d)
      else
        (case resolve_identity E provider subject email displayName avatarURL now d of
           None \<Rightarrow> (Inl ErrDatabase, d)
         | Some (userID, d1) \<Rightarrow>
             (let d2 = refresh_identity E provider subject email displayName avatarURL now userID d1
              in case user_by_id d2 userID of
                   None \<Rightarrow> (Inl ErrNotFound, d)
                 | Some row \<Rightarrow> (Inr (scanUserWithPassword [] row), d2))))"

definition UpsertGoogleUser :: "dbenv \<Rightarrow> google_identity \<Rightarrow> db \<Rightarrow> user store_result" where
  "UpsertGoogleUser E gi d =
     (if \<not> gi_emailVerified gi then (Inl ErrNotFound, d)
      else upsertIdentityUser E ''google'' (trimSpace (gi_subject gi)) (normalizeEmail (gi_email gi))
             (trimSpace (gi_name gi)) (trimSpace (gi_picture gi)) d)"

definition UpsertEmailCodeUser :: "dbenv \<Rightarrow> string \<Rightarrow> db \<Rightarrow> user store_result" where
  "UpsertEmailCodeUser E email0 d =
     (let email = normalizeEmail email0
      in upsertIdentityUser E ''email_code'' email email email [] d)"

text \<open>
  \<open>UpsertAuthentikUser\<close> is an \<open>INSERT \<dots> ON DUPLICATE KEY UPDATE\<close> followed by a \<open>SELECT\<close>, without
  a transaction.
\<close>

definition authentik_user :: "dbenv \<Rightarrow> string \<Rightarrow> user_row \<Rightarrow> bool" where
  "authentik_user E subject r \<longleftrightarrow> sqlEq E (u_provider r) ''authentik'' \<and> sqlEq E (u_sub r) subject"

definition upsert_authentik :: "dbenv \<Rightarrow> string \<Rightarrow> string \<Rightarrow> string \<Rightarrow> string \<Rightarrow> int \<Rightarrow> db \<Rightarrow> db" where
  "upsert_authentik E subject email displayName avatar now d =
     (case find (authentik_user E subject) (db_users d) of
        None \<Rightarrow>
          d\<lparr>db_users := db_users d @
              [\<lparr>u_id = db_nextUser d, u_email = email, u_displayName = displayName,
                u_avatarURL = avatar, u_provider = ''authentik'', u_sub = subject,
                u_role = ''user'', u_enabled = True, u_createdAt = now,
                u_updatedAt = now, u_lastLoginAt = Some now\<rparr>],
            db_nextUser := db_nextUser d + 1\<rparr>
      | Some r0 \<Rightarrow>
          d\<lparr>db_users := update_rows (\<lambda>r. u_id r = u_id r0)
              (\<lambda>r. r\<lparr>u_email := email, u_displayName := displayName, u_avatarURL := avatar,
                      u_updatedAt := now, u_lastLoginAt := Some now\<rparr>) (db_users d)\<rparr>)"

definition UpsertAuthentikUser :: "dbenv \<Rightarrow> authentik_identity \<Rightarrow> db \<Rightarrow> user store_result" where
  "UpsertAuthentikUser E ai d =
     (let now = db_time E (db_now E);
          subject = trimSpace (ai_subject ai);
          email = normalizeEmail (ai_email ai);
          name1 = trimSpace (ai_name ai);
          name2 = (if name1 = [] then trimSpace (ai_username ai) else name1);
          displayName = (if name2 = [] then email else name2);
          avatar = trimSpace (ai_picture ai)
      in
      if subject = [] \<or> \<not> validEmail email then (Inl ErrNotFound, d)
      else if db_fails E OpUpsertAuthentik then (Inl ErrDatabase, d)
      else
        (let d1 = upsert_authentik E subject email displayName avatar now d
         in if db_fails E OpSelectAuthentik then (Inl ErrDatabase, d1)
            else (case find (authentik_user E subject) (db_users d1) of
                    None \<Rightarrow> (Inl ErrNotFound, d1)
                  | Some row \<Rightarrow> (Inr (scanUserWithPassword [] row), d1))))"

subsection \<open>E-mail codes\<close>

definition SaveEmailCode :: "dbenv \<Rightarrow> string \<Rightarrow> string \<Rightarrow> int \<Rightarrow> db \<Rightarrow> unit store_result" where
  "SaveEmailCode E email codeHash expiresAt d =
     (if db_fails E OpSaveEmailCode then (Inl ErrDatabase, d)
      else (Inr (), d\<lparr>db_codes := db_codes d @
              [\<lparr>k_id = db_nextCode d, k_email = normalizeEmail email, k_codeHash = codeHash,
                k_expiresAt = db_time E expiresAt, k_consumedAt = None,
                k_createdAt = db_time E (db_now E)\<rparr>],
              db_nextCode := db_nextCode d + 1\<rparr>))"

text \<open>
  \<open>ORDER BY CREATED_AT_ DESC LIMIT 1\<close>. The engine may return any of several rows created in the
  same millisecond; the model takes the one inserted last.
\<close>

fun newest_code :: "code_row list \<Rightarrow> code_row option" where
  "newest_code [] = None"
| "newest_code (r # rs) =
     (case newest_code rs of
        None \<Rightarrow> Some r
      | Some s \<Rightarrow> if k_createdAt r \<le> k_createdAt s then Some s else Some r)"

definition pending_code :: "dbenv \<Rightarrow> string \<Rightarrow> db \<Rightarrow> code_row option" where
  "pending_code E email d =
     newest_code (filter (\<lambda>r. sqlEq E (k_email r) email \<and> k_consumedAt r = None) (db_codes d))"

definition challenge_of :: "code_row \<Rightarrow> email_code_challenge" where
  "challenge_of r = \<lparr>ch_id = k_id r, ch_email = k_email r, ch_codeHash = k_codeHash r,
                     ch_expiresAt = k_expiresAt r\<rparr>"

definition ConsumeEmailCode :: "dbenv \<Rightarrow> string \<Rightarrow> string \<Rightarrow> int \<Rightarrow> db \<Rightarrow> unit store_result" where
  "ConsumeEmailCode E email codeHash now d =
     (if db_fails E OpConsumeEmailCode then (Inl ErrDatabase, d)
      else
        (case map_option challenge_of (pending_code E (normalizeEmail email) d) of
           None \<Rightarrow> (Inl ErrNotFound, d)
         | Some challenge \<Rightarrow>
             if \<not> now < ch_expiresAt challenge \<or> ch_codeHash challenge \<noteq> codeHash
             then (Inl ErrNotFound, d)
             else (Inr (), d\<lparr>db_codes := update_rows (\<lambda>r. k_id r = ch_id challenge)
                               (\<lambda>r. r\<lparr>k_consumedAt := Some (db_time E now)\<rparr>) (db_codes d)\<rparr>)))"

subsection \<open>OAuth requests\<close>

definition SaveOAuthRequest :: "dbenv \<Rightarrow> string \<Rightarrow> oauth_request \<Rightarrow> db \<Rightarrow> unit store_result" where
  "SaveOAuthRequest E stateHash q d =
     (if db_fails E OpSaveOAuth \<or> (\<exists>r \<in> set (db_oauth d). sqlEq E (o_stateHash r) stateHash)
      then (Inl ErrDatabase, d)
      else (Inr (), d\<lparr>db_oauth := db_oauth d @
              [\<lparr>o_id = db_nextOAuth d, o_stateHash = stateHash,
                o_kind = truncateStr (trimSpace (oq_kind q)) 32,
                o_nonce = truncateStr (trimSpace (oq_nonce q)) 128,
                o_codeVerifier = truncateStr (trimSpace (oq_codeVerifier q)) 128,
                o_returnTo = truncateStr (trimSpace (oq_returnTo q)) 2048,
                o_callbackURL = truncateStr (trimSpace (oq_callbackURL q)) 2048,
                o_desktopState = truncateStr (trimSpace (oq_desktopState q)) 512,
                o_expiresAt = db_time E (oq_expiresAt q), o_consumedAt = None,
                o_createdAt = db_time E (db_now E)\<rparr>],
              db_nextOAuth := db_nextOAuth d + 1\<rparr>))"

definition request_of :: "oauth_row \<Rightarrow> oauth_request" where
  "request_of r = \<lparr>oq_kind = o_kind r, oq_nonce = o_nonce r, oq_codeVerifier = o_codeVerifier r,
     oq_returnTo = o_returnTo r, oq_callbackURL = o_callbackURL r,
     oq_desktopState = o_desktopState r, oq_expiresAt = o_expiresAt r\<rparr>"

definition ConsumeOAuthRequest :: "dbenv \<Rightarrow> string \<Rightarrow> int \<Rightarrow> db \<Rightarrow> oauth_request store_result" where
  "ConsumeOAuthRequest E stateHash now d =
     (if db_fails E OpConsumeOAuth then (Inl ErrDatabase, d)
      else
        (case find (\<lambda>r. sqlEq E (o_stateHash r) stateHash \<and> o_consumedAt r = None) (db_oauth d) of
           None \<Rightarrow> (Inl ErrNotFound, d)
         | Some row \<Rightarrow>
             if \<not> now < oq_expiresAt (request_of row) then (Inl ErrNotFound, d)
             else (Inr (request_of row),
                   d\<lparr>db_oauth := update_rows (\<lambda>r. sqlEq E (o_stateHash r) stateHash)
                       (\<lambda>r. r\<lparr>o_consumedAt := Some (db_time E now)\<rparr>) (db_oauth d)\<rparr>)))"

subsection \<open>Sessions\<close>

text \<open>The unique key on the token hash and the foreign key to the user make an insertion fail.\<close>

definition CreateSession ::
  "dbenv \<Rightarrow> int \<Rightarrow> string \<Rightarrow> string \<Rightarrow> int \<Rightarrow> string \<Rightarrow> string \<Rightarrow> db \<Rightarrow> unit store_result" where
  "CreateSession E userID th csrf expiresAt userAgent ip d =
     (if db_fails E OpCreateSession \<or> user_by_id d userID = None
         \<or> (\<exists>r \<in> set (db_sessions d). sqlEq E (s_tokenHash r) th)
      then (Inl ErrDatabase, d)
      else (Inr (), d\<lparr>db_sessions := db_sessions d @
              [\<lparr>s_id = db_nextSession d, s_user = userID, s_tokenHash = th, s_csrfToken = csrf,
                s_expiresAt = db_time E expiresAt, s_createdAt = db_time E (db_now E),
                s_lastSeenAt = db_time E (db_now E),
                s_userAgent = truncateStr (trimSpace userAgent) 512,
                s_ip = truncateStr (trimSpace ip) 64\<rparr>],
              db_nextSession := db_nextSession d + 1\<rparr>))"

text \<open>A driver error leaves the scanned token empty, which \<open>FindSessionCSRF\<close> reports as not found.\<close>

definition FindSessionCSRF :: "dbenv \<Rightarrow> string \<Rightarrow> int \<Rightarrow> db \<Rightarrow> string store_result" where
  "FindSessionCSRF E th now d =
     (if db_fails E OpFindCSRF then (Inl ErrNotFound, d)
      else
        (case live_session E th now d of
           None \<Rightarrow> (Inl ErrNotFound, d)
         | Some r \<Rightarrow> if s_csrfToken r = [] then (Inl ErrNotFound, d) else (Inr (s_csrfToken r), d)))"

definition FindSessionStartedAt :: "dbenv \<Rightarrow> string \<Rightarrow> int \<Rightarrow> db \<Rightarrow> int store_result" where
  "FindSessionStartedAt E th now d =
     (if db_fails E OpFindStartedAt then (Inl ErrDatabase, d)
      else
        (case live_session E th now d of
           None \<Rightarrow> (Inl ErrNotFound, d)
         | Some r \<Rightarrow> if s_createdAt r = zero_time then (Inl ErrNotFound, d) else (Inr (s_createdAt r), d)))"

definition RevokeSession :: "dbenv \<Rightarrow> string \<Rightarrow> db \<Rightarrow> unit store_result" where
  "RevokeSession E th d =
     (if db_fails E OpRevokeSession then (Inl ErrDatabase, d)
      else (Inr (), d\<lparr>db_sessions := filter (\<lambda>r. \<not> sqlEq E (s_tokenHash r) th) (db_sessions d)\<rparr>))"

subsection \<open>Desktop tickets\<close>

definition SaveDesktopSsoTicket ::
  "dbenv \<Rightarrow> int \<Rightarrow> string \<Rightarrow> int \<Rightarrow> string \<Rightarrow> string \<Rightarrow> db \<Rightarrow> unit store_result" where
  "SaveDesktopSsoTicket E userID th expiresAt ip userAgent d =
     (if db_fails E OpSaveTicket \<or> user_by_id d userID = None
         \<or> (\<exists>r \<in> set (db_tickets d). sqlEq E (t_ticketHash r) th)
      then (Inl ErrDatabase, d)
      else (Inr (), d\<lparr>db_tickets := db_tickets d @
              [\<lparr>t_id = db_nextTicket d, t_user = userID, t_ticketHash = th,
                t_expiresAt = db_time E expiresAt, t_consumedAt = None,
                t_createdAt = db_time E (db_now E), t_ip = truncateStr (trimSpace ip) 64,
                t_userAgent = truncateStr (trimSpace userAgent) 512\<rparr>],
              db_nextTicket := db_nextTicket d + 1\<rparr>))"

definition live_ticket :: "dbenv \<Rightarrow> string \<Rightarrow> int \<Rightarrow> ticket_row \<Rightarrow> bool" where
  "live_ticket E th now r \<longleftrightarrow> sqlEq E (t_ticketHash r) th \<and> t_consumedAt r = None \<and> now < t_expiresAt r"

definition ConsumeDesktopSsoTicket :: "dbenv \<Rightarrow> string \<Rightarrow> int \<Rightarrow> db \<Rightarrow> user store_result" where
  "ConsumeDesktopSsoTicket E th now d =
     (if db_fails E OpConsumeTicket then (Inl ErrDatabase, d)
      else if \<not> list_ex (live_ticket E th now) (db_tickets d) then (Inl ErrNotFound, d)
      else
        (let d1 = d\<lparr>db_tickets := update_rows (live_ticket E th now)
                      (\<lambda>r. r\<lparr>t_consumedAt := Some (db_time E now)\<rparr>) (db_tickets d)\<rparr>
         in case Option.bind (find (\<lambda>r. sqlEq E (t_ticketHash r) th) (db_tickets d1))
                   (\<lambda>r. user_by_id d1 (t_user r)) of
              None \<Rightarrow> (Inl ErrNotFound, d)
            | Some row \<Rightarrow>
                (let u = scanUserWithPassword [] row
                 in if \<not> usr_enabled u then (Inl (ErrDisabledUser u), d1) else (Inr u, d1))))"

subsection \<open>Bookkeeping\<close>

definition TouchLastLogin :: "dbenv \<Rightarrow> int \<Rightarrow> int \<Rightarrow> db \<Rightarrow> unit store_result" where
  "TouchLastLogin E userID loggedInAt d =
     (if db_fails E OpTouchLastLogin then (Inl ErrDatabase, d)
      else (Inr (), d\<lparr>db_users := update_rows (\<lambda>r. u_id r = userID)
              (\<lambda>r. r\<lparr>u_lastLoginAt := Some (db_time E loggedInAt), u_updatedAt := db_time E loggedInAt\<rparr>)
              (db_users d)\<rparr>))"

definition RecordLogin :: "dbenv \<Rightarrow> login_log \<Rightarrow> db \<Rightarrow> unit store_result" where
  "RecordLogin E entry d =
     (if db_fails E OpRecordLogin \<or> (case ll_userID entry of None \<Rightarrow> False | Some i \<Rightarrow> user_by_id d i = None)
      then (Inl ErrDatabase, d)
      else (Inr (), d\<lparr>db_logins := db_logins d @
              [\<lparr>g_id = db_nextLogin d, g_user = ll_userID entry,
                g_email = truncateStr (normalizeEmail (ll_email entry)) 255,
                g_displayName = truncateStr (trimSpace (ll_displayName entry)) 255,
                g_authMethod = truncateStr (trimSpace (ll_authMethod entry)) 32,
                g_loginResult = truncateStr (trimSpace (ll_loginResult entry)) 16,
                g_failureReason = truncateStr (trimSpace (ll_failureReason entry)) 128,
                g_ip = truncateStr (trimSpace (ll_ip entry)) 64,
                g_userAgent = truncateStr (trimSpace (ll_userAgent entry)) 512,
                g_loginAt = db_time E (if ll_loginAt entry = zero_time then db_now E else ll_loginAt entry)\<rparr>],
              db_nextLogin := db_nextLogin d + 1\<rparr>))"

end
