(* ===== verification/Auth_Store_Laws.thy ===== *)
theory Auth_Store_Laws
  imports Auth_Store
begin

text \<open>
  The laws of the store: the integrity constraints of the schema (unique keys and foreign keys,
  \<open>store_wf\<close>) hold in every database the operations can reach; sessions refine a map from token
  hashes; desktop tickets and OAuth requests are one-shot. The two interfaces are the locales
  \<open>one_shot\<close> and \<open>session_store\<close>, interpreted on the operations of \<^theory_text>\<open>Auth_Store\<close>.
\<close>

subsection \<open>Rows\<close>

lemma map_update_rows [table_laws]:
  "(\<And>r. P r \<Longrightarrow> g (f r) = g r) \<Longrightarrow> map g (update_rows P f rows) = map g rows"
  by (simp add: update_rows_def)

lemma set_update_rows: "set (update_rows P f rows) = (\<lambda>r. if P r then f r else r) ` set rows"
  by (simp add: update_rows_def)

lemma bex_update_rows:
  "(\<exists>r \<in> set (update_rows P f rows). Q r) \<longleftrightarrow> (\<exists>r \<in> set rows. Q (if P r then f r else r))"
  by (simp add: set_update_rows del: if_image_distrib)

lemma distinct_map_unique:
  "distinct (map g rows) \<Longrightarrow> r \<in> set rows \<Longrightarrow> r' \<in> set rows \<Longrightarrow> g r = g r' \<Longrightarrow> r = r'"
  by (auto simp: distinct_map inj_on_def)

lemma image_update_rows [table_laws]:
  "(\<And>r. P r \<Longrightarrow> g (f r) = g r) \<Longrightarrow> g ` set (update_rows P f rows) = g ` set rows"
  by (simp only: list.set_map [symmetric] map_update_rows)

lemma find_update_rows:
  "(\<And>r. P r \<Longrightarrow> Q (f r) = Q r) \<Longrightarrow>
   find Q (update_rows P f rows) = map_option (\<lambda>r. if P r then f r else r) (find Q rows)"
  by (induction rows) (auto simp: update_rows_def)

lemma find_unique:
  assumes "distinct (map g rows)" and "r \<in> set rows" and "Q r"
    and "\<And>r'. r' \<in> set rows \<Longrightarrow> Q r' \<Longrightarrow> g r' = g r"
  shows "find Q rows = Some r"
  using assms
proof (induction rows)
  case Nil
  then show ?case by simp
next
  case (Cons a rows)
  show ?case
  proof (cases "a = r")
    case True
    with Cons.prems(3) show ?thesis by simp
  next
    case False
    then have r: "r \<in> set rows" using Cons.prems(2) by simp
    then have "g r \<in> set (map g rows)" by simp
    then have "g a \<noteq> g r" using Cons.prems(1) by auto
    then have "\<not> Q a" using Cons.prems(4) by auto
    moreover have "find Q rows = Some r"
      using Cons.IH [OF _ r Cons.prems(3)] Cons.prems(1,4) by simp
    ultimately show ?thesis by simp
  qed
qed

subsection \<open>Integrity constraints\<close>

definition user_ids :: "db \<Rightarrow> int set" where
  "user_ids d = u_id ` set (db_users d)"

definition user_key :: "(string \<Rightarrow> string) \<Rightarrow> user_row \<Rightarrow> string \<times> string" where
  "user_key K r = (K (u_provider r), K (u_sub r))"

definition identity_key :: "(string \<Rightarrow> string) \<Rightarrow> identity_row \<Rightarrow> string \<times> string" where
  "identity_key K r = (K (i_provider r), K (i_subject r))"

definition users_wf :: "(string \<Rightarrow> string) \<Rightarrow> db \<Rightarrow> bool" where
  "users_wf K d \<longleftrightarrow>
     distinct (map u_id (db_users d)) \<and> (\<forall>i \<in> user_ids d. 0 < i \<and> i < db_nextUser d)
     \<and> 0 < db_nextUser d \<and> distinct (map (user_key K) (db_users d))"

definition refs_wf :: "(string \<Rightarrow> string) \<Rightarrow> db \<Rightarrow> bool" where
  "refs_wf K d \<longleftrightarrow>
     distinct (map c_user (db_credentials d)) \<and> c_user ` set (db_credentials d) \<subseteq> user_ids d
     \<and> distinct (map (identity_key K) (db_identities d)) \<and> i_user ` set (db_identities d) \<subseteq> user_ids d
     \<and> s_user ` set (db_sessions d) \<subseteq> user_ids d \<and> t_user ` set (db_tickets d) \<subseteq> user_ids d"

definition keys_wf :: "(string \<Rightarrow> string) \<Rightarrow> db \<Rightarrow> bool" where
  "keys_wf K d \<longleftrightarrow>
     distinct (map (\<lambda>r. K (s_tokenHash r)) (db_sessions d))
     \<and> distinct (map (\<lambda>r. K (o_stateHash r)) (db_oauth d))
     \<and> distinct (map (\<lambda>r. K (t_ticketHash r)) (db_tickets d))
     \<and> distinct (map k_id (db_codes d)) \<and> (\<forall>r \<in> set (db_codes d). k_id r < db_nextCode d)"

definition store_wf :: "(string \<Rightarrow> string) \<Rightarrow> db \<Rightarrow> bool" where
  "store_wf K d \<longleftrightarrow> users_wf K d \<and> refs_wf K d \<and> keys_wf K d"

lemmas wf_defs = store_wf_def users_wf_def refs_wf_def keys_wf_def user_ids_def

lemma store_wf_empty: "store_wf K emptyDb"
  by (simp add: wf_defs emptyDb_def)

lemma user_by_id_iff: "user_by_id d i \<noteq> None \<longleftrightarrow> i \<in> user_ids d"
  by (auto simp: user_by_id_def user_ids_def find_None_iff)

lemma user_by_id_Some: "user_by_id d i = Some r \<Longrightarrow> r \<in> set (db_users d) \<and> u_id r = i"
  by (auto simp: user_by_id_def dest: find_in)

text \<open>Replacing rows of the users table by rows with the same keys keeps every constraint.\<close>

lemma store_wf_users_update:
  assumes "store_wf K d" and "\<And>r. P r \<Longrightarrow> u_id (f r) = u_id r \<and> user_key K (f r) = user_key K r"
  shows "store_wf K (d\<lparr>db_users := update_rows P f (db_users d)\<rparr>)"
  using assms by (simp add: wf_defs table_laws)

text \<open>A new user row with a fresh key.\<close>

lemma store_wf_users_append:
  assumes wf: "store_wf K d" and id: "u_id r = db_nextUser d"
    and fresh: "user_key K r \<notin> user_key K ` set (db_users d)"
  shows "store_wf K (d\<lparr>db_users := db_users d @ [r], db_nextUser := db_nextUser d + 1\<rparr>)"
    (is "store_wf K ?d")
proof -
  have u: "users_wf K d" and r: "refs_wf K d" and k: "keys_wf K d"
    using wf by (simp_all add: store_wf_def)
  have ids: "user_ids ?d = insert (db_nextUser d) (user_ids d)" by (simp add: user_ids_def id)
  have "db_nextUser d \<notin> user_ids d" using u by (auto simp: users_wf_def)
  then have "users_wf K ?d"
    using u fresh id unfolding users_wf_def ids by (auto simp: user_ids_def)
  moreover have "refs_wf K ?d" using r unfolding refs_wf_def ids by auto
  moreover have "keys_wf K ?d" using k by (simp add: keys_wf_def)
  ultimately show ?thesis by (simp add: store_wf_def)
qed

lemma user_key_fresh:
  assumes "find (\<lambda>r. sqlEq E (u_provider r) p \<and> sqlEq E (u_sub r) s) rows = None"
    and "db_collate E = K" and "u_provider r' = p" and "u_sub r' = s"
  shows "user_key K r' \<notin> user_key K ` set rows"
  using assms by (auto simp: user_key_def sqlEq_def find_None_iff)

subsection \<open>Every operation keeps the constraints\<close>

lemma upsert_admin_wf:
  assumes "store_wf K d" and "db_collate E = K"
  shows "store_wf K (fst (upsert_admin E email now d))"
proof (cases "find (local_user E email) (db_users d)")
  case None
  then show ?thesis
    using assms by (simp add: upsert_admin_def store_wf_users_append user_key_fresh [OF None [unfolded local_user_def [abs_def]]])
next
  case (Some r0)
  then show ?thesis
    using assms by (simp add: upsert_admin_def store_wf_users_update user_key_def)
qed

lemma upsert_admin_id:
  assumes "store_wf K d" and "upsert_admin E email now d = (d1, i)"
    and "(if i = 0 then map_option u_id (find (local_user E email) (db_users d1)) else Some i) = Some userID"
  shows "userID \<in> user_ids d1"
  using assms
  by (auto simp: upsert_admin_def user_ids_def image_update_rows split: option.splits if_splits dest!: find_in)

lemma insert_credential_wf:
  "store_wf K d \<Longrightarrow> userID \<in> user_ids d \<Longrightarrow> store_wf K (insert_credential userID h now d)"
  by (auto simp: insert_credential_def wf_defs)

lemma EnsureAdmin_wf:
  assumes "store_wf K d" and "db_collate E = K"
  shows "store_wf K (snd (EnsureAdmin E email0 h d))"
proof -
  obtain d1 i where up: "upsert_admin E (normalizeEmail email0) (db_time E (db_now E)) d = (d1, i)"
    by fastforce
  have "store_wf K d1"
    using upsert_admin_wf [OF assms, of "normalizeEmail email0" "db_time E (db_now E)"] up by simp
  then show ?thesis
    using assms up upsert_admin_id [OF assms(1) up]
    by (auto simp: EnsureAdmin_def Let_def insert_credential_wf split: option.splits if_splits)
qed

lemma upsert_authentik_wf:
  assumes "store_wf K d" and "db_collate E = K"
  shows "store_wf K (upsert_authentik E subject email displayName avatar now d)"
proof (cases "find (authentik_user E subject) (db_users d)")
  case None
  then show ?thesis
    using assms by (simp add: upsert_authentik_def store_wf_users_append user_key_fresh [OF None [unfolded authentik_user_def [abs_def]]])
next
  case (Some r0)
  then show ?thesis
    using assms by (simp add: upsert_authentik_def store_wf_users_update user_key_def)
qed

lemma UpsertAuthentikUser_wf:
  "store_wf K d \<Longrightarrow> db_collate E = K \<Longrightarrow> store_wf K (snd (UpsertAuthentikUser E ai d))"
  by (auto simp: UpsertAuthentikUser_def Let_def upsert_authentik_wf split: option.splits)

lemma user_for_email_in:
  assumes "user_for_email E e d = Some r"
  shows "r \<in> set (db_users d) \<and> sqlEq E (u_email r) e"
proof -
  define rows where "rows = sort_key u_id (filter (\<lambda>r. sqlEq E (u_email r) e) (db_users d))"
  have "r \<in> set rows"
    using assms Cons_eq_filterD [of r _ "\<lambda>r. sqlEq E (u_role r) ''admin''" rows]
    by (auto simp: user_for_email_def rows_def [symmetric] split: list.splits)
  then show ?thesis by (simp add: rows_def)
qed

lemma linked_user_wf:
  assumes wf: "store_wf K d" and K: "db_collate E = K"
    and res: "linked_user E p s e n a now d = Some (userID, d1)"
  shows "store_wf K d1 \<and> userID \<in> user_ids d1 \<and> db_identities d1 = db_identities d"
proof (cases "user_for_email E e d")
  case None
  then have "find (\<lambda>r. sqlEq E (u_provider r) p \<and> sqlEq E (u_sub r) s) (db_users d) = None"
    using res by (auto simp: linked_user_def find_None_iff split: if_splits)
  note fresh = user_key_fresh [OF this K]
  show ?thesis
    using res None by (auto simp: linked_user_def user_ids_def store_wf_users_append [OF wf] fresh split: if_splits)
next
  case (Some r)
  then show ?thesis using user_for_email_in [OF Some] wf res by (auto simp: linked_user_def user_ids_def)
qed

lemma insert_identity_wf:
  assumes "store_wf K d" and "userID \<in> user_ids d" and "db_collate E = K"
    and "find (identity_of E p s) (db_identities d) = None"
  shows "store_wf K (insert_identity userID p s e now d)"
proof -
  have "(K p, K s) \<notin> identity_key K ` set (db_identities d)"
    using assms(3,4) by (auto simp: find_None_iff identity_of_def identity_key_def sqlEq_def)
  then show ?thesis
    using assms(1,2) by (simp add: wf_defs insert_identity_def identity_key_def)
qed

lemma resolve_identity_wf:
  assumes wf: "store_wf K d" and K: "db_collate E = K"
    and res: "resolve_identity E p s e n a now d = Some (userID, d1)"
  shows "store_wf K d1 \<and> userID \<in> user_ids d1"
proof (cases "find (identity_of E p s) (db_identities d)")
  case None
  then obtain d0 where lu: "linked_user E p s e n a now d = Some (userID, d0)"
    and d1: "d1 = insert_identity userID p s e now d0"
    using res by (auto simp: resolve_identity_def)
  with linked_user_wf [OF wf K lu] None K show ?thesis
    by (auto simp: insert_identity_wf) (simp add: user_ids_def insert_identity_def)
next
  case (Some r)
  then have "i_user r \<in> user_ids d"
    using wf by (auto simp: store_wf_def refs_wf_def dest!: find_in)
  with Some res wf show ?thesis by (simp add: resolve_identity_def)
qed

lemma refresh_identity_wf:
  assumes "store_wf K d"
  shows "store_wf K (refresh_identity E p s e n a now userID d)"
  using assms
  by (auto simp: refresh_identity_def updateIdentityUserProfileSQL_def wf_defs table_laws user_key_def identity_key_def
           image_update_rows image_image [symmetric])

lemma upsertIdentityUser_wf:
  "store_wf K d \<Longrightarrow> db_collate E = K \<Longrightarrow> store_wf K (snd (upsertIdentityUser E p s e n a d))"
  by (auto simp: upsertIdentityUser_def Let_def refresh_identity_wf resolve_identity_wf
           split: option.splits)

text \<open>The operations that touch one table besides the users.\<close>

lemma SaveEmailCode_wf: "store_wf K d \<Longrightarrow> store_wf K (snd (SaveEmailCode E e h t d))"
  by (auto simp: SaveEmailCode_def wf_defs)

lemma ConsumeEmailCode_wf: "store_wf K d \<Longrightarrow> store_wf K (snd (ConsumeEmailCode E e h now d))"
  by (auto simp: ConsumeEmailCode_def wf_defs table_laws set_update_rows split: option.splits)

lemma SaveOAuthRequest_wf:
  "store_wf K d \<Longrightarrow> db_collate E = K \<Longrightarrow> store_wf K (snd (SaveOAuthRequest E h q d))"
  by (auto simp: SaveOAuthRequest_def wf_defs sqlEq_def)

lemma ConsumeOAuthRequest_wf: "store_wf K d \<Longrightarrow> store_wf K (snd (ConsumeOAuthRequest E h now d))"
  by (auto simp: ConsumeOAuthRequest_def wf_defs table_laws split: option.splits)

lemma CreateSession_wf:
  "store_wf K d \<Longrightarrow> db_collate E = K \<Longrightarrow> store_wf K (snd (CreateSession E u h c t ua ip d))"
  using user_by_id_iff [of d u] by (auto simp: CreateSession_def wf_defs sqlEq_def)

lemma FindUserBySession_wf: "store_wf K d \<Longrightarrow> store_wf K (snd (FindUserBySession E h now d))"
  by (auto simp: FindUserBySession_def wf_defs table_laws Let_def split: option.splits)

lemma RevokeSession_wf: "store_wf K d \<Longrightarrow> store_wf K (snd (RevokeSession E h d))"
  by (auto simp: RevokeSession_def wf_defs distinct_map_filter)

lemma SaveDesktopSsoTicket_wf:
  "store_wf K d \<Longrightarrow> db_collate E = K \<Longrightarrow> store_wf K (snd (SaveDesktopSsoTicket E u h t ip ua d))"
  using user_by_id_iff [of d u] by (auto simp: SaveDesktopSsoTicket_def wf_defs sqlEq_def)

lemma ConsumeDesktopSsoTicket_wf: "store_wf K d \<Longrightarrow> store_wf K (snd (ConsumeDesktopSsoTicket E h now d))"
  by (auto simp: ConsumeDesktopSsoTicket_def wf_defs table_laws Let_def split: option.splits)

lemma TouchLastLogin_wf: "store_wf K d \<Longrightarrow> store_wf K (snd (TouchLastLogin E u t d))"
  by (auto simp: TouchLastLogin_def user_key_def intro!: store_wf_users_update)

lemma RecordLogin_wf: "store_wf K d \<Longrightarrow> store_wf K (snd (RecordLogin E entry d))"
  by (auto simp: RecordLogin_def wf_defs)

subsection \<open>Steps of the store\<close>

text \<open>
  One rule per operation that writes. The engine may behave differently in every step (fail, be
  slow, round); its collation \<open>K\<close> is fixed by the schema.
\<close>

inductive store_step :: "(string \<Rightarrow> string) \<Rightarrow> db \<Rightarrow> db \<Rightarrow> bool" for K where
  ensure_admin: "db_collate E = K \<Longrightarrow> store_step K d (snd (EnsureAdmin E e h d))"
| find_user_by_session: "db_collate E = K \<Longrightarrow> store_step K d (snd (FindUserBySession E h now d))"
| upsert_identity: "db_collate E = K \<Longrightarrow> store_step K d (snd (upsertIdentityUser E p s e n a d))"
| upsert_authentik_user: "db_collate E = K \<Longrightarrow> store_step K d (snd (UpsertAuthentikUser E ai d))"
| save_email_code: "db_collate E = K \<Longrightarrow> store_step K d (snd (SaveEmailCode E e h t d))"
| consume_email_code: "db_collate E = K \<Longrightarrow> store_step K d (snd (ConsumeEmailCode E e h now d))"
| save_oauth: "db_collate E = K \<Longrightarrow> store_step K d (snd (SaveOAuthRequest E h q d))"
| consume_oauth: "db_collate E = K \<Longrightarrow> store_step K d (snd (ConsumeOAuthRequest E h now d))"
| create_session: "db_collate E = K \<Longrightarrow> store_step K d (snd (CreateSession E u h c t ua ip d))"
| revoke_session: "db_collate E = K \<Longrightarrow> store_step K d (snd (RevokeSession E h d))"
| save_ticket: "db_collate E = K \<Longrightarrow> store_step K d (snd (SaveDesktopSsoTicket E u h t ip ua d))"
| consume_ticket: "db_collate E = K \<Longrightarrow> store_step K d (snd (ConsumeDesktopSsoTicket E h now d))"
| touch_last_login: "db_collate E = K \<Longrightarrow> store_step K d (snd (TouchLastLogin E u t d))"
| record_login: "db_collate E = K \<Longrightarrow> store_step K d (snd (RecordLogin E entry d))"

lemmas operations_wf = EnsureAdmin_wf FindUserBySession_wf upsertIdentityUser_wf UpsertAuthentikUser_wf
  SaveEmailCode_wf ConsumeEmailCode_wf SaveOAuthRequest_wf ConsumeOAuthRequest_wf CreateSession_wf
  RevokeSession_wf SaveDesktopSsoTicket_wf ConsumeDesktopSsoTicket_wf TouchLastLogin_wf RecordLogin_wf

lemma store_step_wf: "store_step K d d' \<Longrightarrow> store_wf K d \<Longrightarrow> store_wf K d'"
  by (induction rule: store_step.induct) (simp_all add: operations_wf)

subsection \<open>Which tables an operation leaves alone\<close>

lemma linked_user_frame:
  "linked_user E p s e n a now d = Some (i, d1) \<Longrightarrow>
   db_tickets d1 = db_tickets d \<and> db_oauth d1 = db_oauth d \<and> db_sessions d1 = db_sessions d \<and> db_codes d1 = db_codes d"
  by (auto simp: linked_user_def split: option.splits if_splits)

lemma resolve_identity_frame:
  "resolve_identity E p s e n a now d = Some (i, d1) \<Longrightarrow>
   db_tickets d1 = db_tickets d \<and> db_oauth d1 = db_oauth d \<and> db_sessions d1 = db_sessions d \<and> db_codes d1 = db_codes d"
  by (auto simp: resolve_identity_def insert_identity_def dest: linked_user_frame split: option.splits)

lemma upsertIdentityUser_frame [simp]:
  "db_tickets (snd (upsertIdentityUser E p s e n a d)) = db_tickets d"
  "db_oauth (snd (upsertIdentityUser E p s e n a d)) = db_oauth d"
  "db_sessions (snd (upsertIdentityUser E p s e n a d)) = db_sessions d"
  "db_codes (snd (upsertIdentityUser E p s e n a d)) = db_codes d"
  by (auto simp: upsertIdentityUser_def Let_def refresh_identity_def dest: resolve_identity_frame split: option.splits)

lemma upsert_authentik_frame [simp]:
  "db_tickets (upsert_authentik E s e n a now d) = db_tickets d"
  "db_oauth (upsert_authentik E s e n a now d) = db_oauth d"
  "db_sessions (upsert_authentik E s e n a now d) = db_sessions d"
  by (simp_all add: upsert_authentik_def split: option.split)

lemma upsert_admin_frame [simp]:
  "db_tickets (fst (upsert_admin E e now d)) = db_tickets d"
  "db_oauth (fst (upsert_admin E e now d)) = db_oauth d"
  "db_sessions (fst (upsert_admin E e now d)) = db_sessions d"
  by (simp_all add: upsert_admin_def split: option.split)

lemma insert_credential_frame [simp]:
  "db_tickets (insert_credential i h now d) = db_tickets d"
  "db_oauth (insert_credential i h now d) = db_oauth d"
  "db_sessions (insert_credential i h now d) = db_sessions d"
  by (simp_all add: insert_credential_def)

lemma UpsertAuthentikUser_frame [simp]:
  "db_tickets (snd (UpsertAuthentikUser E ai d)) = db_tickets d"
  "db_oauth (snd (UpsertAuthentikUser E ai d)) = db_oauth d"
  "db_sessions (snd (UpsertAuthentikUser E ai d)) = db_sessions d"
  by (simp_all add: UpsertAuthentikUser_def Let_def split: option.split)

lemma EnsureAdmin_frame [simp]:
  "db_tickets (snd (EnsureAdmin E e h d)) = db_tickets d"
  "db_oauth (snd (EnsureAdmin E e h d)) = db_oauth d"
  "db_sessions (snd (EnsureAdmin E e h d)) = db_sessions d"
  by (simp_all add: EnsureAdmin_def Let_def case_prod_beta split: option.split)

lemmas store_op_defs =
  FindUserBySession_def SaveEmailCode_def ConsumeEmailCode_def SaveOAuthRequest_def ConsumeOAuthRequest_def
  CreateSession_def RevokeSession_def SaveDesktopSsoTicket_def ConsumeDesktopSsoTicket_def
  TouchLastLogin_def RecordLogin_def Let_def

end
