(* ===== verification/Store_Interfaces.thy ===== *)
theory Store_Interfaces
  imports Auth_Store_Laws
begin

text \<open>
  The two contracts of the store that its clients rely on, as locales with their consequences, and
  their interpretations on the operations of \<^theory_text>\<open>Auth_Store\<close>: \<open>one_shot\<close>
  (a desktop ticket or an OAuth state is accepted at most once, whatever happens in between) and
  \<open>session_store\<close> (the session table is a map from token hashes).
\<close>

subsection \<open>One-shot credentials\<close>

locale one_shot =
  fixes inv :: "'s \<Rightarrow> bool" and move :: "'s \<Rightarrow> 's \<Rightarrow> bool"
    and spent :: "'k \<Rightarrow> 's \<Rightarrow> bool" and accepts :: "'k \<Rightarrow> 's \<Rightarrow> 's \<Rightarrow> bool"
  assumes inv_move: "inv s \<Longrightarrow> move s s' \<Longrightarrow> inv s'"
    and accepts_move: "accepts k s s' \<Longrightarrow> move s s'"
    and accepts_spends: "inv s \<Longrightarrow> accepts k s s' \<Longrightarrow> spent k s'"
    and spent_rejects: "inv s \<Longrightarrow> spent k s \<Longrightarrow> \<not> accepts k s s'"
    and spent_move: "inv s \<Longrightarrow> spent k s \<Longrightarrow> move s s' \<Longrightarrow> spent k s'"
begin

lemma inv_run: "move\<^sup>*\<^sup>* s s' \<Longrightarrow> inv s \<Longrightarrow> inv s'"
  by (induction rule: rtranclp_induct) (auto intro: inv_move)

lemma spent_run: "move\<^sup>*\<^sup>* s s' \<Longrightarrow> inv s \<Longrightarrow> spent k s \<Longrightarrow> spent k s'"
proof (induction rule: rtranclp_induct)
  case (step y z)
  then show ?case using inv_run spent_move by blast
qed simp

text \<open>Accepted once, a credential is refused in every later state.\<close>

lemma once:
  assumes "inv s" and "accepts k s s1" and "move\<^sup>*\<^sup>* s1 s2"
  shows "\<not> accepts k s2 s3"
proof -
  have "inv s1" using assms(1,2) accepts_move inv_move by blast
  moreover have "spent k s1" using assms(1,2) accepts_spends by blast
  ultimately show ?thesis using assms(3) inv_run spent_run spent_rejects by blast
qed

end

text \<open>Consuming an OAuth request.\<close>

definition oauth_spent :: "(string \<Rightarrow> string) \<Rightarrow> string \<Rightarrow> db \<Rightarrow> bool" where
  "oauth_spent K h d \<longleftrightarrow> (\<exists>r \<in> set (db_oauth d). K (o_stateHash r) = K h \<and> o_consumedAt r \<noteq> None)"

definition oauth_accepts :: "(string \<Rightarrow> string) \<Rightarrow> string \<Rightarrow> db \<Rightarrow> db \<Rightarrow> bool" where
  "oauth_accepts K h d d' \<longleftrightarrow>
     (\<exists>E now q. db_collate E = K \<and> ConsumeOAuthRequest E h now d = (Inr q, d'))"

lemma oauth_spent_update:
  assumes "oauth_spent K h d"
  shows "oauth_spent K h (d\<lparr>db_oauth := update_rows P (\<lambda>r. r\<lparr>o_consumedAt := Some t\<rparr>) (db_oauth d)\<rparr>)"
  using assms by (fastforce simp: oauth_spent_def bex_update_rows)

lemma oauth_spent_step: "store_step K d d' \<Longrightarrow> oauth_spent K h d \<Longrightarrow> oauth_spent K h d'"
proof (induction rule: store_step.induct)
  case (save_oauth E d h q)
  then show ?case by (auto simp: SaveOAuthRequest_def oauth_spent_def)
next
  case (consume_oauth E d h now)
  then show ?case by (auto simp: ConsumeOAuthRequest_def oauth_spent_update split: option.splits)
qed (auto simp: store_op_defs oauth_spent_def split: option.splits)

lemma oauth_spent_rejects:
  assumes wf: "store_wf K d" and spent: "oauth_spent K h d" and K: "db_collate E = K"
  shows "find (\<lambda>r. sqlEq E (o_stateHash r) h \<and> o_consumedAt r = None) (db_oauth d) = None"
proof -
  obtain r where r: "r \<in> set (db_oauth d)" "K (o_stateHash r) = K h" "o_consumedAt r \<noteq> None"
    using spent by (auto simp: oauth_spent_def)
  have "distinct (map (\<lambda>r. K (o_stateHash r)) (db_oauth d))" using wf by (simp add: wf_defs)
  then have only: "r' = r" if "r' \<in> set (db_oauth d)" "K (o_stateHash r') = K h" for r'
    using distinct_map_unique that r by metis
  show ?thesis using only r(3) K by (auto simp: find_None_iff sqlEq_def)
qed

lemma ConsumeOAuthRequest_ok:
  assumes "ConsumeOAuthRequest E h now d = (Inr q, d')"
  obtains row where "row \<in> set (db_oauth d)" and "sqlEq E (o_stateHash row) h"
    and "o_consumedAt row = None" and "now < o_expiresAt row" and "q = request_of row"
    and "d' = d\<lparr>db_oauth := update_rows (\<lambda>r. sqlEq E (o_stateHash r) h)
                  (\<lambda>r. r\<lparr>o_consumedAt := Some (db_time E now)\<rparr>) (db_oauth d)\<rparr>"
  using assms
  by (auto simp: ConsumeOAuthRequest_def request_of_def split: option.splits if_splits dest!: find_in)

lemma ConsumeOAuthRequest_spends:
  assumes "ConsumeOAuthRequest E h now d = (Inr q, d')"
  shows "oauth_spent (db_collate E) h d'"
  using assms
  by (rule ConsumeOAuthRequest_ok) (fastforce simp: oauth_spent_def bex_update_rows sqlEq_def)

interpretation oauth: one_shot "store_wf K" "store_step K" "oauth_spent K" "oauth_accepts K" for K
proof unfold_locales
  fix s s' k
  show "store_wf K s \<Longrightarrow> store_step K s s' \<Longrightarrow> store_wf K s'" by (rule store_step_wf)
  show "oauth_accepts K k s s' \<Longrightarrow> store_step K s s'"
    unfolding oauth_accepts_def by (metis snd_conv store_step.consume_oauth)
  show "oauth_spent K k s'" if "store_wf K s" "oauth_accepts K k s s'"
    using that(2) by (auto simp: oauth_accepts_def dest: ConsumeOAuthRequest_spends)
  show "\<not> oauth_accepts K k s s'" if "store_wf K s" "oauth_spent K k s"
    by (auto simp: oauth_accepts_def ConsumeOAuthRequest_def oauth_spent_rejects [OF that])
  show "store_wf K s \<Longrightarrow> oauth_spent K k s \<Longrightarrow> store_step K s s' \<Longrightarrow> oauth_spent K k s'"
    by (rule oauth_spent_step)
qed

text \<open>Consuming a desktop ticket; a ticket of a disabled user is spent as well.\<close>

definition ticket_spent :: "(string \<Rightarrow> string) \<Rightarrow> string \<Rightarrow> db \<Rightarrow> bool" where
  "ticket_spent K h d \<longleftrightarrow> (\<exists>r \<in> set (db_tickets d). K (t_ticketHash r) = K h \<and> t_consumedAt r \<noteq> None)"

definition ticket_accepts :: "(string \<Rightarrow> string) \<Rightarrow> string \<Rightarrow> db \<Rightarrow> db \<Rightarrow> bool" where
  "ticket_accepts K h d d' \<longleftrightarrow>
     (\<exists>E now u. db_collate E = K
        \<and> ConsumeDesktopSsoTicket E h now d \<in> {(Inr u, d'), (Inl (ErrDisabledUser u), d')})"

lemma ticket_spent_update:
  assumes "ticket_spent K h d"
  shows "ticket_spent K h (d\<lparr>db_tickets := update_rows P (\<lambda>r. r\<lparr>t_consumedAt := Some t\<rparr>) (db_tickets d)\<rparr>)"
  using assms by (fastforce simp: ticket_spent_def bex_update_rows)

lemma ticket_spent_step: "store_step K d d' \<Longrightarrow> ticket_spent K h d \<Longrightarrow> ticket_spent K h d'"
proof (induction rule: store_step.induct)
  case (save_ticket E d u h t ip ua)
  then show ?case by (auto simp: SaveDesktopSsoTicket_def ticket_spent_def)
next
  case (consume_ticket E d h now)
  then show ?case by (auto simp: ConsumeDesktopSsoTicket_def Let_def ticket_spent_update split: option.splits)
qed (auto simp: store_op_defs ticket_spent_def split: option.splits)

lemma ticket_spent_rejects:
  assumes wf: "store_wf K d" and spent: "ticket_spent K h d" and K: "db_collate E = K"
  shows "\<not> list_ex (live_ticket E h now) (db_tickets d)"
proof -
  obtain r where r: "r \<in> set (db_tickets d)" "K (t_ticketHash r) = K h" "t_consumedAt r \<noteq> None"
    using spent by (auto simp: ticket_spent_def)
  have "distinct (map (\<lambda>r. K (t_ticketHash r)) (db_tickets d))" using wf by (simp add: wf_defs)
  then have only: "r' = r" if "r' \<in> set (db_tickets d)" "K (t_ticketHash r') = K h" for r'
    using distinct_map_unique that r by metis
  show ?thesis using only r(3) K by (auto simp: list_ex_iff live_ticket_def sqlEq_def)
qed

lemma ticket_consumed_spent:
  assumes "list_ex (live_ticket E h now) (db_tickets d)" and "db_collate E = K"
  shows "ticket_spent K h (d\<lparr>db_tickets :=
           update_rows (live_ticket E h now) (\<lambda>r. r\<lparr>t_consumedAt := Some t\<rparr>) (db_tickets d)\<rparr>)"
  using assms by (fastforce simp: ticket_spent_def bex_update_rows list_ex_iff live_ticket_def sqlEq_def)

interpretation ticket: one_shot "store_wf K" "store_step K" "ticket_spent K" "ticket_accepts K" for K
proof unfold_locales
  fix s s' k
  show "store_wf K s \<Longrightarrow> store_step K s s' \<Longrightarrow> store_wf K s'" by (rule store_step_wf)
  show "ticket_accepts K k s s' \<Longrightarrow> store_step K s s'"
    unfolding ticket_accepts_def by (metis empty_iff insert_iff snd_conv store_step.consume_ticket)
  show "ticket_spent K k s'" if "store_wf K s" "ticket_accepts K k s s'"
    using that(2) by (auto simp: ticket_accepts_def ConsumeDesktopSsoTicket_def Let_def
        intro!: ticket_consumed_spent split: option.splits if_splits)
  show "\<not> ticket_accepts K k s s'" if "store_wf K s" "ticket_spent K k s"
    by (auto simp: ticket_accepts_def ConsumeDesktopSsoTicket_def ticket_spent_rejects [OF that])
  show "store_wf K s \<Longrightarrow> ticket_spent K k s \<Longrightarrow> store_step K s s' \<Longrightarrow> ticket_spent K k s'"
    by (rule ticket_spent_step)
qed

subsection \<open>Sessions as a map\<close>

text \<open>
  The abstract session store is a map from keys to values with creation and revocation. \<open>key\<close> is
  the identity the table gives to a token hash, \<open>val\<close> what a creation request means as an entry.
\<close>

locale session_store =
  fixes inv :: "'s \<Rightarrow> bool" and abs :: "'s \<Rightarrow> 'k \<Rightarrow> 'v option" and key :: "'h \<Rightarrow> 'k" and val :: "'a \<Rightarrow> 'v"
    and create :: "'h \<Rightarrow> 'a \<Rightarrow> 's \<Rightarrow> 's option" and revoke :: "'h \<Rightarrow> 's \<Rightarrow> 's option"
  assumes create_inv: "inv s \<Longrightarrow> create h a s = Some s' \<Longrightarrow> inv s'"
    and revoke_inv: "inv s \<Longrightarrow> revoke h s = Some s' \<Longrightarrow> inv s'"
    and create_abs: "inv s \<Longrightarrow> create h a s = Some s' \<Longrightarrow> abs s' = (abs s)(key h \<mapsto> val a)"
    and create_fresh: "inv s \<Longrightarrow> create h a s = Some s' \<Longrightarrow> key h \<notin> dom (abs s)"
    and revoke_abs: "inv s \<Longrightarrow> revoke h s = Some s' \<Longrightarrow> abs s' = (abs s)(key h := None)"
begin

lemma created: "inv s \<Longrightarrow> create h a s = Some s' \<Longrightarrow> abs s' (key h) = Some (val a)"
  by (simp add: create_abs)

lemma revoked: "inv s \<Longrightarrow> revoke h s = Some s' \<Longrightarrow> abs s' (key h) = None"
  by (simp add: revoke_abs)

lemma others_kept: "inv s \<Longrightarrow> revoke h s = Some s' \<Longrightarrow> k \<noteq> key h \<Longrightarrow> abs s' k = abs s k"
  by (simp add: revoke_abs)

text \<open>Creating a session and revoking it leaves every other session as it was.\<close>

lemma create_revoke:
  assumes "inv s" and "create h a s = Some s1" and "revoke h s1 = Some s2"
  shows "abs s2 = abs s"
  using assms create_inv [OF assms(1,2)] create_fresh [OF assms(1,2)]
  by (auto simp: create_abs revoke_abs fun_upd_idem_iff)

end

type_synonym session_entry = "int \<times> string \<times> int \<times> int"

definition session_entry :: "session_row \<Rightarrow> session_entry" where
  "session_entry r = (s_user r, s_csrfToken r, s_expiresAt r, s_createdAt r)"

definition session_map :: "(string \<Rightarrow> string) \<Rightarrow> db \<Rightarrow> string \<Rightarrow> session_entry option" where
  "session_map K d k = map_option session_entry (find (\<lambda>r. K (s_tokenHash r) = k) (db_sessions d))"

definition create_session ::
  "dbenv \<Rightarrow> string \<Rightarrow> int \<times> string \<times> int \<times> string \<times> string \<Rightarrow> db \<Rightarrow> db option" where
  "create_session E th a d =
     (case a of (u, csrf, t, ua, ip) \<Rightarrow>
        (case CreateSession E u th csrf t ua ip d of (Inr _, d') \<Rightarrow> Some d' | _ \<Rightarrow> None))"

definition session_val :: "dbenv \<Rightarrow> int \<times> string \<times> int \<times> string \<times> string \<Rightarrow> session_entry" where
  "session_val E a = (case a of (u, csrf, t, ua, ip) \<Rightarrow> (u, csrf, db_time E t, db_time E (db_now E)))"

definition revoke_session :: "dbenv \<Rightarrow> string \<Rightarrow> db \<Rightarrow> db option" where
  "revoke_session E th d = (case RevokeSession E th d of (Inr _, d') \<Rightarrow> Some d' | _ \<Rightarrow> None)"

lemma find_append: "find P (xs @ ys) = (case find P xs of None \<Rightarrow> find P ys | Some x \<Rightarrow> Some x)"
  by (induction xs) auto

lemma find_filter_other: "(\<And>r. P r \<Longrightarrow> Q r) \<Longrightarrow> find P (filter Q xs) = find P xs"
  by (induction xs) auto

lemma session_map_dom: "k \<in> dom (session_map K d) \<longleftrightarrow> (\<exists>r \<in> set (db_sessions d). K (s_tokenHash r) = k)"
proof -
  have "k \<notin> dom (session_map K d) \<longleftrightarrow> find (\<lambda>r. K (s_tokenHash r) = k) (db_sessions d) = None"
    by (simp add: domIff session_map_def)
  then show ?thesis unfolding find_None_iff by blast
qed

lemma create_session_iff:
  "create_session E th (u, csrf, t, ua, ip) d = Some d' \<longleftrightarrow> CreateSession E u th csrf t ua ip d = (Inr (), d')"
  by (auto simp: create_session_def split: prod.splits sum.splits)

lemma revoke_session_iff: "revoke_session E th d = Some d' \<longleftrightarrow> RevokeSession E th d = (Inr (), d')"
  by (auto simp: revoke_session_def split: prod.splits sum.splits)

lemma create_session_map:
  assumes "CreateSession E u th csrf t ua ip d = (Inr (), d')" and "db_collate E = K"
  shows "session_map K d' = (session_map K d)(K th \<mapsto> (u, csrf, db_time E t, db_time E (db_now E)))"
    and "K th \<notin> dom (session_map K d)"
proof -
  have new: "\<not> (\<exists>r \<in> set (db_sessions d). K (s_tokenHash r) = K th)"
    using assms by (auto simp: CreateSession_def sqlEq_def split: if_splits)
  then show "K th \<notin> dom (session_map K d)" by (simp only: session_map_dom not_False_eq_True)
  have none: "find (\<lambda>r. K (s_tokenHash r) = K th) (db_sessions d) = None"
    using new by (simp add: find_None_iff)
  show "session_map K d' = (session_map K d)(K th \<mapsto> (u, csrf, db_time E t, db_time E (db_now E)))"
    using assms none
    by (auto simp: CreateSession_def session_map_def session_entry_def find_append fun_eq_iff
             split: if_splits option.splits)
qed

lemma revoke_session_map:
  assumes "RevokeSession E th d = (Inr (), d')" and "db_collate E = K"
  shows "session_map K d' = (session_map K d)(K th := None)"
proof -
  have d': "d' = d\<lparr>db_sessions := filter (\<lambda>r. K (s_tokenHash r) \<noteq> K th) (db_sessions d)\<rparr>"
    using assms by (auto simp: RevokeSession_def sqlEq_def split: if_splits)
  show ?thesis
  proof
    fix k
    show "session_map K d' k = ((session_map K d)(K th := None)) k"
    proof (cases "k = K th")
      case True
      then show ?thesis by (auto simp: session_map_def d' find_None_iff)
    next
      case False
      then show ?thesis by (auto simp: session_map_def d' find_filter_other)
    qed
  qed
qed

interpretation sessions: session_store "store_wf (db_collate E)" "session_map (db_collate E)"
  "db_collate E" "session_val E" "create_session E" "revoke_session E" for E
proof unfold_locales
  fix s h s' and a :: "int \<times> string \<times> int \<times> string \<times> string"
  assume wf: "store_wf (db_collate E) s"
  obtain u :: int and csrf :: string and t :: int and ua ip :: string where a: "a = (u, csrf, t, ua, ip)"
    by (metis prod_cases5)
  show "store_wf (db_collate E) s'" if "create_session E h a s = Some s'"
    using CreateSession_wf [OF wf refl, of u h csrf t ua ip] that by (simp add: a create_session_iff)
  show "store_wf (db_collate E) s'" if "revoke_session E h s = Some s'"
    using RevokeSession_wf [OF wf, of E h] that by (simp add: revoke_session_iff)
  show "session_map (db_collate E) s' = (session_map (db_collate E) s)(db_collate E h \<mapsto> session_val E a)"
    if "create_session E h a s = Some s'"
    using create_session_map [OF that [unfolded a create_session_iff] refl] by (simp add: a session_val_def)
  show "db_collate E h \<notin> dom (session_map (db_collate E) s)" if "create_session E h a s = Some s'"
    using create_session_map [OF that [unfolded a create_session_iff] refl] by simp
  show "session_map (db_collate E) s' = (session_map (db_collate E) s)(db_collate E h := None)"
    if "revoke_session E h s = Some s'"
    using revoke_session_map [OF that [unfolded revoke_session_iff] refl] .
qed

text \<open>What the reading operations see is the entry of the map, while it lives.\<close>

lemma live_session_entry:
  assumes "store_wf (db_collate E) d"
  shows "map_option session_entry (live_session E th now d) =
    (case session_map (db_collate E) d (db_collate E th) of
       None \<Rightarrow> None
     | Some (u, csrf, t, c) \<Rightarrow> if now < t then Some (u, csrf, t, c) else None)"
proof -
  have "distinct (map (\<lambda>r. db_collate E (s_tokenHash r)) rows) \<Longrightarrow>
      map_option session_entry (find (\<lambda>r. sqlEq E (s_tokenHash r) th \<and> now < s_expiresAt r) rows) =
      (case map_option session_entry (find (\<lambda>r. db_collate E (s_tokenHash r) = db_collate E th) rows) of
         None \<Rightarrow> None
       | Some (u, csrf, t, c) \<Rightarrow> if now < t then Some (u, csrf, t, c) else None)" for rows
  proof (induction rows)
    case (Cons r rows)
    show ?case
    proof (cases "db_collate E (s_tokenHash r) = db_collate E th")
      case True
      then have "find (\<lambda>r. sqlEq E (s_tokenHash r) th \<and> now < s_expiresAt r) rows = None"
        using Cons.prems by (auto simp: find_None_iff sqlEq_def image_iff)
      with True show ?thesis by (simp add: sqlEq_def session_entry_def)
    next
      case False
      with Cons show ?thesis by (simp add: sqlEq_def)
    qed
  qed simp
  then show ?thesis using assms by (simp add: live_session_def session_map_def wf_defs)
qed

end
