(* ===== verification/Http.thy ===== *)
theory Http
  imports Store_Interfaces
begin

text \<open>
  What the handlers see of Go's \<open>net/http\<close>: a request with its headers, cookies and URL, and the
  response a handler produces. A header is a function from canonical names to the list of values.
  A response records the status, the header fields the program sets itself, the cookies passed to
  \<open>http.SetCookie\<close>, the target passed to \<open>http.Redirect\<close>, and the body as the value passed to the
  encoder; the byte-level serialisation is the library's.
\<close>

subsection \<open>Headers\<close>

type_synonym header = "string \<Rightarrow> string list"

definition upper_char :: "char \<Rightarrow> char" where
  "upper_char c = (if is_lower c then char_of (byte c - 32) else c)"

definition token_char :: "char \<Rightarrow> bool" where
  "token_char c \<longleftrightarrow> is_alnum c \<or> c \<in> set ''!#$%&*+-.^_`|~'' \<union> {CHR 0x27}"

fun canonical_word :: "bool \<Rightarrow> string \<Rightarrow> string" where
  "canonical_word up [] = []"
| "canonical_word up (c # s) =
     (if up then upper_char c else lower_char c) # canonical_word (c = CHR ''-'') s"

text \<open>\<open>CanonicalMIMEHeaderKey\<close>: names with a character that is not a token character stay as they are.\<close>

definition canonicalHeaderKey :: "string \<Rightarrow> string" where
  "canonicalHeaderKey s = (if list_all token_char s then canonical_word True s else s)"

definition header_get :: "header \<Rightarrow> string \<Rightarrow> string" where
  "header_get h name = (case h (canonicalHeaderKey name) of [] \<Rightarrow> [] | v # _ \<Rightarrow> v)"

definition header_set :: "string \<Rightarrow> string \<Rightarrow> header \<Rightarrow> header" where
  "header_set name v h = h(canonicalHeaderKey name := [v])"

definition header_del :: "string \<Rightarrow> header \<Rightarrow> header" where
  "header_del name h = h(canonicalHeaderKey name := [])"

lemma header_get_set [simp]: "header_get (header_set n v h) n = v"
  by (simp add: header_get_def header_set_def)

lemma header_del_same [simp]: "header_get (header_del n h) n = []"
  by (simp add: header_get_def header_del_def)

lemma header_del_mono: "header_get h m = [] \<Longrightarrow> header_get (header_del n h) m = []"
  by (simp add: header_get_def header_del_def)

lemma header_get_set_other:
  "canonicalHeaderKey m \<noteq> canonicalHeaderKey n \<Longrightarrow> header_get (header_set n v h) m = header_get h m"
  by (simp add: header_get_def header_set_def)

lemma header_get_del_other:
  "canonicalHeaderKey m \<noteq> canonicalHeaderKey n \<Longrightarrow> header_get (header_del n h) m = header_get h m"
  by (simp add: header_get_def header_del_def)

subsection \<open>Requests\<close>

record request =
  rq_method :: string
  rq_url :: url
  rq_host :: string
  rq_remoteAddr :: string
  rq_tls :: bool
  rq_header :: header
  rq_cookie :: "string \<Rightarrow> string option"
  rq_pathValue :: "string \<Rightarrow> string"

definition hdr :: "request \<Rightarrow> string \<Rightarrow> string" where
  "hdr r name = header_get (rq_header r) name"

definition query_get :: "request \<Rightarrow> string \<Rightarrow> string" where
  "query_get r k = values_get (url_query (rq_url r)) k"

definition userAgent :: "request \<Rightarrow> string" where
  "userAgent r = hdr r ''User-Agent''"

definition referer :: "request \<Rightarrow> string" where
  "referer r = hdr r ''Referer''"

subsection \<open>Cookies\<close>

text \<open>The fields that the program sets; \<open>HttpOnly\<close> is \<open>true\<close> and \<open>SameSite\<close> is \<open>Lax\<close> where it says so.\<close>

record cookie =
  ck_name :: string
  ck_value :: string
  ck_path :: string
  ck_expires :: int
  ck_maxAge :: int
  ck_httpOnly :: bool
  ck_secure :: bool
  ck_sameSiteLax :: bool

subsection \<open>Responses\<close>

text \<open>The values the program gives to the JSON encoder; \<open>JTime\<close> is a \<open>time.Time\<close>.\<close>

datatype json =
    JNull
  | JBool bool
  | JInt int
  | JStr string
  | JTime int
  | JArr "json list"
  | JObj "(string \<times> json) list"

datatype payload = NoBody | JsonBody json | RawBody string

record response =
  rs_status :: int
  rs_headers :: "(string \<times> string) list"
  rs_cookies :: "cookie list"
  rs_location :: "string option"
  rs_body :: payload

definition setHeader :: "string \<Rightarrow> string \<Rightarrow> response \<Rightarrow> response" where
  "setHeader k v rs = rs\<lparr>rs_headers := (k, v) # rs_headers rs\<rparr>"

definition setCookie :: "cookie \<Rightarrow> response \<Rightarrow> response" where
  "setCookie c rs = rs\<lparr>rs_cookies := c # rs_cookies rs\<rparr>"

definition writeJSON :: "int \<Rightarrow> json \<Rightarrow> response" where
  "writeJSON status body =
     \<lparr>rs_status = status, rs_headers = [(''Content-Type'', ''application/json'')], rs_cookies = [],
      rs_location = None, rs_body = JsonBody body\<rparr>"

definition writeError :: "int \<Rightarrow> string \<Rightarrow> string \<Rightarrow> response" where
  "writeError status code message =
     writeJSON status (JObj [(''error'', JObj [(''code'', JStr code), (''message'', JStr message)])])"

definition redirect :: "string \<Rightarrow> response" where
  "redirect target =
     \<lparr>rs_status = 302, rs_headers = [], rs_cookies = [], rs_location = Some target, rs_body = NoBody\<rparr>"

definition notFound :: response where
  "notFound = \<lparr>rs_status = 404, rs_headers = [], rs_cookies = [], rs_location = None, rs_body = NoBody\<rparr>"

text \<open>A handler that panics: \<open>net/http\<close> drops the connection without a response.\<close>

definition aborted :: response where
  "aborted = \<lparr>rs_status = 0, rs_headers = [], rs_cookies = [], rs_location = None, rs_body = NoBody\<rparr>"

text \<open>\<open>securityHeaders\<close> wraps every handler of the server.\<close>

definition securityHeaders :: "response \<Rightarrow> response" where
  "securityHeaders rs =
     setHeader ''X-Frame-Options'' ''DENY'' (setHeader ''X-Content-Type-Options'' ''nosniff'' rs)"

lemmas response_defs = setHeader_def setCookie_def writeJSON_def writeError_def redirect_def notFound_def

end
