(* ===== verification/Request_Security.thy ===== *)
theory Request_Security
  imports Http "HOL-Library.AList"
begin

text \<open>
  \<open>internal/auth/request_security.go\<close> and the address helpers of \<open>server.go\<close>: the fixed-window rate
  limiter, the client address behind trusted proxies, and the origin check. The limiter's map is an
  association list with distinct keys; its mutex makes every call one atomic step.
\<close>

subsection \<open>The rate limiter\<close>

record rate_entry =
  re_count :: int
  re_windowStart :: int

type_synonym rate_limiter = "(string \<times> rate_entry) list"

definition newRateLimiter :: rate_limiter where
  "newRateLimiter = []"

text \<open>The zero value that indexing a Go map gives for a missing key.\<close>

definition rate_lookup :: "rate_limiter \<Rightarrow> string \<Rightarrow> rate_entry" where
  "rate_lookup l key =
     (case map_of l key of None \<Rightarrow> \<lparr>re_count = 0, re_windowStart = zero_time\<rparr> | Some e \<Rightarrow> e)"

definition sweep :: "int \<Rightarrow> rate_limiter \<Rightarrow> rate_limiter" where
  "sweep now l = filter (\<lambda>p. \<not> 30 * minute \<le> now - re_windowStart (snd p)) l"

definition allow :: "rate_limiter \<Rightarrow> string \<Rightarrow> int \<Rightarrow> int \<Rightarrow> int \<Rightarrow> bool \<times> rate_limiter" where
  "allow l0 key limit window now =
     (if key = [] \<or> limit \<le> 0 \<or> window \<le> 0 then (True, l0)
      else
        (let l = (if 10000 < length l0 then sweep now l0 else l0);
             entry = rate_lookup l key
         in
         if re_windowStart entry = zero_time \<or> window \<le> now - re_windowStart entry then
           (True, AList.update key \<lparr>re_count = 1, re_windowStart = now\<rparr> l)
         else if limit \<le> re_count entry then (False, l)
         else (True, AList.update key (entry\<lparr>re_count := re_count entry + 1\<rparr>) l)))"

subsection \<open>Client addresses\<close>

definition validHeaderIP :: "string \<Rightarrow> string" where
  "validHeaderIP value0 =
     (let v = trimSpace value0 in
      if v = [] then []
      else (case parseAddr v of None \<Rightarrow> [] | Some a \<Rightarrow> addr_string a))"

fun first_valid :: "string list \<Rightarrow> string" where
  "first_valid [] = []"
| "first_valid (part # parts) =
     (let ip = validHeaderIP part in if ip \<noteq> [] then ip else first_valid parts)"

definition firstValidForwardedIP :: "string \<Rightarrow> string" where
  "firstValidForwardedIP value0 = first_valid (split_on CHR '','' value0)"

definition validRemoteIP :: "string \<Rightarrow> string" where
  "validRemoteIP value0 =
     (let v = trimSpace value0 in
      if v = [] then []
      else validHeaderIP (case splitHostPort v of Some (h, _) \<Rightarrow> h | None \<Rightarrow> v))"

definition parseTrustedProxyCIDRs :: "string list \<Rightarrow> ip_prefix list" where
  "parseTrustedProxyCIDRs vs = List.map_filter (\<lambda>v. map_option masked (parsePrefix (trimSpace v))) vs"

definition isIPInPrefixes :: "string \<Rightarrow> ip_prefix list \<Rightarrow> bool" where
  "isIPInPrefixes v ps =
     (case parseAddr v of None \<Rightarrow> False | Some a \<Rightarrow> list_ex (\<lambda>p. prefix_contains p a) ps)"

definition requestIP :: "ip_prefix list \<Rightarrow> request \<Rightarrow> string" where
  "requestIP trusted r =
     (let remoteIP = validRemoteIP (rq_remoteAddr r) in
      if remoteIP = [] \<or> \<not> isIPInPrefixes remoteIP trusted then remoteIP
      else
        (let ip = firstValidForwardedIP (hdr r ''X-Forwarded-For'') in
         if ip \<noteq> [] then ip
         else
           (let ip = validHeaderIP (hdr r ''X-Real-IP'') in
            if ip \<noteq> [] then ip else remoteIP)))"

subsection \<open>Origins\<close>

definition originFromURL :: "string \<Rightarrow> string" where
  "originFromURL v =
     (case url_parse (trimSpace v) of
        None \<Rightarrow> []
      | Some u \<Rightarrow> if url_scheme u = [] \<or> url_host u = [] then [] else url_scheme u @ ''://'' @ url_host u)"

definition request_scheme :: "ip_prefix list \<Rightarrow> request \<Rightarrow> string" where
  "request_scheme trusted r =
     (let scheme = (if rq_tls r then ''https'' else ''http'');
          forwarded = trimSpace (hd (split_on CHR '','' (hdr r ''X-Forwarded-Proto'')))
      in if isIPInPrefixes (validRemoteIP (rq_remoteAddr r)) trusted
            \<and> (forwarded = ''http'' \<or> forwarded = ''https'') then forwarded else scheme)"

definition validRequestOrigin :: "ip_prefix list \<Rightarrow> string \<Rightarrow> request \<Rightarrow> bool" where
  "validRequestOrigin trusted authOrigin r =
     (let rawOrigin = trimSpace (hdr r ''Origin'') in
      if rawOrigin = [] then True
      else
        (case url_parse rawOrigin of
           None \<Rightarrow> False
         | Some u \<Rightarrow>
             if url_scheme u = [] \<or> url_host u = [] then False
             else if equalFold rawOrigin (request_scheme trusted r @ ''://'' @ rq_host r) then True
             else authOrigin \<noteq> [] \<and> equalFold rawOrigin authOrigin))"

end
