(* ===== verification/Rate_Limit_Laws.thy ===== *)
theory Rate_Limit_Laws
  imports Request_Security
begin

text \<open>
  What the rate limiter promises. The locale \<open>window_limit\<close> states a fixed-window counter for one
  key as laws on an abstract counter state and derives the sliding bound; the interpretation shows
  that the limiter of the code, with its sweep of old entries, is such a counter for every key.
\<close>

subsection \<open>The contract\<close>

text \<open>
  \<open>window s\<close> is the number of requests counted in the current window and its start, \<open>None\<close> before
  the first request; \<open>hit\<close> is a request for the key, \<open>pass\<close> what happens to other keys.
\<close>

locale window_limit =
  fixes window :: "'s \<Rightarrow> (int \<times> int) option" and hit :: "int \<Rightarrow> 's \<Rightarrow> bool \<times> 's"
    and pass :: "int \<Rightarrow> 's \<Rightarrow> 's \<Rightarrow> bool" and inv :: "'s \<Rightarrow> bool" and L :: int and W :: int
  assumes L_pos: "0 < L" and W_pos: "0 < W"
    and hit_inv: "inv s \<Longrightarrow> 0 < t \<Longrightarrow> hit t s = (ok, s') \<Longrightarrow> inv s'"
    and pass_inv: "inv s \<Longrightarrow> 0 < t \<Longrightarrow> pass t s s' \<Longrightarrow> inv s'"
    and window_bound: "inv s \<Longrightarrow> window s = Some (c, w) \<Longrightarrow> 1 \<le> c \<and> c \<le> L"
    and hit_new: "inv s \<Longrightarrow> 0 < t \<Longrightarrow> hit t s = (ok, s') \<Longrightarrow>
                  (case window s of None \<Rightarrow> True | Some (c, w) \<Rightarrow> w + W \<le> t) \<Longrightarrow> ok \<and> window s' = Some (1, t)"
    and hit_count: "inv s \<Longrightarrow> 0 < t \<Longrightarrow> hit t s = (ok, s') \<Longrightarrow> window s = Some (c, w) \<Longrightarrow> t < w + W \<Longrightarrow> c < L \<Longrightarrow>
                    ok \<and> window s' = Some (c + 1, w)"
    and hit_full: "inv s \<Longrightarrow> 0 < t \<Longrightarrow> hit t s = (ok, s') \<Longrightarrow> window s = Some (c, w) \<Longrightarrow> t < w + W \<Longrightarrow> L \<le> c \<Longrightarrow>
                   \<not> ok \<and> window s' = Some (c, w)"
    and pass_window: "inv s \<Longrightarrow> 0 < t \<Longrightarrow> pass t s s' \<Longrightarrow>
                      window s' = window s \<or> (\<exists>c w. window s = Some (c, w) \<and> w + W \<le> t \<and> window s' = None)"
begin

lemma accept_cases:
  assumes "inv s" and "0 < t" and "hit t s = (True, s')"
  obtains (counted) c w where "window s = Some (c, w)" and "t < w + W" and "c < L" and "window s' = Some (c + 1, w)"
    | (fresh) "window s' = Some (1, t)" and "\<And>c w. window s = Some (c, w) \<Longrightarrow> w + W \<le> t"
proof (cases "\<exists>c w. window s = Some (c, w) \<and> t < w + W")
  case True
  then obtain c w where cw: "window s = Some (c, w)" "t < w + W" by blast
  then have "c < L" using hit_full [OF assms] by (meson linorder_not_less)
  then show ?thesis using counted [OF cw] hit_count [OF assms cw] by simp
next
  case False
  then have "window s' = Some (1, t)"
    using hit_new [OF assms] by (simp add: linorder_not_less split: option.splits)
  moreover have "w + W \<le> t" if "window s = Some (c, w)" for c w using False that by force
  ultimately show ?thesis using fresh by blast
qed

lemma refuse_cases:
  assumes "inv s" and "0 < t" and "hit t s = (False, s')"
  shows "\<exists>c w. window s = Some (c, w) \<and> t < w + W \<and> window s' = window s"
proof (cases "\<exists>c w. window s = Some (c, w) \<and> t < w + W")
  case True
  then obtain c w where cw: "window s = Some (c, w)" "t < w + W" by blast
  then have "L \<le> c" using hit_count [OF assms cw] by (meson linorder_not_less)
  then show ?thesis using cw hit_full [OF assms cw] by simp
next
  case False
  then have "case window s of None \<Rightarrow> True | Some (c, w) \<Rightarrow> w + W \<le> t"
    by (auto simp: linorder_not_less split: option.splits)
  then show ?thesis using hit_new [OF assms] by blast
qed

text \<open>
  A run: \<open>run lo s ts\<close> holds if from \<open>s\<close>, at times from \<open>lo\<close> on that never decrease, exactly the
  requests at the times \<open>ts\<close> are accepted.
\<close>

inductive run :: "int \<Rightarrow> 's \<Rightarrow> int list \<Rightarrow> bool" where
  stop: "run lo s []"
| other: "lo \<le> t \<Longrightarrow> pass t s s' \<Longrightarrow> run t s' ts \<Longrightarrow> run lo s ts"
| refused: "lo \<le> t \<Longrightarrow> hit t s = (False, s') \<Longrightarrow> run t s' ts \<Longrightarrow> run lo s ts"
| accepted: "lo \<le> t \<Longrightarrow> hit t s = (True, s') \<Longrightarrow> run t s' ts \<Longrightarrow> run lo s (t # ts)"

definition room :: "(int \<times> int) option \<Rightarrow> nat" where
  "room st = (case st of None \<Rightarrow> nat L | Some (c, w) \<Rightarrow> nat (L - c))"

definition reach :: "(int \<times> int) option \<Rightarrow> nat" where
  "reach st = (case st of None \<Rightarrow> nat L | Some (c, w) \<Rightarrow> nat (L - c) + nat L)"

lemma run_times: "run lo s ts \<Longrightarrow> t \<in> set ts \<Longrightarrow> lo \<le> t"
  by (induction rule: run.induct) auto

text \<open>Requests beyond the room of the current window fall after it.\<close>

lemma run_window:
  assumes "run lo s ts" and "inv s" and "0 < lo" and "window s = Some (c, w)"
    and "room (window s) \<le> i" and "i < length ts"
  shows "w + W \<le> ts ! i"
  using assms
proof (induction arbitrary: c w i rule: run.induct)
  case (other lo t s s' ts)
  have t: "0 < t" using other by simp
  note i = pass_inv [OF other.prems(1) t other.hyps(2)]
  show ?case
  proof (cases "window s' = window s")
    case True
    then show ?thesis using other.IH [OF i t] other.prems by simp
  next
    case False
    then have "w + W \<le> t" using pass_window [OF other.prems(1) t other.hyps(2)] other.prems(3) by auto
    moreover have "t \<le> ts ! i" using run_times [OF other.hyps(3)] other.prems by simp
    ultimately show ?thesis by simp
  qed
next
  case (refused lo t s s' ts)
  have t: "0 < t" using refused by simp
  have "window s' = window s" using refuse_cases [OF refused.prems(1) t refused.hyps(2)] by blast
  then show ?case
    using refused.IH [OF hit_inv [OF refused.prems(1) t refused.hyps(2)] t] refused.prems by simp
next
  case (accepted lo t s s' ts)
  have t: "0 < t" using accepted by simp
  note i = hit_inv [OF accepted.prems(1) t accepted.hyps(2)]
  from accepted.prems(1) t accepted.hyps(2) show ?case
  proof (cases rule: accept_cases)
    case (counted c' w')
    then obtain j where "i = Suc j" using accepted.prems by (cases i) (auto simp: room_def)
    then show ?thesis using accepted.IH [OF i t counted(4), of j] accepted.prems counted by (simp add: room_def)
  next
    case fresh
    then have "w + W \<le> t" using accepted.prems(3) by simp
    moreover have "t \<le> (t # ts) ! i"
      using run_times [OF accepted.hyps(3)] accepted.prems(5) by (cases i) auto
    ultimately show ?thesis by simp
  qed
qed simp

text \<open>Requests beyond the room and a further full window fall a window after the start of the run.\<close>

lemma run_two_windows:
  assumes "run lo s ts" and "inv s" and "0 < lo" and "reach (window s) \<le> i" and "i < length ts"
  shows "lo + W \<le> ts ! i"
  using assms
proof (induction arbitrary: i rule: run.induct)
  case (other lo t s s' ts)
  have t: "0 < t" using other by simp
  have "reach (window s') \<le> i"
    using pass_window [OF other.prems(1) t other.hyps(2)] other.prems(3) by (auto simp: reach_def)
  then have "t + W \<le> ts ! i"
    using other.IH [OF pass_inv [OF other.prems(1) t other.hyps(2)] t] other.prems by simp
  then show ?case using other.hyps by simp
next
  case (refused lo t s s' ts)
  have t: "0 < t" using refused by simp
  have "window s' = window s" using refuse_cases [OF refused.prems(1) t refused.hyps(2)] by blast
  then have "t + W \<le> ts ! i"
    using refused.IH [OF hit_inv [OF refused.prems(1) t refused.hyps(2)] t] refused.prems by simp
  then show ?case using refused.hyps by simp
next
  case (accepted lo t s s' ts)
  have t: "0 < t" using accepted by simp
  note i' = hit_inv [OF accepted.prems(1) t accepted.hyps(2)]
  from accepted.prems(1) t accepted.hyps(2) show ?case
  proof (cases rule: accept_cases)
    case (counted c w)
    then obtain j where j: "i = Suc j" using accepted.prems L_pos by (cases i) (auto simp: reach_def)
    then have "reach (window s') \<le> j" using accepted.prems(3) counted by (simp add: reach_def)
    then have "t + W \<le> ts ! j" using accepted.IH [OF i' t, of j] accepted.prems j by simp
    then show ?thesis using accepted.hyps j by simp
  next
    case fresh
    have "nat L \<le> i" using accepted.prems(3) by (auto simp: reach_def split: option.splits)
    then obtain j where j: "i = Suc j" and "nat (L - 1) \<le> j" using L_pos by (cases i) auto
    then have "room (window s') \<le> j" by (simp add: fresh room_def)
    then have "t + W \<le> ts ! j"
      using run_window [OF accepted.hyps(3) i' t fresh(1), of j] accepted.prems(4) j by simp
    then show ?thesis using accepted.hyps j by simp
  qed
qed simp

lemma run_drop: "run lo s ts \<Longrightarrow> inv s \<Longrightarrow> 0 < lo \<Longrightarrow> i < length ts \<Longrightarrow>
  \<exists>s' c w. run (ts ! i) s' (drop (Suc i) ts) \<and> inv s' \<and> 0 < ts ! i \<and> window s' = Some (c, w)"
proof (induction arbitrary: i rule: run.induct)
  case (other lo t s s' ts)
  then show ?case using pass_inv [OF other.prems(1) _ other.hyps(2)] by simp
next
  case (refused lo t s s' ts)
  then show ?case using hit_inv [OF refused.prems(1) _ refused.hyps(2)] by simp
next
  case (accepted lo t s s' ts)
  have i': "inv s'" using hit_inv [OF accepted.prems(1) _ accepted.hyps(2)] accepted.prems accepted.hyps(1) by simp
  show ?case
  proof (cases i)
    case 0
    have "\<exists>c w. window s' = Some (c, w)"
      by (rule accept_cases [OF accepted.prems(1) _ accepted.hyps(2)]) (use accepted in auto)
    then show ?thesis using 0 i' accepted by auto
  next
    case (Suc j)
    then show ?thesis using accepted i' by simp
  qed
qed simp

text \<open>No interval as long as the window holds more than twice the limit of accepted requests.\<close>

lemma sliding_bound:
  assumes "run lo s ts" and "inv s" and "0 < lo" and "i + 2 * nat L < length ts"
  shows "ts ! i + W \<le> ts ! (i + 2 * nat L)"
proof -
  obtain s' c w where s': "run (ts ! i) s' (drop (Suc i) ts)" "inv s'" "0 < ts ! i" "window s' = Some (c, w)"
    using run_drop [OF assms(1-3), of i] assms(4) by auto
  have "1 \<le> c \<and> c \<le> L" using window_bound s' by blast
  then have "reach (window s') \<le> 2 * nat L - 1" using s'(4) L_pos unfolding reach_def by (simp, arith)
  moreover have "2 * nat L - 1 < length (drop (Suc i) ts)" using assms(4) L_pos by simp
  ultimately have "ts ! i + W \<le> drop (Suc i) ts ! (2 * nat L - 1)"
    using run_two_windows [OF s'(1-3), of "2 * nat L - 1"] s'(4) by simp
  then show ?thesis using assms(4) L_pos by (simp add: nth_drop)
qed

end

subsection \<open>The limiter of the code\<close>

definition rate_window :: "string \<Rightarrow> rate_limiter \<Rightarrow> (int \<times> int) option" where
  "rate_window k l = map_option (\<lambda>e. (re_count e, re_windowStart e)) (map_of l k)"

definition rate_inv :: "string \<Rightarrow> int \<Rightarrow> rate_limiter \<Rightarrow> bool" where
  "rate_inv k L l \<longleftrightarrow> distinct (map fst l)
     \<and> (case rate_window k l of None \<Rightarrow> True | Some (c, w) \<Rightarrow> 1 \<le> c \<and> c \<le> L \<and> 0 < w)"

definition rate_hit :: "string \<Rightarrow> int \<Rightarrow> int \<Rightarrow> int \<Rightarrow> rate_limiter \<Rightarrow> bool \<times> rate_limiter" where
  "rate_hit k L W t l = allow l k L W t"

definition rate_pass :: "string \<Rightarrow> int \<Rightarrow> rate_limiter \<Rightarrow> rate_limiter \<Rightarrow> bool" where
  "rate_pass k t l l' \<longleftrightarrow> (\<exists>key lim win. key \<noteq> k \<and> snd (allow l key lim win t) = l')"

definition swept :: "int \<Rightarrow> rate_limiter \<Rightarrow> rate_limiter" where
  "swept t l = (if 10000 < length l then sweep t l else l)"

lemma map_of_sweep:
  "distinct (map fst l) \<Longrightarrow>
   map_of (sweep t l) k =
     (case map_of l k of None \<Rightarrow> None | Some e \<Rightarrow> if 30 * minute \<le> t - re_windowStart e then None else Some e)"
  by (induction l) (auto simp: sweep_def map_of_eq_None_iff split: option.splits)

lemma swept_window:
  assumes "distinct (map fst l)"
  shows "rate_window k (swept t l) = rate_window k l
         \<or> (\<exists>c w. rate_window k l = Some (c, w) \<and> w + 30 * minute \<le> t \<and> rate_window k (swept t l) = None)"
  using assms
  by (cases "map_of l k") (auto simp: rate_window_def swept_def map_of_sweep)

lemma re_count_update: "e\<lparr>re_count := n\<rparr> = \<lparr>re_count = n, re_windowStart = re_windowStart e\<rparr>"
  by (cases e) simp

text \<open>One request, after the sweep, as a case distinction on the window of its key.\<close>

lemma allow_eq:
  assumes "k \<noteq> []" and "0 < L" and "0 < W"
  shows "allow l k L W t =
    (case rate_window k (swept t l) of
       None \<Rightarrow> (True, AList.update k \<lparr>re_count = 1, re_windowStart = t\<rparr> (swept t l))
     | Some (c, w) \<Rightarrow>
         if w = zero_time \<or> w + W \<le> t then (True, AList.update k \<lparr>re_count = 1, re_windowStart = t\<rparr> (swept t l))
         else if L \<le> c then (False, swept t l)
         else (True, AList.update k \<lparr>re_count = c + 1, re_windowStart = w\<rparr> (swept t l)))"
  using assms
  by (auto simp: allow_def Let_def rate_lookup_def rate_window_def swept_def re_count_update split: option.splits)

lemma allow_distinct: "distinct (map fst l) \<Longrightarrow> distinct (map fst (snd (allow l k L W t)))"
  by (auto simp: allow_def Let_def sweep_def distinct_map_filter distinct_update)

lemma rate_window_update [simp]:
  "rate_window k (AList.update k e l) = Some (re_count e, re_windowStart e)"
  "k' \<noteq> k \<Longrightarrow> rate_window k' (AList.update k e l) = rate_window k' l"
  by (simp_all add: rate_window_def update_conv')

lemma allow_other_window:
  assumes "key \<noteq> k"
  shows "rate_window k (snd (allow l key lim win t)) \<in> {rate_window k l, rate_window k (swept t l)}"
  using assms by (auto simp: allow_def Let_def swept_def)

lemma zero_time_neg: "zero_time < 0"
  by (simp add: zero_time_def time_units)

text \<open>Every key with a positive limit and a window of at most half an hour is such a counter.\<close>

lemma allow_window_limit:
  assumes k: "k \<noteq> []" and L: "0 < L" and W: "0 < W" "W \<le> 30 * minute"
  shows "window_limit (rate_window k) (rate_hit k L W) (rate_pass k) (rate_inv k L) L W"
proof unfold_locales
  fix s s' t ok c w
  assume inv: "rate_inv k L s"
  then have d: "distinct (map fst s)" by (simp add: rate_inv_def)
  note sw = swept_window [OF d, of k t]
  show "rate_inv k L s'" if "0 < t" "rate_hit k L W t s = (ok, s')"
  proof -
    have "distinct (map fst s')" using allow_distinct [OF d, of k L W t] that by (simp add: rate_hit_def)
    then show ?thesis
      using inv that sw L by (auto simp: rate_hit_def allow_eq [OF k L W(1)] rate_inv_def split: option.splits if_splits)
  qed
  show "rate_inv k L s'" if "0 < t" and pass: "rate_pass k t s s'"
  proof -
    obtain key lim win where o: "key \<noteq> k" "snd (allow s key lim win t) = s'"
      using pass unfolding rate_pass_def by blast
    then show ?thesis
      using allow_distinct [OF d, of key lim win t] allow_other_window [OF o(1), of s lim win t] inv sw
      by (auto simp: rate_inv_def split: option.splits)
  qed
  show "1 \<le> c \<and> c \<le> L" if "rate_window k s = Some (c, w)"
    using inv that by (simp add: rate_inv_def)
  show "ok \<and> rate_window k s' = Some (1, t)"
    if "0 < t" "rate_hit k L W t s = (ok, s')" "case rate_window k s of None \<Rightarrow> True | Some (c, w) \<Rightarrow> w + W \<le> t"
    using that sw by (auto simp: rate_hit_def allow_eq [OF k L W(1)] split: option.splits if_splits)
  show "ok \<and> rate_window k s' = Some (c + 1, w)"
    if "0 < t" "rate_hit k L W t s = (ok, s')" "rate_window k s = Some (c, w)" "t < w + W" "c < L"
    using that sw W inv zero_time_neg
    by (auto simp: rate_hit_def allow_eq [OF k L W(1)] rate_inv_def split: option.splits if_splits)
  show "\<not> ok \<and> rate_window k s' = Some (c, w)"
    if "0 < t" "rate_hit k L W t s = (ok, s')" "rate_window k s = Some (c, w)" "t < w + W" "L \<le> c"
    using that sw W inv zero_time_neg
    by (auto simp: rate_hit_def allow_eq [OF k L W(1)] rate_inv_def split: option.splits if_splits)
  show "rate_window k s' = rate_window k s \<or> (\<exists>c w. rate_window k s = Some (c, w) \<and> w + W \<le> t \<and> rate_window k s' = None)"
    if "0 < t" and pass: "rate_pass k t s s'"
  proof -
    obtain key lim win where o: "key \<noteq> k" "snd (allow s key lim win t) = s'"
      using pass unfolding rate_pass_def by blast
    then show ?thesis using allow_other_window [OF o(1), of s lim win t] sw W by auto
  qed
qed (use L W in simp_all)

text \<open>The limits that the handlers use, each on the keys it builds.\<close>

interpretation login_limit: window_limit "rate_window (''admin:'' @ who)" "rate_hit (''admin:'' @ who) 5 (15 * minute)"
  "rate_pass (''admin:'' @ who)" "rate_inv (''admin:'' @ who) 5" 5 "15 * minute" for who
  by (rule allow_window_limit) (simp_all add: time_units)

interpretation verify_limit: window_limit "rate_window (''email-verify:'' @ who)"
  "rate_hit (''email-verify:'' @ who) 10 (15 * minute)" "rate_pass (''email-verify:'' @ who)"
  "rate_inv (''email-verify:'' @ who) 10" 10 "15 * minute" for who
  by (rule allow_window_limit) (simp_all add: time_units)

interpretation send_limit: window_limit "rate_window (''email-send:address:'' @ who)"
  "rate_hit (''email-send:address:'' @ who) 3 (15 * minute)" "rate_pass (''email-send:address:'' @ who)"
  "rate_inv (''email-send:address:'' @ who) 3" 3 "15 * minute" for who
  by (rule allow_window_limit) (simp_all add: time_units)

subsection \<open>Sequences of attempts\<close>

text \<open>An attempt is a call of \<open>allow\<close>: key, limit, window and time.\<close>

type_synonym attempt = "string \<times> int \<times> int \<times> int"

fun accepted_times :: "string \<Rightarrow> rate_limiter \<Rightarrow> attempt list \<Rightarrow> int list" where
  "accepted_times k l [] = []"
| "accepted_times k l ((key, lim, win, t) # cs) =
     (case allow l key lim win t of
        (ok, l') \<Rightarrow> (if ok \<and> key = k then [t] else []) @ accepted_times k l' cs)"

text \<open>The clock does not run backwards, and attempts for the key all use its limit and window.\<close>

fun attempts_for :: "string \<Rightarrow> int \<Rightarrow> int \<Rightarrow> int \<Rightarrow> attempt list \<Rightarrow> bool" where
  "attempts_for k L W lo [] = True"
| "attempts_for k L W lo ((key, lim, win, t) # cs) =
     (lo \<le> t \<and> (key = k \<longrightarrow> lim = L \<and> win = W) \<and> attempts_for k L W t cs)"

lemma accepted_run:
  assumes lim: "window_limit (rate_window k) (rate_hit k L W) (rate_pass k) (rate_inv k L) L W"
  shows "attempts_for k L W lo cs \<Longrightarrow>
    window_limit.run (rate_hit k L W) (rate_pass k) lo l (accepted_times k l cs)"
proof (induction cs arbitrary: lo l)
  case Nil
  show ?case by (simp add: window_limit.run.stop [OF lim])
next
  case (Cons c cs)
  obtain key lm win t where c: "c = (key, lm, win, t)" by (metis prod_cases4)
  obtain ok l' where al: "allow l key lm win t = (ok, l')" by fastforce
  have lo: "lo \<le> t" and rest: "attempts_for k L W t cs" using Cons.prems c by auto
  note IH = Cons.IH [OF rest, of l']
  show ?case
  proof (cases "key = k")
    case True
    then have hit: "rate_hit k L W t l = (ok, l')" using Cons.prems c al by (simp add: rate_hit_def)
    show ?thesis
      using window_limit.run.accepted [OF lim lo _ IH] window_limit.run.refused [OF lim lo _ IH] hit c al True
      by (cases ok) simp_all
  next
    case False
    then have "rate_pass k t l l'" using al by (auto simp: rate_pass_def) (metis snd_conv)
    then show ?thesis using window_limit.run.other [OF lim lo _ IH] c al False by simp
  qed
qed

lemma rate_inv_new: "rate_inv k L newRateLimiter"
  by (simp add: rate_inv_def newRateLimiter_def rate_window_def)

text \<open>C17: Whatever the other traffic, and although entries older than half an hour are swept, no
  interval as long as the window contains more than twice the limit of accepted attempts for one key.\<close>

theorem rate_limit_sliding_bound:
  assumes "k \<noteq> []" and "0 < L" and "0 < W" and "W \<le> 30 * minute" and "0 < lo"
    and "attempts_for k L W lo cs" and "i + 2 * nat L < length (accepted_times k newRateLimiter cs)"
  shows "accepted_times k newRateLimiter cs ! i + W \<le> accepted_times k newRateLimiter cs ! (i + 2 * nat L)"
proof -
  note lim = allow_window_limit [OF assms(1-4)]
  show ?thesis
    by (rule window_limit.sliding_bound [OF lim accepted_run [OF lim assms(6)] rate_inv_new assms(5,7)])
qed

lemma rate_limit_sliding_bound_witness:
  "accepted_times ''k'' newRateLimiter
     [(''k'', 1, 7, 5), (''k'', 1, 7, 6), (''x'', 3, 7, 6), (''k'', 1, 7, 12), (''k'', 1, 7, 19)] ! 0 + 7
   \<le> accepted_times ''k'' newRateLimiter
     [(''k'', 1, 7, 5), (''k'', 1, 7, 6), (''x'', 3, 7, 6), (''k'', 1, 7, 12), (''k'', 1, 7, 19)] ! (0 + 2 * nat 1)"
  by (rule rate_limit_sliding_bound [of _ _ _ 1]) (simp_all add: time_units newRateLimiter_def allow_def Let_def
       rate_lookup_def zero_time_def sweep_def)

end
