(* ===== verification/Avatar_Proxy.thy ===== *)
theory Avatar_Proxy
  imports Http
begin

text \<open>
  \<open>internal/auth/avatar_proxy.go\<close>: the configuration of the avatar proxy, which source URLs it may
  fetch, and the public URL it gives a user. The cache files and the HTTP client are in
  \<^theory_text>\<open>Avatar_Fetch\<close>. The receiver is never \<open>nil\<close>: \<open>NewServer\<close> always makes one.
\<close>

record avatar_config =
  avc_enabled :: bool
  avc_publicOrigin :: string
  avc_allowedOrigins :: "string list"
  avc_cacheDir :: string
  avc_cacheTTL :: int
  avc_fetchTimeout :: int
  avc_maxBytes :: int

record avatar_proxy =
  av_configured :: bool
  av_enabled :: bool
  av_publicOrigin :: string
  av_allowedOrigins :: "string list"
  av_cacheDir :: string
  av_cacheTTL :: int
  av_maxBytes :: int
  av_fetchTimeout :: int

definition normalizeAvatarOrigin :: "string \<Rightarrow> string" where
  "normalizeAvatarOrigin v =
     (case url_parse (trimSpace v) of
        None \<Rightarrow> []
      | Some u \<Rightarrow>
          if url_scheme u \<noteq> ''https'' \<or> url_host u = [] \<or> url_user u \<noteq> None
             \<or> (url_path u \<noteq> [] \<and> url_path u \<noteq> ''/'') \<or> url_rawQuery u \<noteq> [] \<or> url_fragment u \<noteq> []
          then [] else toLower (url_scheme u @ ''://'' @ url_host u))"

definition newAvatarProxy :: "avatar_config \<Rightarrow> avatar_proxy" where
  "newAvatarProxy cfg =
     (let publicOrigin = normalizeAvatarOrigin (avc_publicOrigin cfg);
          allowed = filter (\<lambda>o'. o' \<noteq> []) (map normalizeAvatarOrigin (avc_allowedOrigins cfg));
          cacheDir = trimSpace (avc_cacheDir cfg)
      in \<lparr>av_configured = avc_enabled cfg,
          av_enabled = (avc_enabled cfg \<and> publicOrigin \<noteq> [] \<and> allowed \<noteq> []),
          av_publicOrigin = publicOrigin, av_allowedOrigins = allowed,
          av_cacheDir = (if cacheDir = [] then ''/data/avatars'' else cacheDir),
          av_cacheTTL = (if avc_cacheTTL cfg \<le> 0 then 24 * hour else avc_cacheTTL cfg),
          av_maxBytes = (if avc_maxBytes cfg \<le> 0 then 1024 * 1024 else avc_maxBytes cfg),
          av_fetchTimeout = (if avc_fetchTimeout cfg \<le> 0 then 10 * second else avc_fetchTimeout cfg)\<rparr>)"

text \<open>The parsed URL, if it has the right shape, and whether its origin is allowed.\<close>

definition sourceURL :: "avatar_proxy \<Rightarrow> string \<Rightarrow> url option \<times> bool" where
  "sourceURL p v =
     (if \<not> av_enabled p then (None, False)
      else
        (case url_parse (trimSpace v) of
           None \<Rightarrow> (None, False)
         | Some u \<Rightarrow>
             if url_scheme u \<noteq> ''https'' \<or> url_host u = [] \<or> url_user u \<noteq> None then (None, False)
             else (Some u, toLower (url_scheme u @ ''://'' @ url_host u) \<in> set (av_allowedOrigins p))))"

definition avatarVersion :: "user \<Rightarrow> string" where
  "avatarVersion u =
     hex_encode (take 12 (sha256 (show_int (usr_id u) @ [CHR 0x00] @ trimSpace (usr_avatarURL u))))"

definition publicURL :: "avatar_proxy \<Rightarrow> user \<Rightarrow> string" where
  "publicURL p u =
     (let rawURL = trimSpace (usr_avatarURL u) in
      if rawURL = [] then []
      else if \<not> av_configured p then rawURL
      else if \<not> av_enabled p then []
      else if usr_id u \<le> 0 then []
      else if \<not> snd (sourceURL p (usr_avatarURL u)) then []
      else av_publicOrigin p @ ''/api/auth/avatar/'' @ avatarVersion u)"

lemma avatarVersion_length: "length (avatarVersion u) = 24"
  by (simp add: avatarVersion_def hex_encode_length sha256_length)

text \<open>A configured proxy never hands out an upstream URL.\<close>

lemma publicURL_proxied:
  "av_configured p \<Longrightarrow> publicURL p u \<noteq> [] \<Longrightarrow>
   publicURL p u = av_publicOrigin p @ ''/api/auth/avatar/'' @ avatarVersion u
   \<and> snd (sourceURL p (usr_avatarURL u)) \<and> av_enabled p"
  by (auto simp: publicURL_def Let_def split: if_splits)

end
