(* ===== verification/Desktop_Jwt.thy ===== *)
theory Desktop_Jwt
  imports Http
begin

text \<open>
  \<open>internal/auth/desktop_jwt.go\<close>: the identity-token signer. The claims are built here; PEM and
  X.509 decoding, reading the key file and the RS256 signature (\<open>golang-jwt\<close>) are parameters, the
  record \<open>jwt_lib\<close>. A private key is an opaque string.
\<close>

record jwt_config =
  jc_privateKeyFile :: string
  jc_privateKeyPEM :: string
  jc_issuer :: string
  jc_audiences :: "string list"
  jc_keyID :: string
  jc_ttl :: int

datatype jwt_error = JwtNotConfigured | JwtReadKey | JwtBadPEM | JwtParseKey | JwtNotRSA | JwtRandom | JwtSigning

record identity_claims =
  cl_userID :: string
  cl_email :: string
  cl_name :: string
  cl_picture :: string
  cl_role :: string
  cl_authProvider :: string
  cl_authSub :: string
  cl_scope :: string
  cl_sessionID :: string
  cl_sessionStartedAtMS :: int
  cl_issuer :: string
  cl_subject :: string
  cl_audience :: "string list"
  cl_expiresAt :: int
  cl_notBefore :: int
  cl_issuedAt :: int
  cl_id :: string

record jwt_lib =
  jl_readFile :: "string \<Rightarrow> string option"
  jl_pemDecode :: "string \<Rightarrow> string option"
  jl_parsePKCS1 :: "string \<Rightarrow> string option"
  jl_parsePKCS8 :: "string \<Rightarrow> string option option"
  jl_sign :: "string \<Rightarrow> string \<Rightarrow> identity_claims \<Rightarrow> string option"

record jwt_signer =
  js_privateKey :: "string option"
  js_issuer :: string
  js_audiences :: "string list"
  js_keyID :: string
  js_ttl :: int
  js_err :: "jwt_error option"

record jwt_result =
  jr_token :: string
  jr_issuer :: string
  jr_audiences :: "string list"
  jr_scope :: string
  jr_expiresAt :: int

definition desktopSsoScope :: string where
  "desktopSsoScope = ''profile market tunnel kanban im''"

subsection \<open>Audiences\<close>

fun add_parts :: "string list \<Rightarrow> string list \<Rightarrow> string list" where
  "add_parts audiences [] = audiences"
| "add_parts audiences (part # parts) =
     (let p = trimSpace part in
      if p = [] \<or> p \<in> set audiences then add_parts audiences parts
      else add_parts (audiences @ [p]) parts)"

definition normalizeJWTAudiences :: "string list \<Rightarrow> string list" where
  "normalizeJWTAudiences vs = foldl (\<lambda>audiences v. add_parts audiences (split_on CHR '','' v)) [] vs"

definition audience_ok :: "string list \<Rightarrow> bool" where
  "audience_ok as \<longleftrightarrow> distinct as \<and> list_all (\<lambda>a. a \<noteq> [] \<and> trimSpace a = a) as"

lemma add_parts_ok: "audience_ok as \<Longrightarrow> audience_ok (add_parts as ps)"
  by (induction as ps rule: add_parts.induct) (auto simp: audience_ok_def Let_def)

lemma add_parts_set: "set (add_parts as ps) = set as \<union> (trimSpace ` set ps - {[]})"
  by (induction as ps rule: add_parts.induct) (auto simp: Let_def)

lemma normalize_fold:
  "audience_ok as \<Longrightarrow> audience_ok (foldl (\<lambda>as v. add_parts as (split_on CHR '','' v)) as vs)
   \<and> set (foldl (\<lambda>as v. add_parts as (split_on CHR '','' v)) as vs)
     = set as \<union> (\<Union>v \<in> set vs. trimSpace ` set (split_on CHR '','' v) - {[]})"
  by (induction vs arbitrary: as) (auto simp: add_parts_ok add_parts_set)

lemma normalize_ok: "audience_ok (normalizeJWTAudiences vs)"
  using normalize_fold [of "[]" vs] by (simp add: normalizeJWTAudiences_def audience_ok_def)

subsection \<open>Keys\<close>

text \<open>\<open>strings.ReplaceAll\<close> of a backslash followed by \<open>n\<close> by a line feed.\<close>

fun unescape_newlines :: "string \<Rightarrow> string" where
  "unescape_newlines (a # b # s) =
     (if a = CHR 0x5C \<and> b = CHR ''n'' then CHR 0x0A # unescape_newlines s
      else a # unescape_newlines (b # s))"
| "unescape_newlines s = s"

definition parseJWTPrivateKeyPEM :: "jwt_lib \<Rightarrow> string \<Rightarrow> jwt_error + string" where
  "parseJWTPrivateKeyPEM J v =
     (case jl_pemDecode J (trimSpace v) of
        None \<Rightarrow> Inl JwtBadPEM
      | Some der \<Rightarrow>
          (case jl_parsePKCS1 J der of
             Some key \<Rightarrow> Inr key
           | None \<Rightarrow>
               (case jl_parsePKCS8 J der of
                  None \<Rightarrow> Inl JwtParseKey
                | Some None \<Rightarrow> Inl JwtNotRSA
                | Some (Some key) \<Rightarrow> Inr key)))"

definition loadJWTPrivateKey :: "jwt_lib \<Rightarrow> string \<Rightarrow> string \<Rightarrow> jwt_error + string" where
  "loadJWTPrivateKey J filePath pemValue =
     (if trimSpace filePath \<noteq> [] then
        (case jl_readFile J (trimSpace filePath) of
           None \<Rightarrow> Inl JwtReadKey
         | Some content \<Rightarrow> parseJWTPrivateKeyPEM J content)
      else if trimSpace pemValue = [] then Inl JwtNotConfigured
      else parseJWTPrivateKeyPEM J (unescape_newlines (trimSpace pemValue)))"

definition newIdentityJWTSigner :: "jwt_lib \<Rightarrow> jwt_config \<Rightarrow> jwt_signer" where
  "newIdentityJWTSigner J cfg =
     (let keyID = trimSpace (jc_keyID cfg);
          signer = \<lparr>js_privateKey = None, js_issuer = trimSpace (jc_issuer cfg),
                    js_audiences = normalizeJWTAudiences (jc_audiences cfg),
                    js_keyID = (if keyID = [] then ''default'' else keyID),
                    js_ttl = (if jc_ttl cfg \<le> 0 then 12 * hour else jc_ttl cfg), js_err = None\<rparr>
      in case loadJWTPrivateKey J (jc_privateKeyFile cfg) (jc_privateKeyPEM cfg) of
           Inl e \<Rightarrow> signer\<lparr>js_err := Some e\<rparr>
         | Inr key \<Rightarrow> signer\<lparr>js_privateKey := Some key\<rparr>)"

definition jwt_configured :: "jwt_signer \<Rightarrow> bool" where
  "jwt_configured s \<longleftrightarrow>
     js_err s = None \<and> js_privateKey s \<noteq> None \<and> js_issuer s \<noteq> [] \<and> js_audiences s \<noteq> []"

subsection \<open>Issuing\<close>

definition unixMilli :: "int \<Rightarrow> int" where
  "unixMilli t = t div millisecond"

definition build_claims ::
  "jwt_signer \<Rightarrow> user \<Rightarrow> int \<Rightarrow> string \<Rightarrow> string list \<Rightarrow> string \<Rightarrow> int \<Rightarrow> int \<Rightarrow> string \<Rightarrow> identity_claims" where
  "build_claims s u now sessionID audiences scope ttl startedAt jti =
     \<lparr>cl_userID = show_int (usr_id u), cl_email = usr_email u, cl_name = usr_displayName u,
      cl_picture = usr_avatarURL u, cl_role = usr_role u, cl_authProvider = usr_authProvider u,
      cl_authSub = usr_authSub u, cl_scope = scope, cl_sessionID = sessionID,
      cl_sessionStartedAtMS = (if startedAt = zero_time then 0 else unixMilli startedAt),
      cl_issuer = js_issuer s, cl_subject = ''user:'' @ show_int (usr_id u), cl_audience = audiences,
      cl_expiresAt = now + ttl, cl_notBefore = now - 5 * second, cl_issuedAt = now, cl_id = jti\<rparr>"

text \<open>The signer consumes random bytes for the token id and returns the rest of the stream.\<close>

definition issueWithPolicy ::
  "jwt_lib \<Rightarrow> jwt_signer \<Rightarrow> user \<Rightarrow> int \<Rightarrow> string \<Rightarrow> string list \<Rightarrow> string \<Rightarrow> int \<Rightarrow> int \<Rightarrow> string \<Rightarrow>
   (jwt_error + jwt_result) \<times> string" where
  "issueWithPolicy J s u now sessionID audiences0 scope ttl startedAt rnd =
     (case (js_err s, js_privateKey s) of
        (None, Some key) \<Rightarrow>
          if js_issuer s = [] then (Inl JwtNotConfigured, rnd)
          else
            (let audiences = normalizeJWTAudiences audiences0 in
             if audiences = [] \<or> ttl \<le> 0 then (Inl JwtNotConfigured, rnd)
             else
               (case randomToken rnd of
                  None \<Rightarrow> (Inl JwtRandom, rnd)
                | Some (jti, rnd') \<Rightarrow>
                    (case jl_sign J key (js_keyID s)
                            (build_claims s u now sessionID audiences scope ttl startedAt jti) of
                       None \<Rightarrow> (Inl JwtSigning, rnd')
                     | Some token \<Rightarrow>
                         (Inr \<lparr>jr_token = token, jr_issuer = js_issuer s, jr_audiences = audiences,
                               jr_scope = scope, jr_expiresAt = now + ttl\<rparr>, rnd'))))
      | (Some e, _) \<Rightarrow> (Inl e, rnd)
      | (None, None) \<Rightarrow> (Inl JwtNotConfigured, rnd))"

definition issue ::
  "jwt_lib \<Rightarrow> jwt_signer \<Rightarrow> user \<Rightarrow> int \<Rightarrow> string \<Rightarrow> int \<Rightarrow> string \<Rightarrow> (jwt_error + jwt_result) \<times> string" where
  "issue J s u now sessionID startedAt rnd =
     issueWithPolicy J s u now sessionID (js_audiences s) desktopSsoScope (js_ttl s) startedAt rnd"

lemma issueWithPolicy_ok:
  assumes "issueWithPolicy J s u now sid auds scope ttl startedAt rnd = (Inr res, rnd')"
  obtains key jti where "js_privateKey s = Some key" and "js_err s = None" and "js_issuer s \<noteq> []"
    and "0 < ttl" and "randomToken rnd = Some (jti, rnd')" and "normalizeJWTAudiences auds \<noteq> []"
    and "jl_sign J key (js_keyID s) (build_claims s u now sid (normalizeJWTAudiences auds) scope ttl startedAt jti)
         = Some (jr_token res)"
    and "res = \<lparr>jr_token = jr_token res, jr_issuer = js_issuer s, jr_audiences = normalizeJWTAudiences auds,
                jr_scope = scope, jr_expiresAt = now + ttl\<rparr>"
  using assms
  by (auto simp: issueWithPolicy_def Let_def split: option.splits if_splits)

end
