(* ===== verification/Google_Provider.thy ===== *)
theory Google_Provider
  imports Http
begin

text \<open>
  \<open>internal/auth/google.go\<close>: the Google provider. OAuth2 exchange and OIDC signature verification
  (\<open>golang.org/x/oauth2\<close>, \<open>coreos/go-oidc\<close>) are parameters: \<open>exchange\<close> is the raw \<open>id_token\<close> that
  the token endpoint returns (empty if there is none), \<open>verify\<close> the nonce and claims of a token that
  is genuine for an audience.
\<close>

record google_claims =
  gc_sub :: string
  gc_email :: string
  gc_emailVerified :: bool
  gc_name :: string
  gc_picture :: string

text \<open>A verified ID token: its nonce, and its claims unless they fail to decode.\<close>

type_synonym id_token = "string \<times> google_claims option"

record google_lib =
  gl_exchange :: "string \<Rightarrow> string \<Rightarrow> string option"
  gl_verify :: "string \<Rightarrow> string \<Rightarrow> id_token option"
  gl_authCodeURL :: "string \<Rightarrow> string \<Rightarrow> string \<Rightarrow> string \<Rightarrow> string \<Rightarrow> string"

record google_config =
  gcf_clientID :: string
  gcf_clientSecret :: string
  gcf_redirectURL :: string
  gcf_desktopClientID :: string

text \<open>A provider is disabled, or live with its client, redirect URL and desktop audiences.\<close>

datatype google_provider =
    DisabledGoogle
  | LiveGoogle string string string "string list"

fun distinct_trimmed :: "string list \<Rightarrow> string list \<Rightarrow> string list" where
  "distinct_trimmed seen [] = []"
| "distinct_trimmed seen (c # cs) =
     (let v = trimSpace c in
      if v = [] \<or> v \<in> set seen then distinct_trimmed seen cs
      else v # distinct_trimmed (v # seen) cs)"

definition googleAudiences :: "string list \<Rightarrow> string list" where
  "googleAudiences clientIDs = distinct_trimmed [] clientIDs"

definition newGoogleProvider :: "google_config \<Rightarrow> google_provider" where
  "newGoogleProvider cfg =
     (let clientID = trimSpace (gcf_clientID cfg);
          clientSecret = trimSpace (gcf_clientSecret cfg);
          redirectURL = trimSpace (gcf_redirectURL cfg)
      in if clientID = [] \<or> clientSecret = [] \<or> redirectURL = [] then DisabledGoogle
         else LiveGoogle clientID clientSecret redirectURL (googleAudiences [gcf_desktopClientID cfg]))"

fun google_configured :: "google_provider \<Rightarrow> bool" where
  "google_configured DisabledGoogle = False"
| "google_configured (LiveGoogle clientID clientSecret redirectURL auds) =
     (clientID \<noteq> [] \<and> clientSecret \<noteq> [] \<and> redirectURL \<noteq> [])"

definition identity_of_claims :: "google_claims \<Rightarrow> google_identity option" where
  "identity_of_claims c =
     (if trimSpace (gc_sub c) = [] then None
      else if \<not> gc_emailVerified c \<or> \<not> validEmail (gc_email c) then None
      else Some \<lparr>gi_subject = trimSpace (gc_sub c), gi_email = normalizeEmail (gc_email c),
                 gi_emailVerified = True, gi_name = trimSpace (gc_name c),
                 gi_picture = trimSpace (gc_picture c)\<rparr>)"

text \<open>The first audience whose verifier accepts the token decides.\<close>

fun verifyGoogleIDToken :: "google_lib \<Rightarrow> string \<Rightarrow> string \<Rightarrow> string list \<Rightarrow> google_identity option" where
  "verifyGoogleIDToken G rawToken expectedNonce [] = None"
| "verifyGoogleIDToken G rawToken expectedNonce (aud # auds) =
     (case gl_verify G aud (trimSpace rawToken) of
        None \<Rightarrow> verifyGoogleIDToken G rawToken expectedNonce auds
      | Some (nonce, claims) \<Rightarrow>
          if expectedNonce \<noteq> [] \<and> nonce \<noteq> expectedNonce then None
          else Option.bind claims identity_of_claims)"

fun exchangeCode :: "google_lib \<Rightarrow> google_provider \<Rightarrow> string \<Rightarrow> string \<Rightarrow> string \<Rightarrow> google_identity option" where
  "exchangeCode G DisabledGoogle code codeVerifier nonce = None"
| "exchangeCode G (LiveGoogle clientID clientSecret redirectURL auds) code codeVerifier nonce =
     (case gl_exchange G (trimSpace code) codeVerifier of
        None \<Rightarrow> None
      | Some rawIDToken \<Rightarrow>
          if trimSpace rawIDToken = [] then None
          else verifyGoogleIDToken G rawIDToken nonce [clientID])"

fun verifyIDToken :: "google_lib \<Rightarrow> google_provider \<Rightarrow> string \<Rightarrow> google_identity option" where
  "verifyIDToken G DisabledGoogle rawToken = None"
| "verifyIDToken G (LiveGoogle clientID clientSecret redirectURL auds) rawToken =
     (if auds = [] then None else verifyGoogleIDToken G rawToken [] auds)"

fun authCodeURL :: "google_lib \<Rightarrow> google_provider \<Rightarrow> string \<Rightarrow> string \<Rightarrow> string \<Rightarrow> string" where
  "authCodeURL G DisabledGoogle state nonce challenge = []"
| "authCodeURL G (LiveGoogle clientID clientSecret redirectURL auds) state nonce challenge =
     gl_authCodeURL G clientID redirectURL state nonce challenge"

text \<open>An accepted token is genuine for one of the audiences, carries the expected nonce, and its
  address is verified and well-formed.\<close>

lemma verifyGoogleIDToken_ok:
  "verifyGoogleIDToken G raw nonce auds = Some ident \<Longrightarrow>
   \<exists>aud \<in> set auds. \<exists>n c. gl_verify G aud (trimSpace raw) = Some (n, Some c)
     \<and> (nonce = [] \<or> n = nonce) \<and> identity_of_claims c = Some ident"
  by (induction auds) (auto split: option.splits if_splits prod.splits simp: bind_eq_Some_conv)

lemma identity_of_claims_ok:
  "identity_of_claims c = Some ident \<Longrightarrow>
   gi_emailVerified ident \<and> gi_subject ident \<noteq> [] \<and> gc_emailVerified c \<and> validEmail (gc_email c)
   \<and> gi_email ident = normalizeEmail (gc_email c)"
  by (auto simp: identity_of_claims_def split: if_splits)

end
