(* ===== verification/Smtp.thy ===== *)
theory Smtp
  imports Http
begin

text \<open>
  What the mailer uses of Go's \<open>net/smtp\<close>: the client with its greeting, the extensions of the server, \<open>StartTLS\<close>,
  plain authentication, the envelope, the data and \<open>Quit\<close>. What the client does is a list of events, the newest
  first; the server is a function that answers the newest event, seeing all of them. No answer stands for a broken
  connection, a failed handshake, a timeout or a malformed reply.
\<close>

subsection \<open>The server\<close>

datatype smtp_event =
    Connected string
  | Handshake string
  | Sent string
  | Message string

type_synonym smtp_reply = "nat \<times> string list"
type_synonym smtp_peer = "smtp_event list \<Rightarrow> smtp_reply option"

text \<open>A code of one or two digits stands for every code that begins with them, zero for all codes.\<close>

definition expected_code :: "nat \<Rightarrow> nat \<Rightarrow> bool" where
  "expected_code e c \<longleftrightarrow>
     (if e = 0 then True else if e < 10 then c div 100 = e else if e < 100 then c div 10 = e else c = e)"

subsection \<open>The client\<close>

record smtp_client =
  sm_serverName :: string
  sm_tls :: bool
  sm_ext :: "string list option"
  sm_log :: "smtp_event list"

definition smtp_event :: "smtp_peer \<Rightarrow> nat \<Rightarrow> smtp_event \<Rightarrow> smtp_client \<Rightarrow> smtp_reply option \<times> smtp_client" where
  "smtp_event P e ev c =
     (case P (ev # sm_log c) of
        None \<Rightarrow> (None, c\<lparr>sm_log := ev # sm_log c\<rparr>)
      | Some (n, ls) \<Rightarrow> (if expected_code e n then Some (n, ls) else None, c\<lparr>sm_log := ev # sm_log c\<rparr>))"

abbreviation smtp_cmd :: "smtp_peer \<Rightarrow> nat \<Rightarrow> string \<Rightarrow> smtp_client \<Rightarrow> smtp_reply option \<times> smtp_client" where
  "smtp_cmd P e line \<equiv> smtp_event P e (Sent line)"

text \<open>Of an extension only its name is used. The first line of the reply is the greeting.\<close>

definition smtp_ehlo :: "smtp_peer \<Rightarrow> smtp_client \<Rightarrow> bool \<times> smtp_client" where
  "smtp_ehlo P c =
     (case smtp_cmd P 250 ''EHLO localhost'' c of
        (None, c1) \<Rightarrow> (False, c1)
      | (Some (_, ls), c1) \<Rightarrow> (True, c1\<lparr>sm_ext := Some (map (\<lambda>l. fst (cut_at CHR '' '' l)) (tl ls))\<rparr>))"

definition smtp_helo :: "smtp_peer \<Rightarrow> smtp_client \<Rightarrow> bool \<times> smtp_client" where
  "smtp_helo P c =
     (case smtp_cmd P 250 ''HELO localhost'' (c\<lparr>sm_ext := None\<rparr>) of (rs, c1) \<Rightarrow> (rs \<noteq> None, c1))"

text \<open>The greeting is sent once, before anything else; whether it failed is remembered by the library.\<close>

definition smtp_hello :: "smtp_peer \<Rightarrow> smtp_client \<Rightarrow> bool \<times> smtp_client" where
  "smtp_hello P c = (case smtp_ehlo P c of (True, c1) \<Rightarrow> (True, c1) | (False, c1) \<Rightarrow> smtp_helo P c1)"

definition has_extension :: "string \<Rightarrow> smtp_client \<Rightarrow> bool" where
  "has_extension e c \<longleftrightarrow> (case sm_ext c of None \<Rightarrow> False | Some es \<Rightarrow> e \<in> set es)"

text \<open>The handshake happens when the client greets the server again.\<close>

definition startTLS :: "smtp_peer \<Rightarrow> string \<Rightarrow> smtp_client \<Rightarrow> bool \<times> smtp_client" where
  "startTLS P serverName c =
     (case smtp_cmd P 220 ''STARTTLS'' c of
        (None, c1) \<Rightarrow> (False, c1)
      | (Some _, c1) \<Rightarrow>
          (case smtp_event P 0 (Handshake serverName) c1 of
             (None, c2) \<Rightarrow> (False, c2)
           | (Some _, c2) \<Rightarrow> smtp_ehlo P (c2\<lparr>sm_tls := True\<rparr>)))"

definition smtp_quit :: "smtp_peer \<Rightarrow> smtp_client \<Rightarrow> bool \<times> smtp_client" where
  "smtp_quit P c = (case smtp_cmd P 221 ''QUIT'' c of (rs, c1) \<Rightarrow> (rs \<noteq> None, c1))"

definition isLocalhost :: "string \<Rightarrow> bool" where
  "isLocalhost name \<longleftrightarrow> name = ''localhost'' \<or> name = ''127.0.0.1'' \<or> name = ''::1''"

text \<open>Base64 with the standard alphabet and padding.\<close>

definition base64_std :: "string \<Rightarrow> string" where
  "base64_std s =
     (let t = map (\<lambda>c. if c = CHR ''-'' then CHR ''+'' else if c = CHR ''_'' then CHR ''/'' else c)
                (b64_encode (map of_char s))
      in t @ replicate ((4 - length t mod 4) mod 4) CHR ''='')"

definition plain_response :: "string \<Rightarrow> string \<Rightarrow> string" where
  "plain_response username password = base64_std ([CHR 0x00] @ username @ [CHR 0x00] @ password)"

text \<open>
  \<open>Client.Auth\<close> with \<open>PlainAuth\<close> for a host. Plain authentication refuses a connection in clear text to another
  machine and a server of another name, before anything is sent; a challenge or a refusal by the server aborts it.
\<close>

definition smtp_auth :: "smtp_peer \<Rightarrow> string \<Rightarrow> string \<Rightarrow> string \<Rightarrow> smtp_client \<Rightarrow> bool \<times> smtp_client" where
  "smtp_auth P username password host c =
     (if (\<not> sm_tls c \<and> \<not> isLocalhost (sm_serverName c)) \<or> sm_serverName c \<noteq> host
      then (False, snd (smtp_quit P c))
      else
        (case smtp_cmd P 0 (''AUTH PLAIN '' @ plain_response username password) c of
           (None, c1) \<Rightarrow> (False, c1)
         | (Some (code, _), c1) \<Rightarrow>
             if code = 235 then (True, c1)
             else (False, snd (smtp_quit P (snd (smtp_cmd P 501 ''*'' c1))))))"

subsection \<open>The envelope and the data\<close>

definition one_line :: "string \<Rightarrow> bool" where
  "one_line s \<longleftrightarrow> CHR 0x0A \<notin> set s \<and> CHR 0x0D \<notin> set s"

definition mail_command :: "string \<Rightarrow> smtp_client \<Rightarrow> string" where
  "mail_command from' c =
     ''MAIL FROM:<'' @ from' @ ''>'' @ (if has_extension ''8BITMIME'' c then '' BODY=8BITMIME'' else [])
     @ (if has_extension ''SMTPUTF8'' c then '' SMTPUTF8'' else [])"

definition smtp_mail :: "smtp_peer \<Rightarrow> string \<Rightarrow> smtp_client \<Rightarrow> bool \<times> smtp_client" where
  "smtp_mail P from' c =
     (if \<not> one_line from' then (False, c)
      else case smtp_cmd P 250 (mail_command from' c) c of (rs, c1) \<Rightarrow> (rs \<noteq> None, c1))"

definition smtp_rcpt :: "smtp_peer \<Rightarrow> string \<Rightarrow> smtp_client \<Rightarrow> bool \<times> smtp_client" where
  "smtp_rcpt P to c =
     (if \<not> one_line to then (False, c)
      else case smtp_cmd P 25 (''RCPT TO:<'' @ to @ ''>'') c of (rs, c1) \<Rightarrow> (rs \<noteq> None, c1))"

definition smtp_data :: "smtp_peer \<Rightarrow> smtp_client \<Rightarrow> bool \<times> smtp_client" where
  "smtp_data P c = (case smtp_cmd P 354 ''DATA'' c of (rs, c1) \<Rightarrow> (rs \<noteq> None, c1))"

text \<open>
  What the writer is given and its \<open>Close\<close>, one event: a failed write is a broken connection. The library doubles
  leading dots and ends the data; the content here is what was written.
\<close>

definition smtp_content :: "smtp_peer \<Rightarrow> string \<Rightarrow> smtp_client \<Rightarrow> bool \<times> smtp_client" where
  "smtp_content P message c = (case smtp_event P 250 (Message message) c of (rs, c1) \<Rightarrow> (rs \<noteq> None, c1))"

end
