(* ===== verification/Mailer.thy ===== *)
theory Mailer
  imports Smtp
begin

text \<open>
  \<open>internal/auth/mailer.go\<close>: the choice of the mailer, the message, and the dialogue with the SMTP server, which
  is a parameter (\<open>smtp_peer\<close>). Sending returns whether it succeeded and what was done, the newest event first.
\<close>

record smtp_config =
  smc_host :: string
  smc_port :: string
  smc_username :: string
  smc_password :: string
  smc_from :: string

datatype mailer =
    DisabledMailer
  | SMTPMailer string string string string string

definition newSMTPMailer :: "smtp_config \<Rightarrow> mailer" where
  "newSMTPMailer cfg =
     (let host = trimSpace (smc_host cfg);
          port = (if trimSpace (smc_port cfg) = [] then ''587'' else trimSpace (smc_port cfg));
          from' = (if trimSpace (smc_from cfg) = [] then trimSpace (smc_username cfg) else trimSpace (smc_from cfg))
      in if host = [] \<or> from' = [] \<or> trimSpace (smc_username cfg) = [] \<or> trimSpace (smc_password cfg) = []
         then DisabledMailer
         else SMTPMailer host port (trimSpace (smc_username cfg)) (smc_password cfg) from')"

subsection \<open>The message\<close>

definition joinHostPort :: "string \<Rightarrow> string \<Rightarrow> string" where
  "joinHostPort host port =
     (if CHR '':'' \<in> set host then ''['' @ host @ '']:'' @ port else host @ '':'' @ port)"

definition mail_lines :: "string \<Rightarrow> string \<Rightarrow> string \<Rightarrow> string list" where
  "mail_lines from' to code =
     [''From: ZenMind <'' @ from' @ ''>'',
      ''To: '' @ to,
      ''Subject: Your ZenMind verification code'',
      ''MIME-Version: 1.0'',
      ''Content-Type: text/plain; charset=UTF-8'',
      [],
      ''Your ZenMind verification code is '' @ code @ ''. It expires in 10 minutes.'' @ [CHR 0x0A, CHR 0x0A]
      @ ''If you did not request this code, you can ignore this email.'' @ [CHR 0x0A]]"

definition mail_message :: "string \<Rightarrow> string \<Rightarrow> string \<Rightarrow> string" where
  "mail_message from' to code = join_with [CHR 0x0D, CHR 0x0A] (mail_lines from' to code)"

subsection \<open>The dialogue\<close>

text \<open>The steps after the connection is encrypted, if the server offers that; the first failure ends them.\<close>

definition deliver ::
  "smtp_peer \<Rightarrow> string \<Rightarrow> string \<Rightarrow> string \<Rightarrow> string \<Rightarrow> string \<Rightarrow> string \<Rightarrow> smtp_client \<Rightarrow> bool \<times> smtp_client" where
  "deliver P host username password from' to message c0 =
     (case smtp_auth P username password host c0 of
        (False, c) \<Rightarrow> (False, c)
      | (True, c1) \<Rightarrow>
          (case smtp_mail P from' c1 of
             (False, c) \<Rightarrow> (False, c)
           | (True, c2) \<Rightarrow>
               (case smtp_rcpt P to c2 of
                  (False, c) \<Rightarrow> (False, c)
                | (True, c3) \<Rightarrow>
                    (case smtp_data P c3 of
                       (False, c) \<Rightarrow> (False, c)
                     | (True, c4) \<Rightarrow>
                         (case smtp_content P message c4 of
                            (False, c) \<Rightarrow> (False, c)
                          | (True, c5) \<Rightarrow> smtp_quit P c5)))))"

text \<open>
  A greeting that failed makes \<open>Extension\<close> answer no, and the next call, \<open>Auth\<close>, fails with the remembered error
  before it sends anything.
\<close>

definition talk ::
  "smtp_peer \<Rightarrow> string \<Rightarrow> string \<Rightarrow> string \<Rightarrow> string \<Rightarrow> string \<Rightarrow> string \<Rightarrow> smtp_client \<Rightarrow> bool \<times> smtp_client" where
  "talk P host username password from' to message c0 =
     (case smtp_hello P c0 of
        (False, c1) \<Rightarrow> (False, c1)
      | (True, c1) \<Rightarrow>
          (case (if has_extension ''STARTTLS'' c1 then startTLS P host c1 else (True, c1)) of
             (False, c2) \<Rightarrow> (False, c2)
           | (True, c2) \<Rightarrow> deliver P host username password from' to message c2))"

text \<open>The server greets with code 220 as soon as it is connected.\<close>

fun sendEmailCode :: "smtp_peer \<Rightarrow> mailer \<Rightarrow> string \<Rightarrow> string \<Rightarrow> bool \<times> smtp_event list" where
  "sendEmailCode P DisabledMailer to code = (False, [])"
| "sendEmailCode P (SMTPMailer host port username password from') to code =
     (if normalizeEmail to = [] then (False, [])
      else
        (case smtp_event P 220 (Connected (joinHostPort host port))
                \<lparr>sm_serverName = host, sm_tls = False, sm_ext = None, sm_log = []\<rparr> of
           (None, c) \<Rightarrow> (False, sm_log c)
         | (Some _, c) \<Rightarrow>
             apsnd sm_log (talk P host username password from' (normalizeEmail to)
               (mail_message from' (normalizeEmail to) code) c)))"

end
