(* ===== verification/Auth_Server.thy ===== *)
theory Auth_Server
  imports Rate_Limit_Laws Avatar_Proxy Desktop_Jwt Google_Provider Mailer
begin

text \<open>
  \<open>internal/auth/server.go\<close>: the server's configuration, the state it works on, and the helpers of
  its handlers (redirect targets, cookies, sessions, tickets, CSRF). Library services are the
  fields of \<open>libs\<close>; the engine of the database, with the clock that \<open>s.now()\<close> reads, is the
  \<^typ>\<open>dbenv\<close> of the request.
\<close>

subsection \<open>Configuration\<close>

record libs =
  lib_bcryptCompare :: "string \<Rightarrow> string \<Rightarrow> bool"
  lib_bcryptHash :: "string \<Rightarrow> string option"
  lib_jwt :: jwt_lib
  lib_google :: google_lib
  lib_smtp :: smtp_peer

record server_options =
  op_cookieName :: string
  op_cookieSecure :: bool
  op_sessionTTL :: int
  op_trustedProxyCIDRs :: "string list"
  op_google :: google_provider
  op_authLoginURL :: string
  op_authSuccessURL :: string
  op_authFailureURL :: string
  op_ssoBridgeToken :: string
  op_desktopSSOProvider :: string
  op_desktopTicketTTL :: int
  op_desktopJWT :: jwt_config
  op_marketServerURL :: string
  op_marketProxyToken :: string
  op_marketJWTAudience :: string
  op_marketJWTTTL :: int
  op_mailer :: mailer
  op_avatarProxy :: avatar_config

record server =
  sv_cookieName :: string
  sv_cookieSecure :: bool
  sv_sessionTTL :: int
  sv_trusted :: "ip_prefix list"
  sv_google :: google_provider
  sv_authLoginURL :: string
  sv_authOrigin :: string
  sv_authSuccessURL :: string
  sv_authFailureURL :: string
  sv_ssoBridgeToken :: string
  sv_desktopSSOProvider :: string
  sv_desktopTicketTTL :: int
  sv_jwt :: jwt_signer
  sv_marketServerURL :: string
  sv_marketProxyToken :: string
  sv_marketJWTAudience :: string
  sv_marketJWTTTL :: int
  sv_mailer :: mailer
  sv_avatarProxy :: avatar_proxy

text \<open>What a request may change: the database, the limiter, the random stream, and what was
  done with the mail server, the newest event first.\<close>

record world =
  w_db :: db
  w_limiter :: rate_limiter
  w_rnd :: string
  w_smtp :: "smtp_event list"

subsection \<open>Redirect targets\<close>

definition safeRelativeRedirect :: "string \<Rightarrow> string" where
  "safeRelativeRedirect v0 =
     (let v = trimSpace v0 in
      if v = [] \<or> prefix ''//'' v \<or> list_ex (\<lambda>c. byte c = 13 \<or> byte c = 10 \<or> byte c = 92) v then ''/''
      else
        (case url_parse v of
           None \<Rightarrow> ''/''
         | Some u \<Rightarrow>
             if url_scheme u \<noteq> [] \<or> url_host u \<noteq> [] \<or> \<not> prefix ''/'' (url_path u) then ''/''
             else url_string u))"

definition isAllowedDesktopCallbackURL :: "string \<Rightarrow> bool" where
  "isAllowedDesktopCallbackURL v =
     (case url_parse (trimSpace v) of
        None \<Rightarrow> False
      | Some u \<Rightarrow>
          (let hostname = toLower (url_hostname u) in
           if url_scheme u \<noteq> ''http'' \<or> (hostname \<noteq> ''127.0.0.1'' \<and> hostname \<noteq> ''localhost'') \<or> url_port u = []
           then False
           else if \<not> list_all is_digit (url_port u) \<or> digits_val (url_port u) = 0 \<or> 65535 < digits_val (url_port u)
           then False
           else if url_path u \<noteq> ''/api/auth/oidc/callback'' then False
           else url_user u = None \<and> url_rawQuery u = [] \<and> url_fragment u = []))"

record desktop_context =
  dc_oauthState :: string
  dc_callbackURL :: string
  dc_desktopState :: string

definition set_nonempty :: "(string \<times> string) list \<Rightarrow> query_values \<Rightarrow> query_values" where
  "set_nonempty vs q = foldl (\<lambda>q (k, v). if trimSpace v \<noteq> [] then values_set k v q else q) q vs"

definition buildDesktopCallbackURL :: "desktop_context \<Rightarrow> (string \<times> string) list \<Rightarrow> string" where
  "buildDesktopCallbackURL ctx vs =
     (case url_parse (dc_callbackURL ctx) of
        None \<Rightarrow> dc_callbackURL ctx
      | Some u \<Rightarrow>
          url_string (u\<lparr>url_rawQuery :=
            values_encode (set_nonempty vs (values_set ''state'' (dc_desktopState ctx) (url_query u)))\<rparr>))"

definition redirectDesktopSuccess :: "desktop_context \<Rightarrow> string \<Rightarrow> response" where
  "redirectDesktopSuccess ctx ticket = redirect (buildDesktopCallbackURL ctx [(''ticket'', ticket)])"

definition redirectDesktopFailure :: "desktop_context \<Rightarrow> string \<Rightarrow> response" where
  "redirectDesktopFailure ctx reason = redirect (buildDesktopCallbackURL ctx [(''error'', reason)])"

definition failureURL :: "server \<Rightarrow> string \<Rightarrow> string" where
  "failureURL S reason =
     (let target = (if sv_authFailureURL S = [] then ''/login'' else sv_authFailureURL S)
      in case url_parse target of
           None \<Rightarrow> target
         | Some u \<Rightarrow> url_string (u\<lparr>url_rawQuery := values_encode (values_set ''error'' reason (url_query u))\<rparr>))"

definition redirectFailure :: "server \<Rightarrow> string \<Rightarrow> response" where
  "redirectFailure S reason = redirect (failureURL S reason)"

text \<open>
  The redirect to the login page. The code ignores the parse error of the configured URL and would
  dereference a nil URL; that is the value \<^const>\<open>None\<close>.
\<close>

definition login_redirect :: "server \<Rightarrow> string option" where
  "login_redirect S =
     map_option (\<lambda>u. url_string (u\<lparr>url_rawQuery :=
         values_encode (values_set ''desktop'' ''1''
           (values_set ''return_to'' ''/api/auth/desktop-sso/continue'' (url_query u)))\<rparr>))
       (url_parse (sv_authLoginURL S))"

definition singleJoiningSlash :: "string \<Rightarrow> string \<Rightarrow> string" where
  "singleJoiningSlash left right =
     (if suffix ''/'' left \<and> prefix ''/'' right then left @ tl right
      else if \<not> suffix ''/'' left \<and> \<not> prefix ''/'' right then left @ ''/'' @ right
      else left @ right)"

subsection \<open>The server\<close>

definition normalizeDesktopSSOProvider :: "string \<Rightarrow> string" where
  "normalizeDesktopSSOProvider v0 =
     (let v = toLower (trimSpace v0);
          kept = filter (\<lambda>c. is_lower c \<or> is_digit c \<or> c = CHR ''_'' \<or> c = CHR ''-'') v
      in if v = [] \<or> kept = [] then ''first_party'' else kept)"

definition newServer :: "libs \<Rightarrow> server_options \<Rightarrow> server" where
  "newServer X opts =
     (let loginURL = trimSpace (op_authLoginURL opts); aud = trimSpace (op_marketJWTAudience opts) in
      \<lparr>sv_cookieName = (if op_cookieName opts = [] then ''zenmind_session'' else op_cookieName opts),
       sv_cookieSecure = op_cookieSecure opts,
       sv_sessionTTL = (if op_sessionTTL opts \<le> 0 then 24 * hour else op_sessionTTL opts),
       sv_trusted = parseTrustedProxyCIDRs (op_trustedProxyCIDRs opts),
       sv_google = op_google opts,
       sv_authLoginURL = safeRelativeRedirect (if loginURL = [] then ''/login'' else loginURL),
       sv_authOrigin = originFromURL (op_authSuccessURL opts),
       sv_authSuccessURL = trimSpace (op_authSuccessURL opts),
       sv_authFailureURL = trimSpace (op_authFailureURL opts),
       sv_ssoBridgeToken = trimSpace (op_ssoBridgeToken opts),
       sv_desktopSSOProvider = normalizeDesktopSSOProvider (op_desktopSSOProvider opts),
       sv_desktopTicketTTL = (if op_desktopTicketTTL opts \<le> 0 then 2 * minute else op_desktopTicketTTL opts),
       sv_jwt = newIdentityJWTSigner (lib_jwt X) (op_desktopJWT opts),
       sv_marketServerURL = trimRight_char CHR ''/'' (trimSpace (op_marketServerURL opts)),
       sv_marketProxyToken = trimSpace (op_marketProxyToken opts),
       sv_marketJWTAudience = (if aud = [] then ''market'' else aud),
       sv_marketJWTTTL = (if op_marketJWTTTL opts \<le> 0 then 90 * second else op_marketJWTTTL opts),
       sv_mailer = op_mailer opts,
       sv_avatarProxy = newAvatarProxy (op_avatarProxy opts)\<rparr>)"

definition ensureInitialAdmin :: "libs \<Rightarrow> dbenv \<Rightarrow> string \<Rightarrow> string \<Rightarrow> db \<Rightarrow> unit store_result" where
  "ensureInitialAdmin X E email password d =
     (if trimSpace password = [] then (Inl ErrAdminPasswordEmpty, d)
      else
        (case lib_bcryptHash X password of
           None \<Rightarrow> (Inl ErrDatabase, d)
         | Some h \<Rightarrow> EnsureAdmin E email h d))"

definition desktopSSOAuthMethod :: "server \<Rightarrow> string" where
  "desktopSSOAuthMethod S = ''desktop_'' @ normalizeDesktopSSOProvider (sv_desktopSSOProvider S)"

definition isTrustedDesktopSsoBridgeRequest :: "server \<Rightarrow> request \<Rightarrow> bool" where
  "isTrustedDesktopSsoBridgeRequest S r \<longleftrightarrow>
     sv_ssoBridgeToken S \<noteq> [] \<and> trimSpace (hdr r ''X-ZenMind-SSO-Bridge-Token'') = sv_ssoBridgeToken S"

subsection \<open>Cookies\<close>

definition sessionCookie :: "server \<Rightarrow> string \<Rightarrow> int \<Rightarrow> cookie" where
  "sessionCookie S token expiresAt =
     \<lparr>ck_name = sv_cookieName S, ck_value = token, ck_path = ''/'', ck_expires = expiresAt, ck_maxAge = 0,
      ck_httpOnly = True, ck_secure = sv_cookieSecure S, ck_sameSiteLax = True\<rparr>"

definition expiredNamedCookie :: "server \<Rightarrow> string \<Rightarrow> cookie" where
  "expiredNamedCookie S name =
     \<lparr>ck_name = name, ck_value = [], ck_path = ''/'', ck_expires = 0, ck_maxAge = -1,
      ck_httpOnly = True, ck_secure = sv_cookieSecure S, ck_sameSiteLax = True\<rparr>"

definition expiredCookie :: "server \<Rightarrow> cookie" where
  "expiredCookie S = expiredNamedCookie S (sv_cookieName S)"

definition desktopSsoBridgeCallbackCookieName :: "server \<Rightarrow> string" where
  "desktopSsoBridgeCallbackCookieName S = sv_cookieName S @ ''_desktop_sso_bridge_callback''"

definition desktopSsoBridgeStateCookieName :: "server \<Rightarrow> string" where
  "desktopSsoBridgeStateCookieName S = sv_cookieName S @ ''_desktop_sso_bridge_state''"

definition desktopSsoBridgeCookie :: "server \<Rightarrow> int \<Rightarrow> string \<Rightarrow> string \<Rightarrow> cookie" where
  "desktopSsoBridgeCookie S now name v =
     \<lparr>ck_name = name, ck_value = v, ck_path = ''/'', ck_expires = now + 10 * minute, ck_maxAge = 600,
      ck_httpOnly = True, ck_secure = sv_cookieSecure S, ck_sameSiteLax = True\<rparr>"

definition clearDesktopSsoBridgeCookies :: "server \<Rightarrow> response \<Rightarrow> response" where
  "clearDesktopSsoBridgeCookies S rs =
     setCookie (expiredNamedCookie S (desktopSsoBridgeCallbackCookieName S))
       (setCookie (expiredNamedCookie S (desktopSsoBridgeStateCookieName S)) rs)"

text \<open>The context, whether any cookie was sent, and whether there was an error.\<close>

definition readDesktopSsoBridgeContext :: "server \<Rightarrow> request \<Rightarrow> desktop_context option \<times> bool" where
  "readDesktopSsoBridgeContext S r =
     (case (rq_cookie r (desktopSsoBridgeCallbackCookieName S), rq_cookie r (desktopSsoBridgeStateCookieName S)) of
        (None, None) \<Rightarrow> (None, False)
      | (Some cb, Some st) \<Rightarrow>
          (let ctx = \<lparr>dc_oauthState = [], dc_callbackURL = trimSpace cb, dc_desktopState = trimSpace st\<rparr>
           in if dc_desktopState ctx = [] \<or> \<not> isAllowedDesktopCallbackURL (dc_callbackURL ctx)
              then (None, True) else (Some ctx, True))
      | _ \<Rightarrow> (None, True))"

end
