(* ===== verification/Auth_Session.thy ===== *)
theory Auth_Session
  imports Auth_Server
begin

text \<open>
  The session, ticket, CSRF and bookkeeping helpers of \<open>server.go\<close> and \<open>request_security.go\<close> on the
  server's state. Every helper returns the state after its calls, also where it reports an error.
\<close>

definition serverNow :: "dbenv \<Rightarrow> int" where
  "serverNow E = db_now E"

definition clientIP :: "server \<Rightarrow> request \<Rightarrow> string" where
  "clientIP S r = requestIP (sv_trusted S) r"

subsection \<open>Reading the session\<close>

definition sessionToken :: "server \<Rightarrow> request \<Rightarrow> string option" where
  "sessionToken S r =
     (case rq_cookie r (sv_cookieName S) of
        None \<Rightarrow> None
      | Some v \<Rightarrow> if trimSpace v = [] then None else Some (trimSpace v))"

definition currentUser :: "server \<Rightarrow> dbenv \<Rightarrow> request \<Rightarrow> db \<Rightarrow> user store_result" where
  "currentUser S E r d =
     (case rq_cookie r (sv_cookieName S) of
        None \<Rightarrow> (Inl ErrNotFound, d)
      | Some v \<Rightarrow> if v = [] then (Inl ErrNotFound, d) else FindUserBySession E (tokenHash v) (serverNow E) d)"

subsection \<open>Guards\<close>

text \<open>A guard gives the response with which the handler stops, if it stops.\<close>

definition originAllowed :: "server \<Rightarrow> request \<Rightarrow> bool" where
  "originAllowed S r = validRequestOrigin (sv_trusted S) (sv_authOrigin S) r"

definition requireValidOrigin :: "server \<Rightarrow> request \<Rightarrow> response option" where
  "requireValidOrigin S r =
     (if originAllowed S r then None
      else Some (writeError 403 ''origin_failed'' ''Request origin is not allowed.''))"

definition requireCSRF :: "server \<Rightarrow> dbenv \<Rightarrow> request \<Rightarrow> db \<Rightarrow> response option" where
  "requireCSRF S E r d =
     (case sessionToken S r of
        None \<Rightarrow> Some (writeError 401 ''unauthorized'' ''Login required.'')
      | Some token \<Rightarrow>
          (case fst (FindSessionCSRF E (tokenHash token) (serverNow E) d) of
             Inl e \<Rightarrow> Some (writeError 401 ''unauthorized'' ''Session is invalid or expired.'')
           | Inr expected \<Rightarrow>
               if expected \<noteq> trimSpace (hdr r ''X-CSRF-Token'')
               then Some (writeError 403 ''csrf_failed'' ''CSRF token is invalid.'')
               else if \<not> originAllowed S r
               then Some (writeError 403 ''origin_failed'' ''Request origin is not allowed.'')
               else None))"

subsection \<open>Bookkeeping\<close>

definition recordLogin :: "server \<Rightarrow> dbenv \<Rightarrow> request \<Rightarrow> login_log \<Rightarrow> world \<Rightarrow> world" where
  "recordLogin S E r entry w =
     w\<lparr>w_db := snd (RecordLogin E
          (entry\<lparr>ll_ip := clientIP S r, ll_userAgent := userAgent r, ll_loginAt := serverNow E\<rparr>) (w_db w))\<rparr>"

text \<open>The three shapes of log entries the handlers make.\<close>

definition anonymousFailure :: "string \<Rightarrow> string \<Rightarrow> string \<Rightarrow> string \<Rightarrow> login_log" where
  "anonymousFailure email displayName authMethod reason =
     emptyLog\<lparr>ll_email := email, ll_displayName := displayName, ll_authMethod := authMethod,
              ll_loginResult := ''failure'', ll_failureReason := reason\<rparr>"

definition userFailure :: "user \<Rightarrow> string \<Rightarrow> string \<Rightarrow> login_log" where
  "userFailure u authMethod reason =
     emptyLog\<lparr>ll_userID := Some (usr_id u), ll_email := usr_email u, ll_displayName := usr_displayName u,
              ll_authMethod := authMethod, ll_loginResult := ''failure'', ll_failureReason := reason\<rparr>"

definition userSuccess :: "user \<Rightarrow> string \<Rightarrow> login_log" where
  "userSuccess u authMethod =
     emptyLog\<lparr>ll_userID := Some (usr_id u), ll_email := usr_email u, ll_displayName := usr_displayName u,
              ll_authMethod := authMethod, ll_loginResult := ''success''\<rparr>"

definition touchLastLogin :: "dbenv \<Rightarrow> user \<Rightarrow> world \<Rightarrow> world" where
  "touchLastLogin E u w = w\<lparr>w_db := snd (TouchLastLogin E (usr_id u) (serverNow E) (w_db w))\<rparr>"

subsection \<open>New sessions and tickets\<close>

record new_session =
  ns_token :: string
  ns_csrf :: string
  ns_expiresAt :: int

definition createSession :: "server \<Rightarrow> dbenv \<Rightarrow> request \<Rightarrow> int \<Rightarrow> world \<Rightarrow> new_session option \<times> world" where
  "createSession S E r userID w =
     (case randomToken (w_rnd w) of
        None \<Rightarrow> (None, w)
      | Some (token, rnd1) \<Rightarrow>
          (case randomToken rnd1 of
             None \<Rightarrow> (None, w\<lparr>w_rnd := rnd1\<rparr>)
           | Some (csrfToken, rnd2) \<Rightarrow>
               (let expiresAt = serverNow E + sv_sessionTTL S in
                case CreateSession E userID (tokenHash token) csrfToken expiresAt (userAgent r) (clientIP S r) (w_db w) of
                  (Inl e, d) \<Rightarrow> (None, w\<lparr>w_rnd := rnd2, w_db := d\<rparr>)
                | (Inr _, d) \<Rightarrow>
                    (Some \<lparr>ns_token = token, ns_csrf = csrfToken, ns_expiresAt = expiresAt\<rparr>,
                     w\<lparr>w_rnd := rnd2, w_db := d\<rparr>))))"

definition createDesktopSsoTicket :: "server \<Rightarrow> dbenv \<Rightarrow> request \<Rightarrow> int \<Rightarrow> world \<Rightarrow> string option \<times> world" where
  "createDesktopSsoTicket S E r userID w =
     (case randomToken (w_rnd w) of
        None \<Rightarrow> (None, w)
      | Some (ticket, rnd1) \<Rightarrow>
          (case SaveDesktopSsoTicket E userID (tokenHash ticket) (serverNow E + sv_desktopTicketTTL S)
                  (clientIP S r) (userAgent r) (w_db w) of
             (Inl e, d) \<Rightarrow> (None, w\<lparr>w_rnd := rnd1, w_db := d\<rparr>)
           | (Inr _, d) \<Rightarrow> (Some ticket, w\<lparr>w_rnd := rnd1, w_db := d\<rparr>)))"

text \<open>What a request may ask of the limiter.\<close>

definition limited :: "string \<Rightarrow> int \<Rightarrow> dbenv \<Rightarrow> world \<Rightarrow> bool \<times> world" where
  "limited key limit E w =
     (case allow (w_limiter w) key limit (15 * minute) (serverNow E) of
        (ok, l) \<Rightarrow> (\<not> ok, w\<lparr>w_limiter := l\<rparr>))"

subsection \<open>Public user data\<close>

definition publicUser :: "server \<Rightarrow> user \<Rightarrow> json" where
  "publicUser S u =
     JObj [(''id'', JInt (usr_id u)), (''email'', JStr (usr_email u)), (''role'', JStr (usr_role u)),
           (''enabled'', JBool (usr_enabled u)), (''displayName'', JStr (usr_displayName u)),
           (''avatarUrl'', JStr (publicURL (sv_avatarProxy S) u)),
           (''authProvider'', JStr (usr_authProvider u)),
           (''lastLoginAt'', (case usr_lastLoginAt u of None \<Rightarrow> JNull | Some t \<Rightarrow> JTime t))]"

subsection \<open>Identity headers of the SSO proxy\<close>

fun headerFirst :: "request \<Rightarrow> string list \<Rightarrow> string" where
  "headerFirst r [] = []"
| "headerFirst r (name # names) =
     (if trimSpace (hdr r name) \<noteq> [] then trimSpace (hdr r name) else headerFirst r names)"

definition authentikIdentityFromRequest :: "request \<Rightarrow> authentik_identity" where
  "authentikIdentityFromRequest r =
     (let username = headerFirst r [''X-Authentik-Username''];
          email0 = normalizeEmail (headerFirst r [''X-Authentik-Email'']);
          email = (if email0 = [] \<and> validEmail username then normalizeEmail username else email0)
      in \<lparr>ai_subject = headerFirst r [''X-Authentik-Uid'', ''X-Authentik-Subject'', ''X-Authentik-User-Id''],
          ai_email = email, ai_name = headerFirst r [''X-Authentik-Name''], ai_username = username,
          ai_picture = headerFirst r [''X-Authentik-Picture'', ''X-Authentik-Avatar'']\<rparr>)"

end
