(* ===== verification/Login_Handlers.thy ===== *)
theory Login_Handlers
  imports Auth_Session
begin

text \<open>
  The login handlers of \<open>server.go\<close>: password login of local users, e-mail codes, Google, the SSO
  bridge, and the session endpoints \<open>csrf\<close>, \<open>me\<close> and \<open>logout\<close>. A request body is what the JSON
  decoder makes of it, \<^const>\<open>None\<close> where decoding fails.
\<close>

subsection \<open>Password login\<close>

record login_request =
  lr_email :: string
  lr_password :: string

text \<open>The end of a successful login that answers with the user: session, bookkeeping, cookie.\<close>

definition finish_login ::
  "server \<Rightarrow> dbenv \<Rightarrow> request \<Rightarrow> user \<Rightarrow> string \<Rightarrow> new_session \<Rightarrow> world \<Rightarrow> response \<times> world" where
  "finish_login S E r u authMethod ns w =
     (setCookie (sessionCookie S (ns_token ns) (ns_expiresAt ns))
        (writeJSON 200 (JObj [(''user'', publicUser S (u\<lparr>usr_lastLoginAt := Some (serverNow E)\<rparr>))])),
      recordLogin S E r (userSuccess u authMethod) (touchLastLogin E u w))"

definition login ::
  "libs \<Rightarrow> server \<Rightarrow> dbenv \<Rightarrow> request \<Rightarrow> login_request option \<Rightarrow> world \<Rightarrow> response \<times> world" where
  "login X S E r body w0 =
     (case requireValidOrigin S r of
        Some rs \<Rightarrow> (rs, w0)
      | None \<Rightarrow>
          (case body of
             None \<Rightarrow> (writeError 400 ''invalid_json'' ''Invalid login request.'', w0)
           | Some req \<Rightarrow>
               (case limited (''admin:'' @ clientIP S r @ '':'' @ normalizeEmail (lr_email req)) 5 E w0 of
                  (True, w) \<Rightarrow>
                    (writeError 429 ''rate_limited'' ''Too many login attempts. Please try again later.'', w)
                | (False, w) \<Rightarrow>
                    (case fst (FindLocalUserByEmail E (lr_email req) (w_db w)) of
                       Inl ErrNotFound \<Rightarrow>
                         (writeError 401 ''invalid_credentials'' ''Email or password is incorrect.'',
                          recordLogin S E r (anonymousFailure (lr_email req) [] ''local'' ''invalid_credentials'') w)
                     | Inl _ \<Rightarrow> (writeError 500 ''server_error'' ''Unable to read user account.'', w)
                     | Inr u \<Rightarrow>
                         if \<not> lib_bcryptCompare X (usr_passwordHash u) (lr_password req) then
                           (writeError 401 ''invalid_credentials'' ''Email or password is incorrect.'',
                            recordLogin S E r (anonymousFailure (lr_email req) [] ''local'' ''invalid_credentials'') w)
                         else if \<not> usr_enabled u then
                           (writeError 403 ''account_disabled'' ''This account is disabled.'',
                            recordLogin S E r (userFailure u ''local'' ''account_disabled'') w)
                         else
                           (case createSession S E r (usr_id u) w of
                              (None, w1) \<Rightarrow> (writeError 500 ''server_error'' ''Unable to save session.'', w1)
                            | (Some ns, w1) \<Rightarrow> finish_login S E r u ''local'' ns w1)))))"

subsection \<open>E-mail codes\<close>

definition emailCodeStart ::
  "libs \<Rightarrow> server \<Rightarrow> dbenv \<Rightarrow> request \<Rightarrow> string option \<Rightarrow> world \<Rightarrow> response \<times> world" where
  "emailCodeStart X S E r body w0 =
     (case requireValidOrigin S r of
        Some rs \<Rightarrow> (rs, w0)
      | None \<Rightarrow>
          (case body of
             None \<Rightarrow> (writeError 400 ''invalid_json'' ''Invalid verification request.'', w0)
           | Some email0 \<Rightarrow>
               (let email = normalizeEmail email0;
                    refused = writeError 429 ''rate_limited'' ''Too many verification requests. Please try again later.''
                in
                if \<not> validEmail email
                then (writeError 400 ''invalid_email'' ''Please enter a valid email address.'', w0)
                else
                  (case limited (''email-send:address:'' @ email) 3 E w0 of
                     (True, w1) \<Rightarrow> (refused, w1)
                   | (False, w1) \<Rightarrow>
                       (case limited (''email-send:ip:'' @ clientIP S r) 10 E w1 of
                          (True, w2) \<Rightarrow> (refused, w2)
                        | (False, w2) \<Rightarrow>
                            (case randomDigits 6 (w_rnd w2) of
                               None \<Rightarrow> (writeError 500 ''server_error'' ''Unable to create verification code.'', w2)
                             | Some (code, rnd) \<Rightarrow>
                                 (let w3 = w2\<lparr>w_rnd := rnd\<rparr>; expiresAt = serverNow E + 10 * minute in
                                  case SaveEmailCode E email (emailCodeHash email code) expiresAt (w_db w3) of
                                    (Inl e, d) \<Rightarrow>
                                      (writeError 500 ''server_error'' ''Unable to save verification code.'', w3\<lparr>w_db := d\<rparr>)
                                  | (Inr _, d) \<Rightarrow>
                                      (let w4 = w3\<lparr>w_db := d\<rparr> in
                                       case sendEmailCode (lib_smtp X) (sv_mailer S) email code of
                                         (sent, events) \<Rightarrow>
                                           (let w5 = w4\<lparr>w_smtp := events @ w_smtp w4\<rparr> in
                                            if sent
                                            then (writeJSON 200 (JObj [(''ok'', JBool True), (''expiresAt'', JTime expiresAt)]), w5)
                                            else (writeError 500 ''email_not_configured'' ''Unable to send verification email.'', w5))))))))))"

record verify_request =
  vr_email :: string
  vr_code :: string

definition emailCodeVerify ::
  "server \<Rightarrow> dbenv \<Rightarrow> request \<Rightarrow> verify_request option \<Rightarrow> world \<Rightarrow> response \<times> world" where
  "emailCodeVerify S E r body w0 =
     (case requireValidOrigin S r of
        Some rs \<Rightarrow> (rs, w0)
      | None \<Rightarrow>
          (case body of
             None \<Rightarrow> (writeError 400 ''invalid_json'' ''Invalid verification request.'', w0)
           | Some req \<Rightarrow>
               (let email = normalizeEmail (vr_email req);
                    code = trimSpace (vr_code req);
                    rejected = (\<lambda>w. (writeError 401 ''invalid_code'' ''Verification code is incorrect or expired.'',
                                     recordLogin S E r (anonymousFailure email [] ''email_code'' ''invalid_code'') w))
                in
                case limited (''email-verify:'' @ clientIP S r @ '':'' @ email) 10 E w0 of
                  (True, w1) \<Rightarrow>
                    (writeError 429 ''rate_limited'' ''Too many verification attempts. Please try again later.'', w1)
                | (False, w1) \<Rightarrow>
                    if \<not> validEmail email \<or> \<not> validEmailCode code then rejected w1
                    else
                      (case ConsumeEmailCode E email (emailCodeHash email code) (serverNow E) (w_db w1) of
                         (Inl e, d1) \<Rightarrow> rejected (w1\<lparr>w_db := d1\<rparr>)
                       | (Inr _, d1) \<Rightarrow>
                           (case UpsertEmailCodeUser E email d1 of
                              (Inl e, d2) \<Rightarrow>
                                (writeError 500 ''server_error'' ''Unable to save user account.'',
                                 recordLogin S E r (anonymousFailure email [] ''email_code'' ''user_upsert_failed'')
                                   (w1\<lparr>w_db := d2\<rparr>))
                            | (Inr u, d2) \<Rightarrow>
                                if \<not> usr_enabled u then
                                  (writeError 403 ''account_disabled'' ''This account is disabled.'',
                                   recordLogin S E r (userFailure u ''email_code'' ''account_disabled'') (w1\<lparr>w_db := d2\<rparr>))
                                else
                                  (case createSession S E r (usr_id u) (w1\<lparr>w_db := d2\<rparr>) of
                                     (None, w2) \<Rightarrow>
                                       (writeError 500 ''server_error'' ''Unable to save session.'',
                                        recordLogin S E r (userFailure u ''email_code'' ''session_create_failed'') w2)
                                   | (Some ns, w2) \<Rightarrow> finish_login S E r u ''email_code'' ns w2))))))"

subsection \<open>Session endpoints\<close>

definition csrf :: "server \<Rightarrow> dbenv \<Rightarrow> request \<Rightarrow> world \<Rightarrow> response \<times> world" where
  "csrf S E r w =
     (case sessionToken S r of
        None \<Rightarrow> (writeError 401 ''unauthorized'' ''Login required.'', w)
      | Some token \<Rightarrow>
          (case fst (FindSessionCSRF E (tokenHash token) (serverNow E) (w_db w)) of
             Inl e \<Rightarrow> (writeError 401 ''unauthorized'' ''Session is invalid or expired.'', w)
           | Inr t \<Rightarrow> (setHeader ''Cache-Control'' ''no-store'' (writeJSON 200 (JObj [(''csrfToken'', JStr t)])), w)))"

definition me :: "server \<Rightarrow> dbenv \<Rightarrow> request \<Rightarrow> world \<Rightarrow> response \<times> world" where
  "me S E r w0 =
     (case currentUser S E r (w_db w0) of
        (res, d) \<Rightarrow>
          (let w = w0\<lparr>w_db := d\<rparr> in
           case res of
             Inl ErrNotFound \<Rightarrow> (writeError 401 ''unauthorized'' ''Login required.'', w)
           | Inl (ErrDisabledUser u) \<Rightarrow> (writeError 403 ''account_disabled'' ''This account is disabled.'', w)
           | Inl _ \<Rightarrow> (writeError 500 ''server_error'' ''Unable to read session.'', w)
           | Inr u \<Rightarrow> (writeJSON 200 (JObj [(''user'', publicUser S u)]), w)))"

text \<open>The guard runs only for a request with a session token; the cookie is dropped in every case.\<close>

definition logout :: "server \<Rightarrow> dbenv \<Rightarrow> request \<Rightarrow> world \<Rightarrow> response \<times> world" where
  "logout S E r w =
     (case (if sessionToken S r = None then None else requireCSRF S E r (w_db w)) of
        Some rs \<Rightarrow> (rs, w)
      | None \<Rightarrow>
          (let d = (case rq_cookie r (sv_cookieName S) of
                      None \<Rightarrow> w_db w
                    | Some v \<Rightarrow> if v = [] then w_db w else snd (RevokeSession E (tokenHash v) (w_db w)))
           in (setCookie (expiredCookie S) (writeJSON 200 (JObj [(''ok'', JBool True)])), w\<lparr>w_db := d\<rparr>)))"

end
