(* ===== verification/Store_Properties.thy ===== *)
theory Store_Properties
  imports Store_Interfaces
begin

text \<open>
  The properties of the MySQL store: the integrity constraints in every reachable database, one-shot
  tickets, states and codes, sessions as a map, and what the user operations keep or refuse. The
  witnesses run the operations on a small database with a case-insensitive collation.
\<close>

subsection \<open>A concrete engine and database\<close>

definition sample_env :: "int \<Rightarrow> dbenv" where
  "sample_env now = \<lparr>db_collate = map lower_char, db_time = (\<lambda>t. t), db_dupId = True,
     db_fails = (\<lambda>_. False), db_now = now\<rparr>"

definition sample_db :: db where
  "sample_db =
     snd (SaveDesktopSsoTicket (sample_env 20) 1 ''ticket'' 100 ''1.2.3.4'' ''UA''
       (snd (CreateSession (sample_env 15) 1 ''session'' ''csrf'' 1000 ''UA'' ''1.2.3.4''
         (snd (UpsertEmailCodeUser (sample_env 10) ''a@b.co'' emptyDb)))))"

lemma sample_db_code [code]:
  "sample_db = \<lparr>db_users = [\<lparr>u_id = 1, u_email = ''a@b.co'', u_displayName = ''a@b.co'', u_avatarURL = [], u_provider = ''email_code'',
       u_sub = ''a@b.co'', u_role = ''user'', u_enabled = True, u_createdAt = 10, u_updatedAt = 10, u_lastLoginAt = Some 10\<rparr>],
     db_nextUser = 2, db_credentials = [],
     db_identities = [\<lparr>i_id = 1, i_user = 1, i_provider = ''email_code'', i_subject = ''a@b.co'', i_email = ''a@b.co'',
       i_emailVerified = True, i_createdAt = 10, i_updatedAt = 10\<rparr>], db_nextIdentity = 2,
     db_sessions = [\<lparr>s_id = 1, s_user = 1, s_tokenHash = ''session'', s_csrfToken = ''csrf'', s_expiresAt = 1000, s_createdAt = 15,
       s_lastSeenAt = 15, s_userAgent = ''UA'', s_ip = ''1.2.3.4''\<rparr>], db_nextSession = 2,
     db_oauth = [], db_nextOAuth = 1,
     db_tickets = [\<lparr>t_id = 1, t_user = 1, t_ticketHash = ''ticket'', t_expiresAt = 100, t_consumedAt = None, t_createdAt = 20,
       t_ip = ''1.2.3.4'', t_userAgent = ''UA''\<rparr>], db_nextTicket = 2,
     db_codes = [], db_nextCode = 1, db_logins = [], db_nextLogin = 1\<rparr>"
  by code_simp

lemma sample_env_collate [simp]: "db_collate (sample_env now) = map lower_char"
  by (simp add: sample_env_def)

lemma sample_db_wf: "store_wf (map lower_char) sample_db"
  by code_simp

subsection \<open>Integrity\<close>

text \<open>Every database that any sequence of store operations makes from the empty one satisfies the
  schema's constraints: unique ids and keys, one row per identity, session, state and ticket key,
  and no credential, identity, session or ticket without its user.\<close>

theorem reachable_store_wf:
  assumes "(store_step K)\<^sup>*\<^sup>* emptyDb d"
  shows "store_wf K d"
  using assms store_wf_empty by (induction rule: rtranclp_induct) (auto intro: store_step_wf)

lemma reachable_store_wf_witness:
  "store_wf (map lower_char) (snd (EnsureAdmin (sample_env 1) ''Root@X.io'' ''h'' emptyDb))"
  by (rule reachable_store_wf, rule r_into_rtranclp, rule store_step.ensure_admin) simp

subsection \<open>One-shot credentials\<close>

text \<open>A desktop ticket is redeemed at most once: after a successful exchange no sequence of store
  operations makes the same ticket acceptable again, at any time.\<close>

theorem desktop_ticket_once:
  assumes "store_wf K d" and "db_collate E = K" and "ConsumeDesktopSsoTicket E th now d = (Inr u, d1)"
    and "(store_step K)\<^sup>*\<^sup>* d1 d2" and "db_collate E' = K"
  shows "isl (fst (ConsumeDesktopSsoTicket E' th now' d2))"
proof -
  have "ticket_accepts K th d d1" using assms(2,3) by (auto simp: ticket_accepts_def)
  note once = ticket.once [OF assms(1) this assms(4), of "snd (ConsumeDesktopSsoTicket E' th now' d2)"]
  show ?thesis
  proof (cases "fst (ConsumeDesktopSsoTicket E' th now' d2)")
    case (Inr u')
    then have "ConsumeDesktopSsoTicket E' th now' d2 = (Inr u', snd (ConsumeDesktopSsoTicket E' th now' d2))"
      by (simp add: prod_eq_iff)
    then show ?thesis using once assms(5) by (auto simp: ticket_accepts_def)
  qed simp
qed

definition redeemed_db :: db where
  "redeemed_db = snd (ConsumeDesktopSsoTicket (sample_env 30) ''ticket'' 30 sample_db)"

definition redeemed_user :: user where
  "redeemed_user = projr (fst (ConsumeDesktopSsoTicket (sample_env 30) ''ticket'' 30 sample_db))"

lemma desktop_ticket_once_witness:
  "isl (fst (ConsumeDesktopSsoTicket (sample_env 31) ''ticket'' 31 redeemed_db))"
proof (rule desktop_ticket_once [OF sample_db_wf])
  show "ConsumeDesktopSsoTicket (sample_env 30) ''ticket'' 30 sample_db = (Inr redeemed_user, redeemed_db)"
    by code_simp
qed simp_all

text \<open>C13: An OAuth state is consumed at most once, whatever happens in between.\<close>

theorem oauth_state_once:
  assumes "store_wf K d" and "db_collate E = K" and "ConsumeOAuthRequest E h now d = (Inr q, d1)"
    and "(store_step K)\<^sup>*\<^sup>* d1 d2" and "db_collate E' = K"
  shows "isl (fst (ConsumeOAuthRequest E' h now' d2))"
proof -
  have "oauth_accepts K h d d1" using assms(2,3) by (auto simp: oauth_accepts_def)
  note once = oauth.once [OF assms(1) this assms(4), of "snd (ConsumeOAuthRequest E' h now' d2)"]
  show ?thesis
  proof (cases "fst (ConsumeOAuthRequest E' h now' d2)")
    case (Inr q')
    then have "ConsumeOAuthRequest E' h now' d2 = (Inr q', snd (ConsumeOAuthRequest E' h now' d2))"
      by (simp add: prod_eq_iff)
    then show ?thesis using once assms(5) by (auto simp: oauth_accepts_def)
  qed simp
qed

definition oauth_db :: db where
  "oauth_db = snd (SaveOAuthRequest (sample_env 5) ''state'' (emptyOAuthRequest\<lparr>oq_expiresAt := 50\<rparr>) emptyDb)"

lemma oauth_state_once_witness:
  "isl (fst (ConsumeOAuthRequest (sample_env 7) ''state'' 7
     (snd (ConsumeOAuthRequest (sample_env 6) ''state'' 6 oauth_db))))"
proof (rule oauth_state_once [of "map lower_char" oauth_db])
  show "store_wf (map lower_char) oauth_db" by code_simp
  show "ConsumeOAuthRequest (sample_env 6) ''state'' 6 oauth_db
     = (Inr (emptyOAuthRequest\<lparr>oq_expiresAt := 50\<rparr>), snd (ConsumeOAuthRequest (sample_env 6) ''state'' 6 oauth_db))"
    by code_simp
qed simp_all

subsection \<open>Sessions\<close>

text \<open>What \<open>FindUserBySession\<close> answers for an entry of the abstract session map.\<close>

definition session_answer :: "db \<Rightarrow> int \<Rightarrow> session_entry option \<Rightarrow> store_error + user" where
  "session_answer d now entry =
     (case entry of
        None \<Rightarrow> Inl ErrNotFound
      | Some (u, csrf, expires, created) \<Rightarrow>
          if \<not> now < expires then Inl ErrNotFound
          else (case user_by_id d u of
                  None \<Rightarrow> Inl ErrNotFound
                | Some row \<Rightarrow>
                    if u_enabled row then Inr (scanUserWithPassword [] row)
                    else Inl (ErrDisabledUser (scanUserWithPassword [] row))))"

text \<open>C14: The session table refines a map: a lookup by token hash answers exactly what the entry of the
  map says, expired entries like missing ones, and disabled users as an error.\<close>

theorem FindUserBySession_refines:
  assumes "store_wf (db_collate E) d" and "\<not> db_fails E OpFindUserBySession"
  shows "fst (FindUserBySession E th now d) = session_answer d now (session_map (db_collate E) d (db_collate E th))"
proof -
  note le = live_session_entry [OF assms(1), of th now]
  show ?thesis
  proof (cases "live_session E th now d")
    case None
    then show ?thesis using le assms(2)
      by (auto simp: FindUserBySession_def session_answer_def split: option.splits if_splits)
  next
    case (Some r)
    then have "session_map (db_collate E) d (db_collate E th) = Some (session_entry r)" and "now < s_expiresAt r"
      using le by (auto simp: session_entry_def split: option.splits if_splits)
    then show ?thesis using Some assms(2)
      by (simp add: FindUserBySession_def session_answer_def session_entry_def Let_def scanUserWithPassword_def
            split: option.splits)
  qed
qed

lemma FindUserBySession_refines_witness:
  "fst (FindUserBySession (sample_env 40) ''SESSION'' 40 sample_db)
   = session_answer sample_db 40 (session_map (db_collate (sample_env 40)) sample_db (db_collate (sample_env 40) ''SESSION''))"
  by (rule FindUserBySession_refines) (simp_all add: sample_db_wf, simp add: sample_env_def)

text \<open>Creating a session and revoking it: the token is accepted in between and never after, and the
  entries of all other sessions are the same before and after.\<close>

theorem session_create_revoke:
  assumes "store_wf (db_collate E) d" and "create_session E th (u, csrf, t, ua, ip) d = Some d1"
    and "revoke_session E th d1 = Some d2"
  shows "session_map (db_collate E) d1 (db_collate E th) = Some (u, csrf, db_time E t, db_time E (db_now E))
    \<and> session_map (db_collate E) d2 = session_map (db_collate E) d"
  using sessions.created [OF assms(1,2)] sessions.create_revoke [OF assms] by (simp add: session_val_def)

lemma session_create_revoke_witness:
  "session_map (db_collate (sample_env 40)) (the (create_session (sample_env 40) ''new'' (1, ''c'', 90, [], []) sample_db))
       (db_collate (sample_env 40) ''new'') = Some (1, ''c'', db_time (sample_env 40) 90, db_time (sample_env 40) (db_now (sample_env 40)))
   \<and> session_map (db_collate (sample_env 40))
       (the (revoke_session (sample_env 40) ''new'' (the (create_session (sample_env 40) ''new'' (1, ''c'', 90, [], []) sample_db))))
     = session_map (db_collate (sample_env 40)) sample_db"
proof (rule session_create_revoke)
  show "store_wf (db_collate (sample_env 40)) sample_db" by (simp add: sample_db_wf)
  show "create_session (sample_env 40) ''new'' (1, ''c'', 90, [], []) sample_db
      = Some (the (create_session (sample_env 40) ''new'' (1, ''c'', 90, [], []) sample_db))" by code_simp
  show "revoke_session (sample_env 40) ''new'' (the (create_session (sample_env 40) ''new'' (1, ''c'', 90, [], []) sample_db))
      = Some (the (revoke_session (sample_env 40) ''new'' (the (create_session (sample_env 40) ''new'' (1, ''c'', 90, [], []) sample_db))))"
    by code_simp
qed

subsection \<open>Accounts\<close>

text \<open>What decides access: id, role and whether the account is enabled.\<close>

definition access_facts :: "user_row \<Rightarrow> int \<times> string \<times> bool" where
  "access_facts r = (u_id r, u_role r, u_enabled r)"

lemma linked_user_facts:
  "linked_user E p s e n a now d = Some (i, d1) \<Longrightarrow>
   map access_facts (db_users d1) = map access_facts (db_users d)
   \<or> map access_facts (db_users d1) = map access_facts (db_users d) @ [(db_nextUser d, ''user'', True)]"
  by (auto simp: linked_user_def access_facts_def split: option.splits if_splits)

lemma refresh_identity_facts:
  "map access_facts (db_users (refresh_identity E p s e n a now i d)) = map access_facts (db_users d)"
  by (simp add: refresh_identity_def updateIdentityUserProfileSQL_def access_facts_def map_update_rows)

text \<open>No login by Google, e-mail code or SSO changes the role or the enabled flag of any account; an
  account it creates is an ordinary, enabled user with a new id.\<close>

theorem identity_login_keeps_access:
  "map access_facts (db_users (snd (upsertIdentityUser E p s e n a d)))
   \<in> {map access_facts (db_users d), map access_facts (db_users d) @ [(db_nextUser d, ''user'', True)]}"
proof -
  have "map access_facts (db_users d1) \<in> {map access_facts (db_users d), map access_facts (db_users d) @ [(db_nextUser d, ''user'', True)]}"
    if "resolve_identity E p' s' e' n' a' now d = Some (i, d1)" for p' s' e' n' a' now i d1
    using that linked_user_facts [of E p' s' e' n' a' now d]
    by (auto simp: resolve_identity_def insert_identity_def split: option.splits)
  then show ?thesis
    by (auto simp: upsertIdentityUser_def Let_def refresh_identity_facts split: option.splits)
qed

lemma local_user_unique:
  assumes "store_wf (db_collate E) d" and "r \<in> set (db_users d)" and "r' \<in> set (db_users d)"
    and "local_user E e r" and "local_user E e r'"
  shows "r = r'"
proof -
  have "distinct (map (user_key (db_collate E)) (db_users d))" using assms(1) by (simp add: wf_defs)
  moreover have "user_key (db_collate E) r = user_key (db_collate E) r'"
    using assms(4,5) by (simp add: user_key_def local_user_def sqlEq_def)
  ultimately show ?thesis using distinct_map_unique assms(2,3) by metis
qed

definition admin_row :: "dbenv \<Rightarrow> string \<Rightarrow> int \<Rightarrow> db \<Rightarrow> bool" where
  "admin_row E email i d \<longleftrightarrow>
     (\<exists>r \<in> set (db_users d). u_id r = i \<and> local_user E email r \<and> sqlEq E (u_role r) ''admin'')"

text \<open>The id on which the credential is inserted belongs to the administrator's row.\<close>

lemma upsert_admin_row:
  assumes wf: "store_wf (db_collate E) d" and up: "upsert_admin E email now d = (d1, i)"
    and res: "(if i = 0 then map_option u_id (find (local_user E email) (db_users d1)) else Some i) = Some userID"
  shows "admin_row E email userID d1 \<and> db_credentials d1 = db_credentials d"
proof (cases "find (local_user E email) (db_users d)")
  case None
  have "0 < db_nextUser d" using wf by (simp add: wf_defs)
  then show ?thesis
    using None up res by (auto simp: upsert_admin_def admin_row_def local_user_def)
next
  case (Some r0)
  then have r0: "r0 \<in> set (db_users d)" "local_user E email r0" by (auto dest: find_in)
  let ?f = "\<lambda>r. r\<lparr>u_role := (if sqlEq E (u_role r) ''admin'' then u_role r else ''admin''), u_updatedAt := now\<rparr>"
  have d1: "d1 = d\<lparr>db_users := update_rows (\<lambda>r. u_id r = u_id r0) ?f (db_users d)\<rparr>"
    using up Some by (auto simp: upsert_admin_def)
  have row: "admin_row E email (u_id r0) d1"
    unfolding admin_row_def d1 using r0 by (auto simp: bex_update_rows local_user_def)
  have "userID = u_id r0"
  proof (cases "i = 0")
    case True
    then obtain r1 where f: "find (local_user E email) (db_users d1) = Some r1" and u: "userID = u_id r1"
      using res by auto
    then have "r1 \<in> set (db_users d1)" "local_user E email r1" by (auto dest: find_in)
    then obtain r where "r \<in> set (db_users d)" "local_user E email r" "u_id r = u_id r1"
      by (auto simp: d1 set_update_rows local_user_def)
    then show ?thesis using local_user_unique [OF wf] r0 u by metis
  next
    case False
    then show ?thesis using res up Some by (auto simp: upsert_admin_def split: if_splits)
  qed
  then show ?thesis using row d1 by simp
qed

text \<open>The initial administrator exists after a successful start: a local account for the normalised
  address with the administrator's role and a password. Passwords already stored are untouched, so a
  restart with another \<open>INIT_ADMIN_PASSWORD\<close> does not reset the password.\<close>

theorem EnsureAdmin_establishes:
  assumes "store_wf (db_collate E) d" and "EnsureAdmin E email h d = (Inr (), d')"
  shows "\<exists>i. admin_row E (normalizeEmail email) i d'
      \<and> (\<exists>c \<in> set (db_credentials d'). c_user c = i)
      \<and> prefix (db_credentials d) (db_credentials d')
      \<and> (i \<in> c_user ` set (db_credentials d) \<longrightarrow> db_credentials d' = db_credentials d)"
proof -
  obtain d1 i where up: "upsert_admin E (normalizeEmail email) (db_time E (db_now E)) d = (d1, i)" by fastforce
  obtain userID where id: "(if i = 0 then map_option u_id (find (local_user E (normalizeEmail email)) (db_users d1)) else Some i) = Some userID"
    and d': "d' = insert_credential userID h (db_time E (db_now E)) d1"
    using assms(2) up by (auto simp: EnsureAdmin_def Let_def split: option.splits if_splits)
  have row: "admin_row E (normalizeEmail email) userID d1" and creds: "db_credentials d1 = db_credentials d"
    using upsert_admin_row [OF assms(1) up id] by auto
  have "admin_row E (normalizeEmail email) userID d'"
    using row by (simp add: admin_row_def d' insert_credential_def)
  then show ?thesis
    using creds by (intro exI [of _ userID]) (auto simp: d' insert_credential_def)
qed

lemma EnsureAdmin_establishes_witness:
  "\<exists>i. admin_row (sample_env 3) (normalizeEmail ''Root@X.io'') i (snd (EnsureAdmin (sample_env 3) ''Root@X.io'' ''h'' sample_db))
      \<and> (\<exists>c \<in> set (db_credentials (snd (EnsureAdmin (sample_env 3) ''Root@X.io'' ''h'' sample_db))). c_user c = i)
      \<and> prefix (db_credentials sample_db) (db_credentials (snd (EnsureAdmin (sample_env 3) ''Root@X.io'' ''h'' sample_db)))
      \<and> (i \<in> c_user ` set (db_credentials sample_db) \<longrightarrow>
          db_credentials (snd (EnsureAdmin (sample_env 3) ''Root@X.io'' ''h'' sample_db)) = db_credentials sample_db)"
proof (rule EnsureAdmin_establishes)
  show "store_wf (db_collate (sample_env 3)) sample_db" by (simp add: sample_db_wf)
  show "EnsureAdmin (sample_env 3) ''Root@X.io'' ''h'' sample_db = (Inr (), snd (EnsureAdmin (sample_env 3) ''Root@X.io'' ''h'' sample_db))"
    by code_simp
qed

subsection \<open>E-mail codes\<close>

lemma newest_code_None: "newest_code rs = None \<longleftrightarrow> rs = []"
  by (cases rs) (auto split: option.splits)

lemma newest_code_max:
  "newest_code rs = Some r \<Longrightarrow> r \<in> set rs \<and> (\<forall>r' \<in> set rs. k_createdAt r' \<le> k_createdAt r)"
proof (induction rs arbitrary: r)
  case (Cons a rs)
  then show ?case by (cases "newest_code rs") (auto split: if_splits simp: newest_code_None)
qed simp

text \<open>C16: An accepted code is the newest pending one for the address, has not expired, and is used up:
  in the database afterwards its row is consumed.\<close>

theorem ConsumeEmailCode_accepts:
  assumes "store_wf (db_collate E) d" and "ConsumeEmailCode E email h now d = (Inr (), d')"
  shows "\<exists>r \<in> set (db_codes d). sqlEq E (k_email r) (normalizeEmail email) \<and> k_consumedAt r = None
     \<and> k_codeHash r = h \<and> now < k_expiresAt r
     \<and> (\<forall>r' \<in> set (db_codes d). sqlEq E (k_email r') (normalizeEmail email) \<and> k_consumedAt r' = None
          \<longrightarrow> k_createdAt r' \<le> k_createdAt r)
     \<and> r\<lparr>k_consumedAt := Some (db_time E now)\<rparr> \<in> set (db_codes d') \<and> r \<notin> set (db_codes d')"
proof -
  obtain r where p: "pending_code E (normalizeEmail email) d = Some r" and exp: "now < k_expiresAt r"
    and hash: "k_codeHash r = h"
    and d': "d' = d\<lparr>db_codes := update_rows (\<lambda>r'. k_id r' = k_id r)
               (\<lambda>r'. r'\<lparr>k_consumedAt := Some (db_time E now)\<rparr>) (db_codes d)\<rparr>"
    using assms(2) by (auto simp: ConsumeEmailCode_def challenge_of_def split: option.splits if_splits)
  have r: "r \<in> set (db_codes d)" "sqlEq E (k_email r) (normalizeEmail email)" "k_consumedAt r = None"
    and max: "\<forall>r' \<in> set (db_codes d). sqlEq E (k_email r') (normalizeEmail email) \<and> k_consumedAt r' = None
          \<longrightarrow> k_createdAt r' \<le> k_createdAt r"
    using newest_code_max [OF p [unfolded pending_code_def]] by auto
  have "r\<lparr>k_consumedAt := Some (db_time E now)\<rparr> \<in> set (db_codes d')"
    unfolding d' by (simp add: set_update_rows del: if_image_distrib) (rule image_eqI [OF _ r(1)], simp)
  moreover have "r \<notin> set (db_codes d')"
  proof
    assume "r \<in> set (db_codes d')"
    then obtain r' where "r' \<in> set (db_codes d)"
      and r': "r = (if k_id r' = k_id r then r'\<lparr>k_consumedAt := Some (db_time E now)\<rparr> else r')"
      unfolding d' by (auto simp: set_update_rows simp del: if_image_distrib)
    then show False using r(3) by (cases "k_id r' = k_id r") auto
  qed
  ultimately show ?thesis using r max exp hash by blast
qed

definition code_db :: db where
  "code_db = snd (SaveEmailCode (sample_env 3) ''A@b.co'' ''hash'' 60 emptyDb)"

lemma ConsumeEmailCode_accepts_witness:
  "\<exists>r \<in> set (db_codes code_db). sqlEq (sample_env 9) (k_email r) (normalizeEmail ''a@b.co'') \<and> k_consumedAt r = None
     \<and> k_codeHash r = ''hash'' \<and> 9 < k_expiresAt r
     \<and> (\<forall>r' \<in> set (db_codes code_db). sqlEq (sample_env 9) (k_email r') (normalizeEmail ''a@b.co'') \<and> k_consumedAt r' = None
          \<longrightarrow> k_createdAt r' \<le> k_createdAt r)
     \<and> r\<lparr>k_consumedAt := Some (db_time (sample_env 9) 9)\<rparr> \<in> set (db_codes (snd (ConsumeEmailCode (sample_env 9) ''a@b.co'' ''hash'' 9 code_db)))
     \<and> r \<notin> set (db_codes (snd (ConsumeEmailCode (sample_env 9) ''a@b.co'' ''hash'' 9 code_db)))"
proof (rule ConsumeEmailCode_accepts)
  show "store_wf (db_collate (sample_env 9)) code_db" unfolding sample_env_collate by code_simp
  show "ConsumeEmailCode (sample_env 9) ''a@b.co'' ''hash'' 9 code_db = (Inr (), snd (ConsumeEmailCode (sample_env 9) ''a@b.co'' ''hash'' 9 code_db))"
    by code_simp
qed

end
