(* ===== verification/Mailer_Laws.thy ===== *)
theory Mailer_Laws
  imports Mailer
begin

text \<open>
  Properties of the mailer: what can be sent to a server before the connection is encrypted, and what a reported
  success means.
\<close>

subsection \<open>Confidence\<close>

text \<open>The commands that open and close a dialogue; they tell nothing of the mail or the account.\<close>

definition opening_event :: "string \<Rightarrow> smtp_event \<Rightarrow> bool" where
  "opening_event host e \<longleftrightarrow>
     (case e of
        Connected _ \<Rightarrow> True
      | Handshake n \<Rightarrow> n = host
      | Sent l \<Rightarrow> l \<in> {''EHLO localhost'', ''HELO localhost'', ''STARTTLS'', ''QUIT''}
      | Message _ \<Rightarrow> False)"

text \<open>A handshake with the host has succeeded.\<close>

fun encrypted :: "smtp_peer \<Rightarrow> string \<Rightarrow> smtp_event list \<Rightarrow> bool" where
  "encrypted P host [] \<longleftrightarrow> False"
| "encrypted P host (e # log) \<longleftrightarrow> e = Handshake host \<and> P (e # log) \<noteq> None \<or> encrypted P host log"

text \<open>Everything but the opening comes after it.\<close>

fun confined :: "smtp_peer \<Rightarrow> string \<Rightarrow> smtp_event list \<Rightarrow> bool" where
  "confined P host [] \<longleftrightarrow> True"
| "confined P host (e # log) \<longleftrightarrow> (opening_event host e \<or> encrypted P host log) \<and> confined P host log"

definition client_ok :: "smtp_peer \<Rightarrow> string \<Rightarrow> smtp_client \<Rightarrow> bool" where
  "client_ok P host c \<longleftrightarrow> sm_serverName c = host \<and> confined P host (sm_log c) \<and> (sm_tls c \<longrightarrow> encrypted P host (sm_log c))"

text \<open>What every call keeps, and a call of its own event.\<close>

definition client_keeps :: "smtp_peer \<Rightarrow> string \<Rightarrow> smtp_client \<Rightarrow> smtp_client \<Rightarrow> bool" where
  "client_keeps P host c c' \<longleftrightarrow> (client_ok P host c \<longrightarrow> client_ok P host c' \<and> (sm_tls c \<longrightarrow> sm_tls c'))"

named_theorems dialogue

lemma keeps_refl [simp]: "client_keeps P host c c"
  by (simp add: client_keeps_def)

lemma keeps_trans: "client_keeps P host c c' \<Longrightarrow> client_keeps P host c' c'' \<Longrightarrow> client_keeps P host c c''"
  by (simp add: client_keeps_def)

lemma keeps_event:
  assumes "smtp_event P n e c = (rs, c')" and "opening_event host e \<or> sm_tls c"
  shows "client_keeps P host c c'"
  using assms by (auto simp: client_keeps_def client_ok_def smtp_event_def split: option.splits)

lemma keeps_opening: "smtp_event P n e c = (rs, c') \<Longrightarrow> opening_event host e \<Longrightarrow> client_keeps P host c c'"
  using keeps_event by blast

lemma client_ok_ext [simp]: "client_ok P host (c\<lparr>sm_ext := x\<rparr>) = client_ok P host c"
  by (simp add: client_ok_def)

lemma keeps_ext [simp]:
  "client_keeps P host (c\<lparr>sm_ext := x\<rparr>) c' = client_keeps P host c c'" "client_keeps P host c (c'\<lparr>sm_ext := x\<rparr>) = client_keeps P host c c'"
  by (simp_all add: client_keeps_def)

lemma opening_commands [simp]:
  "opening_event host (Sent ''EHLO localhost'')" "opening_event host (Sent ''HELO localhost'')"
  "opening_event host (Sent ''STARTTLS'')" "opening_event host (Sent ''QUIT'')" "opening_event host (Connected a)"
  "opening_event host (Handshake n) \<longleftrightarrow> n = host"
  by (simp_all add: opening_event_def)

lemma keeps_ehlo [dialogue]:
  assumes "smtp_ehlo P c = (b, c')"
  shows "client_keeps P host c c'"
proof -
  obtain rs c1 where e: "smtp_cmd P 250 ''EHLO localhost'' c = (rs, c1)" by fastforce
  have "client_keeps P host c c1" using keeps_opening [OF e] by simp
  then show ?thesis using assms e by (auto simp: smtp_ehlo_def split: option.splits)
qed

lemma keeps_helo [dialogue]: "smtp_helo P c = (b, c') \<Longrightarrow> client_keeps P host c c'"
  using keeps_event [of P 250 "Sent ''HELO localhost''" "c\<lparr>sm_ext := None\<rparr>" _ c' host]
  by (auto simp: smtp_helo_def split: prod.splits)

lemma keeps_hello [dialogue]: "smtp_hello P c = (b, c') \<Longrightarrow> client_keeps P host c c'"
  by (auto simp: smtp_hello_def split: prod.splits bool.splits intro: keeps_trans dialogue)

lemma keeps_quit [dialogue]: "smtp_quit P c = (b, c') \<Longrightarrow> client_keeps P host c c'"
  by (auto simp: smtp_quit_def split: prod.splits intro: keeps_opening)

text \<open>After a handshake that succeeded the connection is encrypted.\<close>

lemma keeps_handshake:
  assumes "smtp_event P 0 (Handshake host) c = (Some r, c')"
  shows "client_keeps P host c (c'\<lparr>sm_tls := True\<rparr>)"
  using assms by (auto simp: client_keeps_def client_ok_def smtp_event_def split: option.splits)

lemma keeps_startTLS [dialogue]:
  assumes "startTLS P host c = (b, c')"
  shows "client_keeps P host c c'"
proof -
  obtain rs c1 where e: "smtp_cmd P 220 ''STARTTLS'' c = (rs, c1)" by fastforce
  obtain rs2 c2 where h: "smtp_event P 0 (Handshake host) c1 = (rs2, c2)" by fastforce
  have k: "client_keeps P host c c1" "client_keeps P host c1 c2" using keeps_opening e h by auto
  show ?thesis
  proof (cases "rs = None \<or> rs2 = None")
    case True
    then show ?thesis using assms e h k by (auto simp: startTLS_def split: option.splits intro: keeps_trans)
  next
    case False
    then have "client_keeps P host c1 (c2\<lparr>sm_tls := True\<rparr>)" and "smtp_ehlo P (c2\<lparr>sm_tls := True\<rparr>) = (b, c')"
      using keeps_handshake assms e h by (auto simp: startTLS_def)
    then show ?thesis using k(1) keeps_ehlo keeps_trans by blast
  qed
qed

text \<open>Authentication succeeds on an encrypted connection only, unless the host is this machine.\<close>

lemma keeps_auth:
  assumes "smtp_auth P username password host c = (b, c')" and "\<not> isLocalhost host" and "client_ok P host c"
  shows "client_keeps P host c c'" and "b \<Longrightarrow> sm_tls c'"
proof -
  have *: "client_keeps P host c c' \<and> (b \<longrightarrow> sm_tls c')"
  proof (cases "sm_tls c")
    case False
    then have "c' = snd (smtp_quit P c)" "\<not> b" using assms by (auto simp: smtp_auth_def client_ok_def)
    then show ?thesis using keeps_quit [of P c] by (metis prod.collapse)
  next
    case True
    obtain rs c1 where e: "smtp_cmd P 0 (''AUTH PLAIN '' @ plain_response username password) c = (rs, c1)" by fastforce
    have k1: "client_keeps P host c c1" using keeps_event [OF e] True by simp
    have t1: "sm_tls c1" using k1 True assms(3) by (simp add: client_keeps_def)
    obtain rs2 c2 where e2: "smtp_cmd P 501 ''*'' c1 = (rs2, c2)" by fastforce
    have k2: "client_keeps P host c1 c2" using keeps_event [OF e2] t1 by simp
    obtain q c3 where q: "smtp_quit P c2 = (q, c3)" by fastforce
    have "client_keeps P host c c3" using k1 k2 keeps_quit [OF q] keeps_trans by blast
    then show ?thesis using assms True e e2 q k1 t1
      by (auto simp: smtp_auth_def client_ok_def split: option.splits if_splits)
  qed
  then show "client_keeps P host c c'" and "b \<Longrightarrow> sm_tls c'" by auto
qed

lemma keeps_secret:
  "smtp_mail P from' c = (b, c') \<Longrightarrow> sm_tls c \<Longrightarrow> client_keeps P host c c'"
  "smtp_rcpt P to c = (b, c') \<Longrightarrow> sm_tls c \<Longrightarrow> client_keeps P host c c'"
  "smtp_data P c = (b, c') \<Longrightarrow> sm_tls c \<Longrightarrow> client_keeps P host c c'"
  "smtp_content P msg c = (b, c') \<Longrightarrow> sm_tls c \<Longrightarrow> client_keeps P host c c'"
  by (auto simp: smtp_mail_def smtp_rcpt_def smtp_data_def smtp_content_def split: prod.splits if_splits dest: keeps_event)

lemma client_ok_deliver:
  assumes "deliver P host username password from' to msg c = (b, c')" and "\<not> isLocalhost host" and "client_ok P host c"
  shows "client_ok P host c'"
proof -
  obtain b1 c1 where auth: "smtp_auth P username password host c = (b1, c1)" by fastforce
  obtain b2 c2 where mail: "smtp_mail P from' c1 = (b2, c2)" by fastforce
  obtain b3 c3 where rcpt: "smtp_rcpt P to c2 = (b3, c3)" by fastforce
  obtain b4 c4 where data: "smtp_data P c3 = (b4, c4)" by fastforce
  obtain b5 c5 where content: "smtp_content P msg c4 = (b5, c5)" by fastforce
  obtain b6 c6 where quit: "smtp_quit P c5 = (b6, c6)" by fastforce
  have ok1: "client_ok P host c1" using keeps_auth(1) [OF auth assms(2,3)] assms(3) by (simp add: client_keeps_def)
  show ?thesis
  proof (cases b1)
    case False
    then show ?thesis using assms(1) auth ok1 by (simp add: deliver_def)
  next
    case True
    then have "sm_tls c1" using keeps_auth(2) [OF auth assms(2,3)] by simp
    then have "client_ok P host c2" "client_ok P host c3" "client_ok P host c4" "client_ok P host c5" "client_ok P host c6"
      using ok1 keeps_secret(1) [OF mail, of host] keeps_secret(2) [OF rcpt, of host] keeps_secret(3) [OF data, of host]
        keeps_secret(4) [OF content, of host] keeps_quit [OF quit, of host] by (auto simp: client_keeps_def)
    then show ?thesis using assms(1) auth mail rcpt data content quit True
      by (auto simp: deliver_def split: bool.splits)
  qed
qed

lemma client_ok_talk:
  assumes "talk P host username password from' to msg c = (b, c')" and "\<not> isLocalhost host" and "client_ok P host c"
  shows "client_ok P host c'"
proof -
  obtain b1 c1 where hello: "smtp_hello P c = (b1, c1)" by fastforce
  obtain b2 c2 where tls: "(if has_extension ''STARTTLS'' c1 then startTLS P host c1 else (True, c1)) = (b2, c2)" by fastforce
  have "client_ok P host c1" using keeps_hello [OF hello] assms(3) by (simp add: client_keeps_def)
  moreover from this have "client_ok P host c2"
    using tls keeps_startTLS [of P host c1 b2 c2] by (auto simp: client_keeps_def split: if_splits)
  ultimately show ?thesis using assms(1) hello tls client_ok_deliver assms(2)
    by (auto simp: talk_def split: bool.splits)
qed

text \<open>C36: Safety. To a server on another machine nothing but the commands that open and close a dialogue is sent
  before a TLS handshake with the configured host has succeeded: not the password, not the addresses and not the
  code. A server, or someone in between, that does not offer STARTTLS learns none of them.
\<close>

theorem mail_in_confidence:
  assumes "\<not> isLocalhost host"
  shows "confined P host (snd (sendEmailCode P (SMTPMailer host port username password from') to code))"
proof -
  define start where "start = \<lparr>sm_serverName = host, sm_tls = False, sm_ext = None, sm_log = []\<rparr>"
  obtain rs c where conn: "smtp_event P 220 (Connected (joinHostPort host port)) start = (rs, c)" by fastforce
  have "client_ok P host start" by (simp add: start_def client_ok_def)
  then have ok: "client_ok P host c" using keeps_opening [OF conn] by (simp add: client_keeps_def)
  have "client_ok P host (snd (talk P host username password from' t m c))" for t m
    using client_ok_talk [OF _ assms ok] by (metis prod.collapse)
  then show ?thesis using conn ok by (auto simp: start_def client_ok_def apsnd_def map_prod_def case_prod_beta split: option.splits)
qed

text \<open>A small server: it offers STARTTLS and PLAIN, and accepts everything it knows.\<close>

definition sample_peer :: smtp_peer where
  "sample_peer log =
     (case log of
        Connected _ # _ \<Rightarrow> Some (220, [''ready''])
      | Handshake _ # _ \<Rightarrow> Some (0, [])
      | Message _ # _ \<Rightarrow> Some (250, [''queued''])
      | Sent l # _ \<Rightarrow>
          if l = ''EHLO localhost'' then Some (250, [''smtp'', ''STARTTLS'', ''AUTH PLAIN''])
          else if l = ''STARTTLS'' then Some (220, [''go ahead''])
          else if prefix ''AUTH'' l then Some (235, [''welcome''])
          else if prefix ''MAIL'' l \<or> prefix ''RCPT'' l then Some (250, [''ok''])
          else if l = ''DATA'' then Some (354, [''go ahead''])
          else if l = ''QUIT'' then Some (221, [''bye''])
          else Some (500, [''unknown''])
      | [] \<Rightarrow> None)"

definition sample_dialogue :: "bool \<times> smtp_event list" where
  "sample_dialogue =
     sendEmailCode sample_peer (SMTPMailer ''mx.x.io'' ''587'' ''u'' ''p'' ''from@x.io'') '' A@x.io'' ''123456''"

lemma sample_dialogue_code [code]:
  "sample_dialogue =
     (True, [Sent ''QUIT'', Message (mail_message ''from@x.io'' ''a@x.io'' ''123456''), Sent ''DATA'', Sent ''RCPT TO:<a@x.io>'',
       Sent ''MAIL FROM:<from@x.io>'', Sent ''AUTH PLAIN AHUAcA=='', Sent ''EHLO localhost'', Handshake ''mx.x.io'',
       Sent ''STARTTLS'', Sent ''EHLO localhost'', Connected ''mx.x.io:587''])"
  by code_simp

lemma mail_in_confidence_witness: "confined sample_peer ''mx.x.io'' (snd sample_dialogue)"
  unfolding sample_dialogue_def by (rule mail_in_confidence) (simp add: isLocalhost_def)

subsection \<open>Delivery\<close>

text \<open>
  When sending reports success, the dialogue ended with the recipient, the data and the end of the session, the
  server answered the data with 250, and neither address has a line break, so that the message has the header lines
  of the program and no others.
\<close>

lemma smtp_event_accepted:
  assumes "smtp_event P n e c = (Some (k, ls), c')"
  shows "sm_log c' = e # sm_log c \<and> P (e # sm_log c) = Some (k, ls) \<and> expected_code n k"
  using assms by (auto simp: smtp_event_def split: option.splits if_splits)

lemma smtp_calls_accepted:
  "smtp_rcpt P to c = (True, c') \<Longrightarrow> one_line to \<and> sm_log c' = Sent (''RCPT TO:<'' @ to @ ''>'') # sm_log c"
  "smtp_mail P from' c = (True, c') \<Longrightarrow> one_line from'"
  "smtp_data P c = (True, c') \<Longrightarrow> sm_log c' = Sent ''DATA'' # sm_log c"
  "smtp_content P msg c = (True, c') \<Longrightarrow>
     sm_log c' = Message msg # sm_log c \<and> (\<exists>ls. P (Message msg # sm_log c) = Some (250, ls))"
  "smtp_quit P c = (True, c') \<Longrightarrow> sm_log c' = Sent ''QUIT'' # sm_log c"
  by (auto simp: smtp_rcpt_def smtp_mail_def smtp_data_def smtp_content_def smtp_quit_def expected_code_def
      split: prod.splits if_splits dest!: smtp_event_accepted)

lemma deliver_accepted:
  assumes "deliver P host username password from' to msg c = (True, c')"
  shows "one_line from' \<and> one_line to \<and>
    (\<exists>before ls. sm_log c' = Sent ''QUIT'' # Message msg # Sent ''DATA'' # Sent (''RCPT TO:<'' @ to @ ''>'') # before
       \<and> P (tl (sm_log c')) = Some (250, ls))"
  using assms by (auto simp: deliver_def split: prod.splits bool.splits dest!: smtp_calls_accepted)

lemma send_accepted:
  assumes "sendEmailCode P (SMTPMailer host port username password from') to code = (True, log)"
  shows "one_line from' \<and> one_line (normalizeEmail to) \<and>
    (\<exists>before ls. log = Sent ''QUIT'' # Message (mail_message from' (normalizeEmail to) code) # Sent ''DATA''
         # Sent (''RCPT TO:<'' @ normalizeEmail to @ ''>'') # before
       \<and> P (tl log) = Some (250, ls))"
  using assms
  by (auto simp: talk_def apsnd_def map_prod_def split: if_splits prod.splits option.splits bool.splits dest!: deliver_accepted)

lemma sample_delivered:
  "\<exists>before ls. snd sample_dialogue = Sent ''QUIT'' # Message (mail_message ''from@x.io'' (normalizeEmail '' A@x.io'') ''123456'')
     # Sent ''DATA'' # Sent (''RCPT TO:<'' @ normalizeEmail '' A@x.io'' @ ''>'') # before
     \<and> sample_peer (tl (snd sample_dialogue)) = Some (250, ls)"
proof -
  have "sendEmailCode sample_peer (SMTPMailer ''mx.x.io'' ''587'' ''u'' ''p'' ''from@x.io'') '' A@x.io'' ''123456''
      = (True, snd sample_dialogue)"
    using sample_dialogue_code by (metis prod.collapse fst_conv sample_dialogue_def)
  then show ?thesis using send_accepted by blast
qed

end
