(* ===== verification/Login_Properties.thy ===== *)
theory Login_Properties
  imports Login_Handlers Store_Properties Mailer_Laws
begin

text \<open>
  The properties of the login handlers: who gets a session cookie, that the cookie works until it
  expires or is revoked, what logging out does, and that the code sent by mail is the code that is
  accepted.
\<close>

subsection \<open>What the bookkeeping leaves alone\<close>

lemma RecordLogin_frame [simp]:
  "db_sessions (snd (RecordLogin E entry d)) = db_sessions d"
  "db_users (snd (RecordLogin E entry d)) = db_users d"
  "db_codes (snd (RecordLogin E entry d)) = db_codes d"
  "db_oauth (snd (RecordLogin E entry d)) = db_oauth d"
  "db_tickets (snd (RecordLogin E entry d)) = db_tickets d"
  by (simp_all add: RecordLogin_def)

lemma recordLogin_frame [simp]:
  "db_sessions (w_db (recordLogin S E r entry w)) = db_sessions (w_db w)"
  "db_users (w_db (recordLogin S E r entry w)) = db_users (w_db w)"
  "db_codes (w_db (recordLogin S E r entry w)) = db_codes (w_db w)"
  "db_oauth (w_db (recordLogin S E r entry w)) = db_oauth (w_db w)"
  "db_tickets (w_db (recordLogin S E r entry w)) = db_tickets (w_db w)"
  "w_limiter (recordLogin S E r entry w) = w_limiter w"
  "w_rnd (recordLogin S E r entry w) = w_rnd w"
  "w_smtp (recordLogin S E r entry w) = w_smtp w"
  by (simp_all add: recordLogin_def)

lemma touchLastLogin_frame [simp]:
  "db_sessions (w_db (touchLastLogin E u w)) = db_sessions (w_db w)"
  "map access_facts (db_users (w_db (touchLastLogin E u w))) = map access_facts (db_users (w_db w))"
  by (simp_all add: touchLastLogin_def TouchLastLogin_def access_facts_def map_update_rows)

lemma recordLogin_wf: "store_wf K (w_db w) \<Longrightarrow> store_wf K (w_db (recordLogin S E r entry w))"
  by (simp add: recordLogin_def RecordLogin_wf)

lemma touchLastLogin_wf: "store_wf K (w_db w) \<Longrightarrow> store_wf K (w_db (touchLastLogin E u w))"
  by (simp add: touchLastLogin_def TouchLastLogin_wf)

lemma limited_frame:
  "limited key limit E w = (b, w') \<Longrightarrow> w_db w' = w_db w \<and> w_rnd w' = w_rnd w \<and> w_smtp w' = w_smtp w"
  by (auto simp: limited_def split: prod.splits)

lemma session_map_cong: "db_sessions d' = db_sessions d \<Longrightarrow> session_map K d' = session_map K d"
  by (simp add: session_map_def fun_eq_iff)

lemma createSession_ok:
  assumes "createSession S E r userID w = (Some ns, w')"
  obtains rnd1 where "randomToken (w_rnd w) = Some (ns_token ns, rnd1)"
    and "randomToken rnd1 = Some (ns_csrf ns, w_rnd w')" and "ns_expiresAt ns = serverNow E + sv_sessionTTL S"
    and "CreateSession E userID (tokenHash (ns_token ns)) (ns_csrf ns) (ns_expiresAt ns) (userAgent r) (clientIP S r) (w_db w)
         = (Inr (), w_db w')"
    and "w_limiter w' = w_limiter w" and "w_smtp w' = w_smtp w"
  using assms
  by (auto simp: createSession_def Let_def split: option.splits prod.splits sum.splits)

lemma CreateSession_frame [simp]:
  "db_users (snd (CreateSession E u h c t ua ip d)) = db_users d"
  by (simp add: CreateSession_def)

lemma createSession_map:
  assumes "createSession S E r userID w = (Some ns, w')"
  shows "session_map (db_collate E) (w_db w') (db_collate E (tokenHash (ns_token ns)))
       = Some (userID, ns_csrf ns, db_time E (ns_expiresAt ns), db_time E (db_now E))"
    and "db_users (w_db w') = db_users (w_db w)"
proof -
  have cs: "CreateSession E userID (tokenHash (ns_token ns)) (ns_csrf ns) (ns_expiresAt ns) (userAgent r) (clientIP S r) (w_db w)
      = (Inr (), w_db w')"
    using assms by (rule createSession_ok)
  show "session_map (db_collate E) (w_db w') (db_collate E (tokenHash (ns_token ns)))
       = Some (userID, ns_csrf ns, db_time E (ns_expiresAt ns), db_time E (db_now E))"
    using create_session_map(1) [OF cs refl] by simp
  show "db_users (w_db w') = db_users (w_db w)"
    using cs CreateSession_frame snd_conv by metis
qed

subsection \<open>Password login\<close>

text \<open>What a password login that sets a cookie went through.\<close>

lemma login_cookie:
  assumes "login X S E r body w = (rs, w')" and "rs_cookies rs \<noteq> []"
  obtains req u w1 ns w2 where "body = Some req" and "originAllowed S r"
    and "limited (''admin:'' @ clientIP S r @ '':'' @ normalizeEmail (lr_email req)) 5 E w = (False, w1)"
    and "fst (FindLocalUserByEmail E (lr_email req) (w_db w)) = Inr u"
    and "lib_bcryptCompare X (usr_passwordHash u) (lr_password req)" and "usr_enabled u"
    and "createSession S E r (usr_id u) w1 = (Some ns, w2)"
    and "(rs, w') = finish_login S E r u ''local'' ns w2"
    and "w_db w1 = w_db w" and "w_rnd w1 = w_rnd w"
proof -
  have origin: "originAllowed S r"
    using assms by (auto simp: login_def requireValidOrigin_def response_defs split: if_splits)
  then obtain req where body: "body = Some req"
    using assms by (auto simp: login_def requireValidOrigin_def response_defs split: option.splits)
  obtain b w1 where lim: "limited (''admin:'' @ clientIP S r @ '':'' @ normalizeEmail (lr_email req)) 5 E w = (b, w1)"
    by fastforce
  then have b: "\<not> b" and db: "w_db w1 = w_db w \<and> w_rnd w1 = w_rnd w"
    using assms origin body limited_frame by (auto simp: login_def requireValidOrigin_def response_defs)
  obtain u where u: "fst (FindLocalUserByEmail E (lr_email req) (w_db w)) = Inr u"
    using assms origin body lim b db
    by (cases "fst (FindLocalUserByEmail E (lr_email req) (w_db w))")
       (auto simp: login_def requireValidOrigin_def response_defs split: store_error.splits)
  then have ok: "lib_bcryptCompare X (usr_passwordHash u) (lr_password req)" "usr_enabled u"
    using assms origin body lim b db
    by (auto simp: login_def requireValidOrigin_def response_defs split: if_splits)
  obtain ns w2 where "createSession S E r (usr_id u) w1 = (Some ns, w2)"
    and "(rs, w') = finish_login S E r u ''local'' ns w2"
    using assms origin body lim b db u ok
    by (cases "createSession S E r (usr_id u) w1")
       (auto simp: login_def requireValidOrigin_def response_defs split: option.splits)
  then show thesis using that origin body lim b u ok db by simp
qed

text \<open>C2: A session cookie is set by the password login only for a request of an allowed origin that
  carries a body and is within the rate limit, and only for an enabled local account whose stored
  hash accepts the password.\<close>

theorem login_sound:
  assumes "login X S E r body w = (rs, w')" and "rs_cookies rs \<noteq> []"
  shows "\<exists>req u. body = Some req \<and> originAllowed S r
    \<and> \<not> fst (limited (''admin:'' @ clientIP S r @ '':'' @ normalizeEmail (lr_email req)) 5 E w)
    \<and> fst (FindLocalUserByEmail E (lr_email req) (w_db w)) = Inr u
    \<and> lib_bcryptCompare X (usr_passwordHash u) (lr_password req) \<and> usr_enabled u"
  using assms by (rule login_cookie) auto

definition sample_user :: user where
  "sample_user = \<lparr>usr_id = 1, usr_email = ''root@x.io'', usr_displayName = ''root@x.io'', usr_avatarURL = [],
     usr_authProvider = ''local'', usr_authSub = ''root@x.io'', usr_role = ''admin'', usr_enabled = True,
     usr_lastLoginAt = None, usr_passwordHash = ''hash''\<rparr>"

definition sample_world :: world where
  "sample_world = \<lparr>w_db = snd (EnsureAdmin (sample_env 1) ''Root@X.io'' ''hash'' emptyDb), w_limiter = newRateLimiter,
     w_rnd = replicate 64 CHR ''a'', w_smtp = []\<rparr>"

text \<open>The samples are evaluated once: their values are their code equations from here on.\<close>

lemma sample_world_code [code]:
  "sample_world = \<lparr>w_db = \<lparr>db_users = [\<lparr>u_id = 1, u_email = ''root@x.io'', u_displayName = ''root@x.io'', u_avatarURL = [],
       u_provider = ''local'', u_sub = ''root@x.io'', u_role = ''admin'', u_enabled = True, u_createdAt = 1, u_updatedAt = 1,
       u_lastLoginAt = None\<rparr>], db_nextUser = 2,
     db_credentials = [\<lparr>c_user = 1, c_passwordHash = ''hash'', c_passwordUpdatedAt = 1, c_createdAt = 1\<rparr>],
     db_identities = [], db_nextIdentity = 1, db_sessions = [], db_nextSession = 1, db_oauth = [], db_nextOAuth = 1,
     db_tickets = [], db_nextTicket = 1, db_codes = [], db_nextCode = 1, db_logins = [], db_nextLogin = 1\<rparr>,
     w_limiter = [], w_rnd = replicate 64 CHR ''a'', w_smtp = []\<rparr>"
  by code_simp

definition sample_url :: url where
  "sample_url = the (url_parse ''/api/auth/login'')"

definition sample_request :: request where
  "sample_request = \<lparr>rq_method = ''POST'', rq_url = sample_url, rq_host = ''zenmind.cc'', rq_remoteAddr = ''9.9.9.9:1234'',
     rq_tls = True, rq_header = (\<lambda>_. []), rq_cookie = (\<lambda>_. None), rq_pathValue = (\<lambda>_. [])\<rparr>"

definition sample_google_lib :: google_lib where
  "sample_google_lib = \<lparr>gl_exchange = (\<lambda>_ _. None), gl_verify = (\<lambda>_ _. None), gl_authCodeURL = (\<lambda>_ _ _ _ _. ''g'')\<rparr>"

definition sample_jwt_lib :: jwt_lib where
  "sample_jwt_lib = \<lparr>jl_readFile = (\<lambda>_. None), jl_pemDecode = (\<lambda>_. Some ''der''), jl_parsePKCS1 = (\<lambda>_. Some ''key''),
     jl_parsePKCS8 = (\<lambda>_. None), jl_sign = (\<lambda>_ _ _. Some ''jwt'')\<rparr>"

text \<open>A password library that accepts the password that equals the stored hash.\<close>

definition sample_libs :: libs where
  "sample_libs = \<lparr>lib_bcryptCompare = (\<lambda>h p. h = p), lib_bcryptHash = Some, lib_jwt = sample_jwt_lib,
     lib_google = sample_google_lib, lib_smtp = sample_peer\<rparr>"

definition sample_options :: server_options where
  "sample_options = \<lparr>op_cookieName = [], op_cookieSecure = True, op_sessionTTL = 0, op_trustedProxyCIDRs = [],
     op_google = DisabledGoogle, op_authLoginURL = [], op_authSuccessURL = [], op_authFailureURL = [],
     op_ssoBridgeToken = [], op_desktopSSOProvider = [], op_desktopTicketTTL = 0,
     op_desktopJWT = \<lparr>jc_privateKeyFile = [], jc_privateKeyPEM = ''pem'', jc_issuer = ''iss'',
       jc_audiences = [''market''], jc_keyID = [], jc_ttl = 0\<rparr>,
     op_marketServerURL = ''http://market:8088/'', op_marketProxyToken = [], op_marketJWTAudience = [], op_marketJWTTTL = 0,
     op_mailer = SMTPMailer ''smtp'' ''587'' ''u'' ''p'' ''from'',
     op_avatarProxy = \<lparr>avc_enabled = False, avc_publicOrigin = [], avc_allowedOrigins = [], avc_cacheDir = [],
       avc_cacheTTL = 0, avc_fetchTimeout = 0, avc_maxBytes = 0\<rparr>\<rparr>"

definition sample_server :: server where
  "sample_server = newServer sample_libs sample_options"

lemma sample_server_code [code]:
  "sample_server = \<lparr>sv_cookieName = ''zenmind_session'', sv_cookieSecure = True, sv_sessionTTL = 86400000000000, sv_trusted = [],
     sv_google = DisabledGoogle, sv_authLoginURL = ''/login'', sv_authOrigin = [], sv_authSuccessURL = [], sv_authFailureURL = [],
     sv_ssoBridgeToken = [], sv_desktopSSOProvider = ''first_party'', sv_desktopTicketTTL = 120000000000,
     sv_jwt = \<lparr>js_privateKey = Some ''key'', js_issuer = ''iss'', js_audiences = [''market''], js_keyID = ''default'',
       js_ttl = 43200000000000, js_err = None\<rparr>,
     sv_marketServerURL = ''http://market:8088'', sv_marketProxyToken = [], sv_marketJWTAudience = ''market'',
     sv_marketJWTTTL = 90000000000, sv_mailer = SMTPMailer ''smtp'' ''587'' ''u'' ''p'' ''from'',
     sv_avatarProxy = \<lparr>av_configured = False, av_enabled = False, av_publicOrigin = [], av_allowedOrigins = [],
       av_cacheDir = ''/data/avatars'', av_cacheTTL = 86400000000000, av_maxBytes = 1048576, av_fetchTimeout = 10000000000\<rparr>\<rparr>"
  by code_simp

definition sample_session :: new_session where
  "sample_session = \<lparr>ns_token = ''YWFhYWFhYWFhYWFhYWFhYWFhYWFhYWFhYWFhYWFhYWE'',
     ns_csrf = ''YWFhYWFhYWFhYWFhYWFhYWFhYWFhYWFhYWFhYWFhYWE'', ns_expiresAt = 2 + 24 * hour\<rparr>"

lemma sample_createSession:
  assumes "w_db w = w_db sample_world" and "w_rnd w = w_rnd sample_world"
  shows "fst (createSession sample_server (sample_env 2) sample_request 1 w) = Some sample_session"
proof -
  have "randomToken (w_rnd sample_world) = Some (ns_token sample_session, replicate 32 CHR ''a'')" by code_simp
  moreover have "randomToken (replicate 32 CHR ''a'') = Some (ns_csrf sample_session, [])" by code_simp
  moreover have "db_sessions (w_db sample_world) = []" "user_by_id (w_db sample_world) 1 \<noteq> None"
    by (simp_all add: sample_world_code user_by_id_def)
  moreover have "sv_sessionTTL sample_server = 24 * hour" by (simp add: sample_server_code time_units)
  ultimately show ?thesis
    by (simp add: assms createSession_def CreateSession_def sample_env_def serverNow_def sample_session_def Let_def)
qed

definition sample_login :: "login_request option" where
  "sample_login = Some \<lparr>lr_email = '' ROOT@x.io'', lr_password = ''hash''\<rparr>"

definition login_result :: "response \<times> world" where
  "login_result = login sample_libs sample_server (sample_env 2) sample_request sample_login sample_world"

lemma sample_login_user:
  "fst (FindLocalUserByEmail (sample_env 2) '' ROOT@x.io'' (w_db sample_world)) = Inr sample_user"
  by code_simp

lemma sample_login_cookie:
  "rs_cookies (fst login_result) = [sessionCookie sample_server (ns_token sample_session) (ns_expiresAt sample_session)]"
proof -
  define key where "key = ''admin:'' @ clientIP sample_server sample_request @ '':'' @ normalizeEmail '' ROOT@x.io''"
  have lim: "fst (limited key 5 (sample_env 2) sample_world) = False"
    unfolding key_def by code_simp
  obtain w1 where w1: "limited key 5 (sample_env 2) sample_world = (False, w1)"
    using lim by (cases "limited key 5 (sample_env 2) sample_world") auto
  note db = limited_frame [OF w1]
  obtain w2 where cs: "createSession sample_server (sample_env 2) sample_request 1 w1 = (Some sample_session, w2)"
    using sample_createSession [of w1] db by (cases "createSession sample_server (sample_env 2) sample_request 1 w1") auto
  have "requireValidOrigin sample_server sample_request = None" by code_simp
  then show ?thesis
    using w1 cs sample_login_user db
    by (simp add: login_result_def login_def sample_login_def key_def sample_libs_def sample_user_def
          finish_login_def response_defs)
qed

lemma login_sound_witness:
  "\<exists>req u. sample_login = Some req \<and> originAllowed sample_server sample_request
    \<and> \<not> fst (limited (''admin:'' @ clientIP sample_server sample_request @ '':'' @ normalizeEmail (lr_email req)) 5 (sample_env 2) sample_world)
    \<and> fst (FindLocalUserByEmail (sample_env 2) (lr_email req) (w_db sample_world)) = Inr u
    \<and> lib_bcryptCompare sample_libs (usr_passwordHash u) (lr_password req) \<and> usr_enabled u"
proof (rule login_sound)
  show "login sample_libs sample_server (sample_env 2) sample_request sample_login sample_world
      = (fst login_result, snd login_result)" by (simp add: login_result_def)
  show "rs_cookies (fst login_result) \<noteq> []" by (simp add: sample_login_cookie)
qed

subsection \<open>The session works\<close>

lemma find_map: "map_option f (find (\<lambda>x. P (f x)) xs) = find P (map f xs)"
  by (induction xs) auto

lemma user_by_id_facts:
  assumes "map access_facts (db_users d') = map access_facts (db_users d)"
  shows "map_option access_facts (user_by_id d' i) = map_option access_facts (user_by_id d i)"
proof -
  have "map_option access_facts (user_by_id x i) = find (\<lambda>f. fst f = i) (map access_facts (db_users x))" for x
    using find_map [of access_facts "\<lambda>f. fst f = i"] by (simp add: user_by_id_def access_facts_def)
  then show ?thesis using assms by simp
qed

lemma FindLocalUserByEmail_row:
  assumes "fst (FindLocalUserByEmail E email d) = Inr u"
  shows "\<exists>r \<in> set (db_users d). u_id r = usr_id u \<and> u_enabled r = usr_enabled u
     \<and> (\<exists>c \<in> set (db_credentials d). c_user c = u_id r \<and> c_passwordHash c = usr_passwordHash u)"
proof -
  obtain r c rest where "List.map_filter
               (\<lambda>r. if sqlEq E (u_provider r) ''local'' \<and> sqlEq E (u_email r) (normalizeEmail email)
                    then map_option (\<lambda>c. (r, c)) (find (\<lambda>c. c_user c = u_id r) (db_credentials d))
                    else None) (db_users d) = (r, c) # rest"
    and u: "u = scanUserWithPassword (c_passwordHash c) r"
    using assms by (auto simp: FindLocalUserByEmail_def Let_def split: if_splits list.splits prod.splits)
  then have "(r, c) \<in> set (List.map_filter
               (\<lambda>r. if sqlEq E (u_provider r) ''local'' \<and> sqlEq E (u_email r) (normalizeEmail email)
                    then map_option (\<lambda>c. (r, c)) (find (\<lambda>c. c_user c = u_id r) (db_credentials d))
                    else None) (db_users d))" by simp
  then have "r \<in> set (db_users d) \<and> find (\<lambda>c. c_user c = u_id r) (db_credentials d) = Some c"
    by (auto simp: map_filter_def split: if_splits)
  then show ?thesis using u by (auto simp: scanUserWithPassword_def dest!: find_in)
qed

lemma user_by_id_in:
  assumes "store_wf K d" and "r \<in> set (db_users d)"
  shows "user_by_id d (u_id r) = Some r"
  unfolding user_by_id_def
  by (rule find_unique [where g = u_id]) (use assms in \<open>auto simp: wf_defs\<close>)

text \<open>A session made by \<open>createSession\<close> identifies its user to any later request that carries the token.\<close>

lemma session_identifies:
  assumes wf: "store_wf (db_collate E) d'" and E': "db_collate E' = db_collate E" "\<not> db_fails E' OpFindUserBySession"
    and entry: "session_map (db_collate E) d' (db_collate E (tokenHash token)) = Some (i, csrf', t, c)"
    and cookie: "rq_cookie r' (sv_cookieName S) = Some token" "token \<noteq> []" and time: "db_now E' < t"
    and row: "user_by_id d' i = Some row" "u_enabled row"
  shows "fst (currentUser S E' r' d') = Inr (scanUserWithPassword [] row)"
  using FindUserBySession_refines [of E' d' "tokenHash token" "db_now E'"] assms
  by (simp add: currentUser_def serverNow_def session_answer_def)

lemma finish_login_db:
  assumes "(rs, w') = finish_login S E r u m ns w2" and "store_wf (db_collate E) (w_db w2)"
  shows "store_wf (db_collate E) (w_db w')"
    and "session_map (db_collate E) (w_db w') = session_map (db_collate E) (w_db w2)"
    and "map access_facts (db_users (w_db w')) = map access_facts (db_users (w_db w2))"
    and "rs_cookies rs = [sessionCookie S (ns_token ns) (ns_expiresAt ns)]"
  using assms
  by (auto simp: finish_login_def response_defs recordLogin_wf touchLastLogin_wf intro!: session_map_cong)

text \<open>What the cookie of a password login stands for in the database afterwards.\<close>

lemma login_cookie_session:
  assumes "store_wf (db_collate E) (w_db w)" and "login X S E r body w = (rs, w')" and "c \<in> set (rs_cookies rs)"
  obtains req u csrf created row where "body = Some req"
    and "fst (FindLocalUserByEmail E (lr_email req) (w_db w)) = Inr u"
    and "store_wf (db_collate E) (w_db w')" and "ck_name c = sv_cookieName S" and "ck_value c \<noteq> []"
    and "session_map (db_collate E) (w_db w') (db_collate E (tokenHash (ck_value c)))
       = Some (usr_id u, csrf, db_time E (ck_expires c), created)"
    and "user_by_id (w_db w') (usr_id u) = Some row" and "u_enabled row" and "u_id row = usr_id u"
proof -
  obtain req u w1 ns w2 where body: "body = Some req"
    and u: "fst (FindLocalUserByEmail E (lr_email req) (w_db w)) = Inr u" "usr_enabled u"
    and ns: "createSession S E r (usr_id u) w1 = (Some ns, w2)"
    and fin: "(rs, w') = finish_login S E r u ''local'' ns w2" and db: "w_db w1 = w_db w"
    using assms(2,3) by (auto elim!: login_cookie)
  obtain rnd1 where tok: "randomToken (w_rnd w1) = Some (ns_token ns, rnd1)"
    and cs: "CreateSession E (usr_id u) (tokenHash (ns_token ns)) (ns_csrf ns) (ns_expiresAt ns) (userAgent r) (clientIP S r) (w_db w1)
       = (Inr (), w_db w2)"
    using createSession_ok [OF ns] by metis
  have wf2: "store_wf (db_collate E) (w_db w2)"
    using CreateSession_wf [OF assms(1) refl, of "usr_id u"] cs db by (metis snd_conv)
  note f = finish_login_db [OF fin wf2]
  have c: "c = sessionCookie S (ns_token ns) (ns_expiresAt ns)" using f(4) assms(3) by simp
  obtain row where row: "row \<in> set (db_users (w_db w))" "u_id row = usr_id u" "u_enabled row"
    using FindLocalUserByEmail_row [OF u(1)] u(2) by auto
  have "map_option access_facts (user_by_id (w_db w') (usr_id u)) = map_option access_facts (user_by_id (w_db w) (usr_id u))"
    using f(3) createSession_map(2) [OF ns] db by (intro user_by_id_facts) simp
  then obtain row' where row': "user_by_id (w_db w') (usr_id u) = Some row'" "u_enabled row'" "u_id row' = usr_id u"
    using user_by_id_in [OF assms(1) row(1)] row by (auto simp: access_facts_def)
  show thesis
    by (rule that [OF body u(1) f(1) _ _ _ row'(1,2,3)])
      (use createSession_map(1) [OF ns] f(2) c randomToken_nonempty [OF tok] in \<open>auto simp: sessionCookie_def\<close>)
qed

text \<open>A session cookie set by the password login works: until the session expires, any request that
  sends it back is the logged-in user's, also with other rounding or failures of the engine elsewhere.\<close>

theorem login_session_works:
  assumes "store_wf (db_collate E) (w_db w)" and "login X S E r body w = (rs, w')" and "c \<in> set (rs_cookies rs)"
    and "db_collate E' = db_collate E" and "\<not> db_fails E' OpFindUserBySession"
    and "db_now E' < db_time E (ck_expires c)" and "rq_cookie r' (ck_name c) = Some (ck_value c)"
  shows "\<exists>u u'. fst (FindLocalUserByEmail E (lr_email (the body)) (w_db w)) = Inr u
     \<and> fst (currentUser S E' r' (w_db w')) = Inr u' \<and> usr_id u' = usr_id u \<and> usr_enabled u'"
proof -
  obtain req u csrf created row where login: "body = Some req"
    "fst (FindLocalUserByEmail E (lr_email req) (w_db w)) = Inr u" "store_wf (db_collate E) (w_db w')"
    "ck_name c = sv_cookieName S" "ck_value c \<noteq> []"
    "session_map (db_collate E) (w_db w') (db_collate E (tokenHash (ck_value c)))
       = Some (usr_id u, csrf, db_time E (ck_expires c), created)"
    "user_by_id (w_db w') (usr_id u) = Some row" "u_enabled row" "u_id row = usr_id u"
    by (rule login_cookie_session [OF assms(1-3)])
  have "fst (currentUser S E' r' (w_db w')) = Inr (scanUserWithPassword [] row)"
    by (rule session_identifies [OF login(3) assms(4,5) login(6)]) (use login assms in auto)
  then show ?thesis using login by (auto simp: scanUserWithPassword_def)
qed

definition sample_cookie :: cookie where
  "sample_cookie = sessionCookie sample_server (ns_token sample_session) (ns_expiresAt sample_session)"

definition sample_return :: request where
  "sample_return = sample_request\<lparr>rq_cookie := (\<lambda>_. Some (ns_token sample_session))\<rparr>"

lemma login_session_works_witness:
  "\<exists>u u'. fst (FindLocalUserByEmail (sample_env 2) (lr_email (the sample_login)) (w_db sample_world)) = Inr u
     \<and> fst (currentUser sample_server (sample_env 9) sample_return (w_db (snd login_result))) = Inr u'
     \<and> usr_id u' = usr_id u \<and> usr_enabled u'"
proof (rule login_session_works)
  show "store_wf (db_collate (sample_env 2)) (w_db sample_world)" unfolding sample_env_collate by code_simp
  show "login sample_libs sample_server (sample_env 2) sample_request sample_login sample_world
      = (fst login_result, snd login_result)" by (simp add: login_result_def)
  show "sample_cookie \<in> set (rs_cookies (fst login_result))" by (simp add: sample_login_cookie sample_cookie_def)
  show "rq_cookie sample_return (ck_name sample_cookie) = Some (ck_value sample_cookie)"
    by (simp add: sample_return_def sample_cookie_def sessionCookie_def)
  show "db_now (sample_env 9) < db_time (sample_env 2) (ck_expires sample_cookie)"
    by (simp add: sample_cookie_def sessionCookie_def sample_session_def sample_env_def time_units)
qed (simp_all add: sample_env_def)

subsection \<open>Logging out\<close>

text \<open>C6: The CSRF guard lets a request pass exactly if it carries the token of a live session, its
  \<open>X-CSRF-Token\<close> is the one stored with that session, and its origin is allowed.\<close>

theorem requireCSRF_passes:
  assumes "store_wf (db_collate E) d" and "\<not> db_fails E OpFindCSRF"
  shows "requireCSRF S E r d = None \<longleftrightarrow>
    (\<exists>token u csrf t c. sessionToken S r = Some token
       \<and> session_map (db_collate E) d (db_collate E (tokenHash token)) = Some (u, csrf, t, c)
       \<and> db_now E < t \<and> csrf \<noteq> [] \<and> csrf = trimSpace (hdr r ''X-CSRF-Token'') \<and> originAllowed S r)"
proof (cases "sessionToken S r")
  case None
  then show ?thesis by (simp add: requireCSRF_def)
next
  case (Some token)
  note le = live_session_entry [OF assms(1), of "tokenHash token" "db_now E"]
  show ?thesis
  proof (cases "live_session E (tokenHash token) (db_now E) d")
    case None
    then have "\<not> (\<exists>u csrf t c. session_map (db_collate E) d (db_collate E (tokenHash token)) = Some (u, csrf, t, c)
                 \<and> db_now E < t)"
      using le by (auto split: option.splits if_splits)
    moreover have "requireCSRF S E r d \<noteq> None"
      using Some None assms(2) by (simp add: requireCSRF_def FindSessionCSRF_def serverNow_def)
    ultimately show ?thesis using Some by auto
  next
    case (Some s)
    then have m: "session_map (db_collate E) d (db_collate E (tokenHash token)) = Some (session_entry s)"
      and t: "db_now E < s_expiresAt s"
      using le by (auto simp: session_entry_def split: option.splits if_splits)
    have "requireCSRF S E r d = None \<longleftrightarrow>
        s_csrfToken s \<noteq> [] \<and> s_csrfToken s = trimSpace (hdr r ''X-CSRF-Token'') \<and> originAllowed S r"
      using \<open>sessionToken S r = Some token\<close> Some assms(2)
      by (simp add: requireCSRF_def FindSessionCSRF_def serverNow_def)
    then show ?thesis using \<open>sessionToken S r = Some token\<close> m t by (auto simp: session_entry_def)
  qed
qed

definition csrf_request :: request where
  "csrf_request = sample_return\<lparr>rq_header := (\<lambda>k. if k = ''X-Csrf-Token'' then [ns_csrf sample_session] else [])\<rparr>"

text \<open>A database with one live session of the user 1, as \<open>createSession\<close> stores it.\<close>

definition session_db :: db where
  "session_db = snd (CreateSession (sample_env 2) 1 (tokenHash (ns_token sample_session)) (ns_csrf sample_session)
     (2 + 24 * hour) [] [] (w_db sample_world))"

lemma session_db_sessions:
  "db_sessions session_db = [\<lparr>s_id = 1, s_user = 1, s_tokenHash = tokenHash (ns_token sample_session),
     s_csrfToken = ns_csrf sample_session, s_expiresAt = 2 + 24 * hour, s_createdAt = 2, s_lastSeenAt = 2,
     s_userAgent = [], s_ip = []\<rparr>]"
proof -
  have "db_sessions (w_db sample_world) = []" "user_by_id (w_db sample_world) 1 \<noteq> None" "db_nextSession (w_db sample_world) = 1"
    by (simp_all add: sample_world_code user_by_id_def)
  then show ?thesis by (auto simp: session_db_def CreateSession_def sample_env_def truncateStr_def)
qed

lemma session_db_wf: "store_wf (map lower_char) session_db"
proof -
  have "store_wf (map lower_char) (w_db sample_world)" by code_simp
  from CreateSession_wf [OF this, of "sample_env 2"] show ?thesis by (simp add: session_db_def)
qed

lemma requireCSRF_passes_witness:
  "requireCSRF sample_server (sample_env 9) csrf_request session_db = None \<longleftrightarrow>
    (\<exists>token u csrf t c. sessionToken sample_server csrf_request = Some token
       \<and> session_map (db_collate (sample_env 9)) session_db (db_collate (sample_env 9) (tokenHash token)) = Some (u, csrf, t, c)
       \<and> db_now (sample_env 9) < t \<and> csrf \<noteq> [] \<and> csrf = trimSpace (hdr csrf_request ''X-CSRF-Token'')
       \<and> originAllowed sample_server csrf_request)"
  by (rule requireCSRF_passes) (simp add: session_db_wf, simp add: sample_env_def)

text \<open>The sample request passes, so the equivalence is not vacuous.\<close>

lemma sample_csrf_passes: "requireCSRF sample_server (sample_env 9) csrf_request session_db = None"
proof -
  have "sessionToken sample_server csrf_request = Some (ns_token sample_session)" by code_simp
  moreover have "trimSpace (hdr csrf_request ''X-CSRF-Token'') = ns_csrf sample_session" by code_simp
  moreover have "originAllowed sample_server csrf_request" by code_simp
  moreover have "ns_csrf sample_session \<noteq> []" by (simp add: sample_session_def)
  ultimately show ?thesis
    by (simp add: requireCSRF_def FindSessionCSRF_def live_session_def session_db_sessions sample_env_def serverNow_def
          time_units)
qed

text \<open>C12: Logging out: if the request carries a session token and the CSRF guard stops it, nothing
  changes; otherwise the cookie is expired and exactly the session of the cookie's token is gone.\<close>

theorem logout_ends_session:
  assumes "logout S E r w = (rs, w')" and "\<not> db_fails E OpRevokeSession"
    and "rq_cookie r (sv_cookieName S) = Some token" and "token \<noteq> []"
  shows "if sessionToken S r \<noteq> None \<and> requireCSRF S E r (w_db w) \<noteq> None
    then w' = w \<and> rs_status rs \<in> {401, 403}
    else rs_cookies rs = [expiredCookie S] \<and> rs_status rs = 200
       \<and> session_map (db_collate E) (w_db w') = (session_map (db_collate E) (w_db w))(db_collate E (tokenHash token) := None)"
proof (cases "sessionToken S r \<noteq> None \<and> requireCSRF S E r (w_db w) \<noteq> None")
  case True
  then obtain rs0 where g: "requireCSRF S E r (w_db w) = Some rs0" by auto
  then have "rs_status rs0 \<in> {401, 403}"
    by (auto simp: requireCSRF_def response_defs split: if_splits option.splits sum.splits)
  then show ?thesis using True g assms(1) by (auto simp: logout_def)
next
  case False
  then have "(if sessionToken S r = None then None else requireCSRF S E r (w_db w)) = None" by auto
  then have l: "rs = setCookie (expiredCookie S) (writeJSON 200 (JObj [(''ok'', JBool True)]))"
    "w' = w\<lparr>w_db := snd (RevokeSession E (tokenHash token) (w_db w))\<rparr>"
    using assms(1,3,4) by (simp_all add: logout_def Let_def)
  have "RevokeSession E (tokenHash token) (w_db w) = (Inr (), snd (RevokeSession E (tokenHash token) (w_db w)))"
    using assms(2) by (simp add: RevokeSession_def)
  from revoke_session_map [OF this refl] show ?thesis using False l by (simp add: response_defs)
qed

definition logout_result :: "response \<times> world" where
  "logout_result = logout sample_server (sample_env 9) csrf_request (sample_world\<lparr>w_db := session_db\<rparr>)"

lemma logout_ends_session_witness:
  "if sessionToken sample_server csrf_request \<noteq> None
      \<and> requireCSRF sample_server (sample_env 9) csrf_request (w_db (sample_world\<lparr>w_db := session_db\<rparr>)) \<noteq> None
    then snd logout_result = sample_world\<lparr>w_db := session_db\<rparr> \<and> rs_status (fst logout_result) \<in> {401, 403}
    else rs_cookies (fst logout_result) = [expiredCookie sample_server] \<and> rs_status (fst logout_result) = 200
       \<and> session_map (db_collate (sample_env 9)) (w_db (snd logout_result))
         = (session_map (db_collate (sample_env 9)) (w_db (sample_world\<lparr>w_db := session_db\<rparr>)))
             (db_collate (sample_env 9) (tokenHash (ns_token sample_session)) := None)"
proof (rule logout_ends_session)
  show "logout sample_server (sample_env 9) csrf_request (sample_world\<lparr>w_db := session_db\<rparr>)
      = (fst logout_result, snd logout_result)" by (simp add: logout_result_def)
  show "\<not> db_fails (sample_env 9) OpRevokeSession" by (simp add: sample_env_def)
  show "rq_cookie csrf_request (sv_cookieName sample_server) = Some (ns_token sample_session)"
    by (simp add: csrf_request_def sample_return_def)
  show "ns_token sample_session \<noteq> []" by code_simp
qed

end
