(* ===== verification/Google_Handlers.thy ===== *)
theory Google_Handlers
  imports Auth_Session
begin

text \<open>
  The Google login of \<open>server.go\<close>: starting the OAuth flow for the web and for the desktop client, and
  the callback that consumes the state, exchanges the code and logs the user in.
\<close>

definition startGoogleOAuth ::
  "libs \<Rightarrow> server \<Rightarrow> dbenv \<Rightarrow> oauth_request \<Rightarrow> world \<Rightarrow> response \<times> world" where
  "startGoogleOAuth X S E q w =
     (let failed = writeError 500 ''server_error'' ''Unable to start Google login.'' in
      case randomToken (w_rnd w) of
        None \<Rightarrow> (failed, w)
      | Some (state, rnd1) \<Rightarrow>
          (case randomToken rnd1 of
             None \<Rightarrow> (failed, w\<lparr>w_rnd := rnd1\<rparr>)
           | Some (nonce, rnd2) \<Rightarrow>
               (case randomToken rnd2 of
                  None \<Rightarrow> (failed, w\<lparr>w_rnd := rnd2\<rparr>)
                | Some (codeVerifier, rnd3) \<Rightarrow>
                    (let q' = q\<lparr>oq_nonce := nonce, oq_codeVerifier := codeVerifier,
                               oq_expiresAt := serverNow E + 10 * minute,
                               oq_returnTo := (if oq_returnTo q = [] then ''/'' else oq_returnTo q)\<rparr>
                     in case SaveOAuthRequest E (tokenHash state) q' (w_db w) of
                          (Inl e, d) \<Rightarrow>
                            (writeError 500 ''server_error'' ''Unable to save Google login request.'',
                             w\<lparr>w_rnd := rnd3, w_db := d\<rparr>)
                        | (Inr _, d) \<Rightarrow>
                            (redirect (authCodeURL (lib_google X) (sv_google S) state nonce (pkceChallenge codeVerifier)),
                             w\<lparr>w_rnd := rnd3, w_db := d\<rparr>)))))"

definition googleStart :: "libs \<Rightarrow> server \<Rightarrow> dbenv \<Rightarrow> request \<Rightarrow> world \<Rightarrow> response \<times> world" where
  "googleStart X S E r w0 =
     (if \<not> google_configured (sv_google S) then (redirectFailure S ''google_not_configured'', w0)
      else
        (case limited (''google:'' @ clientIP S r) 30 E w0 of
           (True, w) \<Rightarrow> (writeError 429 ''rate_limited'' ''Too many login attempts. Please try again later.'', w)
         | (False, w) \<Rightarrow>
             startGoogleOAuth X S E
               (emptyOAuthRequest\<lparr>oq_kind := ''web'',
                  oq_returnTo := safeRelativeRedirect (query_get r ''return_to'')\<rparr>) w))"

definition googleDesktopStart :: "libs \<Rightarrow> server \<Rightarrow> dbenv \<Rightarrow> request \<Rightarrow> world \<Rightarrow> response \<times> world" where
  "googleDesktopStart X S E r w =
     (if \<not> google_configured (sv_google S)
      then (writeError 503 ''google_not_configured'' ''Google login is not configured.'', w)
      else
        (let callbackURL = trimSpace (query_get r ''callback'');
             desktopState = trimSpace (query_get r ''state'')
         in if \<not> isAllowedDesktopCallbackURL callbackURL \<or> desktopState = []
            then (writeError 400 ''invalid_request'' ''Desktop callback and state are required.'', w)
            else startGoogleOAuth X S E
                   (emptyOAuthRequest\<lparr>oq_kind := ''desktop'', oq_callbackURL := callbackURL,
                                      oq_desktopState := desktopState\<rparr>) w))"

definition request_context :: "oauth_request \<Rightarrow> desktop_context" where
  "request_context q =
     \<lparr>dc_oauthState = [], dc_callbackURL = oq_callbackURL q, dc_desktopState = oq_desktopState q\<rparr>"

text \<open>The callback once the identity is known.\<close>

definition googleLogin ::
  "server \<Rightarrow> dbenv \<Rightarrow> request \<Rightarrow> oauth_request \<Rightarrow> google_identity \<Rightarrow> world \<Rightarrow> response \<times> world" where
  "googleLogin S E r q ident w0 =
     (case UpsertGoogleUser E ident (w_db w0) of
        (Inl e, d) \<Rightarrow>
          (redirectFailure S ''google_user_failed'',
           recordLogin S E r (anonymousFailure (gi_email ident) (gi_name ident) ''google'' ''user_upsert_failed'')
             (w0\<lparr>w_db := d\<rparr>))
      | (Inr u, d) \<Rightarrow>
          (let w = w0\<lparr>w_db := d\<rparr> in
           if \<not> usr_enabled u then
             (if oq_kind q = ''desktop'' then redirectDesktopFailure (request_context q) ''account_disabled''
              else redirectFailure S ''account_disabled'',
              recordLogin S E r (userFailure u ''google'' ''account_disabled'') w)
           else if oq_kind q = ''desktop'' then
             (case createDesktopSsoTicket S E r (usr_id u) w of
                (None, w1) \<Rightarrow> (redirectDesktopFailure (request_context q) ''desktop_ticket_failed'', w1)
              | (Some ticket, w1) \<Rightarrow>
                  (redirectDesktopSuccess (request_context q) ticket,
                   recordLogin S E r (userSuccess u ''desktop_google'') w1))
           else
             (case createSession S E r (usr_id u) w of
                (None, w1) \<Rightarrow> (redirectFailure S ''google_session_failed'', w1)
              | (Some ns, w1) \<Rightarrow>
                  (setCookie (sessionCookie S (ns_token ns) (ns_expiresAt ns))
                     (redirect (safeRelativeRedirect (oq_returnTo q))),
                   recordLogin S E r (userSuccess u ''google'') (touchLastLogin E u w1)))))"

definition googleCallback :: "libs \<Rightarrow> server \<Rightarrow> dbenv \<Rightarrow> request \<Rightarrow> world \<Rightarrow> response \<times> world" where
  "googleCallback X S E r w0 =
     (let state = trimSpace (query_get r ''state'') in
      case ConsumeOAuthRequest E (tokenHash state) (serverNow E) (w_db w0) of
        (res, d) \<Rightarrow>
          (let w = w0\<lparr>w_db := d\<rparr>;
               invalid = (redirectFailure S ''invalid_state'',
                          recordLogin S E r (anonymousFailure [] [] ''google'' ''invalid_state'') w)
           in if state = [] then invalid
              else
                (case res of
                   Inl ErrNotFound \<Rightarrow> invalid
                 | Inl _ \<Rightarrow> (redirectFailure S ''google_state_failed'', w)
                 | Inr q \<Rightarrow>
                     (let code = trimSpace (query_get r ''code'') in
                      if code = [] then
                        (redirectFailure S ''missing_code'',
                         recordLogin S E r (anonymousFailure [] [] ''google'' ''missing_code'') w)
                      else
                        (case exchangeCode (lib_google X) (sv_google S) code (oq_codeVerifier q) (oq_nonce q) of
                           None \<Rightarrow>
                             (redirectFailure S ''google_exchange_failed'',
                              recordLogin S E r (anonymousFailure [] [] ''google'' ''exchange_failed'') w)
                         | Some ident \<Rightarrow> googleLogin S E r q ident w)))))"

end
