(* ===== verification/Desktop_Sso.thy ===== *)
theory Desktop_Sso
  imports Auth_Session
begin

text \<open>
  Desktop single sign-on of \<open>server.go\<close>: the browser side that issues a one-time ticket to the
  desktop client's loopback callback, the exchange of a ticket or a Google token for a session, the
  access token for other services, and the session endpoint of the SSO bridge.
\<close>

subsection \<open>The bridge\<close>

definition completeDesktopSsoBridge ::
  "server \<Rightarrow> dbenv \<Rightarrow> request \<Rightarrow> desktop_context \<Rightarrow> world \<Rightarrow> response \<times> world" where
  "completeDesktopSsoBridge S E r ctx w0 =
     (let ident = authentikIdentityFromRequest r; authMethod = desktopSSOAuthMethod S in
      if trimSpace (ai_subject ident) = [] \<or> \<not> validEmail (ai_email ident) then
        (redirectDesktopFailure ctx ''sso_missing_identity'',
         recordLogin S E r (anonymousFailure (ai_email ident) (ai_name ident) authMethod ''missing_identity'') w0)
      else
        (case UpsertAuthentikUser E ident (w_db w0) of
           (Inl e, d) \<Rightarrow>
             (redirectDesktopFailure ctx ''sso_user_failed'',
              recordLogin S E r (anonymousFailure (ai_email ident) (ai_name ident) authMethod ''user_upsert_failed'')
                (w0\<lparr>w_db := d\<rparr>))
         | (Inr u, d) \<Rightarrow>
             (let w = w0\<lparr>w_db := d\<rparr> in
              if \<not> usr_enabled u then
                (redirectDesktopFailure ctx ''account_disabled'',
                 recordLogin S E r (userFailure u authMethod ''account_disabled'') w)
              else
                (case createDesktopSsoTicket S E r (usr_id u) w of
                   (None, w1) \<Rightarrow>
                     (redirectDesktopFailure ctx ''desktop_ticket_failed'',
                      recordLogin S E r (userFailure u authMethod ''ticket_create_failed'') w1)
                 | (Some ticket, w1) \<Rightarrow>
                     (redirectDesktopSuccess ctx ticket,
                      recordLogin S E r (userSuccess u authMethod) w1)))))"

definition loginPage :: "server \<Rightarrow> response" where
  "loginPage S = (case login_redirect S of None \<Rightarrow> aborted | Some target \<Rightarrow> redirect target)"

definition desktopSsoStart :: "server \<Rightarrow> dbenv \<Rightarrow> request \<Rightarrow> world \<Rightarrow> response \<times> world" where
  "desktopSsoStart S E r w =
     (let callbackURL = trimSpace (query_get r ''callback'');
          desktopState = trimSpace (query_get r ''state'')
      in
      if \<not> isAllowedDesktopCallbackURL callbackURL \<or> desktopState = [] then
        (writeError 400 ''invalid_request'' ''Desktop callback and state are required.'',
         recordLogin S E r (anonymousFailure [] [] (desktopSSOAuthMethod S) ''invalid_desktop_callback'') w)
      else if isTrustedDesktopSsoBridgeRequest S r then
        completeDesktopSsoBridge S E r
          \<lparr>dc_oauthState = [], dc_callbackURL = callbackURL, dc_desktopState = desktopState\<rparr> w
      else
        (let cookies = setCookie (desktopSsoBridgeCookie S (serverNow E) (desktopSsoBridgeCallbackCookieName S) callbackURL)
                     \<circ> setCookie (desktopSsoBridgeCookie S (serverNow E) (desktopSsoBridgeStateCookieName S) desktopState)
         in case currentUser S E r (w_db w) of
              (Inr u, d) \<Rightarrow> (cookies (redirect ''/api/auth/desktop-sso/continue''), w\<lparr>w_db := d\<rparr>)
            | (Inl e, d) \<Rightarrow> (cookies (loginPage S), w\<lparr>w_db := d\<rparr>)))"

definition desktopSsoContinue :: "server \<Rightarrow> dbenv \<Rightarrow> request \<Rightarrow> world \<Rightarrow> response \<times> world" where
  "desktopSsoContinue S E r w0 =
     (case fst (readDesktopSsoBridgeContext S r) of
        None \<Rightarrow>
          (clearDesktopSsoBridgeCookies S
             (writeError 400 ''invalid_request'' ''Desktop callback and state are required.''),
           recordLogin S E r (anonymousFailure [] [] (desktopSSOAuthMethod S) ''invalid_desktop_callback'') w0)
      | Some ctx \<Rightarrow>
          if isTrustedDesktopSsoBridgeRequest S r then
            (case completeDesktopSsoBridge S E r ctx w0 of (rs, w) \<Rightarrow> (clearDesktopSsoBridgeCookies S rs, w))
          else
            (case currentUser S E r (w_db w0) of
               (Inl ErrNotFound, d) \<Rightarrow> (loginPage S, w0\<lparr>w_db := d\<rparr>)
             | (Inl e, d) \<Rightarrow>
                 (clearDesktopSsoBridgeCookies S (redirectDesktopFailure ctx ''account_disabled''), w0\<lparr>w_db := d\<rparr>)
             | (Inr u, d) \<Rightarrow>
                 if \<not> usr_enabled u then
                   (clearDesktopSsoBridgeCookies S (redirectDesktopFailure ctx ''account_disabled''), w0\<lparr>w_db := d\<rparr>)
                 else
                   (case createDesktopSsoTicket S E r (usr_id u) (w0\<lparr>w_db := d\<rparr>) of
                      (None, w1) \<Rightarrow>
                        (clearDesktopSsoBridgeCookies S (redirectDesktopFailure ctx ''desktop_ticket_failed''), w1)
                    | (Some ticket, w1) \<Rightarrow>
                        (clearDesktopSsoBridgeCookies S (redirectDesktopSuccess ctx ticket),
                         recordLogin S E r (userSuccess u ''desktop_first_party'') w1))))"

subsection \<open>Exchanging a ticket or a token for a session\<close>

record sso_request =
  sr_provider :: string
  sr_idToken :: string
  sr_ticket :: string

definition writeDesktopSsoSessionResponse ::
  "server \<Rightarrow> dbenv \<Rightarrow> request \<Rightarrow> user \<Rightarrow> string \<Rightarrow> world \<Rightarrow> response \<times> world" where
  "writeDesktopSsoSessionResponse S E r u authMethod w0 =
     (case createSession S E r (usr_id u) w0 of
        (None, w) \<Rightarrow>
          (writeError 500 ''server_error'' ''Unable to save session.'',
           recordLogin S E r (userFailure u authMethod ''session_create_failed'') w)
      | (Some ns, w) \<Rightarrow>
          (setCookie (sessionCookie S (ns_token ns) (ns_expiresAt ns))
             (writeJSON 200 (JObj [(''ok'', JBool True),
                (''user'', publicUser S (u\<lparr>usr_lastLoginAt := Some (serverNow E)\<rparr>)),
                (''expiresAt'', JTime (ns_expiresAt ns))])),
           recordLogin S E r (userSuccess u authMethod) (touchLastLogin E u w)))"

definition desktopSsoTicketSession ::
  "server \<Rightarrow> dbenv \<Rightarrow> request \<Rightarrow> string \<Rightarrow> world \<Rightarrow> response \<times> world" where
  "desktopSsoTicketSession S E r ticket w0 =
     (case ConsumeDesktopSsoTicket E (tokenHash ticket) (serverNow E) (w_db w0) of
        (res, d) \<Rightarrow>
          (let w = w0\<lparr>w_db := d\<rparr>; authMethod = desktopSSOAuthMethod S in
           case res of
             Inl ErrNotFound \<Rightarrow>
               (writeError 401 ''invalid_ticket'' ''Desktop SSO ticket is invalid or expired.'',
                recordLogin S E r (anonymousFailure [] [] authMethod ''invalid_ticket'') w)
           | Inl (ErrDisabledUser u) \<Rightarrow>
               (writeError 403 ''account_disabled'' ''This account is disabled.'',
                recordLogin S E r (userFailure u authMethod ''account_disabled'') w)
           | Inl _ \<Rightarrow> (writeError 500 ''server_error'' ''Unable to read desktop SSO ticket.'', w)
           | Inr u \<Rightarrow> writeDesktopSsoSessionResponse S E r u authMethod w))"

definition desktopSsoGoogleSession ::
  "libs \<Rightarrow> server \<Rightarrow> dbenv \<Rightarrow> request \<Rightarrow> string \<Rightarrow> world \<Rightarrow> response \<times> world" where
  "desktopSsoGoogleSession X S E r idToken w =
     (case verifyIDToken (lib_google X) (sv_google S) idToken of
        None \<Rightarrow>
          (writeError 401 ''invalid_token'' ''Desktop SSO token is invalid.'',
           recordLogin S E r (anonymousFailure [] [] ''desktop_google'' ''invalid_token'') w)
      | Some ident \<Rightarrow>
          (case UpsertGoogleUser E ident (w_db w) of
             (Inl e, d) \<Rightarrow>
               (writeError 500 ''server_error'' ''Unable to save user account.'',
                recordLogin S E r (anonymousFailure (gi_email ident) (gi_name ident) ''desktop_google'' ''user_upsert_failed'')
                  (w\<lparr>w_db := d\<rparr>))
           | (Inr u, d) \<Rightarrow>
               if \<not> usr_enabled u then
                 (writeError 403 ''account_disabled'' ''This account is disabled.'',
                  recordLogin S E r (userFailure u ''desktop_google'' ''account_disabled'') (w\<lparr>w_db := d\<rparr>))
               else writeDesktopSsoSessionResponse S E r u ''desktop_google'' (w\<lparr>w_db := d\<rparr>)))"

definition desktopSsoSession ::
  "libs \<Rightarrow> server \<Rightarrow> dbenv \<Rightarrow> request \<Rightarrow> sso_request option \<Rightarrow> world \<Rightarrow> response \<times> world" where
  "desktopSsoSession X S E r body w =
     (case requireValidOrigin S r of
        Some rs \<Rightarrow> (rs, w)
      | None \<Rightarrow>
          (case body of
             None \<Rightarrow> (writeError 400 ''invalid_json'' ''Invalid desktop SSO request.'', w)
           | Some req \<Rightarrow>
               (let provider = toLower (trimSpace (sr_provider req));
                    idToken = trimSpace (sr_idToken req);
                    ticket = trimSpace (sr_ticket req)
                in
                if ticket \<noteq> [] then desktopSsoTicketSession S E r ticket w
                else if provider \<noteq> ''google''
                then (writeError 400 ''invalid_request'' ''Desktop SSO provider is required.'', w)
                else if \<not> google_configured (sv_google S)
                then (writeError 503 ''google_not_configured'' ''Google login is not configured.'', w)
                else if idToken = []
                then (writeError 400 ''invalid_request'' ''Desktop SSO id_token or ticket is required.'', w)
                else desktopSsoGoogleSession X S E r idToken w)))"

subsection \<open>The access token\<close>

text \<open>The part of \<open>desktopSsoToken\<close> after the guard, for the user of the session.\<close>

definition desktopAccessToken ::
  "libs \<Rightarrow> server \<Rightarrow> dbenv \<Rightarrow> request \<Rightarrow> user \<Rightarrow> world \<Rightarrow> response \<times> world" where
  "desktopAccessToken X S E r u w =
     (case sessionToken S r of
        None \<Rightarrow> (writeError 401 ''unauthorized'' ''Login required.'', w)
      | Some token \<Rightarrow>
          (let tokenUser = u\<lparr>usr_avatarURL := publicURL (sv_avatarProxy S) u\<rparr> in
           case fst (FindSessionStartedAt E (tokenHash token) (serverNow E) (w_db w)) of
             Inl ErrNotFound \<Rightarrow> (writeError 401 ''unauthorized'' ''Login required.'', w)
           | Inl _ \<Rightarrow> (writeError 500 ''server_error'' ''Unable to read login session.'', w)
           | Inr startedAt \<Rightarrow>
               (case issue (lib_jwt X) (sv_jwt S) tokenUser (serverNow E) (tokenHash token) startedAt (w_rnd w) of
                  (Inl e, rnd) \<Rightarrow>
                    (writeError 503 ''sso_jwt_not_configured'' ''Desktop SSO JWT signer is not configured.'',
                     w\<lparr>w_rnd := rnd\<rparr>)
                | (Inr res, rnd) \<Rightarrow>
                    (writeJSON 200 (JObj [(''ok'', JBool True), (''user'', publicUser S u),
                       (''accessToken'', JStr (jr_token res)), (''tokenType'', JStr ''Bearer''),
                       (''expiresAt'', JTime (jr_expiresAt res)), (''issuer'', JStr (jr_issuer res)),
                       (''audience'', JArr (map JStr (jr_audiences res))), (''scope'', JStr (jr_scope res))]),
                     w\<lparr>w_rnd := rnd\<rparr>))))"

definition desktopSsoToken :: "libs \<Rightarrow> server \<Rightarrow> dbenv \<Rightarrow> request \<Rightarrow> world \<Rightarrow> response \<times> world" where
  "desktopSsoToken X S E r w =
     (case requireCSRF S E r (w_db w) of
        Some rs \<Rightarrow> (rs, w)
      | None \<Rightarrow>
          (case currentUser S E r (w_db w) of
             (Inl ErrNotFound, d) \<Rightarrow> (writeError 401 ''unauthorized'' ''Login required.'', w\<lparr>w_db := d\<rparr>)
           | (Inl e, d) \<Rightarrow> (writeError 403 ''account_disabled'' ''This account is disabled.'', w\<lparr>w_db := d\<rparr>)
           | (Inr u, d) \<Rightarrow> desktopAccessToken X S E r u (w\<lparr>w_db := d\<rparr>)))"

subsection \<open>The session of the SSO bridge\<close>

definition authentikSsoSession :: "server \<Rightarrow> dbenv \<Rightarrow> request \<Rightarrow> world \<Rightarrow> response \<times> world" where
  "authentikSsoSession S E r w0 =
     (let ident = authentikIdentityFromRequest r in
      if \<not> isTrustedDesktopSsoBridgeRequest S r then
        (redirectFailure S ''sso_untrusted_bridge'',
         recordLogin S E r (anonymousFailure [] [] ''authentik'' ''untrusted_bridge'') w0)
      else if trimSpace (ai_subject ident) = [] \<or> \<not> validEmail (ai_email ident) then
        (redirectFailure S ''sso_missing_identity'',
         recordLogin S E r (anonymousFailure (ai_email ident) (ai_name ident) ''authentik'' ''missing_identity'') w0)
      else
        (case UpsertAuthentikUser E ident (w_db w0) of
           (Inl e, d) \<Rightarrow>
             (redirectFailure S ''sso_user_failed'',
              recordLogin S E r (anonymousFailure (ai_email ident) (ai_name ident) ''authentik'' ''user_upsert_failed'')
                (w0\<lparr>w_db := d\<rparr>))
         | (Inr u, d) \<Rightarrow>
             if \<not> usr_enabled u then
               (redirectFailure S ''account_disabled'',
                recordLogin S E r (userFailure u ''authentik'' ''account_disabled'') (w0\<lparr>w_db := d\<rparr>))
             else
               (case createSession S E r (usr_id u) (w0\<lparr>w_db := d\<rparr>) of
                  (None, w) \<Rightarrow>
                    (redirectFailure S ''sso_session_failed'',
                     recordLogin S E r (userFailure u ''authentik'' ''session_create_failed'') w)
                | (Some ns, w) \<Rightarrow>
                    (setCookie (sessionCookie S (ns_token ns) (ns_expiresAt ns))
                       (redirect (safeRelativeRedirect (query_get r ''rd''))),
                     recordLogin S E r (userSuccess u ''authentik'') (touchLastLogin E u w)))))"

end
