(* ===== verification/Market_Proxy.thy ===== *)
theory Market_Proxy
  imports Auth_Session
begin

text \<open>
  The market gateway of \<open>server.go\<close>: \<open>marketProxy\<close> with the director it installs in the reverse proxy.
  The transport of \<open>httputil.ReverseProxy\<close> is a parameter from the outgoing request to the upstream's
  response; hop-by-hop headers and \<open>X-Forwarded-For\<close> are the library's.
\<close>

record proxy_request =
  px_method :: string
  px_scheme :: string
  px_hostURL :: string
  px_hostHeader :: string
  px_path :: string
  px_rawQuery :: string
  px_header :: header

definition identity_headers :: "string list" where
  "identity_headers =
     [''Authorization'', ''X-ZenMind-User-ID'', ''X-ZenMind-User-Email'', ''X-ZenMind-User-Role'',
      ''X-ZenMind-Market-Proxy-Token'', ''X-Forwarded-User'', ''X-Forwarded-Email'', ''X-Forwarded-Groups'',
      ''X-Authentik-Username'', ''X-Authentik-Email'', ''X-Authentik-Name'', ''X-Authentik-Uid'']"

definition stripIdentityHeaders :: "header \<Rightarrow> header" where
  "stripIdentityHeaders h = foldl (\<lambda>h name. header_del name h) h identity_headers"

definition isUnsafeMethod :: "string \<Rightarrow> bool" where
  "isUnsafeMethod m \<longleftrightarrow> m \<notin> {''GET'', ''HEAD'', ''OPTIONS''}"

definition trimPrefix :: "string \<Rightarrow> string \<Rightarrow> string" where
  "trimPrefix s p = (if prefix p s then drop (length p) s else s)"

text \<open>The director: target, path, query and headers of the outgoing request.\<close>

definition market_director :: "url \<Rightarrow> string \<Rightarrow> request \<Rightarrow> proxy_request" where
  "market_director target gatewayToken r =
     (let suffix0 = trimPrefix (url_path (rq_url r)) ''/api/market'';
          suffix' = (if suffix0 = [] then ''/'' else suffix0);
          h = header_del ''Cookie'' (stripIdentityHeaders (rq_header r))
      in \<lparr>px_method = rq_method r, px_scheme = url_scheme target, px_hostURL = url_host target,
          px_hostHeader = url_host target,
          px_path = singleJoiningSlash (url_path target) (''/api'' @ suffix'),
          px_rawQuery = url_rawQuery (rq_url r),
          px_header = (if gatewayToken \<noteq> [] then header_set ''Authorization'' (''Bearer '' @ gatewayToken) h else h)\<rparr>)"

definition proxied :: "(proxy_request \<Rightarrow> response option) \<Rightarrow> proxy_request \<Rightarrow> response" where
  "proxied upstream pr =
     (case upstream pr of
        None \<Rightarrow> writeError 502 ''market_proxy_failed'' ''Market service is unavailable.''
      | Some rs \<Rightarrow> rs)"

text \<open>The token for a signed-in user, valid for the market only.\<close>

definition market_token ::
  "libs \<Rightarrow> server \<Rightarrow> dbenv \<Rightarrow> request \<Rightarrow> user \<Rightarrow> string \<Rightarrow> (jwt_error + jwt_result) \<times> string" where
  "market_token X S E r u rnd =
     issueWithPolicy (lib_jwt X) (sv_jwt S) (u\<lparr>usr_avatarURL := publicURL (sv_avatarProxy S) u\<rparr>) (serverNow E)
       (tokenHash (case sessionToken S r of None \<Rightarrow> [] | Some t \<Rightarrow> t))
       [sv_marketJWTAudience S] ''market'' (sv_marketJWTTTL S) zero_time rnd"

definition marketProxy ::
  "(proxy_request \<Rightarrow> response option) \<Rightarrow> libs \<Rightarrow> server \<Rightarrow> dbenv \<Rightarrow> request \<Rightarrow> world \<Rightarrow> response \<times> world" where
  "marketProxy upstream X S E r w0 =
     (let unconfigured = writeError 503 ''market_not_configured'' ''Market proxy is not configured.'' in
      if sv_marketServerURL S = [] \<or> \<not> jwt_configured (sv_jwt S) then (unconfigured, w0)
      else
        (case url_parse (sv_marketServerURL S) of
           None \<Rightarrow> (writeError 503 ''market_not_configured'' ''Market server URL is invalid.'', w0)
         | Some target \<Rightarrow>
             (case currentUser S E r (w_db w0) of
                (Inl ErrNotFound, d) \<Rightarrow> (proxied upstream (market_director target [] r), w0\<lparr>w_db := d\<rparr>)
              | (Inl e, d) \<Rightarrow>
                  (writeError 403 ''account_disabled'' ''This account is disabled.'', w0\<lparr>w_db := d\<rparr>)
              | (Inr u, d) \<Rightarrow>
                  (let w = w0\<lparr>w_db := d\<rparr> in
                   case (if isUnsafeMethod (rq_method r) then requireCSRF S E r (w_db w) else None) of
                     Some rs \<Rightarrow> (rs, w)
                   | None \<Rightarrow>
                       (case market_token X S E r u (w_rnd w) of
                          (Inl err, rnd) \<Rightarrow> (unconfigured, w\<lparr>w_rnd := rnd\<rparr>)
                        | (Inr res, rnd) \<Rightarrow>
                            (proxied upstream (market_director target (jr_token res) r), w\<lparr>w_rnd := rnd\<rparr>))))))"

end
