(* ===== verification/Redirect_Laws.thy ===== *)
theory Redirect_Laws
  imports Auth_Session
begin

text \<open>
  What \<open>safeRelativeRedirect\<close> and \<open>isAllowedDesktopCallbackURL\<close> promise about redirect targets. The
  centre is a normal-form argument: the path a redirect target is rendered with consists of valid
  path characters only, so that parsing it again gives back the same path; a target that went
  through the function twice is therefore never a network-path reference.
\<close>

subsection \<open>Valid path characters\<close>

definition path_char :: "char \<Rightarrow> bool" where
  "path_char c \<longleftrightarrow> c \<in> set ''!$&()*+,;=:@[]%'' \<union> {CHR 0x27} \<or> \<not> shouldEscape EncPath c"

lemma validEncoded_path: "validEncoded EncPath s = list_all path_char s"
  unfolding validEncoded_def path_char_def [abs_def] ..

lemma alnum_path_char: "is_alnum c \<Longrightarrow> path_char c"
  by (simp add: path_char_def shouldEscape_def)

definition visible_char :: "char \<Rightarrow> bool" where
  "visible_char c \<longleftrightarrow> plain_char c \<and> c \<noteq> CHR ''?'' \<and> c \<noteq> CHR ''#''"

lemma visible_marks: "list_all visible_char (CHR 0x27 # ''!$&()*+,;=:@[]%-_.~/'')"
  by (simp add: visible_char_def plain_char_def)

lemma alnum_visible: "is_alnum c \<Longrightarrow> visible_char c"
  by (auto simp: visible_char_def plain_char_def ascii_defs)

lemma path_char_marks:
  assumes "path_char c" and "\<not> is_alnum c"
  shows "c \<in> set (CHR 0x27 # ''!$&()*+,;=:@[]%-_.~/'')"
proof (rule ccontr)
  assume n: "c \<notin> set (CHR 0x27 # ''!$&()*+,;=:@[]%-_.~/'')"
  then have "c \<notin> set ''!$&()*+,;=:@[]%'' \<union> {CHR 0x27}" by simp
  then have "\<not> shouldEscape EncPath c" using assms(1) unfolding path_char_def by blast
  moreover have "shouldEscape EncPath c" using n assms(2) by (simp add: shouldEscape_def)
  ultimately show False by simp
qed

lemma path_char_visible: "path_char c \<Longrightarrow> visible_char c"
  using visible_marks path_char_marks alnum_visible unfolding list_all_iff by blast

lemma path_char_plain: "path_char c \<Longrightarrow> plain_char c \<and> c \<noteq> CHR ''?'' \<and> c \<noteq> CHR ''#''"
  using path_char_visible by (simp add: visible_char_def)

lemma upper_hex_alnum: "n < 16 \<Longrightarrow> is_alnum (upper_hex n)"
  by (auto simp: upper_hex_def ascii_defs)

lemma escape_char_path: "list_all path_char (escape_char EncPath c)"
proof (cases "shouldEscape EncPath c")
  case True
  have "byte c < 256" by (metis mod_less_divisor of_char_mod_256 zero_less_numeral)
  then have "path_char (upper_hex (byte c div 16)) \<and> path_char (upper_hex (byte c mod 16))"
    by (auto intro!: alnum_path_char upper_hex_alnum less_mult_imp_div_less)
  moreover have "path_char CHR ''%''" by (simp add: path_char_def)
  ultimately show ?thesis using True by (simp add: escape_char_def)
next
  case False
  then show ?thesis by (simp add: escape_char_def path_char_def)
qed

lemma escape_valid: "list_all path_char (escape EncPath s)"
  by (induction s) (auto simp: escape_def escape_char_path)

lemma escapedPath_valid: "url_path u \<noteq> ''*'' \<Longrightarrow> list_all path_char (escapedPath u)"
  by (simp add: escapedPath_def validEncoded_path escape_valid)

subsection \<open>Parsing a relative reference\<close>

definition path_part :: "string \<Rightarrow> string" where
  "path_part s = takeWhile (\<lambda>c. c \<noteq> CHR ''?'') (takeWhile (\<lambda>c. c \<noteq> CHR ''#'') s)"

lemma path_part_prefix: "prefix (path_part s) s"
  by (metis path_part_def prefix_order.trans takeWhile_is_prefix)

lemma takeWhile_prefix_mono: "prefix a b \<Longrightarrow> prefix (takeWhile P a) (takeWhile P b)"
proof (induction a arbitrary: b)
  case (Cons x a)
  then show ?case by (cases b) auto
qed simp

lemma path_part_mono: "prefix a b \<Longrightarrow> prefix (path_part a) (path_part b)"
  by (simp add: path_part_def takeWhile_prefix_mono)

lemma path_part_append:
  assumes "list_all path_char p" and "t = [] \<or> hd t \<in> {CHR ''?'', CHR ''#''}"
  shows "path_part (p @ t) = p"
proof -
  have "takeWhile (\<lambda>c. c \<noteq> CHR ''#'') (p @ t) = p @ takeWhile (\<lambda>c. c \<noteq> CHR ''#'') t"
    using assms(1) path_char_plain by (subst takeWhile_append) (auto simp: list_all_iff)
  moreover have "takeWhile (\<lambda>c. c \<noteq> CHR ''?'') (p @ takeWhile (\<lambda>c. c \<noteq> CHR ''#'') t) = p"
    using assms path_char_plain by (subst takeWhile_append) (cases t; auto simp: list_all_iff)+
  ultimately show ?thesis by (simp add: path_part_def)
qed

lemma getScheme_relative:
  assumes "getScheme s = Some (sch, rest)" and "toLower sch = []"
  shows "rest = s"
proof -
  have "list_all is_ascii (takeWhile scheme_char s)"
    by (auto simp: list_all_iff scheme_char_def ascii_defs dest!: set_takeWhileD)
  then have "toLower (takeWhile scheme_char s) = [] \<Longrightarrow> takeWhile scheme_char s = []"
    by (simp add: toLower_ascii)
  then show ?thesis using assms by (auto simp: getScheme_def Let_def split: if_splits)
qed

lemma takeWhile_butlast:
  "s \<noteq> [] \<Longrightarrow> last s = c \<Longrightarrow> c \<notin> set (butlast s) \<Longrightarrow> takeWhile (\<lambda>x. x \<noteq> c) s = butlast s"
proof (induction s)
  case (Cons a s)
  then show ?case by (cases "s = []") auto
qed simp

lemma cut_query_path: "fst (cut_query s) = takeWhile (\<lambda>c. c \<noteq> CHR ''?'') s"
  by (auto simp: cut_query_def cut_at_def takeWhile_butlast)

text \<open>The fields of a parsed relative reference with an absolute path.\<close>

lemma parse_no_fragment_relative:
  assumes parse: "parse_no_fragment s = Some u" and scheme: "url_scheme u = []" and path: "prefix ''/'' (url_path u)"
    and slashes: "\<not> prefix ''//'' s"
  defines "p \<equiv> takeWhile (\<lambda>c. c \<noteq> CHR ''?'') s"
  shows "url_host u = [] \<and> url_user u = None \<and> url_opaque u = [] \<and> unescape EncPath p = Some (url_path u)
    \<and> url_rawPath u = (if p = escape EncPath (url_path u) then [] else p)"
proof -
  have "\<not> list_ex is_ctl ''*''" by code_simp
  then have "s \<noteq> ''*''" using parse path by (auto simp only: parse_no_fragment_def) (auto simp: empty_url_def)
  then obtain sch rest0 where gs: "getScheme s = Some (sch, rest0)"
    using parse by (auto simp: parse_no_fragment_def split: if_splits option.splits)
  obtain rest q f where cq: "cut_query rest0 = (rest, q, f)" by (metis prod_cases3)
  have sch: "toLower sch = []"
    using parse scheme \<open>s \<noteq> ''*''\<close> gs cq
    by (auto simp: parse_no_fragment_def setPath_def empty_url_def Let_def split: if_splits option.splits)
  have rest: "rest = p" using getScheme_relative [OF gs sch] cut_query_path [of s] cq by (simp add: p_def)
  have "prefix p s" by (simp add: p_def takeWhile_is_prefix)
  then have np: "\<not> prefix ''//'' p" using slashes prefix_order.trans by blast
  have "setPath p (empty_url\<lparr>url_scheme := [], url_rawQuery := q, url_forceQuery := f\<rparr>) = Some u"
    using parse \<open>s \<noteq> ''*''\<close> gs cq np unfolding parse_no_fragment_def rest
    by (simp add: sch Let_def split: if_splits)
  then show ?thesis by (auto simp: setPath_def empty_url_def)
qed

lemma url_parse_relative:
  assumes parse: "url_parse x = Some u" and scheme: "url_scheme u = []" and path: "prefix ''/'' (url_path u)"
    and slashes: "\<not> prefix ''//'' x"
  shows "url_host u = [] \<and> url_user u = None \<and> url_opaque u = []
    \<and> unescape EncPath (path_part x) = Some (url_path u)
    \<and> url_rawPath u = (if path_part x = escape EncPath (url_path u) then [] else path_part x)"
proof -
  define s where "s = takeWhile (\<lambda>c. c \<noteq> CHR ''#'') x"
  obtain u0 where p0: "parse_no_fragment s = Some u0"
    and eq: "url_scheme u0 = url_scheme u" "url_path u0 = url_path u" "url_host u0 = url_host u"
            "url_user u0 = url_user u" "url_opaque u0 = url_opaque u" "url_rawPath u0 = url_rawPath u"
    using parse unfolding url_parse_def cut_at_def s_def [symmetric]
    by (cases "parse_no_fragment s") (auto simp: setFragment_def split: if_splits)
  have "prefix s x" by (simp add: s_def takeWhile_is_prefix)
  then have "\<not> prefix ''//'' s" using slashes prefix_order.trans by blast
  from parse_no_fragment_relative [OF p0 _ _ this] show ?thesis
    using eq scheme path by (simp add: path_part_def s_def)
qed

text \<open>A reference whose path has valid characters only is rendered with that same path.\<close>

lemma escapedPath_reparse:
  assumes "url_parse x = Some u" and "url_scheme u = []" and "prefix ''/'' (url_path u)"
    and "\<not> prefix ''//'' x" and "list_all path_char (path_part x)"
  shows "escapedPath u = path_part x"
proof (cases "path_part x = escape EncPath (url_path u)")
  case True
  have "url_rawPath u = []" using url_parse_relative [OF assms(1-4)] True by simp
  moreover have "url_path u \<noteq> ''*''" using assms(3) by auto
  ultimately show ?thesis unfolding True by (simp add: escapedPath_def)
next
  case False
  then have raw: "url_rawPath u = path_part x" and un: "unescape EncPath (path_part x) = Some (url_path u)"
    using url_parse_relative [OF assms(1-4)] by simp_all
  then have "path_part x \<noteq> []" using assms(3) by (cases "path_part x") auto
  then show ?thesis using raw un assms(5) by (simp add: escapedPath_def validEncoded_path)
qed

subsection \<open>Rendering\<close>

definition url_tail :: "url \<Rightarrow> string" where
  "url_tail u =
     (if url_forceQuery u \<or> url_rawQuery u \<noteq> [] then ''?'' @ url_rawQuery u else [])
     @ (if url_fragment u \<noteq> [] then ''#'' @ escapedFragment u else [])"

lemma url_tail_start: "url_tail u = [] \<or> hd (url_tail u) \<in> {CHR ''?'', CHR ''#''}"
  by (auto simp: url_tail_def)

lemma url_string_relative:
  assumes "url_scheme u = []" and "url_host u = []" and "url_user u = None" and "url_opaque u = []"
  shows "url_string u =
    (if CHR '':'' \<in> set (takeWhile (\<lambda>c. c \<noteq> CHR ''/'') (escapedPath u)) then ''./'' else [])
    @ escapedPath u @ url_tail u"
  using assms by (simp add: url_string_def hierarchy_string_def authority_string_def url_tail_def Let_def)

lemma slash_unescaped: "escape_char EncPath CHR ''/'' = ''/''"
  by (simp add: escape_char_def shouldEscape_def)

lemma escape_slash: "prefix ''/'' s \<Longrightarrow> prefix ''/'' (escape EncPath s)"
  using slash_unescaped by (cases s) (auto simp: escape_def)

text \<open>The shape of every result: a path of valid characters, and a tail that starts a query or fragment.\<close>

lemma safeRelativeRedirect_shape:
  "\<exists>p t. safeRelativeRedirect v = p @ t \<and> p \<noteq> [] \<and> list_all path_char p
     \<and> (t = [] \<or> hd t \<in> {CHR ''?'', CHR ''#''})"
proof (cases "safeRelativeRedirect v = ''/''")
  case True
  then show ?thesis
    by (intro exI [of _ "''/''"] exI [of _ "[]"]) (simp add: path_char_def shouldEscape_def)
next
  case False
  then obtain u where u: "url_parse (trimSpace v) = Some u" "url_scheme u = []" "prefix ''/'' (url_path u)"
      "\<not> prefix ''//'' (trimSpace v)" "safeRelativeRedirect v = url_string u"
    by (auto simp: safeRelativeRedirect_def Let_def split: if_splits option.splits)
  note f = url_parse_relative [OF u(1-4)]
  have val: "list_all path_char (escapedPath u)" using u(3) by (intro escapedPath_valid) auto
  have ne: "escapedPath u \<noteq> []"
    using u(3) f escape_slash [of "url_path u"] by (auto simp: escapedPath_def)
  have dot: "list_all path_char ''./''" by (simp add: path_char_def shouldEscape_def)
  show ?thesis
    using url_string_relative [of u] f u(2,5) val ne dot url_tail_start [of u]
    by (intro exI [of _ "(if CHR '':'' \<in> set (takeWhile (\<lambda>c. c \<noteq> CHR ''/'') (escapedPath u)) then ''./'' else []) @ escapedPath u"]
          exI [of _ "url_tail u"]) simp
qed

lemma trimSpace_plain_start:
  assumes "s \<noteq> []" and "plain_char (hd s)"
  shows "prefix (trimSpace s) s"
proof -
  have "strip_leading space_runes s = s"
  proof (rule strip_leading_id)
    fix p assume "p \<in> set space_runes" "p \<noteq> []"
    then have "\<not> plain_char (hd p)" using space_rune_ends by (auto simp: list_all_iff)
    then show "\<not> prefix p s" using assms \<open>p \<noteq> []\<close> by (auto simp: prefix_def)
  qed
  then show ?thesis using trimSpace_prefix [of s] by simp
qed

lemma slashes_append:
  "p \<noteq> [] \<Longrightarrow> \<not> prefix ''//'' p \<Longrightarrow> t = [] \<or> hd t \<in> {CHR ''?'', CHR ''#''} \<Longrightarrow> \<not> prefix ''//'' (p @ t)"
  by (cases p rule: remdups_adj.cases; cases t) auto

text \<open>Applied to any beginning of its own result, the function never gives a network-path reference.\<close>

lemma safeRelativeRedirect_again:
  assumes "prefix y (safeRelativeRedirect v)"
  shows "\<not> prefix ''//'' (safeRelativeRedirect y)"
proof (cases "safeRelativeRedirect y = ''/''")
  case False
  obtain p t where w: "safeRelativeRedirect v = p @ t" "p \<noteq> []" "list_all path_char p"
      "t = [] \<or> hd t \<in> {CHR ''?'', CHR ''#''}"
    using safeRelativeRedirect_shape by blast
  define x where "x = trimSpace y"
  obtain u where u: "url_parse x = Some u" "url_scheme u = []" "prefix ''/'' (url_path u)"
      "\<not> prefix ''//'' x" "safeRelativeRedirect y = url_string u" "x \<noteq> []"
    using False by (auto simp: safeRelativeRedirect_def Let_def x_def split: if_splits option.splits)
  have "y \<noteq> []" using u(6) by (auto simp: x_def)
  moreover from this have "plain_char (hd y)"
    using assms w path_char_plain by (cases p) (auto simp: prefix_def neq_Nil_conv)
  ultimately have "prefix x y" unfolding x_def by (rule trimSpace_plain_start)
  then have "prefix x (p @ t)" using assms w(1) by (metis prefix_order.trans)
  then have "prefix (path_part x) p" using path_part_mono path_part_append [OF w(3,4)] by metis
  then have val: "list_all path_char (path_part x)" using w(3) by (auto simp: prefix_def)
  note f = url_parse_relative [OF u(1-4)]
  have ep: "escapedPath u = path_part x" by (rule escapedPath_reparse [OF u(1-4) val])
  have "path_part x \<noteq> []" using f u(3) by auto
  have "\<not> prefix ''//'' (path_part x)" using u(4) path_part_prefix prefix_order.trans by blast
  then have "\<not> prefix ''//'' (path_part x @ url_tail u)"
    using slashes_append \<open>path_part x \<noteq> []\<close> url_tail_start by blast
  then show ?thesis using url_string_relative [of u] f u(2,5) ep by auto
qed simp

subsection \<open>Redirect targets of the site\<close>

text \<open>C18: A target that went through \<open>safeRelativeRedirect\<close>, was stored (trimmed and cut to any length)
  and goes through it again, as in the Google login, never starts with two slashes: the browser
  stays on the site.\<close>

theorem safeRelativeRedirect_twice:
  assumes "prefix stored (safeRelativeRedirect v)"
  shows "\<not> prefix ''//'' (safeRelativeRedirect stored)"
  using assms by (rule safeRelativeRedirect_again)

lemma safeRelativeRedirect_twice_witness:
  "\<not> prefix ''//'' (safeRelativeRedirect ''//evil.c'')"
  by (rule safeRelativeRedirect_twice [of _ "''/%2fevil.com/'' @ [CHR 0x22]"]) code_simp


subsection \<open>Callbacks of the desktop client\<close>

lemma setPath_fields:
  "setPath p u = Some u' \<Longrightarrow>
   url_scheme u' = url_scheme u \<and> url_host u' = url_host u \<and> url_user u' = url_user u \<and> url_opaque u' = url_opaque u"
  by (auto simp: setPath_def)

lemma parse_no_fragment_opaque:
  assumes "parse_no_fragment s = Some u" and "url_path u \<noteq> []"
  shows "url_opaque u = []"
  using assms unfolding parse_no_fragment_def Let_def
  by (auto simp: empty_url_def dest: setPath_fields split: if_splits option.splits prod.splits)

lemma url_parse_opaque: "url_parse x = Some u \<Longrightarrow> url_path u \<noteq> [] \<Longrightarrow> url_opaque u = []"
  by (auto simp: url_parse_def setFragment_def dest: parse_no_fragment_opaque split: option.splits if_splits prod.splits)

lemma url_string_authority:
  assumes "url_scheme u = ''http''" and "url_opaque u = []" and "url_user u = None" and "url_host u \<noteq> []"
    and "url_fragment u = []" and "url_rawQuery u \<noteq> []"
  shows "url_string u = ''http://'' @ escape EncHost (url_host u)
     @ (if escapedPath u \<noteq> [] \<and> hd (escapedPath u) \<noteq> CHR ''/'' then ''/'' else []) @ escapedPath u @ ''?'' @ url_rawQuery u"
  using assms by (simp add: url_string_def hierarchy_string_def authority_string_def Let_def)

lemma values_encode_nonempty: "vs \<noteq> [] \<Longrightarrow> values_encode vs \<noteq> []"
proof -
  assume "vs \<noteq> []"
  then have "sort_key fst vs \<noteq> []" by (metis length_0_conv length_sort)
  then obtain k v rest where "sort_key fst vs = (k, v) # rest" by (cases "sort_key fst vs") auto
  then show ?thesis by (cases rest) (auto simp: values_encode_def)
qed

lemma values_set_nonempty [simp]: "values_set k v q \<noteq> []"
  by (simp add: values_set_def)

lemma set_nonempty_nonempty: "q \<noteq> [] \<Longrightarrow> set_nonempty vs q \<noteq> []"
proof (induction vs arbitrary: q)
  case (Cons p vs)
  then show ?case by (cases p) (simp add: set_nonempty_def)
qed (simp add: set_nonempty_def)

lemma escapedPath_rooted:
  assumes "prefix ''/'' (url_path u)"
  shows "prefix ''/'' ((if escapedPath u \<noteq> [] \<and> hd (escapedPath u) \<noteq> CHR ''/'' then ''/'' else []) @ escapedPath u)"
proof -
  have "escapedPath u \<noteq> []"
    using escape_slash [OF assms] assms by (auto simp: escapedPath_def)
  then show ?thesis by (cases "escapedPath u") auto
qed

lemma allowed_callback:
  assumes "isAllowedDesktopCallbackURL cb" and "trimSpace cb = cb"
  obtains u where "url_parse cb = Some u" and "url_scheme u = ''http''" and "url_user u = None"
    and "toLower (fst (host_port (url_host u))) \<in> {''127.0.0.1'', ''localhost''}"
    and "0 < digits_val (snd (host_port (url_host u)))" and "digits_val (snd (host_port (url_host u))) \<le> 65535"
    and "url_path u = ''/api/auth/oidc/callback''" and "url_rawQuery u = []" and "url_fragment u = []"
  using assms
  by (auto simp: isAllowedDesktopCallbackURL_def Let_def url_hostname_def url_port_def split: option.splits if_splits)

text \<open>C19: A ticket or an error is sent to the desktop client only at \<open>http\<close> on a loopback host, with a
  port between 1 and 65535, and with the state and the values as the only query parameters.\<close>

theorem desktop_callback_loopback:
  assumes "isAllowedDesktopCallbackURL (dc_callbackURL ctx)" and "trimSpace (dc_callbackURL ctx) = dc_callbackURL ctx"
  shows "\<exists>host path.
    buildDesktopCallbackURL ctx vs = ''http://'' @ escape EncHost host @ path @ ''?''
      @ values_encode (set_nonempty vs [(''state'', dc_desktopState ctx)])
    \<and> toLower (fst (host_port host)) \<in> {''127.0.0.1'', ''localhost''}
    \<and> 0 < digits_val (snd (host_port host)) \<and> digits_val (snd (host_port host)) \<le> 65535
    \<and> prefix ''/'' path"
proof -
  obtain u where u: "url_parse (dc_callbackURL ctx) = Some u" "url_scheme u = ''http''" "url_user u = None"
      "toLower (fst (host_port (url_host u))) \<in> {''127.0.0.1'', ''localhost''}"
      "0 < digits_val (snd (host_port (url_host u)))" "digits_val (snd (host_port (url_host u))) \<le> 65535"
      "url_path u = ''/api/auth/oidc/callback''" "url_rawQuery u = []" "url_fragment u = []"
    using allowed_callback [OF assms] by metis
  define q where "q = set_nonempty vs [(''state'', dc_desktopState ctx)]"
  have "url_query u = []" by (simp add: url_query_def u(8) parse_query_def map_filter_def query_pair_def)
  then have build: "buildDesktopCallbackURL ctx vs = url_string (u\<lparr>url_rawQuery := values_encode q\<rparr>)"
    by (simp add: buildDesktopCallbackURL_def u(1) q_def values_set_def)
  have ne: "values_encode q \<noteq> []" by (simp add: values_encode_nonempty q_def set_nonempty_nonempty)
  have host: "url_host u \<noteq> []" using u(4) by (auto simp: host_port_def cut_last_def)
  have opq: "url_opaque u = []" using url_parse_opaque [OF u(1)] u(7) by simp
  have ep: "escapedPath (u\<lparr>url_rawQuery := values_encode q\<rparr>) = escapedPath u" by (simp add: escapedPath_def)
  have "url_string (u\<lparr>url_rawQuery := values_encode q\<rparr>) = ''http://'' @ escape EncHost (url_host u)
     @ ((if escapedPath u \<noteq> [] \<and> hd (escapedPath u) \<noteq> CHR ''/'' then ''/'' else []) @ escapedPath u)
     @ ''?'' @ values_encode q"
    using url_string_authority [of "u\<lparr>url_rawQuery := values_encode q\<rparr>"] u opq host ne ep by simp
  moreover have "prefix ''/'' ((if escapedPath u \<noteq> [] \<and> hd (escapedPath u) \<noteq> CHR ''/'' then ''/'' else []) @ escapedPath u)"
    by (rule escapedPath_rooted) (simp add: u(7))
  ultimately show ?thesis unfolding q_def [symmetric] build using u(4-6) by metis
qed

definition witness_context :: desktop_context where
  "witness_context = \<lparr>dc_oauthState = [], dc_callbackURL = ''http://127.0.0.1:8765/api/auth/oidc/callback'',
     dc_desktopState = ''s1''\<rparr>"

lemma desktop_callback_loopback_witness:
  "\<exists>host path.
    buildDesktopCallbackURL witness_context [(''ticket'', ''t'')] = ''http://'' @ escape EncHost host @ path @ ''?''
      @ values_encode (set_nonempty [(''ticket'', ''t'')] [(''state'', dc_desktopState witness_context)])
    \<and> toLower (fst (host_port host)) \<in> {''127.0.0.1'', ''localhost''}
    \<and> 0 < digits_val (snd (host_port host)) \<and> digits_val (snd (host_port host)) \<le> 65535
    \<and> prefix ''/'' path"
  by (rule desktop_callback_loopback) code_simp+

end
