(* ===== verification/Go_Json.thy ===== *)
theory Go_Json
  imports Go_Crypto "HOL-Library.List_Lexorder" "HOL-Library.Char_ord"
begin

text \<open>
  What the program uses of \<open>encoding/json\<close>: documents, the scanner with its nesting limit,
  unquoting and quoting of strings, compact and indented output, and Go maps with string keys.

  A document is a \<open>jvalue\<close>; numbers keep their literal, objects their members in order. The scanner
  works on a stack of open containers as the library's does, so it needs no fuel: every step consumes
  a byte. Strings are decoded rune by rune, ill-formed bytes and lone surrogates become U+FFFD. The
  encoder escapes \<open><\<close>, \<open>>\<close> and \<open>&\<close> as the library does by default.
\<close>

named_theorems json_laws \<open>laws of the JSON scanner and printer\<close>

subsection \<open>Documents\<close>

datatype jvalue =
    VNull
  | VBool bool
  | VNum string
  | VStr string
  | VArr "jvalue list"
  | VObj "(string \<times> jvalue) list"

subsection \<open>Scanning\<close>

definition json_space :: "char \<Rightarrow> bool" where
  "json_space c \<longleftrightarrow> byte c \<in> {9, 10, 13, 32}"

text \<open>The characters of an escape sequence after its backslash, and the rest.\<close>

definition scan_escape :: "string \<Rightarrow> (string \<times> string) option" where
  "scan_escape s =
     (case s of
        [] \<Rightarrow> None
      | e # es \<Rightarrow>
          if e \<in> set ''bfnrt/'' \<or> e = CHR 0x5C \<or> e = CHR 0x22 then Some ([e], es)
          else if e = CHR ''u'' \<and> 4 \<le> length es \<and> list_all (\<lambda>h. hex_val h \<noteq> None) (take 4 es)
          then Some (e # take 4 es, drop 4 es)
          else None)"

lemma scan_escape_append: "scan_escape s = Some (e, r) \<Longrightarrow> s = e @ r \<and> e \<noteq> []"
  unfolding scan_escape_def by (cases s) (simp_all split: if_splits, force+)

text \<open>The body of a string up to its closing quote, still quoted, and the rest after the quote.\<close>

function scan_string :: "string \<Rightarrow> (string \<times> string) option" where
  "scan_string [] = None"
| "scan_string (c # cs) =
     (if c = CHR 0x22 then Some ([], cs)
      else if byte c < 32 then None
      else if c = CHR 0x5C then
        (case scan_escape cs of
           None \<Rightarrow> None
         | Some (e, r) \<Rightarrow> map_option (\<lambda>(b, q). (c # e @ b, q)) (scan_string r))
      else map_option (\<lambda>(b, q). (c # b, q)) (scan_string cs))"
  by pat_completeness auto
termination by (relation "measure length") (auto dest: scan_escape_append)

text \<open>The longest number literal at the start of the input, and the rest.\<close>

definition scan_digits :: "string \<Rightarrow> string \<times> string" where
  "scan_digits s = (takeWhile is_digit s, dropWhile is_digit s)"

definition scan_int :: "string \<Rightarrow> (string \<times> string) option" where
  "scan_int s =
     (case s of
        [] \<Rightarrow> None
      | c # cs \<Rightarrow> if c = CHR ''0'' then Some (''0'', cs) else if is_digit c then Some (scan_digits s) else None)"

definition scan_frac :: "string \<Rightarrow> (string \<times> string) option" where
  "scan_frac s =
     (case s of
        c # cs \<Rightarrow>
          if c = CHR ''.'' then
            let (ds, r) = scan_digits cs in if ds = [] then None else Some (c # ds, r)
          else Some ([], s)
      | [] \<Rightarrow> Some ([], s))"

definition scan_sign :: "string \<Rightarrow> string \<times> string" where
  "scan_sign s =
     (case s of c # cs \<Rightarrow> if c = CHR ''+'' \<or> c = CHR ''-'' then ([c], cs) else ([], s) | [] \<Rightarrow> ([], s))"

definition scan_exp :: "string \<Rightarrow> (string \<times> string) option" where
  "scan_exp s =
     (case s of
        c # cs \<Rightarrow>
          if c = CHR ''e'' \<or> c = CHR ''E'' then
            let (sg, s1) = scan_sign cs; (ds, r) = scan_digits s1
            in if ds = [] then None else Some (c # sg @ ds, r)
          else Some ([], s)
      | [] \<Rightarrow> Some ([], s))"

definition scan_number :: "string \<Rightarrow> (string \<times> string) option" where
  "scan_number s =
     (let sg = (case s of c # _ \<Rightarrow> if c = CHR ''-'' then ''-'' else [] | [] \<Rightarrow> [])
      in case scan_int (drop (length sg) s) of
           None \<Rightarrow> None
         | Some (i, s1) \<Rightarrow>
             (case scan_frac s1 of
                None \<Rightarrow> None
              | Some (f, s2) \<Rightarrow>
                  (case scan_exp s2 of
                     None \<Rightarrow> None
                   | Some (e, s3) \<Rightarrow> Some (sg @ i @ f @ e, s3))))"

lemma scan_string_shorter: "scan_string s = Some (b, r) \<Longrightarrow> length r < length s"
proof (induction s arbitrary: b r rule: scan_string.induct)
  case (2 c cs)
  show ?case
  proof (cases "c = CHR 0x22 \<or> byte c < 32")
    case True
    with 2(3) show ?thesis by (auto split: if_splits)
  next
    case plain: False
    show ?thesis
    proof (cases "c = CHR 0x5C")
      case True
      then obtain e q b' where "scan_escape cs = Some (e, q)" "scan_string q = Some (b', r)"
        using plain 2(3) by (auto split: option.splits)
      with 2(1) [of "(e, q)" e q b' r] True have "length r < length q" by simp
      with \<open>scan_escape cs = Some (e, q)\<close> show ?thesis by (auto dest!: scan_escape_append)
    next
      case False
      then obtain b' where "scan_string cs = Some (b', r)" using plain 2(3) by auto
      with 2(2) plain False show ?thesis by auto
    qed
  qed
qed simp

lemma scan_digits_append: "scan_digits s = (ds, r) \<Longrightarrow> s = ds @ r"
  by (auto simp: scan_digits_def)

lemma scan_int_append: "scan_int s = Some (i, r) \<Longrightarrow> s = i @ r \<and> i \<noteq> []"
  by (auto simp: scan_int_def scan_digits_def split: list.splits if_splits)

lemma scan_frac_append: "scan_frac s = Some (f, r) \<Longrightarrow> s = f @ r"
  by (auto simp: scan_frac_def Let_def dest: scan_digits_append split: list.splits if_splits prod.splits)

lemma scan_sign_append: "scan_sign s = (sg, r) \<Longrightarrow> s = sg @ r"
  by (auto simp: scan_sign_def split: list.splits if_splits)

lemma scan_exp_append: "scan_exp s = Some (e, r) \<Longrightarrow> s = e @ r"
  by (auto simp: scan_exp_def Let_def dest!: scan_digits_append scan_sign_append
      split: list.splits if_splits prod.splits)

lemma scan_number_append: "scan_number s = Some (n, r) \<Longrightarrow> s = n @ r \<and> n \<noteq> []"
proof -
  assume sn: "scan_number s = Some (n, r)"
  define sg where "sg = (case s of c # _ \<Rightarrow> if c = CHR ''-'' then ''-'' else [] | [] \<Rightarrow> [])"
  have "s = sg @ drop (length sg) s" by (auto simp: sg_def split: list.splits)
  moreover obtain i s1 f s2 e where "scan_int (drop (length sg) s) = Some (i, s1)"
    "scan_frac s1 = Some (f, s2)" "scan_exp s2 = Some (e, r)" "n = sg @ i @ f @ e"
    using sn unfolding scan_number_def Let_def sg_def [symmetric] by (auto split: option.splits)
  ultimately show ?thesis
    by (metis scan_int_append scan_frac_append scan_exp_append append.assoc append_is_Nil_conv)
qed

lemma scan_number_shorter: "scan_number s = Some (n, r) \<Longrightarrow> length r < length s"
  by (auto dest: scan_number_append)

text \<open>
  The scanner: what it expects next, over the stack of open containers. A container that would be
  nested deeper than 10000 is refused.
\<close>

datatype frame = InArr "jvalue list" | InObj "(string \<times> jvalue) list" string

datatype mode =
    WantValue
  | WantValueOrEnd
  | WantKey "(string \<times> jvalue) list"
  | WantKeyOrEnd
  | WantColon "(string \<times> jvalue) list" string
  | HaveValue jvalue

definition maxNesting :: nat where
  "maxNesting = 10000"

definition scan_word :: "string \<Rightarrow> (jvalue \<times> string) option" where
  "scan_word s =
     (if prefix ''null'' s then Some (VNull, drop 4 s)
      else if prefix ''true'' s then Some (VBool True, drop 4 s)
      else if prefix ''false'' s then Some (VBool False, drop 5 s)
      else None)"

subsection \<open>Unquoting\<close>

definition hex4 :: "nat list \<Rightarrow> nat" where
  "hex4 hs = foldl (\<lambda>n h. 16 * n + (case hex_val (char_of h) of Some v \<Rightarrow> v | None \<Rightarrow> 0)) 0 hs"

definition is_surrogate :: "nat \<Rightarrow> bool" where
  "is_surrogate r \<longleftrightarrow> 55296 \<le> r \<and> r \<le> 57343"

text \<open>The code unit of an escape \<open>\u\<close> at the start of the runes.\<close>

definition unit_escape :: "nat list \<Rightarrow> nat option" where
  "unit_escape rs =
     (if take 2 rs = [92, 117] \<and> 6 \<le> length rs then Some (hex4 (take 4 (drop 2 rs))) else None)"

definition low_surrogate :: "nat \<Rightarrow> nat list \<Rightarrow> nat option" where
  "low_surrogate u rs =
     (case unit_escape rs of
        None \<Rightarrow> None
      | Some v \<Rightarrow> if u < 56320 \<and> 56320 \<le> v \<and> v \<le> 57343
                  then Some ((u - 55296) * 1024 + (v - 56320) + 65536) else None)"

definition simple_escape :: "nat \<Rightarrow> nat" where
  "simple_escape e =
     (if e = 98 then 8 else if e = 102 then 12 else if e = 110 then 10 else if e = 114 then 13
      else if e = 116 then 9 else e)"

function unescape_runes :: "nat list \<Rightarrow> nat list" where
  "unescape_runes [] = []"
| "unescape_runes (r # rs) =
     (if r \<noteq> 92 then r # unescape_runes rs
      else if rs = [] then []
      else if hd rs \<noteq> 117 then simple_escape (hd rs) # unescape_runes (tl rs)
      else
        let u = hex4 (take 4 (tl rs)); rest = drop 5 rs in
        if is_surrogate u then
          (case low_surrogate u rest of
             Some v \<Rightarrow> v # unescape_runes (drop 6 rest)
           | None \<Rightarrow> rune_error # unescape_runes rest)
        else u # unescape_runes rest)"
  by pat_completeness auto
termination by (relation "measure length") auto

definition json_unquote :: "string \<Rightarrow> string" where
  "json_unquote b = utf8_encode (unescape_runes (utf8_runes b))"

subsection \<open>The scanner\<close>

definition start_value :: "frame list \<Rightarrow> string \<Rightarrow> (mode \<times> frame list \<times> string) option" where
  "start_value st s =
     (case s of
        [] \<Rightarrow> None
      | c # cs \<Rightarrow>
          if c = CHR ''['' then if maxNesting \<le> length st then None else Some (WantValueOrEnd, InArr [] # st, cs)
          else if c = CHR ''{'' then if maxNesting \<le> length st then None else Some (WantKeyOrEnd, st, cs)
          else if c = CHR 0x22 then map_option (\<lambda>(b, r). (HaveValue (VStr (json_unquote b)), st, r)) (scan_string cs)
          else if c = CHR ''-'' \<or> is_digit c then map_option (\<lambda>(n, r). (HaveValue (VNum n), st, r)) (scan_number s)
          else map_option (\<lambda>(v, r). (HaveValue v, st, r)) (scan_word s))"

definition start_key :: "(string \<times> jvalue) list \<Rightarrow> frame list \<Rightarrow> string \<Rightarrow> (mode \<times> frame list \<times> string) option" where
  "start_key ms st s =
     (case s of
        [] \<Rightarrow> None
      | c # cs \<Rightarrow> if c = CHR 0x22 then map_option (\<lambda>(b, r). (WantColon ms (json_unquote b), st, r)) (scan_string cs) else None)"

definition after_value :: "jvalue \<Rightarrow> frame list \<Rightarrow> string \<Rightarrow> (mode \<times> frame list \<times> string) option" where
  "after_value v st s =
     (case (st, s) of
        (InArr xs # fs, c # cs) \<Rightarrow>
          if c = CHR '','' then Some (WantValue, InArr (xs @ [v]) # fs, cs)
          else if c = CHR '']'' then Some (HaveValue (VArr (xs @ [v])), fs, cs) else None
      | (InObj ms k # fs, c # cs) \<Rightarrow>
          if c = CHR '','' then Some (WantKey (ms @ [(k, v)]), fs, cs)
          else if c = CHR ''}'' then Some (HaveValue (VObj (ms @ [(k, v)])), fs, cs) else None
      | _ \<Rightarrow> None)"

text \<open>One token in a mode; white space before it is skipped.\<close>

fun scan_step :: "mode \<Rightarrow> frame list \<Rightarrow> string \<Rightarrow> (mode \<times> frame list \<times> string) option" where
  "scan_step WantValue st s = start_value st s"
| "scan_step WantValueOrEnd st s =
     (if s \<noteq> [] \<and> hd s = CHR '']'' then Some (HaveValue (VArr []), tl st, tl s) else start_value st s)"
| "scan_step (WantKey ms) st s = start_key ms st s"
| "scan_step WantKeyOrEnd st s =
     (if s \<noteq> [] \<and> hd s = CHR ''}'' then Some (HaveValue (VObj []), st, tl s) else start_key [] st s)"
| "scan_step (WantColon ms k) st s =
     (if s \<noteq> [] \<and> hd s = CHR '':'' then Some (WantValue, InObj ms k # st, tl s) else None)"
| "scan_step (HaveValue v) st s = after_value v st s"

lemma scan_word_shorter: "scan_word s = Some (v, r) \<Longrightarrow> length r < length s"
  by (auto simp: scan_word_def prefix_def split: if_splits)

lemma start_value_shorter: "start_value st s = Some (m, st', r) \<Longrightarrow> length r < length s"
  by (cases s) (auto simp: start_value_def dest: scan_string_shorter scan_number_shorter scan_word_shorter split: if_splits)

lemma start_key_shorter: "start_key ms st s = Some (m, st', r) \<Longrightarrow> length r < length s"
  by (cases s) (auto simp: start_key_def dest: scan_string_shorter split: if_splits)

lemma after_value_shorter: "after_value v st s = Some (m, st', r) \<Longrightarrow> length r < length s"
  by (auto simp: after_value_def split: list.splits frame.splits if_splits)

lemma scan_step_shorter: "scan_step m st s = Some (m', st', r) \<Longrightarrow> length r < length s"
  by (cases m; cases s)
    (auto dest: start_value_shorter start_key_shorter after_value_shorter split: if_splits)

definition skip_spaces :: "string \<Rightarrow> string" where
  "skip_spaces s = dropWhile json_space s"

lemma skip_spaces_length: "length (skip_spaces s) \<le> length s"
  by (simp add: skip_spaces_def length_dropWhile_le)

text \<open>The first document of the input and what follows it, unread.\<close>

function scan_run :: "mode \<Rightarrow> frame list \<Rightarrow> string \<Rightarrow> (jvalue \<times> string) option" where
  "scan_run m st s =
     (case (m, st) of
        (HaveValue v, []) \<Rightarrow> Some (v, s)
      | _ \<Rightarrow> (case scan_step m st (skip_spaces s) of
               None \<Rightarrow> None
             | Some (m', st', r) \<Rightarrow> scan_run m' st' r))"
  by pat_completeness auto
termination
proof (relation "measure (\<lambda>(m, st, s). length s)", goal_cases)
  case 1
  show ?case by simp
qed (auto simp del: scan_step.simps dest!: scan_step_shorter intro: less_le_trans skip_spaces_length)

declare scan_run.simps [simp del]

definition json_first :: "string \<Rightarrow> (jvalue \<times> string) option" where
  "json_first s = scan_run WantValue [] s"

text \<open>\<open>json.Valid\<close> and the syntax check of \<open>json.Unmarshal\<close>: one document, then only white space.\<close>

definition json_parse :: "string \<Rightarrow> jvalue option" where
  "json_parse s =
     (case json_first s of
        Some (v, r) \<Rightarrow> if list_all json_space r then Some v else None
      | None \<Rightarrow> None)"

definition json_valid :: "string \<Rightarrow> bool" where
  "json_valid s \<longleftrightarrow> json_parse s \<noteq> None"

subsection \<open>Printing\<close>

definition html_safe :: "nat \<Rightarrow> bool" where
  "html_safe b \<longleftrightarrow> 32 \<le> b \<and> b < 128 \<and> b \<notin> {34, 38, 60, 62, 92}"

definition quote_byte :: "nat \<Rightarrow> string" where
  "quote_byte b =
     (if html_safe b then [char_of b]
      else if b = 34 \<or> b = 92 then [CHR 0x5C, char_of b]
      else if b = 8 then [CHR 0x5C, CHR ''b'']
      else if b = 12 then [CHR 0x5C, CHR ''f'']
      else if b = 10 then [CHR 0x5C, CHR ''n'']
      else if b = 13 then [CHR 0x5C, CHR ''r'']
      else if b = 9 then [CHR 0x5C, CHR ''t'']
      else [CHR 0x5C, CHR ''u'', CHR ''0'', CHR ''0'', hex_digit (b div 16), hex_digit (b mod 16)])"

text \<open>A rune of several bytes: the two line separators are escaped, all others are copied.\<close>

definition quote_wide :: "nat \<Rightarrow> nat list \<Rightarrow> string" where
  "quote_wide r bs =
     (if r = 8232 then CHR 0x5C # ''u2028'' else if r = 8233 then CHR 0x5C # ''u2029'' else map char_of bs)"

function quote_bytes :: "nat list \<Rightarrow> string" where
  "quote_bytes [] = []"
| "quote_bytes (b # bs) =
     (let (r, w) = decode_rune (b # bs) in
      (if b < 128 then quote_byte b
       else if r = rune_error \<and> w = 1 then CHR 0x5C # ''ufffd''
       else quote_wide r (take w (b # bs))) @ quote_bytes (drop w (b # bs)))"
  by pat_completeness auto
termination
proof (relation "measure length", goal_cases)
  case 1
  show ?case by simp
next
  case (2 b bs x r w)
  then have "1 \<le> w" using decode_rune_width [of "b # bs"] by (metis list.distinct(1) snd_conv)
  then have "length (drop w (b # bs)) < length (b # bs)" by auto
  then show ?case by simp
qed

definition json_quote :: "string \<Rightarrow> string" where
  "json_quote s = CHR 0x22 # quote_bytes (map of_char s) @ [CHR 0x22]"

text \<open>
  One printer for both layouts: \<open>nl d\<close> is what stands before an element at depth \<open>d\<close>, \<open>co\<close> separates a
  key from its value.
\<close>

fun jrender :: "(nat \<Rightarrow> string) \<Rightarrow> string \<Rightarrow> nat \<Rightarrow> jvalue \<Rightarrow> string" where
  "jrender nl co d VNull = ''null''"
| "jrender nl co d (VBool b) = (if b then ''true'' else ''false'')"
| "jrender nl co d (VNum n) = n"
| "jrender nl co d (VStr s) = json_quote s"
| "jrender nl co d (VArr vs) =
     (if vs = [] then ''[]''
      else ''['' @ nl (Suc d) @ join_with ('','' @ nl (Suc d)) (map (jrender nl co (Suc d)) vs) @ nl d @ '']'')"
| "jrender nl co d (VObj ms) =
     (if ms = [] then ''{}''
      else ''{'' @ nl (Suc d) @ join_with ('','' @ nl (Suc d)) (map (\<lambda>(k, v). json_quote k @ co @ jrender nl co (Suc d) v) ms)
             @ nl d @ ''}'')"

definition compact_nl :: "nat \<Rightarrow> string" where
  "compact_nl d = []"

definition indent_nl :: "nat \<Rightarrow> string" where
  "indent_nl d = CHR 0x0A # replicate (2 * d) CHR '' ''"

text \<open>\<open>json.Marshal\<close> and \<open>json.MarshalIndent\<close> with two spaces, on the document of a value.\<close>

definition json_compact :: "jvalue \<Rightarrow> string" where
  "json_compact v = jrender compact_nl '':'' 0 v"

definition json_indent :: "jvalue \<Rightarrow> string" where
  "json_indent v = jrender indent_nl '': '' 0 v"

subsection \<open>Maps with string keys\<close>

text \<open>
  A Go map is the list of its entries in key order, the order in which \<open>encoding/json\<close> prints them.
\<close>

type_synonym 'a gomap = "(string \<times> 'a) list"

fun map_put :: "string \<Rightarrow> 'a \<Rightarrow> 'a gomap \<Rightarrow> 'a gomap" where
  "map_put k v [] = [(k, v)]"
| "map_put k v ((k', v') # m) =
     (if k = k' then (k, v) # m else if k < k' then (k, v) # (k', v') # m else (k', v') # map_put k v m)"

definition gomap_wf :: "'a gomap \<Rightarrow> bool" where
  "gomap_wf m \<longleftrightarrow> sorted_wrt (<) (map fst m)"

lemma map_put_keys: "fst ` set (map_put k v m) = insert k (fst ` set m)"
  by (induction k v m rule: map_put.induct) (simp_all add: insert_commute)

lemma map_put_subset: "set (map_put k v m) \<subseteq> insert (k, v) (set m)"
  by (induction k v m rule: map_put.induct) (simp_all, blast)

lemma map_put_wf: "gomap_wf m \<Longrightarrow> gomap_wf (map_put k v m)"
proof (induction m)
  case (Cons e m)
  obtain k' v' where e: "e = (k', v')" by force
  show ?case using Cons e by (auto simp: gomap_wf_def map_put_keys)
qed (simp add: gomap_wf_def)

lemma map_of_map_put: "map_of (map_put k v m) = (map_of m)(k \<mapsto> v)"
  by (induction m) (auto simp: fun_eq_iff)

text \<open>Inserting the entries of a map in order gives the map.\<close>

lemma map_put_last: "gomap_wf (m @ [(k, v)]) \<Longrightarrow> map_put k v m = m @ [(k, v)]"
  by (induction m) (auto simp: gomap_wf_def)

end
