(* ===== verification/Go_Json_Laws.thy ===== *)
theory Go_Json_Laws
  imports Go_Json
begin

text \<open>
  Printing a document and scanning it again gives the document, in the compact and in the indented
  layout: for strings of well-formed UTF-8, decimal numbers and nesting within the scanner's limit.
\<close>

subsection \<open>UTF-8\<close>

definition scalar :: "nat \<Rightarrow> bool" where
  "scalar r \<longleftrightarrow> r \<le> 1114111 \<and> \<not> is_surrogate r"

lemma encode_rune_nonempty [simp]: "encode_rune r \<noteq> []"
  by (simp add: encode_rune_def)

lemma encode_rune_bytes: "scalar r \<Longrightarrow> b \<in> set (encode_rune r) \<Longrightarrow> b < 256"
  by (auto simp: encode_rune_def scalar_def is_surrogate_def split: if_splits)

lemma decode_encode_rune:
  assumes "scalar r"
  shows "decode_rune (encode_rune r @ bs) = (r, length (encode_rune r))"
proof -
  consider "r < 128" | "128 \<le> r" "r < 2048" | "2048 \<le> r" "r < 65536" | "65536 \<le> r" by linarith
  then show ?thesis
  proof cases
    case 1
    then show ?thesis by (simp add: encode_rune_def)
  next
    case 2
    then have "2 \<le> r div 64" "r div 64 < 32" by (auto simp: less_mult_imp_div_less div_le_mono [of 128 r 64, simplified])
    then show ?thesis using 2 by (simp add: encode_rune_def cont_byte_def)
  next
    case 3
    define a b where "a = r div 4096" and "b = r div 64 mod 64"
    have ab: "a < 16" "b < 64" using 3 by (auto simp: a_def b_def)
    have "r div 4096 = r div 64 div 64" by (simp add: div_mult2_eq [symmetric])
    then have "a * 64 + b = r div 64" by (simp add: a_def b_def)
    note ab = ab this
    have "a = 0 \<Longrightarrow> 32 \<le> b" using 3 ab by auto
    moreover have "a = 13 \<Longrightarrow> b < 32" using assms 3 ab by (auto simp: scalar_def is_surrogate_def)
    moreover have "a * 4096 + b * 64 + r mod 64 = r" using ab div_mult_mod_eq [of r 64] by linarith
    moreover have "encode_rune r = [224 + a, 128 + b, 128 + r mod 64]"
      using assms 3 unfolding encode_rune_def scalar_def is_surrogate_def a_def b_def by auto
    ultimately show ?thesis using ab by (auto simp: cont_byte_def)
  next
    case 4
    define a b c where "a = r div 262144" and "b = r div 4096 mod 64" and "c = r div 64 mod 64"
    have r: "r \<le> 1114111" using assms by (simp add: scalar_def)
    then have ab: "a < 5" "b < 64" "c < 64" by (auto simp: a_def b_def c_def)
    have eq: "a * 262144 + b * 4096 + c * 64 + r mod 64 = r"
    proof -
      have "r div 4096 = r div 64 div 64" "r div 262144 = r div 4096 div 64" by (simp_all add: div_mult2_eq [symmetric])
      then have "a * 64 + b = r div 4096" "(r div 4096) * 64 + c = r div 64" by (simp_all add: a_def b_def c_def)
      moreover have "r div 64 * 64 + r mod 64 = r" by simp
      ultimately show ?thesis by linarith
    qed
    have "a = 0 \<Longrightarrow> 16 \<le> b" "a = 4 \<Longrightarrow> b < 16"
      using 4 r ab eq mod_less_divisor [of 64 r] by linarith+
    moreover have "encode_rune r = [240 + a, 128 + b, 128 + c, 128 + r mod 64]"
      using 4 r by (simp add: encode_rune_def a_def b_def c_def)
    ultimately show ?thesis using ab eq by (auto simp: cont_byte_def)
  qed
qed

lemma decode_bytes_encode: "scalar r \<Longrightarrow> decode_bytes (encode_rune r @ bs) = r # decode_bytes bs"
  using decode_encode_rune [of r bs] encode_rune_nonempty [of r]
  by (cases "encode_rune r") (simp_all del: encode_rune_nonempty)

definition valid_utf8 :: "string \<Rightarrow> bool" where
  "valid_utf8 s \<longleftrightarrow> utf8_encode (utf8_runes s) = s"

lemma of_char_utf8_encode:
  assumes "list_all scalar rs"
  shows "map of_char (utf8_encode rs) = concat (map encode_rune rs)"
proof -
  have bytes: "map of_char (map char_of bs :: string) = bs" if "\<forall>b \<in> set bs. b < (256 :: nat)" for bs
    using that by (induction bs) auto
  show ?thesis
    unfolding utf8_encode_def using assms encode_rune_bytes by (intro bytes) (auto simp: list_all_iff)
qed

lemma utf8_runes_encode [simp]: "list_all scalar rs \<Longrightarrow> utf8_runes (utf8_encode rs) = rs"
  unfolding utf8_runes_def by (simp add: of_char_utf8_encode) (induction rs; simp add: decode_bytes_encode)

lemma valid_utf8_encode: "list_all scalar rs \<Longrightarrow> valid_utf8 (utf8_encode rs)"
  by (simp add: valid_utf8_def)

lemma scalar_bound: "r < 55296 \<or> 57344 \<le> r \<and> r \<le> 1114111 \<Longrightarrow> scalar r"
  by (auto simp: scalar_def is_surrogate_def)

lemma scalar_error [simp]: "scalar rune_error"
  by (simp add: scalar_def is_surrogate_def rune_error_def)

lemma decode3_scalar:
  "224 \<le> a \<Longrightarrow> a \<le> 239 \<Longrightarrow> cont_byte b \<Longrightarrow> cont_byte c \<Longrightarrow> (a = 237 \<longrightarrow> b \<le> 159) \<Longrightarrow>
    scalar ((a - 224) * 4096 + (b - 128) * 64 + (c - 128))"
  by (rule scalar_bound) (cases "a = 237"; auto simp: cont_byte_def; linarith)

lemma decode4_scalar:
  assumes "240 \<le> a" "a \<le> 244" "cont_byte b" "cont_byte c" "cont_byte d"
    and "a = 240 \<longrightarrow> 144 \<le> b" and "a = 244 \<longrightarrow> b \<le> 143"
  shows "scalar ((a - 240) * 262144 + (b - 128) * 4096 + (c - 128) * 64 + (d - 128))"
proof (rule scalar_bound)
  have "a = 244 \<or> a < 244" "a = 240 \<or> 240 < a" using assms by auto
  then show "(a - 240) * 262144 + (b - 128) * 4096 + (c - 128) * 64 + (d - 128) < 55296 \<or>
    57344 \<le> (a - 240) * 262144 + (b - 128) * 4096 + (c - 128) * 64 + (d - 128) \<and>
    (a - 240) * 262144 + (b - 128) * 4096 + (c - 128) * 64 + (d - 128) \<le> 1114111"
    using assms unfolding cont_byte_def by (elim disjE) auto
qed

lemma decode_rune_scalar: "scalar (fst (decode_rune bs))"
proof (cases bs)
  case (Cons a rest)
  consider "a < 128" | "194 \<le> a" "a \<le> 223" | "224 \<le> a" "a \<le> 239" | "240 \<le> a" "a \<le> 244"
    | "\<not> a < 128" "\<not> (194 \<le> a \<and> a \<le> 223)" "\<not> (224 \<le> a \<and> a \<le> 239)" "\<not> (240 \<le> a \<and> a \<le> 244)" by blast
  then show ?thesis
  proof cases
    case 1
    then show ?thesis unfolding Cons by (simp add: scalar_bound)
  next
    case 2
    have "scalar ((a - 192) * 64 + (b - 128))" if "cont_byte b" for b
      using that 2 by (intro scalar_bound) (auto simp: cont_byte_def)
    then show ?thesis unfolding Cons using 2 by (simp split: list.split)
  next
    case 3
    then show ?thesis unfolding Cons by (simp add: decode3_scalar split: list.split)
  next
    case 4
    then show ?thesis unfolding Cons by (simp add: decode4_scalar split: list.split)
  next
    case 5
    then show ?thesis unfolding Cons by auto
  qed
qed simp

lemma utf8_runes_scalar: "list_all scalar (utf8_runes s)"
proof -
  have "list_all scalar (decode_bytes bs)" for bs
    by (induction bs rule: decode_bytes.induct) (simp_all add: decode_rune_scalar del: decode_rune.simps)
  then show ?thesis by (simp add: utf8_runes_def)
qed

lemma valid_utf8_iff: "valid_utf8 s \<longleftrightarrow> (\<exists>rs. list_all scalar rs \<and> s = utf8_encode rs)"
  by (metis utf8_runes_scalar valid_utf8_def valid_utf8_encode)

subsection \<open>Strings\<close>

text \<open>What the printer writes for a rune, in terms of the runes the scanner reads.\<close>

definition quote_rune :: "nat \<Rightarrow> nat list" where
  "quote_rune r =
     (if r < 128 then map of_char (quote_byte r)
      else if r = 8232 then map of_char (CHR 0x5C # ''u2028'')
      else if r = 8233 then map of_char (CHR 0x5C # ''u2029'') else [r])"

lemma quote_byte_ascii: "b < 128 \<Longrightarrow> list_all is_ascii (quote_byte b)"
  by (auto simp: quote_byte_def html_safe_def is_ascii_def hex_digit_def)

lemma runes_ascii_append: "list_all is_ascii s \<Longrightarrow> utf8_runes (s @ t) = map of_char s @ utf8_runes t"
  by (induction s) (simp_all add: utf8_runes_def is_ascii_def)

lemma runes_encode_append:
  assumes "scalar r"
  shows "utf8_runes (map char_of (encode_rune r) @ t) = r # utf8_runes t"
proof -
  have "map of_char (map char_of (encode_rune r) :: string) = encode_rune r"
    using of_char_utf8_encode [of "[r]"] assms by (simp add: utf8_encode_def)
  then show ?thesis using assms by (simp add: utf8_runes_def decode_bytes_encode)
qed

text \<open>The printed form of a string of well-formed UTF-8, rune by rune.\<close>

definition quote_piece :: "nat \<Rightarrow> string" where
  "quote_piece r = (if r < 128 then quote_byte r else quote_wide r (encode_rune r))"

lemma encode_rune_error: "encode_rune rune_error = [239, 191, 189]"
  by (simp add: encode_rune_def rune_error_def)

lemma quote_bytes_encode:
  assumes "scalar r"
  shows "quote_bytes (encode_rune r @ bs) = quote_piece r @ quote_bytes bs"
proof -
  obtain e es where e: "encode_rune r = e # es" by (cases "encode_rune r") auto
  have d: "decode_rune (e # es @ bs) = (r, Suc (length es))"
    using decode_encode_rune [OF assms, of bs] e by simp
  have small: "e < 128 \<longleftrightarrow> r < 128" "r < 128 \<Longrightarrow> e = r"
    using e assms by (auto simp: encode_rune_def scalar_def is_surrogate_def split: if_splits)
  have "es \<noteq> []" if "r = rune_error" using e that encode_rune_error by auto
  then show ?thesis
    using small by (auto simp: e d quote_piece_def simp del: decode_rune.simps)
qed

lemma quote_bytes_utf8: "list_all scalar rs \<Longrightarrow> quote_bytes (concat (map encode_rune rs)) = concat (map quote_piece rs)"
  by (induction rs) (simp_all add: quote_bytes_encode)

lemma quote_piece_runes: "scalar r \<Longrightarrow> utf8_runes (quote_piece r @ t) = quote_rune r @ utf8_runes t"
  using runes_ascii_append [of "CHR 0x5C # ''u2028''" t] runes_ascii_append [of "CHR 0x5C # ''u2029''" t]
  by (simp add: quote_piece_def quote_rune_def quote_wide_def runes_ascii_append runes_encode_append
      quote_byte_ascii is_ascii_def)

lemma hex4_digits: "a < 16 \<Longrightarrow> b < 16 \<Longrightarrow> hex4 (map of_char [CHR ''0'', CHR ''0'', hex_digit a, hex_digit b]) = 16 * a + b"
  by (simp add: hex4_def hex_digit_val) (simp add: hex_val_def is_digit_def)

lemma unescape_unit:
  "\<not> is_surrogate (hex4 [h1, h2, h3, h4]) \<Longrightarrow>
    unescape_runes (92 # 117 # h1 # h2 # h3 # h4 # rs) = hex4 [h1, h2, h3, h4] # unescape_runes rs"
  by (simp add: Let_def)

lemma unescape_simple: "e \<noteq> 117 \<Longrightarrow> unescape_runes (92 # e # rs) = simple_escape e # unescape_runes rs"
  by simp

lemma unescape_quote_byte:
  assumes "r < 128"
  shows "unescape_runes (map of_char (quote_byte r) @ rs) = r # unescape_runes rs"
proof (cases "html_safe r")
  case True
  then show ?thesis by (auto simp: quote_byte_def html_safe_def)
next
  case unsafe: False
  show ?thesis
  proof (cases "r \<in> {34, 92, 8, 12, 10, 13, 9}")
    case True
    with unsafe show ?thesis by (auto simp: quote_byte_def simple_escape_def)
  next
    case False
    define h where "h = [48, 48, byte (hex_digit (r div 16)), byte (hex_digit (r mod 16))]"
    have "hex4 h = r"
      using hex4_digits [of "r div 16" "r mod 16"] assms by (simp add: h_def)
    moreover from this have "\<not> is_surrogate (hex4 h)" using assms by (simp add: is_surrogate_def)
    moreover have "map of_char (quote_byte r) = 92 # 117 # h"
      using False unsafe assms by (simp add: quote_byte_def h_def)
    ultimately show ?thesis
      using unescape_unit [of 48 48 "byte (hex_digit (r div 16))" "byte (hex_digit (r mod 16))" rs] by (simp add: h_def)
  qed
qed

lemma unescape_quote_rune: "unescape_runes (quote_rune r @ rs) = r # unescape_runes rs"
proof -
  have "hex4 (map of_char ''2028'') = 8232" "hex4 (map of_char ''2029'') = 8233" by code_simp+
  then show ?thesis
    unfolding quote_rune_def
    by (auto simp: unescape_quote_byte Let_def is_surrogate_def)
qed

lemma json_unquote_quote:
  assumes "valid_utf8 s"
  shows "json_unquote (quote_bytes (map of_char s)) = s"
proof -
  obtain rs where rs: "list_all scalar rs" "s = utf8_encode rs" using assms by (auto simp: valid_utf8_iff)
  have "utf8_runes (concat (map quote_piece rs)) = concat (map quote_rune rs)"
    using rs(1) by (induction rs) (simp_all add: quote_piece_runes, simp add: utf8_runes_def)
  moreover have "unescape_runes (concat (map quote_rune rs)) = rs"
    by (induction rs) (simp_all add: unescape_quote_rune del: unescape_runes.simps(2))
  ultimately show ?thesis
    by (simp add: json_unquote_def rs of_char_utf8_encode quote_bytes_utf8)
qed

text \<open>A piece of a quoted string that the scanner passes over whole.\<close>

definition passes :: "string \<Rightarrow> bool" where
  "passes p \<longleftrightarrow> (\<forall>t. scan_string (p @ t) = map_option (\<lambda>(b, q). (p @ b, q)) (scan_string t))"

lemma passes_char: "32 \<le> byte c \<Longrightarrow> c \<noteq> CHR 0x22 \<Longrightarrow> c \<noteq> CHR 0x5C \<Longrightarrow> passes [c]"
  by (simp add: passes_def)

lemma passes_append: "passes p \<Longrightarrow> passes q \<Longrightarrow> passes (p @ q)"
  by (simp add: passes_def option.map_comp comp_def case_prod_unfold)

lemma passes_Nil [simp]: "passes []"
  by (simp add: passes_def option.map_ident case_prod_unfold)

lemma passes_concat: "(\<And>p. p \<in> set ps \<Longrightarrow> passes p) \<Longrightarrow> passes (concat ps)"
  by (induction ps) (auto intro: passes_append)

lemma passes_high: "\<forall>b \<in> set (bs :: nat list). 128 \<le> b \<and> b < 256 \<Longrightarrow> passes (map char_of bs)"
proof (induction bs)
  case (Cons b bs)
  have "char_of b \<noteq> CHR 0x22" "char_of b \<noteq> CHR 0x5C" using Cons.prems by (auto dest: arg_cong [of _ _ byte])
  then have "passes [char_of b]" using Cons.prems by (intro passes_char) auto
  then show ?case using Cons passes_append [of "[char_of b]"] by auto
qed simp

lemma passes_escape: "scan_escape (e @ []) = Some (e, []) \<Longrightarrow> (\<And>t. scan_escape (e @ t) = Some (e, t)) \<Longrightarrow> passes (CHR 0x5C # e)"
  by (simp add: passes_def)

lemma passes_simple: "e \<in> set ''bfnrt/'' \<or> e = CHR 0x5C \<or> e = CHR 0x22 \<Longrightarrow> passes [CHR 0x5C, e]"
  by (rule passes_escape) (auto simp: scan_escape_def)

lemma passes_unit: "list_all (\<lambda>h. hex_val h \<noteq> None) [h1, h2, h3, h4] \<Longrightarrow> passes [CHR 0x5C, CHR ''u'', h1, h2, h3, h4]"
  by (rule passes_escape) (auto simp: scan_escape_def)

lemma char_quotes: "char_of (34 :: nat) = CHR 0x22" "char_of (92 :: nat) = CHR 0x5C"
  by code_simp+

lemma hex_val_zero: "hex_val CHR ''0'' = Some 0"
  by code_simp

lemma passes_quote_byte:
  assumes "b < 128"
  shows "passes (quote_byte b)"
proof (cases "html_safe b")
  case True
  then have "passes [char_of b]"
    by (intro passes_char) (auto simp: html_safe_def dest: arg_cong [of _ _ byte])
  with True show ?thesis by (simp add: quote_byte_def)
next
  case False
  have "b div 16 < 16" "b mod 16 < 16" using assms by auto
  then have "passes [CHR 0x5C, CHR ''u'', CHR ''0'', CHR ''0'', hex_digit (b div 16), hex_digit (b mod 16)]"
    using hex_val_zero by (intro passes_unit) (simp add: hex_digit_val)
  moreover have "passes [CHR 0x5C, char_of b]" if "b = 34 \<or> b = 92"
    using that by (intro passes_simple) (auto simp: char_quotes)
  moreover have "passes [CHR 0x5C, e]" if "e \<in> set ''bfnrt''" for e
    using that by (intro passes_simple) auto
  ultimately show ?thesis using False by (simp add: quote_byte_def)
qed

lemma passes_piece:
  assumes "scalar r"
  shows "passes (quote_piece r)"
proof (cases "r < 128")
  case False
  then have "\<forall>b \<in> set (encode_rune r). 128 \<le> b \<and> b < 256"
    using assms encode_rune_bytes [OF assms] by (auto simp: encode_rune_def split: if_splits)
  then have "passes (map char_of (encode_rune r))" by (rule passes_high)
  moreover have "passes (CHR 0x5C # ''u2028'')" "passes (CHR 0x5C # ''u2029'')"
    by (rule passes_unit; simp add: hex_val_def is_digit_def)+
  ultimately show ?thesis using False by (simp add: quote_piece_def quote_wide_def)
qed (simp add: quote_piece_def passes_quote_byte)

lemma scan_string_quote:
  assumes "valid_utf8 s"
  shows "scan_string (quote_bytes (map of_char s) @ CHR 0x22 # r) = Some (quote_bytes (map of_char s), r)"
proof -
  obtain rs where rs: "list_all scalar rs" "s = utf8_encode rs" using assms by (auto simp: valid_utf8_iff)
  then have "passes (concat (map quote_piece rs))" by (intro passes_concat) (auto simp: list_all_iff passes_piece)
  then show ?thesis by (simp add: rs of_char_utf8_encode quote_bytes_utf8 passes_def)
qed

subsection \<open>Numbers\<close>

definition number_end :: "string \<Rightarrow> bool" where
  "number_end r \<longleftrightarrow> r = [] \<or> \<not> is_digit (hd r) \<and> hd r \<notin> set ''.eE''"

definition number_literal :: "string \<Rightarrow> bool" where
  "number_literal n \<longleftrightarrow> n \<noteq> [] \<and> (hd n = CHR ''-'' \<or> is_digit (hd n)) \<and>
     (\<forall>r. number_end r \<longrightarrow> scan_number (n @ r) = Some (n, r))"

lemma scan_digits_all: "list_all is_digit ds \<Longrightarrow> number_end r \<Longrightarrow> scan_digits (ds @ r) = (ds, r)"
  by (cases r) (auto simp: scan_digits_def number_end_def list_all_iff takeWhile_append dropWhile_append)

lemma char_zero: "char_of (48 :: nat) = CHR ''0''"
  by code_simp

lemma minus_not_digit: "\<not> is_digit CHR ''-''"
  by code_simp

lemma show_nat_leading: "hd (show_nat n) = CHR ''0'' \<longleftrightarrow> n = 0"
proof (induction n rule: show_nat.induct)
  case (1 n)
  show ?case
  proof (cases "n < 10")
    case True
    then have "byte (char_of (48 + n)) = 48 + n" by simp
    then show ?thesis using True by (auto simp: show_nat.simps [of n] char_zero dest: arg_cong [of _ _ byte])
  qed (use 1 in \<open>simp add: show_nat.simps [of n]\<close>)
qed

lemma scan_int_nat:
  assumes "number_end r"
  shows "scan_int (show_nat n @ r) = Some (show_nat n, r)"
proof (cases "n = 0")
  case True
  then show ?thesis by (simp add: show_nat.simps [of 0] scan_int_def char_zero)
next
  case False
  obtain c cs where c: "show_nat n = c # cs" by (cases "show_nat n") auto
  then have "is_digit c" "c \<noteq> CHR ''0''" using show_nat_digits [of n] show_nat_leading [of n] False by auto
  then show ?thesis
    using scan_digits_all [OF show_nat_digits [of n] assms] by (simp add: scan_int_def c)
qed

lemma number_end_rest: "number_end r \<Longrightarrow> scan_frac r = Some ([], r) \<and> scan_exp r = Some ([], r)"
  by (auto simp: number_end_def scan_frac_def scan_exp_def split: list.splits)

lemma number_show_int: "number_literal (show_int i)"
proof -
  have d: "is_digit (hd (show_nat n))" for n using show_nat_digits [of n] by (cases "show_nat n") auto
  then have "hd (show_nat n) \<noteq> CHR ''-''" for n using minus_not_digit by metis
  then have "show_nat n @ r \<noteq> CHR ''-'' # s" for n r s by (metis hd_append2 list.sel(1) show_nat_nonempty)
  then show ?thesis
    using d number_end_rest unfolding number_literal_def show_int_def
    by (auto simp: scan_number_def scan_int_nat split: list.splits)
qed

subsection \<open>Documents\<close>

fun printable :: "jvalue \<Rightarrow> bool" where
  "printable (VNum n) = number_literal n"
| "printable (VStr s) = valid_utf8 s"
| "printable (VArr vs) = list_all printable vs"
| "printable (VObj ms) = list_all (\<lambda>(k, v). valid_utf8 k \<and> printable v) ms"
| "printable _ = True"

fun nesting :: "jvalue \<Rightarrow> nat" where
  "nesting (VArr vs) = Suc (foldr max (map nesting vs) 0)"
| "nesting (VObj ms) = Suc (foldr max (map (\<lambda>(k, v). nesting v) ms) 0)"
| "nesting _ = 0"

lemma foldr_max_bound: "foldr max ns 0 \<le> (b :: nat) \<longleftrightarrow> (\<forall>n \<in> set ns. n \<le> b)"
  by (induction ns) auto

abbreviation spaces :: "string \<Rightarrow> bool" where
  "spaces ws \<equiv> list_all json_space ws"

lemma skip_spaces_at: "spaces ws \<Longrightarrow> \<not> json_space c \<Longrightarrow> skip_spaces (ws @ c # r) = c # r"
  by (induction ws) (simp_all add: skip_spaces_def)

lemma scan_run_step:
  assumes "scan_step m st (skip_spaces s) = Some (m', st', r)" and "st = [] \<Longrightarrow> \<forall>v. m \<noteq> HaveValue v"
  shows "scan_run m st s = scan_run m' st' r"
  using assms by (subst scan_run.simps) (auto split: mode.split list.split)

text \<open>The tokens, with the white space before them.\<close>

lemma token_not_space:
  "\<not> json_space CHR '',''" "\<not> json_space CHR '':''" "\<not> json_space CHR ''[''" "\<not> json_space CHR '']''"
  "\<not> json_space CHR ''{''" "\<not> json_space CHR ''}''" "\<not> json_space CHR 0x22" "\<not> json_space CHR ''-''"
  "\<not> json_space CHR ''n''" "\<not> json_space CHR ''t''" "\<not> json_space CHR ''f''"
  by (simp_all add: json_space_def)

lemma digit_facts:
  "is_digit c \<Longrightarrow> \<not> json_space c \<and> c \<noteq> CHR ''['' \<and> c \<noteq> CHR ''{'' \<and> c \<noteq> CHR 0x22 \<and> c \<noteq> CHR '']'' \<and> c \<noteq> CHR ''}''"
  by (auto simp: is_digit_def json_space_def)

lemma run_close_array:
  "spaces ws \<Longrightarrow> scan_run (HaveValue v) (InArr xs # st) (ws @ CHR '']'' # r) = scan_run (HaveValue (VArr (xs @ [v]))) st r"
  by (rule scan_run_step) (simp_all add: skip_spaces_at token_not_space after_value_def)

lemma run_next_element:
  "spaces ws \<Longrightarrow> scan_run (HaveValue v) (InArr xs # st) (ws @ CHR '','' # r) = scan_run WantValue (InArr (xs @ [v]) # st) r"
  by (rule scan_run_step) (simp_all add: skip_spaces_at token_not_space after_value_def)

lemma run_close_object:
  "spaces ws \<Longrightarrow> scan_run (HaveValue v) (InObj ms k # st) (ws @ CHR ''}'' # r) = scan_run (HaveValue (VObj (ms @ [(k, v)]))) st r"
  by (rule scan_run_step) (simp_all add: skip_spaces_at token_not_space after_value_def)

lemma run_next_member:
  "spaces ws \<Longrightarrow> scan_run (HaveValue v) (InObj ms k # st) (ws @ CHR '','' # r) = scan_run (WantKey (ms @ [(k, v)])) st r"
  by (rule scan_run_step) (simp_all add: skip_spaces_at token_not_space after_value_def)

lemma run_colon:
  "spaces ws \<Longrightarrow> scan_run (WantColon ms k) st (ws @ CHR '':'' # r) = scan_run WantValue (InObj ms k # st) r"
  by (rule scan_run_step) (simp_all add: skip_spaces_at token_not_space)

lemma run_key:
  assumes "spaces ws" and "valid_utf8 k" and "m = WantKey ms \<or> m = WantKeyOrEnd \<and> ms = []"
  shows "scan_run m st (ws @ json_quote k @ r) = scan_run (WantColon ms k) st r"
  using assms
  by (intro scan_run_step)
     (auto simp: json_quote_def skip_spaces_at token_not_space start_key_def scan_string_quote json_unquote_quote)

text \<open>The first byte of a printed value decides how the scanner starts.\<close>

lemma run_start:
  assumes "m = WantValue \<or> m = WantValueOrEnd" and "spaces ws" and "\<not> json_space c" and "c \<noteq> CHR '']''"
    and "start_value st (c # s) = Some (m', st', r)"
  shows "scan_run m st (ws @ c # s) = scan_run m' st' r"
  using assms by (intro scan_run_step) (auto simp: skip_spaces_at)

lemma run_scalar:
  assumes "m = WantValue \<or> m = WantValueOrEnd" and "spaces ws" and "number_end r"
    and "printable v" and "\<forall>vs. v \<noteq> VArr vs" and "\<forall>ms. v \<noteq> VObj ms"
  shows "scan_run m st (ws @ jrender nl co d v @ r) = scan_run (HaveValue v) st r"
proof (cases v)
  case VNull
  then show ?thesis
    using run_start [OF assms(1,2), of "CHR ''n''" st "''ull'' @ r"]
    by (simp add: token_not_space start_value_def scan_word_def is_digit_def)
next
  case (VBool b)
  then show ?thesis
    using run_start [OF assms(1,2), of "CHR ''t''" st "''rue'' @ r"] run_start [OF assms(1,2), of "CHR ''f''" st "''alse'' @ r"]
    by (cases b) (simp_all add: token_not_space start_value_def scan_word_def is_digit_def)
next
  case (VNum n)
  then obtain c cs where n: "n = c # cs" "c = CHR ''-'' \<or> is_digit c" "scan_number (n @ r) = Some (n, r)"
    using assms(3,4) by (auto simp: number_literal_def neq_Nil_conv)
  then have "start_value st (c # cs @ r) = Some (HaveValue v, st, r)"
    using VNum digit_facts [of c] by (auto simp: start_value_def)
  moreover have "\<not> json_space c" "c \<noteq> CHR '']''" using n(2) digit_facts [of c] token_not_space by auto
  ultimately show ?thesis using run_start [OF assms(1,2)] VNum n by simp
next
  case (VStr s)
  then have "start_value st (json_quote s @ r) = Some (HaveValue v, st, r)"
    using assms(4) by (simp add: start_value_def json_quote_def scan_string_quote json_unquote_quote)
  then show ?thesis using run_start [OF assms(1,2)] VStr by (simp add: json_quote_def token_not_space)
qed (use assms in auto)

text \<open>Scanning printed values: what an element or member needs, then lists of them, then documents.\<close>

definition scans :: "(nat \<Rightarrow> string) \<Rightarrow> string \<Rightarrow> jvalue \<Rightarrow> bool" where
  "scans nl cs v \<longleftrightarrow> (\<forall>m d st ws r. (m = WantValue \<or> m = WantValueOrEnd) \<longrightarrow> spaces ws \<longrightarrow> number_end r \<longrightarrow>
     length st + nesting v \<le> maxNesting \<longrightarrow>
     scan_run m st (ws @ jrender nl ('':'' @ cs) d v @ r) = scan_run (HaveValue v) st r)"

lemma space_number_end: "spaces ws \<Longrightarrow> c \<in> set '',]}'' \<Longrightarrow> number_end (ws @ c # r)"
  by (cases ws) (auto simp: number_end_def json_space_def is_digit_def)

lemma scan_elements:
  assumes "vs \<noteq> []" and "list_all (scans nl cs) vs" and "\<forall>d. spaces (nl d)"
    and "\<forall>v \<in> set vs. Suc (length st) + nesting v \<le> maxNesting"
    and "m = WantValue \<or> m = WantValueOrEnd" and "spaces ws"
  shows "scan_run m (InArr xs # st)
      (ws @ join_with ('','' @ nl d) (map (jrender nl ('':'' @ cs) d) vs) @ nl e @ CHR '']'' # r)
    = scan_run (HaveValue (VArr (xs @ vs))) st r"
  using assms
proof (induction vs arbitrary: m xs ws)
  case (Cons v vs)
  have step: "scan_run m (InArr xs # st) (ws @ jrender nl ('':'' @ cs) d v @ t) = scan_run (HaveValue v) (InArr xs # st) t"
    if "number_end t" for t
    using Cons.prems that unfolding scans_def by auto
  show ?case
  proof (cases vs)
    case Nil
    then show ?thesis
      using step [OF space_number_end, of "nl e" "CHR '']''" r] run_close_array [of "nl e"] Cons.prems(3) by simp
  next
    case (Cons w us)
    define t where "t = join_with ('','' @ nl d) (map (jrender nl ('':'' @ cs) d) vs) @ nl e @ CHR '']'' # r"
    have "scan_run m (InArr xs # st) (ws @ jrender nl ('':'' @ cs) d v @ CHR '','' # nl d @ t)
        = scan_run WantValue (InArr (xs @ [v]) # st) (nl d @ t)"
      using step [of "CHR '','' # nl d @ t"] run_next_element [of "[]"] by (simp add: number_end_def is_digit_def)
    also have "\<dots> = scan_run (HaveValue (VArr ((xs @ [v]) @ vs))) st r"
      unfolding t_def using Cons Cons.prems by (intro Cons.IH) auto
    finally show ?thesis using Cons by (simp add: t_def)
  qed
qed simp

lemma scan_members:
  assumes "ms \<noteq> []" and "list_all (\<lambda>(k, v). valid_utf8 k \<and> scans nl cs v) ms"
    and "\<forall>d. spaces (nl d)" and "spaces cs" and "\<forall>(k, v) \<in> set ms. Suc (length st) + nesting v \<le> maxNesting"
    and "m = WantKey ns \<or> m = WantKeyOrEnd \<and> ns = []" and "spaces ws"
  shows "scan_run m st
      (ws @ join_with ('','' @ nl d) (map (\<lambda>(k, v). json_quote k @ ('':'' @ cs) @ jrender nl ('':'' @ cs) d v) ms)
        @ nl e @ CHR ''}'' # r)
    = scan_run (HaveValue (VObj (ns @ ms))) st r"
  using assms
proof (induction ms arbitrary: m ns ws)
  case (Cons kv ms)
  obtain k v where kv: "kv = (k, v)" by force
  have ok: "valid_utf8 k" "scans nl cs v" "Suc (length st) + nesting v \<le> maxNesting" using Cons.prems kv by auto
  have step: "scan_run m st (ws @ json_quote k @ CHR '':'' # cs @ jrender nl ('':'' @ cs) d v @ t)
      = scan_run (HaveValue v) (InObj ns k # st) t" if "number_end t" for t
  proof -
    have "scan_run m st (ws @ json_quote k @ CHR '':'' # cs @ jrender nl ('':'' @ cs) d v @ t)
        = scan_run WantValue (InObj ns k # st) (cs @ jrender nl ('':'' @ cs) d v @ t)"
      using run_key [OF Cons.prems(7) ok(1) Cons.prems(6)] run_colon [of "[]"] by simp
    also have "\<dots> = scan_run (HaveValue v) (InObj ns k # st) t"
      using ok that Cons.prems(4) unfolding scans_def by auto
    finally show ?thesis .
  qed
  show ?case
  proof (cases ms)
    case Nil
    then show ?thesis
      using step [OF space_number_end, of "nl e" "CHR ''}''" r] run_close_object [of "nl e"] Cons.prems(3) kv by simp
  next
    case (Cons w us)
    define t where "t = join_with ('','' @ nl d)
      (map (\<lambda>(k, v). json_quote k @ ('':'' @ cs) @ jrender nl ('':'' @ cs) d v) ms) @ nl e @ CHR ''}'' # r"
    have "scan_run m st (ws @ json_quote k @ CHR '':'' # cs @ jrender nl ('':'' @ cs) d v @ CHR '','' # nl d @ t)
        = scan_run (WantKey (ns @ [(k, v)])) st (nl d @ t)"
      using step [of "CHR '','' # nl d @ t"] run_next_member [of "[]"] by (simp add: number_end_def is_digit_def)
    also have "\<dots> = scan_run (HaveValue (VObj ((ns @ [(k, v)]) @ ms))) st r"
      unfolding t_def using Cons Cons.prems by (intro Cons.IH) auto
    finally show ?thesis using Cons kv by (simp add: t_def)
  qed
qed simp

lemma run_open_array:
  assumes "m = WantValue \<or> m = WantValueOrEnd" and "spaces ws" and "length st < maxNesting"
  shows "scan_run m st (ws @ CHR ''['' # s) = scan_run WantValueOrEnd (InArr [] # st) s"
  using assms run_start [OF assms(1,2)] by (simp add: token_not_space start_value_def)

lemma run_open_object:
  assumes "m = WantValue \<or> m = WantValueOrEnd" and "spaces ws" and "length st < maxNesting"
  shows "scan_run m st (ws @ CHR ''{'' # s) = scan_run WantKeyOrEnd st s"
  using assms run_start [OF assms(1,2)] by (simp add: token_not_space start_value_def)

lemma run_empty:
  "scan_run WantValueOrEnd (InArr [] # st) (CHR '']'' # r) = scan_run (HaveValue (VArr [])) st r"
  "scan_run WantKeyOrEnd st (CHR ''}'' # r) = scan_run (HaveValue (VObj [])) st r"
  by (rule scan_run_step; simp add: skip_spaces_at [of "[]", simplified] token_not_space)+

lemma scans_scalar:
  "printable v \<Longrightarrow> \<forall>vs. v \<noteq> VArr vs \<Longrightarrow> \<forall>ms. v \<noteq> VObj ms \<Longrightarrow> scans nl cs v"
  unfolding scans_def by (blast intro: run_scalar)

lemma scan_printed:
  assumes "\<forall>d. spaces (nl d)" and "spaces cs" and "printable v"
  shows "scans nl cs v"
  using assms(3)
proof (induction v)
  case (VArr vs)
  show ?case unfolding scans_def
  proof (intro allI impI)
    fix m d and st :: "frame list" and ws r
    assume m: "m = WantValue \<or> m = WantValueOrEnd" "spaces ws" "number_end r" "length st + nesting (VArr vs) \<le> maxNesting"
    have deep: "\<forall>v \<in> set vs. Suc (length st) + nesting v \<le> maxNesting"
      using m(4) foldr_max_bound [of "map nesting vs" "maxNesting - Suc (length st)"] by auto
    show "scan_run m st (ws @ jrender nl ('':'' @ cs) d (VArr vs) @ r) = scan_run (HaveValue (VArr vs)) st r"
    proof (cases "vs = []")
      case False
      have "list_all (scans nl cs) vs" using VArr by (auto simp: list_all_iff)
      from scan_elements [OF False this assms(1) deep, where m = WantValueOrEnd and ws = "nl (Suc d)" and xs = "[]"
          and d = "Suc d" and e = d and r = r]
      show ?thesis using False m assms(1) run_open_array [OF m(1,2)] by simp
    qed (use m run_open_array [OF m(1,2)] run_empty in simp)
  qed
next
  case (VObj ms)
  show ?case unfolding scans_def
  proof (intro allI impI)
    fix m d and st :: "frame list" and ws r
    assume m: "m = WantValue \<or> m = WantValueOrEnd" "spaces ws" "number_end r" "length st + nesting (VObj ms) \<le> maxNesting"
    have deep: "\<forall>(k, v) \<in> set ms. Suc (length st) + nesting v \<le> maxNesting"
      using m(4) foldr_max_bound [of "map (\<lambda>(k, v). nesting v) ms" "maxNesting - Suc (length st)"] by fastforce
    show "scan_run m st (ws @ jrender nl ('':'' @ cs) d (VObj ms) @ r) = scan_run (HaveValue (VObj ms)) st r"
    proof (cases "ms = []")
      case False
      have "list_all (\<lambda>(k, v). valid_utf8 k \<and> scans nl cs v) ms" using VObj by (fastforce simp: list_all_iff)
      from scan_members [OF False this assms(1,2) deep, where m = WantKeyOrEnd and ws = "nl (Suc d)" and ns = "[]"
          and d = "Suc d" and e = d and r = r]
      show ?thesis using False m assms(1) run_open_object [OF m(1,2)] by simp
    qed (use m run_open_object [OF m(1,2)] run_empty in simp)
  qed
qed (simp_all add: scans_scalar)

lemma first_printed:
  assumes "\<forall>d. spaces (nl d)" and "spaces cs" and "printable v" and "nesting v \<le> maxNesting" and "number_end tail"
  shows "json_first (jrender nl ('':'' @ cs) d v @ tail) = Some (v, tail)"
proof -
  have "scan_run WantValue [] ([] @ jrender nl ('':'' @ cs) d v @ tail) = scan_run (HaveValue v) [] tail"
    using scan_printed [OF assms(1-3)] assms(4,5) unfolding scans_def by (metis list.pred_inject(1) list.size(3) plus_nat.add_0)
  then show ?thesis by (simp add: json_first_def scan_run.simps [of "HaveValue v"])
qed

lemma parse_printed:
  assumes "\<forall>d. spaces (nl d)" and "spaces cs" and "printable v" and "nesting v \<le> maxNesting" and "spaces tail"
  shows "json_parse (jrender nl ('':'' @ cs) d v @ tail) = Some v"
proof -
  have "number_end tail" using assms(5) by (cases tail) (auto simp: number_end_def json_space_def is_digit_def)
  from first_printed [OF assms(1-4) this] show ?thesis using assms(5) by (simp add: json_parse_def)
qed

lemma layout_spaces: "spaces (compact_nl d)" "spaces (indent_nl d)"
  by (simp_all add: compact_nl_def indent_nl_def json_space_def list_all_iff)

lemma first_compact:
  "printable v \<Longrightarrow> nesting v \<le> maxNesting \<Longrightarrow> json_first (json_compact v) = Some (v, [])"
  using first_printed [of compact_nl "[]" v "[]" 0] by (simp add: json_compact_def layout_spaces number_end_def)

lemma parse_compact:
  "printable v \<Longrightarrow> nesting v \<le> maxNesting \<Longrightarrow> json_parse (json_compact v) = Some v"
  using parse_printed [of compact_nl "[]" v "[]" 0] by (simp add: json_compact_def layout_spaces)

lemma parse_indent:
  "printable v \<Longrightarrow> nesting v \<le> maxNesting \<Longrightarrow> spaces tail \<Longrightarrow> json_parse (json_indent v @ tail) = Some v"
  using parse_printed [of indent_nl "'' ''" v tail 0] by (simp add: json_indent_def layout_spaces json_space_def)

end
