(* ===== verification/Go_Json_Decode.thy ===== *)
theory Go_Json_Decode
  imports Go_Json_Laws
begin

text \<open>
  How \<open>json.Unmarshal\<close> fills Go values from a document: \<open>null\<close> leaves a scalar as it is and empties a
  map, slice or pointer; object members are matched to fields by name, else without regard to case; a
  member of the wrong type, an integer out of range and, when unknown fields are disallowed, an unknown
  member are errors (\<open>None\<close>). A repeated member is applied again to what the first one left.
\<close>

type_synonym 'a decoder = "jvalue \<Rightarrow> 'a \<Rightarrow> 'a option"

definition parse_int64 :: "string \<Rightarrow> int option" where
  "parse_int64 n =
     (let ds = (if prefix ''-'' n then tl n else n);
          i = (if prefix ''-'' n then - int (digits_val ds) else int (digits_val ds))
      in if ds \<noteq> [] \<and> list_all is_digit ds \<and> - (2 ^ 63) \<le> i \<and> i < 2 ^ 63 then Some i else None)"

definition int64 :: "int \<Rightarrow> bool" where
  "int64 i \<longleftrightarrow> - (2 ^ 63) \<le> i \<and> i < 2 ^ 63"

fun dec_string :: "string decoder" where
  "dec_string (VStr s) x = Some s"
| "dec_string VNull x = Some x"
| "dec_string _ x = None"

fun dec_int :: "int decoder" where
  "dec_int (VNum n) x = parse_int64 n"
| "dec_int VNull x = Some x"
| "dec_int _ x = None"

fun dec_bool :: "bool decoder" where
  "dec_bool (VBool b) x = Some b"
| "dec_bool VNull x = Some x"
| "dec_bool _ x = None"

text \<open>A pointer: \<open>null\<close> is \<open>nil\<close>, anything else is decoded into a fresh or the present target.\<close>

definition dec_pointer :: "'a decoder \<Rightarrow> 'a \<Rightarrow> 'a option decoder" where
  "dec_pointer dec zero v x =
     (if v = VNull then Some None
      else map_option Some (dec v (case x of Some y \<Rightarrow> y | None \<Rightarrow> zero)))"

fun dec_list :: "'a decoder \<Rightarrow> 'a \<Rightarrow> jvalue list \<Rightarrow> 'a list option" where
  "dec_list dec zero [] = Some []"
| "dec_list dec zero (v # vs) =
     (case dec v zero of
        None \<Rightarrow> None
      | Some x \<Rightarrow> map_option ((#) x) (dec_list dec zero vs))"

text \<open>A slice that is empty or \<open>nil\<close> before.\<close>

definition dec_slice :: "'a decoder \<Rightarrow> 'a \<Rightarrow> 'a list option decoder" where
  "dec_slice dec zero v x =
     (case v of
        VNull \<Rightarrow> Some None
      | VArr vs \<Rightarrow> map_option Some (dec_list dec zero vs)
      | _ \<Rightarrow> None)"

fun dec_entries :: "'a decoder \<Rightarrow> 'a \<Rightarrow> (string \<times> jvalue) list \<Rightarrow> 'a gomap \<Rightarrow> 'a gomap option" where
  "dec_entries dec zero [] m = Some m"
| "dec_entries dec zero ((k, v) # ms) m =
     (case dec v zero of
        None \<Rightarrow> None
      | Some x \<Rightarrow> dec_entries dec zero ms (map_put k x m))"

definition dec_map :: "'a decoder \<Rightarrow> 'a \<Rightarrow> 'a gomap option decoder" where
  "dec_map dec zero v x =
     (case v of
        VNull \<Rightarrow> Some None
      | VObj ms \<Rightarrow> map_option Some (dec_entries dec zero ms (case x of Some m \<Rightarrow> m | None \<Rightarrow> []))
      | _ \<Rightarrow> None)"

definition find_field :: "(string \<times> 'a decoder) list \<Rightarrow> string \<Rightarrow> 'a decoder option" where
  "find_field fields k =
     (case map_of fields k of
        Some d \<Rightarrow> Some d
      | None \<Rightarrow> map_option snd (find (\<lambda>(n, d). equalFold n k) fields))"

fun dec_members :: "bool \<Rightarrow> (string \<times> 'a decoder) list \<Rightarrow> (string \<times> jvalue) list \<Rightarrow> 'a \<Rightarrow> 'a option" where
  "dec_members strict fields [] x = Some x"
| "dec_members strict fields ((k, v) # ms) x =
     (case find_field fields k of
        None \<Rightarrow> if strict then None else dec_members strict fields ms x
      | Some d \<Rightarrow> (case d v x of
                    None \<Rightarrow> None
                  | Some y \<Rightarrow> dec_members strict fields ms y))"

definition dec_struct :: "bool \<Rightarrow> (string \<times> 'a decoder) list \<Rightarrow> 'a decoder" where
  "dec_struct strict fields v x =
     (case v of
        VNull \<Rightarrow> Some x
      | VObj ms \<Rightarrow> dec_members strict fields ms x
      | _ \<Rightarrow> None)"

subsection \<open>Decoding what was encoded\<close>

lemma parse_int64_show [simp]:
  assumes "int64 i"
  shows "parse_int64 (show_int i) = Some i"
proof (cases "i < 0")
  case True
  then show ?thesis
    using assms show_nat_digits [of "nat (- i)"] by (simp add: parse_int64_def show_int_def int64_def)
next
  case False
  have "\<not> prefix ''-'' (show_nat (nat i))"
    using show_nat_digits [of "nat i"] minus_not_digit by (cases "show_nat (nat i)") auto
  then show ?thesis
    using False assms show_nat_digits [of "nat i"] by (simp add: parse_int64_def show_int_def int64_def)
qed

lemma dec_list_map:
  "(\<And>x. x \<in> set xs \<Longrightarrow> dec (enc x) zero = Some x) \<Longrightarrow> dec_list dec zero (map enc xs) = Some xs"
  by (induction xs) auto

lemma dec_entries_map:
  assumes "gomap_wf (m @ ms)" and "\<And>k x. (k, x) \<in> set ms \<Longrightarrow> dec (enc x) zero = Some x"
  shows "dec_entries dec zero (map (\<lambda>(k, x). (k, enc x)) ms) m = Some (m @ ms)"
  using assms
proof (induction ms arbitrary: m)
  case (Cons e ms)
  obtain k x where e: "e = (k, x)" by force
  have "gomap_wf (m @ [(k, x)])" using Cons.prems(1) e by (simp add: gomap_wf_def sorted_wrt_append)
  then have "map_put k x m = m @ [(k, x)]" by (rule map_put_last)
  moreover have "dec (enc x) zero = Some x" using Cons.prems(2) [of k x] e by simp
  moreover have "dec_entries dec zero (map (\<lambda>(k, x). (k, enc x)) ms) (m @ [(k, x)]) = Some ((m @ [(k, x)]) @ ms)"
    using Cons.prems e by (intro Cons.IH) auto
  ultimately show ?case using e by simp
qed simp

subsection \<open>Decoded strings\<close>

text \<open>Every string of a scanned document is well-formed UTF-8.\<close>

lemma hex4_bound: "length hs \<le> 4 \<Longrightarrow> hex4 hs < 65536"
proof -
  have "hex_val c = Some n \<Longrightarrow> n < 16" for c n
    by (auto simp: hex_val_def is_digit_def split: if_splits)
  then have d: "(case hex_val c of Some v \<Rightarrow> v | None \<Rightarrow> 0) \<le> 15" for c by (auto split: option.split) fastforce
  have "foldl (\<lambda>n h. 16 * n + (case hex_val (char_of h) of Some v \<Rightarrow> v | None \<Rightarrow> 0)) a hs < (a + 1) * 16 ^ length hs" for a
  proof (induction hs arbitrary: a)
    case (Cons h hs)
    let ?b = "16 * a + (case hex_val (char_of h) of Some v \<Rightarrow> v | None \<Rightarrow> 0)"
    have "(?b + 1) * 16 ^ length hs \<le> (16 * (a + 1)) * 16 ^ length hs" using d [of "char_of h"] by (intro mult_right_mono) auto
    then have "(?b + 1) * 16 ^ length hs \<le> (a + 1) * 16 ^ length (h # hs)" by (simp only: power_Suc length_Cons ac_simps)
    then show ?case using Cons.IH [of ?b] by (simp only: foldl_Cons less_le_trans)
  qed simp
  from this [of 0] have "hex4 hs < 16 ^ length hs" by (simp add: hex4_def)
  also assume "length hs \<le> 4"
  then have "(16 :: nat) ^ length hs \<le> 16 ^ 4" by (intro power_increasing) auto
  finally show ?thesis by simp
qed

lemma low_surrogate_scalar: "is_surrogate u \<Longrightarrow> low_surrogate u rs = Some v \<Longrightarrow> scalar v"
  by (auto simp: low_surrogate_def is_surrogate_def scalar_def split: option.splits if_splits)

lemma unescape_scalar: "list_all scalar rs \<Longrightarrow> list_all scalar (unescape_runes rs)"
proof (induction rs rule: unescape_runes.induct)
  case (2 r rs)
  note sub = list_all_iff [of scalar]
  show ?case
  proof (cases "r = 92")
    case False
    with 2 show ?thesis by simp
  next
    case esc: True
    show ?thesis
    proof (cases "rs = [] \<or> hd rs \<noteq> 117")
      case True
      have "rs \<noteq> [] \<Longrightarrow> scalar (simple_escape (hd rs))"
        using 2(6) by (cases rs) (auto simp: simple_escape_def scalar_def is_surrogate_def)
      with True esc 2(2) 2(6) show ?thesis by (cases rs) auto
    next
      case False
      define u where "u = hex4 (take 4 (tl rs))"
      have rest: "list_all scalar (drop n rs)" for n using 2(6) by (auto simp: sub dest: in_set_dropD)
      have u: "\<not> is_surrogate u \<Longrightarrow> scalar u" using hex4_bound [of "take 4 (tl rs)"] by (simp add: u_def scalar_def)
      note ih = 2(3-5) [OF _ _ _ refl refl, folded u_def]
      show ?thesis
        using False esc u rest [of 5] rest [of 11] ih low_surrogate_scalar [of u "drop 5 rs"]
        by (auto simp: Let_def u_def [symmetric] add.commute split: option.split)
    qed
  qed
qed simp

lemma json_unquote_valid: "valid_utf8 (json_unquote b)"
  unfolding json_unquote_def by (intro valid_utf8_encode unescape_scalar utf8_runes_scalar)

fun utf8_doc :: "jvalue \<Rightarrow> bool" where
  "utf8_doc (VStr s) = valid_utf8 s"
| "utf8_doc (VArr vs) = list_all utf8_doc vs"
| "utf8_doc (VObj ms) = list_all (\<lambda>(k, v). valid_utf8 k \<and> utf8_doc v) ms"
| "utf8_doc _ = True"

fun utf8_frame :: "frame \<Rightarrow> bool" where
  "utf8_frame (InArr vs) = list_all utf8_doc vs"
| "utf8_frame (InObj ms k) = (valid_utf8 k \<and> list_all (\<lambda>(k, v). valid_utf8 k \<and> utf8_doc v) ms)"

fun utf8_mode :: "mode \<Rightarrow> bool" where
  "utf8_mode (WantKey ms) = list_all (\<lambda>(k, v). valid_utf8 k \<and> utf8_doc v) ms"
| "utf8_mode (WantColon ms k) = (valid_utf8 k \<and> list_all (\<lambda>(k, v). valid_utf8 k \<and> utf8_doc v) ms)"
| "utf8_mode (HaveValue v) = utf8_doc v"
| "utf8_mode _ = True"

lemma scan_word_utf8: "scan_word s = Some (v, r) \<Longrightarrow> utf8_doc v"
  by (auto simp: scan_word_def split: if_splits)

lemma scan_step_utf8:
  assumes "scan_step m st s = Some (m', st', r)" and "utf8_mode m" and "list_all utf8_frame st"
  shows "utf8_mode m' \<and> list_all utf8_frame st'"
proof -
  have val: "start_value st s = Some (m', st', r) \<Longrightarrow> ?thesis"
    using assms(3) by (auto simp: start_value_def json_unquote_valid dest: scan_word_utf8 split: list.splits if_splits)
  have key: "start_key ms st s = Some (m', st', r) \<Longrightarrow> list_all (\<lambda>(k, v). valid_utf8 k \<and> utf8_doc v) ms \<Longrightarrow> ?thesis" for ms
    using assms(3) by (auto simp: start_key_def json_unquote_valid split: list.splits if_splits)
  have after: "after_value v st s = Some (m', st', r) \<Longrightarrow> utf8_doc v \<Longrightarrow> ?thesis" for v
    using assms(3) by (auto simp: after_value_def split: list.splits frame.splits if_splits)
  have tail: "list_all utf8_frame (tl st)" using assms(3) by (cases st) auto
  show ?thesis
    using assms val key after tail by (cases m) (auto split: if_splits)
qed

lemma scan_run_utf8: "scan_run m st s = Some (v, r) \<Longrightarrow> utf8_mode m \<Longrightarrow> list_all utf8_frame st \<Longrightarrow> utf8_doc v"
proof (induction "length s" arbitrary: m st s rule: less_induct)
  case less
  show ?case
  proof (cases "st = [] \<and> (\<exists>w. m = HaveValue w)")
    case True
    then show ?thesis using less.prems by (auto simp: scan_run.simps)
  next
    case False
    then obtain m' st' q where step: "scan_step m st (skip_spaces s) = Some (m', st', q)" "scan_run m' st' q = Some (v, r)"
      using less.prems(1) by (subst (asm) scan_run.simps) (auto split: mode.splits list.splits option.splits)
    moreover have "length q < length s"
      using scan_step_shorter [OF step(1)] skip_spaces_length [of s] by simp
    ultimately show ?thesis using less.hyps less.prems scan_step_utf8 by blast
  qed
qed

lemma json_first_utf8: "json_first s = Some (v, r) \<Longrightarrow> utf8_doc v"
  using scan_run_utf8 [of WantValue "[]" s v r] by (simp add: json_first_def)

lemma json_parse_utf8: "json_parse s = Some v \<Longrightarrow> utf8_doc v"
  by (auto simp: json_parse_def dest: json_first_utf8 split: option.splits if_splits)

end
