(* ===== verification/Go_Time.thy ===== *)
theory Go_Time
  imports Go_Strings
begin

text \<open>
  What the program uses of \<open>time.Format\<close> and \<open>time.Parse\<close> with the layout \<open>RFC3339Nano\<close>. A time is its
  nanoseconds since the Unix epoch. The parser is the library's general one: a one-digit hour, a comma
  before the fraction and any number of fractional digits are accepted, digits after the ninth are
  dropped, and zone offsets go up to 24 hours and 60 minutes.
\<close>

subsection \<open>The calendar\<close>

definition leap_year :: "int \<Rightarrow> bool" where
  "leap_year y \<longleftrightarrow> y mod 4 = 0 \<and> (y mod 100 \<noteq> 0 \<or> y mod 400 = 0)"

text \<open>Days from the first day of the year 0 to the first day of a year.\<close>

definition days_before_year :: "int \<Rightarrow> int" where
  "days_before_year y = 365 * y + (y + 3) div 4 - (y + 99) div 100 + (y + 399) div 400"

definition days_in :: "int \<Rightarrow> int \<Rightarrow> int" where
  "days_in y m =
     (if m = 2 then (if leap_year y then 29 else 28) else if m \<in> {4, 6, 9, 11} then 30 else 31)"

definition days_before_month :: "int \<Rightarrow> int \<Rightarrow> int" where
  "days_before_month y m =
     (if m \<le> 1 then 0 else if m = 2 then 31
      else (if leap_year y then 1 else 0)
        + (if m = 3 then 59 else if m = 4 then 90 else if m = 5 then 120 else if m = 6 then 151
           else if m = 7 then 181 else if m = 8 then 212 else if m = 9 then 243 else if m = 10 then 273
           else if m = 11 then 304 else if m = 12 then 334 else 365))"

text \<open>Days from the first of January of the year 0 to the first of January 1970.\<close>

definition epoch_day :: int where
  "epoch_day = 719528"

definition days_of_date :: "int \<Rightarrow> int \<Rightarrow> int \<Rightarrow> int" where
  "days_of_date y m d = days_before_year y + days_before_month y m + (d - 1)"

definition year_of_day :: "int \<Rightarrow> int" where
  "year_of_day d =
     (let e = 400 * d div 146097 in
      if d < days_before_year e then e - 1 else if days_before_year (e + 1) \<le> d then e + 1 else e)"

definition month_of :: "int \<Rightarrow> int \<Rightarrow> int" where
  "month_of y d = int (length (filter (\<lambda>m. days_before_month y m \<le> d) [1, 2, 3, 4, 5, 6, 7, 8, 9, 10, 11, 12]))"

definition day_ns :: int where
  "day_ns = 86400000000000"

subsection \<open>Formatting\<close>

definition two_digits :: "int \<Rightarrow> string" where
  "two_digits n = [char_of (48 + nat (n div 10)), char_of (48 + nat (n mod 10))]"

definition four_digits :: "int \<Rightarrow> string" where
  "four_digits n = two_digits (n div 100) @ two_digits (n mod 100)"

fun fraction_digits :: "nat \<Rightarrow> int \<Rightarrow> string" where
  "fraction_digits 0 n = []"
| "fraction_digits (Suc k) n =
     (if n = 0 then [] else char_of (48 + nat (n div 10 ^ k)) # fraction_digits k (n mod 10 ^ k))"

definition fraction_text :: "int \<Rightarrow> string" where
  "fraction_text n = (if n = 0 then [] else CHR ''.'' # fraction_digits 9 n)"

text \<open>\<open>t.UTC().Format(time.RFC3339Nano)\<close>, for years 0 to 9999.\<close>

definition format_time :: "int \<Rightarrow> string" where
  "format_time t =
     (let days = t div day_ns + epoch_day; ns = t mod day_ns; y = year_of_day days;
          yd = days - days_before_year y; m = month_of y yd; d = yd - days_before_month y m + 1
      in four_digits y @ ''-'' @ two_digits m @ ''-'' @ two_digits d @ ''T''
         @ two_digits (ns div hour) @ '':'' @ two_digits (ns div minute mod 60) @ '':''
         @ two_digits (ns div second mod 60) @ fraction_text (ns mod second) @ ''Z'')"

subsection \<open>Parsing\<close>

definition digit_val :: "char \<Rightarrow> int" where
  "digit_val c = int (byte c) - 48"

definition get_two :: "string \<Rightarrow> (int \<times> string) option" where
  "get_two s =
     (case s of
        a # b # r \<Rightarrow> if is_digit a \<and> is_digit b then Some (digit_val a * 10 + digit_val b, r) else None
      | _ \<Rightarrow> None)"

text \<open>The hour may have one digit only.\<close>

definition get_hour :: "string \<Rightarrow> (int \<times> string) option" where
  "get_hour s =
     (case get_two s of
        Some p \<Rightarrow> Some p
      | None \<Rightarrow> (case s of a # r \<Rightarrow> if is_digit a then Some (digit_val a, r) else None | [] \<Rightarrow> None))"

definition get_four :: "string \<Rightarrow> (int \<times> string) option" where
  "get_four s =
     (case get_two s of
        None \<Rightarrow> None
      | Some (a, r) \<Rightarrow> (case get_two r of None \<Rightarrow> None | Some (b, q) \<Rightarrow> Some (100 * a + b, q)))"

definition skip_char :: "char \<Rightarrow> string \<Rightarrow> string option" where
  "skip_char c s = (case s of x # r \<Rightarrow> if x = c then Some r else None | [] \<Rightarrow> None)"

fun fraction_value :: "nat \<Rightarrow> string \<Rightarrow> int" where
  "fraction_value k [] = 0"
| "fraction_value k (d # ds) = (if k = 0 then 0 else digit_val d * 10 ^ (k - 1) + fraction_value (k - 1) ds)"

definition get_fraction :: "string \<Rightarrow> int \<times> string" where
  "get_fraction s =
     (case s of
        p # d # r \<Rightarrow>
          if (p = CHR ''.'' \<or> p = CHR '','') \<and> is_digit d
          then (fraction_value 9 (takeWhile is_digit (d # r)), dropWhile is_digit (d # r))
          else (0, s)
      | _ \<Rightarrow> (0, s))"

text \<open>The zone in nanoseconds east of UTC; nothing may follow.\<close>

definition get_zone :: "string \<Rightarrow> int option" where
  "get_zone s =
     (if s = ''Z'' then Some 0
      else case s of
        [sg, h1, h2, co, m1, m2] \<Rightarrow>
          (case (get_two [h1, h2], get_two [m1, m2]) of
             (Some (h, _), Some (m, _)) \<Rightarrow>
               if co = CHR '':'' \<and> h \<le> 24 \<and> m \<le> 60 \<and> sg \<in> {CHR ''+'', CHR ''-''}
               then Some ((if sg = CHR ''-'' then - 1 else 1) * (h * hour + m * minute)) else None
           | _ \<Rightarrow> None)
      | _ \<Rightarrow> None)"

definition parse_date :: "string \<Rightarrow> ((int \<times> int \<times> int) \<times> string) option" where
  "parse_date s = Option.bind (get_four s) (\<lambda>(y, s).
     Option.bind (skip_char CHR ''-'' s) (\<lambda>s.
     Option.bind (get_two s) (\<lambda>(m, s).
     Option.bind (skip_char CHR ''-'' s) (\<lambda>s.
     Option.bind (get_two s) (\<lambda>(d, s).
       if 1 \<le> m \<and> m \<le> 12 \<and> 1 \<le> d \<and> d \<le> days_in y m then Some ((y, m, d), s) else None)))))"

definition parse_clock :: "string \<Rightarrow> (int \<times> string) option" where
  "parse_clock s = Option.bind (get_hour s) (\<lambda>(h, s).
     Option.bind (skip_char CHR '':'' s) (\<lambda>s.
     Option.bind (get_two s) (\<lambda>(m, s).
     Option.bind (skip_char CHR '':'' s) (\<lambda>s.
     Option.bind (get_two s) (\<lambda>(sec, s).
       if h < 24 \<and> m < 60 \<and> sec < 60 then Some (h * hour + m * minute + sec * second, s) else None)))))"

definition parse_time :: "string \<Rightarrow> int option" where
  "parse_time s = Option.bind (parse_date s) (\<lambda>((y, m, d), s).
     Option.bind (skip_char CHR ''T'' s) (\<lambda>s.
     Option.bind (parse_clock s) (\<lambda>(clock, s).
       let (frac, s) = get_fraction s in
       map_option (\<lambda>zone. (days_of_date y m d - epoch_day) * day_ns + clock + frac - zone) (get_zone s))))"

subsection \<open>Parsing what was formatted\<close>

lemma digit_of: "0 \<le> n \<Longrightarrow> n < 10 \<Longrightarrow> is_digit (char_of (48 + nat n)) \<and> digit_val (char_of (48 + nat n)) = n"
  by (auto simp: is_digit_def digit_val_def)

lemma get_two_digits: "0 \<le> n \<Longrightarrow> n < 100 \<Longrightarrow> get_two (two_digits n @ r) = Some (n, r)"
proof -
  assume n: "0 \<le> n" "n < 100"
  then have "0 \<le> n div 10" "n div 10 < 10" by auto
  with digit_of [of "n div 10"] digit_of [of "n mod 10"] show ?thesis
    by (simp add: get_two_def two_digits_def)
qed

lemma get_four_digits: "0 \<le> n \<Longrightarrow> n < 10000 \<Longrightarrow> get_four (four_digits n @ r) = Some (n, r)"
proof -
  assume n: "0 \<le> n" "n < 10000"
  then have "0 \<le> n div 100" "n div 100 < 100" by auto
  with get_two_digits [of "n div 100"] get_two_digits [of "n mod 100"] show ?thesis
    by (simp add: get_four_def four_digits_def)
qed

lemma div_bounds: "0 < (k :: int) \<Longrightarrow> k * (x div k) \<le> x \<and> x < k * (x div k) + k"
  using pos_mod_bound [of k x] pos_mod_sign [of k x] mult_div_mod_eq [of k x] by linarith

lemma fraction_digits_value:
  "0 \<le> n \<Longrightarrow> n < 10 ^ k \<Longrightarrow> list_all is_digit (fraction_digits k n) \<and> fraction_value k (fraction_digits k n) = n"
proof (induction k arbitrary: n)
  case (Suc k)
  have p: "(0 :: int) < 10 ^ k" by simp
  have "10 ^ k * (n div 10 ^ k) \<le> n" using div_bounds [OF p] by blast
  also have "n < 10 ^ k * 10" using Suc.prems by simp
  finally have "n div 10 ^ k < 10" using p by (simp only: mult_less_cancel_left_pos)
  moreover have "0 \<le> n div 10 ^ k" using Suc.prems by (simp add: pos_imp_zdiv_nonneg_iff)
  moreover have "list_all is_digit (fraction_digits k (n mod 10 ^ k))"
    "fraction_value k (fraction_digits k (n mod 10 ^ k)) = n mod 10 ^ k" using Suc.IH [of "n mod 10 ^ k"] by auto
  moreover have "n div 10 ^ k * 10 ^ k + n mod 10 ^ k = n" by (rule div_mult_mod_eq)
  ultimately show ?case using digit_of [of "n div 10 ^ k"] by auto
qed simp

lemma get_fraction_text:
  assumes "0 \<le> n" and "n < 10 ^ 9"
  shows "get_fraction (fraction_text n @ ''Z'') = (n, ''Z'')"
proof (cases "n = 0")
  case False
  note v = fraction_digits_value [OF assms]
  then obtain d ds where ds: "fraction_digits 9 n = d # ds" using False by (cases "fraction_digits 9 n") auto
  have z: "\<not> is_digit CHR ''Z''" by (simp add: is_digit_def)
  have "takeWhile is_digit (d # ds @ ''Z'') = d # ds" "dropWhile is_digit (d # ds @ ''Z'') = ''Z''"
    using v z unfolding ds by (auto simp: takeWhile_append dropWhile_append list_all_iff)
  then show ?thesis using v False ds by (simp add: fraction_text_def get_fraction_def)
qed (simp add: fraction_text_def get_fraction_def)

lemma days_before_year_bounds:
  "146097 * y \<le> 400 * days_before_year y + 396" "400 * days_before_year y \<le> 146097 * y + 699"
  using div_bounds [of 4 "y + 3"] div_bounds [of 100 "y + 99"] div_bounds [of 400 "y + 399"]
  unfolding days_before_year_def by simp_all

lemma year_of_day_bounds:
  "days_before_year (year_of_day d) \<le> d \<and> d < days_before_year (year_of_day d + 1)"
proof -
  define e where "e = 400 * d div 146097"
  have e: "146097 * e \<le> 400 * d" "400 * d < 146097 * e + 146097"
    using div_bounds [of 146097 "400 * d"] by (simp_all add: e_def)
  have "days_before_year (e - 1) \<le> d" using e(1) days_before_year_bounds(2) [of "e - 1"] by simp
  moreover have "d < days_before_year (e + 2)" using e(2) days_before_year_bounds(1) [of "e + 2"] by simp
  ultimately show ?thesis unfolding year_of_day_def e_def [symmetric] Let_def by (auto simp: add.commute)
qed

lemma ceiling_step:
  assumes "0 < (k :: int)" and j: "j = k - 1"
  shows "(y + k) div k = (y + j) div k + (if y mod k = 0 then 1 else 0)"
proof -
  have y: "y = k * (y div k) + y mod k" "0 \<le> y mod k" "y mod k < k" using assms by simp_all
  have up: "(y + k) div k = y div k + 1"
    using y assms by (intro int_div_pos_eq [of _ _ _ "y mod k"]) (simp_all add: distrib_left)
  show ?thesis
  proof (cases "y mod k = 0")
    case True
    have "(y + (k - 1)) div k = y div k"
      using y(1) True assms by (intro int_div_pos_eq [of _ _ _ "k - 1"]) auto
    with up True show ?thesis by (simp add: j)
  next
    case False
    have "(y + (k - 1)) div k = y div k + 1"
    proof (rule int_div_pos_eq)
      show "y + (k - 1) = k * (y div k + 1) + (y mod k - 1)" using y(1) by (simp add: distrib_left)
    qed (use y False in linarith)+
    with up False show ?thesis by (simp add: j)
  qed
qed

lemma year_length: "days_before_year (y + 1) = days_before_year y + (if leap_year y then 366 else 365)"
proof -
  have sub: "y mod 400 = 0 \<Longrightarrow> y mod 100 = 0" "y mod 100 = 0 \<Longrightarrow> y mod 4 = 0"
    using mod_mod_cancel [of 100 400 y] mod_mod_cancel [of 4 100 y] by auto
  have up: "(y + 4) div 4 = (y + 3) div 4 + (if y mod 4 = 0 then 1 else 0)"
    "(y + 100) div 100 = (y + 99) div 100 + (if y mod 100 = 0 then 1 else 0)"
    "(y + 400) div 400 = (y + 399) div 400 + (if y mod 400 = 0 then 1 else 0)"
    by (rule ceiling_step; simp)+
  have "y + 1 + 3 = y + 4" "y + 1 + 99 = y + 100" "y + 1 + 399 = y + 400" by simp_all
  then have "days_before_year (y + 1) = 365 * (y + 1) + (y + 4) div 4 - (y + 100) div 100 + (y + 400) div 400"
    unfolding days_before_year_def by (simp only:)
  also have "\<dots> = days_before_year y + 365 + (if y mod 4 = 0 then 1 else 0) - (if y mod 100 = 0 then 1 else 0)
      + (if y mod 400 = 0 then 1 else 0)"
    unfolding up days_before_year_def by (simp only: distrib_left)
  finally show ?thesis
    using sub unfolding leap_year_def
    by (cases "y mod 400 = 0"; cases "y mod 100 = 0"; cases "y mod 4 = 0"; simp only: simp_thms if_True if_False)
qed

lemma month_cases:
  assumes "1 \<le> m" and "m \<le> (12 :: int)"
  obtains "m = 1" | "m = 2" | "m = 3" | "m = 4" | "m = 5" | "m = 6" | "m = 7" | "m = 8" | "m = 9" | "m = 10" | "m = 11" | "m = 12"
proof -
  have "m = 1 \<or> m = 2 \<or> m = 3 \<or> m = 4 \<or> m = 5 \<or> m = 6 \<or> m = 7 \<or> m = 8 \<or> m = 9 \<or> m = 10 \<or> m = 11 \<or> m = 12"
    using assms by presburger
  then show thesis using that by blast
qed

lemma month_of_between:
  assumes "1 \<le> m" "m \<le> 12" and "days_before_month y m \<le> d" and "d < days_before_month y (m + 1)"
  shows "month_of y d = m"
  using assms(3,4) by (cases rule: month_cases [OF assms(1,2)]; cases "leap_year y"; simp add: month_of_def days_before_month_def)

lemma month_exists:
  assumes "0 \<le> d" and "d < (if leap_year y then 366 else 365)"
  obtains m where "1 \<le> m" "m \<le> 12" "days_before_month y m \<le> d" "d < days_before_month y (m + 1)"
proof (cases "\<exists>m \<in> {1 .. 12}. days_before_month y m \<le> d \<and> d < days_before_month y (m + 1)")
  case False
  then have step: "1 \<le> m \<Longrightarrow> m \<le> 12 \<Longrightarrow> days_before_month y m \<le> d \<Longrightarrow> days_before_month y (m + 1) \<le> d" for m by force
  have "days_before_month y 1 \<le> d" using assms by (simp add: days_before_month_def)
  note step [OF _ _ this, simplified]
  then have "days_before_month y 13 \<le> d"
    using step [of 2] step [of 3] step [of 4] step [of 5] step [of 6] step [of 7] step [of 8] step [of 9] step [of 10]
      step [of 11] step [of 12] by simp
  then have False using assms by (simp add: days_before_month_def split: if_splits)
  then show ?thesis ..
qed (use that in auto)

lemma month_length: "1 \<le> m \<Longrightarrow> m \<le> 12 \<Longrightarrow> days_before_month y (m + 1) = days_before_month y m + days_in y m"
  by (erule month_cases, assumption; simp add: days_before_month_def days_in_def)

text \<open>The calendar date of a day is a valid date, and it is the date of that day.\<close>

lemma date_of_day:
  assumes "y = year_of_day D" and "yd = D - days_before_year y" and "m = month_of y yd" and "d = yd - days_before_month y m + 1"
  shows "1 \<le> m \<and> m \<le> 12 \<and> 1 \<le> d \<and> d \<le> days_in y m \<and> days_of_date y m d = D"
proof -
  have "0 \<le> yd" "yd < (if leap_year y then 366 else 365)"
    using year_of_day_bounds [of D] year_length [of y] assms(1,2) by auto
  then obtain n where n: "1 \<le> n" "n \<le> 12" "days_before_month y n \<le> yd" "yd < days_before_month y (n + 1)"
    by (rule month_exists)
  then have "m = n" using month_of_between assms(3) by simp
  then show ?thesis using n month_length [OF n(1,2), of y] assms(2,4) by (simp add: days_of_date_def)
qed

definition formattable :: "int \<Rightarrow> bool" where
  "formattable t \<longleftrightarrow> (let y = year_of_day (t div day_ns + epoch_day) in 0 \<le> y \<and> y < 10000)"

lemma skip_char_Cons: "skip_char c (c # r) = Some r"
  by (simp add: skip_char_def)

lemma parse_date_digits:
  assumes "0 \<le> y" "y < 10000" "1 \<le> m" "m \<le> 12" "1 \<le> d" "d \<le> days_in y m"
  shows "parse_date (four_digits y @ ''-'' @ two_digits m @ ''-'' @ two_digits d @ r) = Some ((y, m, d), r)"
proof -
  have "d < 100" using assms(6) by (simp add: days_in_def split: if_splits)
  then show ?thesis using assms by (simp add: parse_date_def get_four_digits get_two_digits skip_char_Cons)
qed

lemma parse_clock_digits:
  assumes "0 \<le> h" "h < 24" "0 \<le> m" "m < 60" "0 \<le> sec" "sec < 60"
  shows "parse_clock (two_digits h @ '':'' @ two_digits m @ '':'' @ two_digits sec @ r)
    = Some (h * hour + m * minute + sec * second, r)"
  using assms get_two_digits [of h] by (simp add: parse_clock_def get_hour_def get_two_digits skip_char_Cons)

lemma clock_parts:
  assumes "0 \<le> ns" "ns < day_ns"
  shows "0 \<le> ns div hour" "ns div hour < 24"
    and "ns div hour * hour + ns div minute mod 60 * minute + ns div second mod 60 * second + ns mod second = ns"
proof -
  have u: "hour = 60 * minute" "minute = 60 * second" "0 < hour" by (simp_all add: time_units)
  show "0 \<le> ns div hour" using assms u by (simp add: pos_imp_zdiv_nonneg_iff)
  have "hour * (ns div hour) < hour * 24"
    using assms div_bounds [OF u(3), of ns] by (simp add: day_ns_def time_units)
  then show "ns div hour < 24" using u(3) by (simp only: mult_less_cancel_left_pos)
  have "ns div hour = ns div minute div 60" "ns div minute = ns div second div 60"
    by (simp_all add: time_units zdiv_zmult2_eq [symmetric])
  then have "ns div hour * 60 + ns div minute mod 60 = ns div minute" "ns div minute * 60 + ns div second mod 60 = ns div second"
    by simp_all
  moreover have "ns div second * second + ns mod second = ns" by simp
  ultimately show "ns div hour * hour + ns div minute mod 60 * minute + ns div second mod 60 * second + ns mod second = ns"
    unfolding time_units by linarith
qed

text \<open>The library's round trip, for the years that have four digits.\<close>

lemma parse_format_time:
  assumes "formattable t"
  shows "parse_time (format_time t) = Some t"
proof -
  define D ns where "D = t div day_ns + epoch_day" and "ns = t mod day_ns"
  define y where "y = year_of_day D"
  define yd where "yd = D - days_before_year y"
  define m where "m = month_of y yd"
  define d where "d = yd - days_before_month y m + 1"
  note date = date_of_day [OF y_def yd_def m_def d_def]
  have ns: "0 \<le> ns" "ns < day_ns" by (simp_all add: ns_def day_ns_def)
  have y: "0 \<le> y" "y < 10000" using assms by (simp_all add: formattable_def y_def D_def Let_def)
  have frac: "get_fraction (fraction_text (ns mod second) @ ''Z'') = (ns mod second, ''Z'')"
    by (rule get_fraction_text) (simp_all add: second_def)
  have "parse_clock (two_digits (ns div hour) @ '':'' @ two_digits (ns div minute mod 60) @ '':''
         @ two_digits (ns div second mod 60) @ fraction_text (ns mod second) @ ''Z'')
    = Some (ns - ns mod second, fraction_text (ns mod second) @ ''Z'')"
    using clock_parts [OF ns] by (subst parse_clock_digits) auto
  moreover have "format_time t = four_digits y @ ''-'' @ two_digits m @ ''-'' @ two_digits d @ ''T''
         @ two_digits (ns div hour) @ '':'' @ two_digits (ns div minute mod 60) @ '':''
         @ two_digits (ns div second mod 60) @ fraction_text (ns mod second) @ ''Z''"
    by (simp add: format_time_def Let_def D_def ns_def y_def yd_def m_def d_def)
  moreover have zone: "get_zone ''Z'' = Some 0" by (simp add: get_zone_def)
  moreover have "(D - epoch_day) * day_ns + ns = t" by (simp add: D_def ns_def)
  ultimately show ?thesis
    using date y parse_date_digits [of y m d] by (simp add: parse_time_def skip_char_Cons frac)
qed

end
