(* ===== verification/Release_Manifest.thy ===== *)
theory Release_Manifest
  imports Go_Json_Decode Go_Time Go_Url
begin

text \<open>
  \<open>internal/release/desktop_updates.go\<close>: the manifest of a desktop update, its JSON form and
  \<open>ValidateDesktopManifest\<close>. A Go map that may be \<open>nil\<close> is an option of its entries in key order. The
  program ranges over maps in no fixed order; the model takes key order, which only decides which of
  several defects of a manifest is named in the error.
\<close>

subsection \<open>Types\<close>

record artifact =
  art_url :: string
  art_size :: int
  art_sha256 :: string

definition no_artifact :: artifact where
  "no_artifact = \<lparr>art_url = [], art_size = 0, art_sha256 = []\<rparr>"

record manifest =
  mf_schemaVersion :: int
  mf_productId :: string
  mf_version :: string
  mf_publishedAt :: string
  mf_releaseNotes :: "string list option gomap option"
  mf_artifacts :: "artifact gomap option"

definition no_manifest :: manifest where
  "no_manifest = \<lparr>mf_schemaVersion = 0, mf_productId = [], mf_version = [], mf_publishedAt = [],
     mf_releaseNotes = None, mf_artifacts = None\<rparr>"

datatype update_error =
    DesktopUpdateNotFound
  | InvalidDesktopUpdate string
  | UpdateConflict
  | UpdateFailure

definition maxDesktopManifestBytes :: nat where
  "maxDesktopManifestBytes = 262144"

subsection \<open>JSON\<close>

definition jint :: "int \<Rightarrow> jvalue" where
  "jint i = VNum (show_int i)"

definition jmap :: "('a \<Rightarrow> jvalue) \<Rightarrow> 'a gomap option \<Rightarrow> jvalue" where
  "jmap enc m = (case m of None \<Rightarrow> VNull | Some es \<Rightarrow> VObj (map (\<lambda>(k, x). (k, enc x)) es))"

definition artifact_json :: "artifact \<Rightarrow> jvalue" where
  "artifact_json a =
     VObj [(''url'', VStr (art_url a)), (''size'', jint (art_size a)), (''sha256'', VStr (art_sha256 a))]"

definition notes_json :: "string list option \<Rightarrow> jvalue" where
  "notes_json ns = (case ns of None \<Rightarrow> VNull | Some xs \<Rightarrow> VArr (map VStr xs))"

definition manifest_json :: "manifest \<Rightarrow> jvalue" where
  "manifest_json m =
     VObj [(''schemaVersion'', jint (mf_schemaVersion m)), (''productId'', VStr (mf_productId m)),
       (''version'', VStr (mf_version m)), (''publishedAt'', VStr (mf_publishedAt m)),
       (''releaseNotes'', jmap notes_json (mf_releaseNotes m)),
       (''artifacts'', jmap artifact_json (mf_artifacts m))]"

definition artifact_fields :: "(string \<times> artifact decoder) list" where
  "artifact_fields =
     [(''url'', \<lambda>v a. map_option (\<lambda>x. a\<lparr>art_url := x\<rparr>) (dec_string v (art_url a))),
      (''size'', \<lambda>v a. map_option (\<lambda>x. a\<lparr>art_size := x\<rparr>) (dec_int v (art_size a))),
      (''sha256'', \<lambda>v a. map_option (\<lambda>x. a\<lparr>art_sha256 := x\<rparr>) (dec_string v (art_sha256 a)))]"

definition manifest_fields :: "bool \<Rightarrow> (string \<times> manifest decoder) list" where
  "manifest_fields strict =
     [(''schemaVersion'', \<lambda>v m. map_option (\<lambda>x. m\<lparr>mf_schemaVersion := x\<rparr>) (dec_int v (mf_schemaVersion m))),
      (''productId'', \<lambda>v m. map_option (\<lambda>x. m\<lparr>mf_productId := x\<rparr>) (dec_string v (mf_productId m))),
      (''version'', \<lambda>v m. map_option (\<lambda>x. m\<lparr>mf_version := x\<rparr>) (dec_string v (mf_version m))),
      (''publishedAt'', \<lambda>v m. map_option (\<lambda>x. m\<lparr>mf_publishedAt := x\<rparr>) (dec_string v (mf_publishedAt m))),
      (''releaseNotes'', \<lambda>v m. map_option (\<lambda>x. m\<lparr>mf_releaseNotes := x\<rparr>)
         (dec_map (dec_slice dec_string []) None v (mf_releaseNotes m))),
      (''artifacts'', \<lambda>v m. map_option (\<lambda>x. m\<lparr>mf_artifacts := x\<rparr>)
         (dec_map (dec_struct strict artifact_fields) no_artifact v (mf_artifacts m)))]"

definition dec_manifest :: "bool \<Rightarrow> manifest decoder" where
  "dec_manifest strict = dec_struct strict (manifest_fields strict)"

subsection \<open>Patterns\<close>

definition is_lower_digit_dash :: "char \<Rightarrow> bool" where
  "is_lower_digit_dash c \<longleftrightarrow> is_lower c \<or> is_digit c \<or> c = CHR ''-''"

definition is_alnum_dash :: "char \<Rightarrow> bool" where
  "is_alnum_dash c \<longleftrightarrow> is_alnum c \<or> c = CHR ''-''"

text \<open>\<open>^[a-z][a-z0-9-]{0,63}$\<close>\<close>

definition desktopProductPattern :: "string \<Rightarrow> bool" where
  "desktopProductPattern s \<longleftrightarrow>
     s \<noteq> [] \<and> is_lower (hd s) \<and> list_all is_lower_digit_dash (tl s) \<and> length s \<le> 64"

text \<open>\<open>0|[1-9][0-9]*\<close>, and dot-separated non-empty identifiers of \<open>[0-9A-Za-z-]\<close>\<close>

definition numeric_id :: "string \<Rightarrow> bool" where
  "numeric_id s \<longleftrightarrow> s \<noteq> [] \<and> list_all is_digit s \<and> (hd s = CHR ''0'' \<longrightarrow> s = ''0'')"

definition identifiers :: "string \<Rightarrow> bool" where
  "identifiers s \<longleftrightarrow> list_all (\<lambda>w. w \<noteq> [] \<and> list_all is_alnum_dash w) (split_on CHR ''.'' s)"

text \<open>
  \<open>desktopVersionPattern\<close>: three numbers, an optional part after the first \<open>-\<close> and one after the first
  \<open>+\<close>; \<open>+\<close> belongs to no other class of the pattern, and \<open>-\<close> to none of the numbers.
\<close>

definition version_parts :: "string \<Rightarrow> string \<times> string option \<times> string option" where
  "version_parts s =
     (let (core, build, hasBuild) = cut_at CHR ''+'' s; (nums, pre, hasPre) = cut_at CHR ''-'' core
      in (nums, if hasPre then Some pre else None, if hasBuild then Some build else None))"

definition desktopVersionPattern :: "string \<Rightarrow> bool" where
  "desktopVersionPattern s =
     (case version_parts s of
        (nums, pre, build) \<Rightarrow>
          (case split_on CHR ''.'' nums of
             [a, b, c] \<Rightarrow> numeric_id a \<and> numeric_id b \<and> numeric_id c
           | _ \<Rightarrow> False)
          \<and> (case pre of None \<Rightarrow> True | Some p \<Rightarrow> identifiers p)
          \<and> (case build of None \<Rightarrow> True | Some b \<Rightarrow> identifiers b))"

text \<open>\<open>^[a-z]{2}(-[A-Za-z]{2,8})?$\<close>\<close>

definition desktopLocalePattern :: "string \<Rightarrow> bool" where
  "desktopLocalePattern s \<longleftrightarrow>
     2 \<le> length s \<and> list_all is_lower (take 2 s)
     \<and> (drop 2 s = [] \<or> hd (drop 2 s) = CHR ''-'' \<and> list_all is_alpha (drop 3 s) \<and> length (drop 3 s) \<in> {2 .. 8})"

text \<open>\<open>^[a-fA-F0-9]{64}$\<close>\<close>

definition desktopHashPattern :: "string \<Rightarrow> bool" where
  "desktopHashPattern s \<longleftrightarrow> length s = 64 \<and> list_all (\<lambda>c. hex_val c \<noteq> None) s"

subsection \<open>Validation\<close>

text \<open>\<open>len(utf16.Encode([]rune(s)))\<close>\<close>

definition utf16_length :: "string \<Rightarrow> nat" where
  "utf16_length s = sum_list (map (\<lambda>r. if 65536 \<le> r then 2 else 1) (utf8_runes s))"

text \<open>The identifiers of the prerelease part; the program cuts the version at the first \<open>+\<close>, then at the first \<open>-\<close>.\<close>

definition prerelease_ids :: "string \<Rightarrow> string list" where
  "prerelease_ids v =
     (let (_, pre, has) = cut_at CHR ''-'' (takeWhile (\<lambda>c. c \<noteq> CHR ''+'') v)
      in if has then split_on CHR ''.'' pre else [])"

definition padded_number :: "string \<Rightarrow> bool" where
  "padded_number w \<longleftrightarrow> 1 < length w \<and> hd w = CHR ''0'' \<and> trim_chars is_digit w = []"

definition platform_extension :: "string \<Rightarrow> string option" where
  "platform_extension p =
     (if p = ''darwin-arm64'' \<or> p = ''darwin-x64'' then Some ''.zip''
      else if p = ''win32-arm64'' \<or> p = ''win32-x64'' then Some ''.exe''
      else None)"

definition artifact_url_ok :: "string \<Rightarrow> string \<Rightarrow> bool" where
  "artifact_url_ok ext s =
     (case url_parse s of
        None \<Rightarrow> False
      | Some u \<Rightarrow> url_scheme u = ''https'' \<and> url_hostname u \<noteq> [] \<and> url_user u = None
          \<and> url_fragment u = [] \<and> CHR ''#'' \<notin> set s \<and> suffix ext (toLower (escapedPath u)))"

definition artifact_error :: "string \<times> artifact \<Rightarrow> string option" where
  "artifact_error e =
     (case platform_extension (fst e) of
        None \<Rightarrow> Some ''artifact platform''
      | Some ext \<Rightarrow>
          if \<not> artifact_url_ok ext (art_url (snd e)) then Some ''artifact URL''
          else if art_size (snd e) \<le> 0 \<or> 16 * 1024 * 1024 * 1024 < art_size (snd e) \<or> \<not> desktopHashPattern (art_sha256 (snd e))
          then Some ''artifact size or sha256'' else None)"

definition notes_error :: "string \<times> string list option \<Rightarrow> string option" where
  "notes_error e =
     (case snd e of
        None \<Rightarrow> Some ''releaseNotes''
      | Some notes \<Rightarrow>
          if \<not> desktopLocalePattern (fst e) \<or> 100 < length notes then Some ''releaseNotes''
          else if list_ex (\<lambda>n. 2000 < utf16_length n) notes then Some ''releaseNotes item''
          else None)"

fun first_error :: "('a \<Rightarrow> string option) \<Rightarrow> 'a list \<Rightarrow> string option" where
  "first_error f [] = None"
| "first_error f (x # xs) = (case f x of Some e \<Rightarrow> Some e | None \<Rightarrow> first_error f xs)"

definition marshal :: "manifest \<Rightarrow> string" where
  "marshal m = json_compact (manifest_json m)"

definition artifacts_error :: "artifact gomap option \<Rightarrow> string option" where
  "artifacts_error m =
     (case m of
        None \<Rightarrow> Some ''artifacts''
      | Some es \<Rightarrow> if es = [] \<or> 4 < length es then Some ''artifacts'' else first_error artifact_error es)"

definition releaseNotes_error :: "string list option gomap option \<Rightarrow> string option" where
  "releaseNotes_error m =
     (case m of None \<Rightarrow> Some ''releaseNotes'' | Some es \<Rightarrow> first_error notes_error es)"

definition manifest_error :: "manifest \<Rightarrow> string option" where
  "manifest_error m =
     (if mf_schemaVersion m \<noteq> 1 \<or> \<not> desktopProductPattern (mf_productId m) then Some ''schemaVersion or productId''
      else if 128 < length (mf_version m) \<or> \<not> desktopVersionPattern (mf_version m) then Some ''version''
      else if list_ex padded_number (prerelease_ids (mf_version m)) then Some ''prerelease version''
      else if parse_time (mf_publishedAt m) = None then Some ''publishedAt''
      else case releaseNotes_error (mf_releaseNotes m) of Some e \<Rightarrow> Some e
      | None \<Rightarrow> (case artifacts_error (mf_artifacts m) of Some e \<Rightarrow> Some e
      | None \<Rightarrow> if maxDesktopManifestBytes < length (marshal m) then Some ''manifest size'' else None))"

definition validateDesktopManifest :: "manifest \<Rightarrow> update_error + unit" where
  "validateDesktopManifest m =
     (case manifest_error m of Some field \<Rightarrow> Inl (InvalidDesktopUpdate field) | None \<Rightarrow> Inr ())"

text \<open>\<open>decodeFeedManifest\<close>: the size is checked before and, in compact form, after decoding.\<close>

definition decodeFeedManifest :: "string \<Rightarrow> update_error + manifest" where
  "decodeFeedManifest data =
     (if maxDesktopManifestBytes < length data then Inl (InvalidDesktopUpdate [])
      else case Option.bind (json_parse data) (\<lambda>v. dec_manifest False v no_manifest) of
        None \<Rightarrow> Inl (InvalidDesktopUpdate [])
      | Some m \<Rightarrow> (case validateDesktopManifest m of Inl e \<Rightarrow> Inl e | Inr _ \<Rightarrow> Inr m))"

end
