(* ===== verification/Release_Manifest_Laws.thy ===== *)
theory Release_Manifest_Laws
  imports Release_Manifest
begin

text \<open>
  What every manifest decoded from JSON satisfies (\<open>manifest_wf\<close>), and the round trip of the codec: a
  valid manifest that is printed, in either layout, and decoded again is the same manifest.
\<close>

definition artifact_utf8 :: "artifact \<Rightarrow> bool" where
  "artifact_utf8 a \<longleftrightarrow> valid_utf8 (art_url a) \<and> valid_utf8 (art_sha256 a) \<and> int64 (art_size a)"

definition notes_utf8 :: "string list option \<Rightarrow> bool" where
  "notes_utf8 ns \<longleftrightarrow> (\<forall>xs. ns = Some xs \<longrightarrow> list_all valid_utf8 xs)"

definition gomap_ok :: "('a \<Rightarrow> bool) \<Rightarrow> 'a gomap option \<Rightarrow> bool" where
  "gomap_ok P m \<longleftrightarrow> (\<forall>es. m = Some es \<longrightarrow> gomap_wf es \<and> list_all (\<lambda>(k, x). valid_utf8 k \<and> P x) es)"

definition manifest_wf :: "manifest \<Rightarrow> bool" where
  "manifest_wf m \<longleftrightarrow> int64 (mf_schemaVersion m) \<and> valid_utf8 (mf_productId m) \<and> valid_utf8 (mf_version m)
     \<and> valid_utf8 (mf_publishedAt m) \<and> gomap_ok notes_utf8 (mf_releaseNotes m) \<and> gomap_ok artifact_utf8 (mf_artifacts m)"

subsection \<open>Printing\<close>

lemma valid_utf8_ascii: "list_all is_ascii s \<Longrightarrow> valid_utf8 s"
proof -
  assume "list_all is_ascii s"
  then have "utf8_runes s = map of_char s" "list_all (\<lambda>r. r < 128) (map (of_char :: char \<Rightarrow> nat) s)"
    by (auto simp: utf8_runes_ascii list_all_iff is_ascii_def)
  moreover have "concat (map encode_rune rs) = rs" if "list_all (\<lambda>r. r < 128) rs" for rs
    using that by (induction rs) (auto simp: encode_rune_def)
  ultimately have "concat (map encode_rune (utf8_runes s)) = map of_char s" by metis
  then show ?thesis by (simp add: valid_utf8_def utf8_encode_def comp_def)
qed

lemma field_names_utf8:
  "valid_utf8 ''url''" "valid_utf8 ''size''" "valid_utf8 ''sha256''" "valid_utf8 ''schemaVersion''"
  "valid_utf8 ''productId''" "valid_utf8 ''version''" "valid_utf8 ''publishedAt''" "valid_utf8 ''releaseNotes''"
  "valid_utf8 ''artifacts''"
  by (rule valid_utf8_ascii; simp add: is_ascii_def)+

lemma printable_jint [simp]: "printable (jint i)"
  by (simp add: jint_def number_show_int)

lemma printable_jmap: "gomap_ok P m \<Longrightarrow> (\<And>x. P x \<Longrightarrow> printable (enc x)) \<Longrightarrow> printable (jmap enc m)"
  by (auto simp: gomap_ok_def jmap_def list_all_iff split: option.split) fastforce+

lemma printable_manifest: "manifest_wf m \<Longrightarrow> printable (manifest_json m)"
proof -
  assume wf: "manifest_wf m"
  have "printable (artifact_json a)" if "artifact_utf8 a" for a
    using that by (simp add: artifact_json_def artifact_utf8_def field_names_utf8)
  moreover have "printable (notes_json ns)" if "notes_utf8 ns" for ns
    using that by (auto simp: notes_json_def notes_utf8_def list_all_iff split: option.split)
  ultimately have "printable (jmap notes_json (mf_releaseNotes m))" "printable (jmap artifact_json (mf_artifacts m))"
    using wf by (auto simp: manifest_wf_def intro: printable_jmap)
  then show ?thesis using wf by (simp add: manifest_json_def manifest_wf_def field_names_utf8)
qed

lemma nesting_jmap: "(\<And>x. nesting (enc x) \<le> n) \<Longrightarrow> nesting (jmap enc m) \<le> Suc n"
  by (auto simp: jmap_def foldr_max_bound split: option.split)

lemma nesting_manifest: "nesting (manifest_json m) \<le> 4"
proof -
  have "nesting (notes_json ns) \<le> 2" for ns by (auto simp: notes_json_def foldr_max_bound split: option.split)
  moreover have "nesting (artifact_json a) \<le> 2" for a by (simp add: artifact_json_def jint_def)
  ultimately show ?thesis
    using nesting_jmap [of notes_json 2 "mf_releaseNotes m"] nesting_jmap [of artifact_json 2 "mf_artifacts m"]
    by (simp add: manifest_json_def jint_def)
qed

subsection \<open>Decoding\<close>

lemma dec_jint: "int64 i \<Longrightarrow> dec_int (jint i) x = Some i"
  by (simp add: jint_def)

lemma dec_artifact: "artifact_utf8 a \<Longrightarrow> dec_struct strict artifact_fields (artifact_json a) x = Some a"
  by (simp add: dec_struct_def artifact_json_def artifact_fields_def find_field_def artifact_utf8_def dec_jint)

lemma dec_notes: "dec_slice dec_string [] (notes_json ns) None = Some ns"
  using dec_list_map [of "case ns of Some xs \<Rightarrow> xs | None \<Rightarrow> []" dec_string VStr "[]"]
  by (auto simp: notes_json_def dec_slice_def split: option.splits)

lemma dec_jmap:
  assumes "gomap_ok P m" and "\<And>x. P x \<Longrightarrow> dec (enc x) zero = Some x"
  shows "dec_map dec zero (jmap enc m) None = Some m"
proof (cases m)
  case (Some es)
  have "dec_entries dec zero (map (\<lambda>(k, x). (k, enc x)) es) [] = Some ([] @ es)"
    using assms Some by (intro dec_entries_map) (auto simp: gomap_ok_def list_all_iff)
  with Some show ?thesis by (simp add: dec_map_def jmap_def)
qed (simp add: dec_map_def jmap_def)

lemma dec_manifest_json:
  assumes "manifest_wf m"
  shows "dec_manifest strict (manifest_json m) no_manifest = Some m"
proof -
  have "dec_map (dec_slice dec_string []) None (jmap notes_json (mf_releaseNotes m)) None = Some (mf_releaseNotes m)"
    using assms by (intro dec_jmap [of notes_utf8]) (auto simp: manifest_wf_def dec_notes)
  moreover have "dec_map (dec_struct strict artifact_fields) no_artifact (jmap artifact_json (mf_artifacts m)) None
      = Some (mf_artifacts m)"
    using assms by (intro dec_jmap [of artifact_utf8]) (auto simp: manifest_wf_def dec_artifact)
  ultimately show ?thesis
    using assms by (simp add: dec_manifest_def dec_struct_def manifest_json_def manifest_fields_def find_field_def
        manifest_wf_def no_manifest_def dec_jint)
qed

lemma decode_printed:
  assumes "manifest_wf m" and "validateDesktopManifest m = Inr ()"
    and "json_parse data = Some (manifest_json m)" and "length data \<le> maxDesktopManifestBytes"
  shows "decodeFeedManifest data = Inr m"
  using assms dec_manifest_json [OF assms(1), of False] by (simp add: decodeFeedManifest_def)

lemma marshal_bound: "validateDesktopManifest m = Inr () \<Longrightarrow> length (marshal m) \<le> maxDesktopManifestBytes"
  by (auto simp: validateDesktopManifest_def manifest_error_def split: if_splits option.splits)

lemma decode_marshal:
  assumes "manifest_wf m" and "validateDesktopManifest m = Inr ()"
  shows "decodeFeedManifest (marshal m) = Inr m"
proof (rule decode_printed [OF assms])
  show "json_parse (marshal m) = Some (manifest_json m)"
    unfolding marshal_def using nesting_manifest [of m] by (intro parse_compact printable_manifest assms) (simp add: maxNesting_def)
qed (rule marshal_bound [OF assms(2)])

lemma decode_indented:
  assumes "manifest_wf m" and "validateDesktopManifest m = Inr ()"
    and "length (json_indent (manifest_json m) @ tail) \<le> maxDesktopManifestBytes" and "spaces tail"
  shows "decodeFeedManifest (json_indent (manifest_json m) @ tail) = Inr m"
proof (rule decode_printed [OF assms(1,2) _ assms(3)])
  show "json_parse (json_indent (manifest_json m) @ tail) = Some (manifest_json m)"
    using nesting_manifest [of m] by (intro parse_indent printable_manifest assms) (simp add: maxNesting_def)
qed

subsection \<open>What decoding yields\<close>

text \<open>A decoder keeps a property of its target on documents whose strings are well-formed UTF-8.\<close>

definition keeps :: "('a \<Rightarrow> bool) \<Rightarrow> 'a decoder \<Rightarrow> bool" where
  "keeps P dec \<longleftrightarrow> (\<forall>v x y. utf8_doc v \<longrightarrow> P x \<longrightarrow> dec v x = Some y \<longrightarrow> P y)"

lemma keeps_string: "keeps valid_utf8 dec_string"
  unfolding keeps_def by (intro allI impI, erule dec_string.elims) auto

lemma keeps_int: "keeps int64 dec_int"
  unfolding keeps_def
  by (intro allI impI, erule dec_int.elims) (auto simp: parse_int64_def Let_def int64_def split: if_splits)

lemma keeps_list:
  assumes "keeps P dec" and "P zero" and "list_all utf8_doc vs" and "dec_list dec zero vs = Some xs"
  shows "list_all P xs"
  using assms(3,4) by (induction vs arbitrary: xs) (use assms(1,2) in \<open>auto simp: keeps_def split: option.splits\<close>)

lemma keeps_slice: "keeps notes_utf8 (dec_slice dec_string [])"
proof -
  have "valid_utf8 []" by (rule valid_utf8_ascii) simp
  then show ?thesis
    using keeps_list [OF keeps_string]
    by (auto simp: keeps_def notes_utf8_def dec_slice_def split: jvalue.splits)
qed

lemma keeps_entries:
  assumes "keeps P dec" and "P zero" and "list_all (\<lambda>(k, v). valid_utf8 k \<and> utf8_doc v) ms"
    and "gomap_ok P (Some m)" and "dec_entries dec zero ms m = Some m'"
  shows "gomap_ok P (Some m')"
  using assms(3-5)
proof (induction ms arbitrary: m)
  case (Cons e ms)
  obtain k v where e: "e = (k, v)" by force
  then obtain x where x: "dec v zero = Some x" "dec_entries dec zero ms (map_put k x m) = Some m'"
    using Cons.prems(3) by (auto split: option.splits)
  then have "P x" using assms(1,2) Cons.prems(1) e by (auto simp: keeps_def)
  moreover have "set (map_put k x m) \<subseteq> insert (k, x) (set m)" by (rule map_put_subset)
  ultimately have "gomap_ok P (Some (map_put k x m))"
    using Cons.prems(1,2) e by (fastforce simp: gomap_ok_def list_all_iff map_put_wf)
  then show ?case using Cons e x by auto
qed simp

lemma keeps_map:
  assumes "keeps P dec" and "P zero"
  shows "keeps (gomap_ok P) (dec_map dec zero)"
  unfolding keeps_def
proof (intro allI impI)
  fix v x y
  assume v: "utf8_doc v" "gomap_ok P x" "dec_map dec zero v x = Some y"
  have "gomap_ok P (Some [])" by (simp add: gomap_ok_def gomap_wf_def)
  then have "gomap_ok P (Some (case x of Some m \<Rightarrow> m | None \<Rightarrow> []))" using v(2) by (cases x) simp_all
  with v keeps_entries [OF assms] show "gomap_ok P y"
    by (auto simp: dec_map_def gomap_ok_def [of P None] split: jvalue.splits)
qed

lemma keeps_members:
  assumes "\<forall>(k, d) \<in> set fs. keeps P d" and "list_all (\<lambda>(k, v). valid_utf8 k \<and> utf8_doc v) ms" and "P x"
    and "dec_members strict fs ms x = Some y"
  shows "P y"
  using assms(2-4)
proof (induction ms arbitrary: x)
  case (Cons e ms)
  obtain k v where e: "e = (k, v)" by force
  have "keeps P d" if "find_field fs k = Some d" for d
  proof -
    have "\<exists>n. (n, d) \<in> set fs"
      using that find_in [of "\<lambda>(n, d). equalFold n k" fs] by (auto simp: find_field_def split: option.splits dest: map_of_SomeD)
    with assms(1) show ?thesis by auto
  qed
  then show ?case using Cons e by (fastforce simp: keeps_def split: option.splits if_splits)
qed simp

lemma keeps_struct: "\<forall>(k, d) \<in> set fs. keeps P d \<Longrightarrow> keeps P (dec_struct strict fs)"
  unfolding keeps_def [of P "dec_struct strict fs"]
  by (auto simp: dec_struct_def split: jvalue.splits intro: keeps_members)

text \<open>A field decoder: it decodes one part of the record and keeps the others.\<close>

lemma keeps_field:
  assumes "keeps Q dec" and "\<And>x. P x \<Longrightarrow> Q (get x)" and "\<And>x y. P x \<Longrightarrow> Q y \<Longrightarrow> P (put y x)"
  shows "keeps P (\<lambda>v x. map_option (\<lambda>y. put y x) (dec v (get x)))"
  using assms unfolding keeps_def by fastforce

lemma keeps_artifact: "keeps artifact_utf8 (dec_struct strict artifact_fields)"
proof (rule keeps_struct)
  show "\<forall>(k, d) \<in> set artifact_fields. keeps artifact_utf8 d"
    unfolding artifact_fields_def
    by (auto simp: artifact_utf8_def intro: keeps_field [OF keeps_string] keeps_field [OF keeps_int])
qed

lemma no_values_utf8: "artifact_utf8 no_artifact" "manifest_wf no_manifest" "notes_utf8 None"
proof -
  have "valid_utf8 []" by (rule valid_utf8_ascii) simp
  then show "artifact_utf8 no_artifact" "manifest_wf no_manifest" "notes_utf8 None"
    by (simp_all add: artifact_utf8_def no_artifact_def manifest_wf_def no_manifest_def notes_utf8_def gomap_ok_def int64_def)
qed

lemma keeps_manifest: "keeps manifest_wf (dec_manifest strict)"
  unfolding dec_manifest_def
proof (rule keeps_struct)
  note map_notes = keeps_map [OF keeps_slice no_values_utf8(3)]
  note map_artifacts = keeps_map [OF keeps_artifact no_values_utf8(1)]
  show "\<forall>(k, d) \<in> set (manifest_fields strict). keeps manifest_wf d"
    unfolding manifest_fields_def
    by (auto simp: manifest_wf_def intro: keeps_field [OF keeps_string] keeps_field [OF keeps_int]
        keeps_field [OF map_notes] keeps_field [OF map_artifacts])
qed

lemma decoded_wf: "json_parse s = Some v \<Longrightarrow> dec_manifest strict v no_manifest = Some m \<Longrightarrow> manifest_wf m"
  using keeps_manifest json_parse_utf8 no_values_utf8(2) unfolding keeps_def by blast

lemma decodeFeedManifest_ok:
  "decodeFeedManifest data = Inr m \<Longrightarrow> manifest_wf m \<and> validateDesktopManifest m = Inr ()"
  by (auto simp: decodeFeedManifest_def bind_eq_Some_conv dest: decoded_wf split: if_splits option.splits sum.splits)

end
