(* ===== verification/Release_Feeds.thy ===== *)
theory Release_Feeds
  imports Release_Manifest_Laws
begin

text \<open>
  \<open>internal/release/update_feeds.go\<close>: the update feeds kept in SQLite, with optimistic concurrency and a
  history of revisions. A table is the list of its rows. What the database adds is the record \<open>sqlenv\<close>:
  which operations fail and what the clock says. A failed transaction changes nothing. Text columns are
  compared byte by byte, the collation SQLite has by default.
\<close>

subsection \<open>Types\<close>

text \<open>\<open>^[a-z0-9][a-z0-9-]{0,79}\.json$\<close>\<close>

definition feedNamePattern :: "string \<Rightarrow> bool" where
  "feedNamePattern s \<longleftrightarrow>
     suffix ''.json'' s \<and>
     (let stem = take (length s - 5) s
      in stem \<noteq> [] \<and> length stem \<le> 80 \<and> (is_lower (hd stem) \<or> is_digit (hd stem)) \<and> list_all is_lower_digit_dash (tl stem))"

definition validUpdateName :: "string \<Rightarrow> bool" where
  "validUpdateName name \<longleftrightarrow> feedNamePattern name"

record update_feed =
  uf_etag :: string
  uf_name :: string
  uf_description :: string
  uf_enabled :: bool
  uf_revision :: int
  uf_updatedAt :: string
  uf_updatedBy :: int
  uf_manifest :: "manifest option"

definition no_feed :: update_feed where
  "no_feed = \<lparr>uf_etag = [], uf_name = [], uf_description = [], uf_enabled = False, uf_revision = 0,
     uf_updatedAt = [], uf_updatedBy = 0, uf_manifest = None\<rparr>"

record feed_input =
  fi_etag :: string
  fi_description :: string
  fi_enabled :: "bool option"
  fi_revision :: int
  fi_manifest :: manifest

subsection \<open>Tables\<close>

record revision_row =
  rv_name :: string
  rv_revision :: int
  rv_description :: string
  rv_enabled :: bool
  rv_manifest :: string
  rv_updatedAt :: string
  rv_updatedBy :: int

record feed_row =
  fd_name :: string
  fd_revision :: int

text \<open>The tables of the version with one update, when they exist: releases (id, manifest, creation time) and the current one.\<close>

record legacy_tables =
  lg_releases :: "(int \<times> string \<times> string) list"
  lg_current :: "int option"

record feed_db =
  fb_feeds :: "feed_row list"
  fb_revisions :: "revision_row list"
  fb_migrated :: bool
  fb_legacy :: "legacy_tables option"

datatype sqlite_op = OpOpen | OpInstallerSchema | OpListInstallers | OpUpsertInstaller
  | OpSchema | OpListFeeds | OpGetFeed | OpPublicFeed | OpHistory | OpSaveFeed

record sqlenv =
  sq_fails :: "sqlite_op \<Rightarrow> bool"
  sq_now :: int

subsection \<open>The schema and the import of the old tables\<close>

text \<open>\<open>ensureDesktopUpdateSchema\<close> imports the old tables once and notes that it did.\<close>

definition legacy_revision :: "int \<times> string \<times> string \<Rightarrow> revision_row" where
  "legacy_revision r =
     \<lparr>rv_name = ''desktop-latest.json'', rv_revision = fst r, rv_description = [], rv_enabled = True,
      rv_manifest = fst (snd r), rv_updatedAt = snd (snd r), rv_updatedBy = 0\<rparr>"

definition legacy_feed :: "int \<Rightarrow> feed_row" where
  "legacy_feed i = \<lparr>fd_name = ''desktop-latest.json'', fd_revision = i\<rparr>"

definition import_tables :: "legacy_tables \<Rightarrow> feed_db \<Rightarrow> feed_db" where
  "import_tables l d =
     d\<lparr>fb_revisions := fb_revisions d @ map legacy_revision (lg_releases l),
       fb_feeds := fb_feeds d @ (case lg_current l of None \<Rightarrow> [] | Some i \<Rightarrow> [legacy_feed i])\<rparr>"

text \<open>The inserts are refused, and with them the transaction, when a primary key is taken.\<close>

definition feed_keys_ok :: "feed_db \<Rightarrow> bool" where
  "feed_keys_ok d \<longleftrightarrow> distinct (map fd_name (fb_feeds d)) \<and> distinct (map (\<lambda>r. (rv_name r, rv_revision r)) (fb_revisions d))"

definition ensureDesktopUpdateSchema :: "sqlenv \<Rightarrow> feed_db \<Rightarrow> (update_error + unit) \<times> feed_db" where
  "ensureDesktopUpdateSchema E d =
     (if sq_fails E OpSchema then (Inl UpdateFailure, d)
      else if fb_migrated d then (Inr (), d)
      else
        let d' = (case fb_legacy d of None \<Rightarrow> d | Some l \<Rightarrow> import_tables l d) in
        if feed_keys_ok d' then (Inr (), d'\<lparr>fb_migrated := True\<rparr>) else (Inl UpdateFailure, d))"

subsection \<open>Reading\<close>

definition find_revision :: "string \<Rightarrow> int \<Rightarrow> feed_db \<Rightarrow> revision_row option" where
  "find_revision name i d = find (\<lambda>r. rv_name r = name \<and> rv_revision r = i) (fb_revisions d)"

definition find_feed :: "string \<Rightarrow> feed_db \<Rightarrow> feed_row option" where
  "find_feed name d = find (\<lambda>f. fd_name f = name) (fb_feeds d)"

definition feed_columns :: "revision_row \<Rightarrow> update_feed" where
  "feed_columns r = no_feed\<lparr>uf_name := rv_name r, uf_description := rv_description r, uf_enabled := rv_enabled r,
     uf_revision := rv_revision r, uf_updatedAt := rv_updatedAt r, uf_updatedBy := rv_updatedBy r\<rparr>"

text \<open>\<open>scanFeed\<close>; the columns of a missing revision are \<open>NULL\<close>, which the scan refuses.\<close>

definition scanFeed :: "revision_row option \<Rightarrow> bool \<Rightarrow> update_error + update_feed" where
  "scanFeed row withManifest =
     (case row of
        None \<Rightarrow> Inl UpdateFailure
      | Some r \<Rightarrow>
          if withManifest then
            (case decodeFeedManifest (rv_manifest r) of
               Inl e \<Rightarrow> Inl e
             | Inr m \<Rightarrow> Inr ((feed_columns r)\<lparr>uf_manifest := Some m\<rparr>))
          else Inr (feed_columns r))"

fun collect :: "('a \<Rightarrow> 'e + 'b) \<Rightarrow> 'a list \<Rightarrow> 'e + 'b list" where
  "collect f [] = Inr []"
| "collect f (x # xs) =
     (case f x of
        Inl e \<Rightarrow> Inl e
      | Inr y \<Rightarrow> (case collect f xs of Inl e \<Rightarrow> Inl e | Inr ys \<Rightarrow> Inr (y # ys)))"

text \<open>The inner join drops feeds whose revision is missing.\<close>

definition listUpdateFeeds :: "sqlenv \<Rightarrow> feed_db \<Rightarrow> update_error + update_feed list" where
  "listUpdateFeeds E d =
     (if sq_fails E OpListFeeds then Inl UpdateFailure
      else collect (\<lambda>r. scanFeed (Some r) False)
        (sort_key rv_name (List.map_filter (\<lambda>f. find_revision (fd_name f) (fd_revision f) d) (fb_feeds d))))"

definition getUpdateFeed :: "sqlenv \<Rightarrow> string \<Rightarrow> feed_db \<Rightarrow> update_error + update_feed" where
  "getUpdateFeed E name d =
     (if \<not> validUpdateName name then Inl DesktopUpdateNotFound
      else if sq_fails E OpGetFeed then Inl UpdateFailure
      else case find_feed name d of
        None \<Rightarrow> Inl DesktopUpdateNotFound
      | Some f \<Rightarrow> scanFeed (find_revision name (fd_revision f) d) True)"

definition getPublicUpdate :: "sqlenv \<Rightarrow> string \<Rightarrow> feed_db \<Rightarrow> update_error + manifest" where
  "getPublicUpdate E name d =
     (if \<not> validUpdateName name then Inl DesktopUpdateNotFound
      else if sq_fails E OpPublicFeed then Inl UpdateFailure
      else case find_feed name d of
        None \<Rightarrow> Inl DesktopUpdateNotFound
      | Some f \<Rightarrow>
          (case find_revision name (fd_revision f) d of
             None \<Rightarrow> Inl UpdateFailure
           | Some r \<Rightarrow>
               if \<not> rv_enabled r then Inl DesktopUpdateNotFound else decodeFeedManifest (rv_manifest r)))"

definition revisions_of :: "string \<Rightarrow> feed_db \<Rightarrow> revision_row list" where
  "revisions_of name d = filter (\<lambda>r. rv_name r = name) (fb_revisions d)"

definition updateFeedHistory :: "sqlenv \<Rightarrow> string \<Rightarrow> feed_db \<Rightarrow> update_error + update_feed list" where
  "updateFeedHistory E name d =
     (case getUpdateFeed E name d of
        Inl e \<Rightarrow> Inl e
      | Inr _ \<Rightarrow>
          if sq_fails E OpHistory then Inl UpdateFailure
          else collect (\<lambda>r. scanFeed (Some r) True) (take 20 (rev (sort_key rv_revision (revisions_of name d)))))"

subsection \<open>Saving\<close>

definition input_ok :: "string \<Rightarrow> feed_input \<Rightarrow> int \<Rightarrow> bool" where
  "input_ok name input actor \<longleftrightarrow>
     validUpdateName name \<and> fi_enabled input \<noteq> None \<and> 0 \<le> fi_revision input \<and> 0 < actor
     \<and> length (utf8_runes (fi_description input)) \<le> 500"

text \<open>What decoding gives: well-formed text, and an actor that is an \<open>int64\<close>.\<close>

definition request_wf :: "feed_input \<Rightarrow> int \<Rightarrow> bool" where
  "request_wf input actor \<longleftrightarrow> manifest_wf (fi_manifest input) \<and> valid_utf8 (fi_description input) \<and> int64 actor"

definition current_revision :: "string \<Rightarrow> feed_db \<Rightarrow> int" where
  "current_revision name d = (case find_feed name d of None \<Rightarrow> 0 | Some f \<Rightarrow> fd_revision f)"

text \<open>The column \<open>MAX(REVISION_) + 1\<close>; beyond the 64-bit range SQLite yields a real, which the scan refuses.\<close>

definition next_revision :: "string \<Rightarrow> feed_db \<Rightarrow> int" where
  "next_revision name d =
     (case map rv_revision (revisions_of name d) of [] \<Rightarrow> 0 | i # is \<Rightarrow> foldl max i is) + 1"

definition put_feed :: "string \<Rightarrow> int \<Rightarrow> feed_row list \<Rightarrow> feed_row list" where
  "put_feed name i fs =
     (if name \<in> set (map fd_name fs) then map (\<lambda>f. if fd_name f = name then f\<lparr>fd_revision := i\<rparr> else f) fs
      else fs @ [\<lparr>fd_name = name, fd_revision = i\<rparr>])"

definition saveUpdateFeed :: "sqlenv \<Rightarrow> string \<Rightarrow> feed_input \<Rightarrow> int \<Rightarrow> feed_db \<Rightarrow> (update_error + update_feed) \<times> feed_db" where
  "saveUpdateFeed E name input actor d =
     (if \<not> input_ok name input actor
      then (Inl (InvalidDesktopUpdate ''name, description, revision or enabled''), d)
      else case validateDesktopManifest (fi_manifest input) of
        Inl e \<Rightarrow> (Inl e, d)
      | Inr _ \<Rightarrow>
          if sq_fails E OpSaveFeed then (Inl UpdateFailure, d)
          else if current_revision name d \<noteq> fi_revision input then (Inl UpdateConflict, d)
          else if 2 ^ 63 \<le> next_revision name d then (Inl UpdateFailure, d)
          else
            let next = next_revision name d; at = format_time (sq_now E);
                row = \<lparr>rv_name = name, rv_revision = next, rv_description = fi_description input,
                       rv_enabled = the (fi_enabled input), rv_manifest = marshal (fi_manifest input),
                       rv_updatedAt = at, rv_updatedBy = actor\<rparr>;
                d' = d\<lparr>fb_revisions := fb_revisions d @ [row], fb_feeds := put_feed name next (fb_feeds d)\<rparr>
            in (Inr ((feed_columns row)\<lparr>uf_manifest := Some (fi_manifest input)\<rparr>), d'))"

end
