(* ===== verification/Update_Catalog.thy ===== *)
theory Update_Catalog
  imports Release_Feeds
begin

text \<open>
  The interface \<open>DesktopUpdateCatalog\<close> the server publishes updates through, as a locale: what a
  successful save promises, whichever store is behind it. The laws speak of one environment for the save
  and any working one for later reads. From them follow, once for all implementations, that no update is
  lost (a save based on an old revision is refused however many saves came between) and that saves of
  other feeds leave a published manifest alone.
\<close>

definition feed_revision :: "update_error + update_feed \<Rightarrow> int" where
  "feed_revision r = (case r of Inr f \<Rightarrow> uf_revision f | Inl _ \<Rightarrow> 0)"

text \<open>What a successful save of an input by an actor reports.\<close>

definition reports :: "string \<Rightarrow> feed_input \<Rightarrow> int \<Rightarrow> update_feed \<Rightarrow> bool" where
  "reports n i a f \<longleftrightarrow> uf_name f = n \<and> uf_description f = fi_description i \<and> Some (uf_enabled f) = fi_enabled i
     \<and> uf_updatedBy f = a \<and> uf_manifest f = Some (fi_manifest i)"

text \<open>One successful save in a working environment, by any actor, of a feed that satisfies \<open>P\<close>.\<close>

definition saved :: "('e \<Rightarrow> string \<Rightarrow> feed_input \<Rightarrow> int \<Rightarrow> 's \<Rightarrow> (update_error + update_feed) \<times> 's) \<Rightarrow> ('e \<Rightarrow> bool)
    \<Rightarrow> (string \<Rightarrow> bool) \<Rightarrow> 's \<Rightarrow> 's \<Rightarrow> bool" where
  "saved save works P s s' \<longleftrightarrow>
     (\<exists>E n i a f. works E \<and> P n \<and> request_wf i a \<and> save E n i a s = (Inr f, s'))"

locale update_catalog =
  fixes save :: "'e \<Rightarrow> string \<Rightarrow> feed_input \<Rightarrow> int \<Rightarrow> 's \<Rightarrow> (update_error + update_feed) \<times> 's"
    and get :: "'e \<Rightarrow> string \<Rightarrow> 's \<Rightarrow> update_error + update_feed"
    and public :: "'e \<Rightarrow> string \<Rightarrow> 's \<Rightarrow> update_error + manifest"
    and works :: "'e \<Rightarrow> bool"
    and inv :: "'s \<Rightarrow> bool"
  assumes save_inv: "inv s \<Longrightarrow> works E \<Longrightarrow> request_wf i a \<Longrightarrow> save E n i a s = (Inr f, s') \<Longrightarrow> inv s'"
    and save_base: "inv s \<Longrightarrow> works E \<Longrightarrow> works E' \<Longrightarrow> request_wf i a \<Longrightarrow> save E n i a s = (Inr f, s') \<Longrightarrow>
      feed_revision (get E' n s) = fi_revision i \<and> fi_revision i < uf_revision f"
    and save_get: "inv s \<Longrightarrow> works E \<Longrightarrow> works E' \<Longrightarrow> request_wf i a \<Longrightarrow> save E n i a s = (Inr f, s') \<Longrightarrow>
      reports n i a f \<and> get E' n s' = Inr f"
    and save_public: "inv s \<Longrightarrow> works E \<Longrightarrow> works E' \<Longrightarrow> request_wf i a \<Longrightarrow> save E n i a s = (Inr f, s') \<Longrightarrow>
      public E' n s' = (if fi_enabled i = Some True then Inr (fi_manifest i) else Inl DesktopUpdateNotFound)"
    and save_other: "inv s \<Longrightarrow> works E \<Longrightarrow> save E n i a s = (Inr f, s') \<Longrightarrow> n' \<noteq> n \<Longrightarrow>
      get E' n' s' = get E' n' s \<and> public E' n' s' = public E' n' s"
begin

lemma saves_inv: "(saved save works P)\<^sup>*\<^sup>* s s' \<Longrightarrow> inv s \<Longrightarrow> inv s'"
  by (induction rule: rtranclp_induct) (auto simp: saved_def intro: save_inv)

lemma revision_grows:
  assumes "(saved save works P)\<^sup>*\<^sup>* s s'" and "inv s" and "works E"
  shows "feed_revision (get E n s) \<le> feed_revision (get E n s')"
  using assms(1)
proof (induction rule: rtranclp_induct)
  case (step t u)
  have inv: "inv t" using saves_inv [OF step(1) assms(2)] .
  obtain F k i a f where save: "works F" "request_wf i a" "save F k i a t = (Inr f, u)"
    using step(2) by (auto simp: saved_def)
  have "feed_revision (get E n t) \<le> feed_revision (get E n u)"
  proof (cases "k = n")
    case True
    with save_base [OF inv save(1) assms(3) save(2,3)] save_get [OF inv save(1) assms(3) save(2,3)]
    show ?thesis by (simp add: feed_revision_def)
  next
    case False
    with save_other [OF inv save(1,3), of n E] show ?thesis by simp
  qed
  with step(3) show ?case by simp
qed simp

text \<open>A save based on the revision another save replaced is refused.\<close>

lemma no_lost_update:
  assumes "inv s" and "works E" and "request_wf i a" and "save E n i a s = (Inr f, s1)"
    and "(saved save works P)\<^sup>*\<^sup>* s1 s2" and "works E'" and "fi_revision i' \<le> fi_revision i" and "request_wf i' a'"
  shows "isl (fst (save E' n i' a' s2))"
proof (rule ccontr)
  assume "\<not> isl (fst (save E' n i' a' s2))"
  then obtain f' s3 where again: "save E' n i' a' s2 = (Inr f', s3)"
    by (cases "save E' n i' a' s2"; cases "fst (save E' n i' a' s2)") auto
  have inv: "inv s1" "inv s2" using save_inv [OF assms(1-4)] saves_inv [OF assms(5)] by auto
  have "feed_revision (get E' n s1) = uf_revision f"
    using save_get [OF assms(1,2,6,3,4)] by (simp add: feed_revision_def)
  then have "fi_revision i < feed_revision (get E' n s2)"
    using revision_grows [OF assms(5) inv(1) assms(6), of n] save_base [OF assms(1,2,6,3,4)] by simp
  then show False using save_base [OF inv(2) assms(6,6,8) again] assms(7) by simp
qed

text \<open>A published manifest stays published while other feeds are saved.\<close>

lemma published_until_saved:
  assumes "inv s" and "works E" and "request_wf i a" and "save E n i a s = (Inr f, s1)"
    and "(saved save works (\<lambda>k. k \<noteq> n))\<^sup>*\<^sup>* s1 s2" and "works E'"
  shows "public E' n s2 = (if fi_enabled i = Some True then Inr (fi_manifest i) else Inl DesktopUpdateNotFound)
    \<and> get E' n s2 = Inr f"
  using assms(5)
proof (induction rule: rtranclp_induct)
  case base
  then show ?case using save_public [OF assms(1,2,6,3,4)] save_get [OF assms(1,2,6,3,4)] by simp
next
  case (step t u)
  have "inv t" using saves_inv [OF step(1)] save_inv [OF assms(1-4)] by simp
  then show ?case using step save_other by (fastforce simp: saved_def)
qed

end

end
