(* ===== verification/Release_Feeds_Laws.thy ===== *)
theory Release_Feeds_Laws
  imports Update_Catalog
begin

text \<open>
  The SQLite feeds implement the catalogue interface: the integrity of the two tables, and the
  interpretation \<open>sqlite_feeds\<close> of the locale on the operations of the model.
\<close>

definition feed_wf :: "feed_db \<Rightarrow> bool" where
  "feed_wf d \<longleftrightarrow> feed_keys_ok d
     \<and> (\<forall>f \<in> set (fb_feeds d). \<exists>r \<in> set (fb_revisions d). rv_name r = fd_name f \<and> rv_revision r = fd_revision f)
     \<and> (\<forall>r \<in> set (fb_revisions d). 0 < rv_revision r \<and> \<not> isl (decodeFeedManifest (rv_manifest r)))"

definition sqlite_works :: "sqlenv \<Rightarrow> bool" where
  "sqlite_works E \<longleftrightarrow> (\<forall>op. \<not> sq_fails E op)"

definition empty_feeds :: feed_db where
  "empty_feeds = \<lparr>fb_feeds = [], fb_revisions = [], fb_migrated = False, fb_legacy = None\<rparr>"

lemma feed_wf_empty: "feed_wf empty_feeds"
  by (simp add: feed_wf_def feed_keys_ok_def empty_feeds_def)

lemma find_revision_iff:
  "feed_keys_ok d \<Longrightarrow>
    find_revision n i d = Some r \<longleftrightarrow> r \<in> set (fb_revisions d) \<and> rv_name r = n \<and> rv_revision r = i"
proof
  assume "find_revision n i d = Some r"
  then show "r \<in> set (fb_revisions d) \<and> rv_name r = n \<and> rv_revision r = i"
    by (auto simp: find_revision_def dest: find_in)
next
  assume keys: "feed_keys_ok d" and r: "r \<in> set (fb_revisions d) \<and> rv_name r = n \<and> rv_revision r = i"
  then have "find_revision n i d \<noteq> None" by (auto simp: find_revision_def find_None_iff)
  then obtain q where q: "find_revision n i d = Some q" by auto
  then have "q \<in> set (fb_revisions d)" "rv_name q = n" "rv_revision q = i"
    by (auto simp: find_revision_def dest: find_in)
  then have "q = r"
    using keys r by (auto simp: feed_keys_ok_def distinct_map inj_on_def)
  with q show "find_revision n i d = Some r" by simp
qed

lemma find_feed_Some: "find_feed n d = Some f \<Longrightarrow> f \<in> set (fb_feeds d) \<and> fd_name f = n"
  by (auto simp: find_feed_def dest: find_in)

lemma find_put_feed: "find (\<lambda>f. fd_name f = k) (put_feed n i fs)
    = (if k = n then Some \<lparr>fd_name = n, fd_revision = i\<rparr> else find (\<lambda>f. fd_name f = k) fs)"
proof (cases "n \<in> set (map fd_name fs)")
  case True
  have f: "fd_name f = n \<Longrightarrow> f\<lparr>fd_revision := i\<rparr> = \<lparr>fd_name = n, fd_revision = i\<rparr>" for f :: feed_row by (cases f) simp
  have "find (\<lambda>f. fd_name f = k) (map (\<lambda>f. if fd_name f = n then f\<lparr>fd_revision := i\<rparr> else f) fs)
      = map_option (\<lambda>f. if fd_name f = n then f\<lparr>fd_revision := i\<rparr> else f) (find (\<lambda>f. fd_name f = k) fs)"
    by (induction fs) auto
  then have eq: "find (\<lambda>f. fd_name f = k) (put_feed n i fs)
      = map_option (\<lambda>f. if fd_name f = n then f\<lparr>fd_revision := i\<rparr> else f) (find (\<lambda>f. fd_name f = k) fs)"
    using True by (simp add: put_feed_def)
  show ?thesis
  proof (cases "find (\<lambda>f. fd_name f = k) fs")
    case None
    then have "k \<noteq> n" using True by (auto simp: find_None_iff)
    with None eq show ?thesis by simp
  next
    case (Some g)
    then have "fd_name g = k" using find_in [OF Some] by simp
    with Some eq f [of g] show ?thesis by simp
  qed
next
  case False
  have "find (\<lambda>f. fd_name f = k) (fs @ [\<lparr>fd_name = n, fd_revision = i\<rparr>])
      = (case find (\<lambda>f. fd_name f = k) fs of Some f \<Rightarrow> Some f | None \<Rightarrow> if k = n then Some \<lparr>fd_name = n, fd_revision = i\<rparr> else None)"
    by (induction fs) auto
  moreover have "find (\<lambda>f. fd_name f = n) fs = None" using False by (auto simp: find_None_iff)
  ultimately show ?thesis using False by (auto simp: put_feed_def split: option.split)
qed

lemma foldl_max_bound: "foldl max i is < (b :: int) \<longleftrightarrow> i < b \<and> (\<forall>j \<in> set is. j < b)"
  by (induction "is" arbitrary: i) auto

lemma next_revision_fresh: "r \<in> set (fb_revisions d) \<Longrightarrow> rv_name r = n \<Longrightarrow> rv_revision r < next_revision n d"
proof -
  assume "r \<in> set (fb_revisions d)" "rv_name r = n"
  then have r: "rv_revision r \<in> set (map rv_revision (revisions_of n d))" by (simp add: revisions_of_def)
  obtain i js where js: "map rv_revision (revisions_of n d) = i # js"
    using r by (cases "map rv_revision (revisions_of n d)") auto
  have "foldl max i js < foldl max i js + 1" by simp
  then have "\<forall>j \<in> set (i # js). j < foldl max i js + 1" unfolding foldl_max_bound by simp
  then show ?thesis using r unfolding next_revision_def js by auto
qed

subsection \<open>Saving\<close>

definition new_row :: "sqlenv \<Rightarrow> string \<Rightarrow> feed_input \<Rightarrow> int \<Rightarrow> feed_db \<Rightarrow> revision_row" where
  "new_row E n i a d =
     \<lparr>rv_name = n, rv_revision = next_revision n d, rv_description = fi_description i, rv_enabled = the (fi_enabled i),
      rv_manifest = marshal (fi_manifest i), rv_updatedAt = format_time (sq_now E), rv_updatedBy = a\<rparr>"

definition with_row :: "revision_row \<Rightarrow> feed_db \<Rightarrow> feed_db" where
  "with_row r d = d\<lparr>fb_revisions := fb_revisions d @ [r], fb_feeds := put_feed (rv_name r) (rv_revision r) (fb_feeds d)\<rparr>"

lemma saveUpdateFeed_ok:
  "saveUpdateFeed E n i a d = (Inr f, d') \<longleftrightarrow>
     input_ok n i a \<and> validateDesktopManifest (fi_manifest i) = Inr () \<and> \<not> sq_fails E OpSaveFeed
     \<and> current_revision n d = fi_revision i \<and> next_revision n d < 2 ^ 63
     \<and> f = (feed_columns (new_row E n i a d))\<lparr>uf_manifest := Some (fi_manifest i)\<rparr> \<and> d' = with_row (new_row E n i a d) d"
  by (auto simp: saveUpdateFeed_def new_row_def with_row_def Let_def split: sum.splits)

lemma saveUpdateFeed_error: "saveUpdateFeed E n i a d = (Inl e, d') \<Longrightarrow> d' = d"
  by (auto simp: saveUpdateFeed_def Let_def split: sum.splits if_splits)

lemma next_revision_pos: "feed_wf d \<Longrightarrow> 0 < next_revision n d"
proof (cases "revisions_of n d")
  case (Cons r rs)
  assume "feed_wf d"
  moreover have "r \<in> set (revisions_of n d)" using Cons by simp
  then have "r \<in> set (fb_revisions d)" "rv_name r = n" by (auto simp: revisions_of_def)
  ultimately show ?thesis using next_revision_fresh [of r d n] unfolding feed_wf_def by fastforce
qed (simp add: next_revision_def)

lemma current_row:
  assumes "feed_wf d" and "find_feed n d = Some f"
  obtains r where "r \<in> set (fb_revisions d)" "rv_name r = n" "rv_revision r = fd_revision f" "0 < rv_revision r"
    "find_revision n (fd_revision f) d = Some r"
proof -
  have "f \<in> set (fb_feeds d)" "fd_name f = n" using find_feed_Some [OF assms(2)] by auto
  then obtain r where r: "r \<in> set (fb_revisions d)" "rv_name r = n" "rv_revision r = fd_revision f"
    using assms(1) by (auto simp: feed_wf_def)
  moreover have "find_revision n (fd_revision f) d = Some r"
    using assms(1) r by (simp add: find_revision_iff feed_wf_def)
  ultimately show thesis using that assms(1) by (auto simp: feed_wf_def)
qed

lemma current_revision_wf: "feed_wf d \<Longrightarrow> current_revision n d < next_revision n d"
proof (cases "find_feed n d")
  case (Some f)
  assume "feed_wf d"
  from current_row [OF this Some] obtain r where "r \<in> set (fb_revisions d)" "rv_name r = n" "rv_revision r = fd_revision f"
    by blast
  then show ?thesis using Some next_revision_fresh [of r d n] by (simp add: current_revision_def)
qed (simp add: current_revision_def next_revision_pos)

lemma with_row_keys:
  assumes "feed_keys_ok d" and "rv_revision r = next_revision (rv_name r) d"
  shows "feed_keys_ok (with_row r d)"
proof -
  have "(rv_name r, rv_revision r) \<notin> (\<lambda>r. (rv_name r, rv_revision r)) ` set (fb_revisions d)"
  proof
    assume "(rv_name r, rv_revision r) \<in> (\<lambda>r. (rv_name r, rv_revision r)) ` set (fb_revisions d)"
    then obtain q where "q \<in> set (fb_revisions d)" "rv_name q = rv_name r" "rv_revision q = rv_revision r" by auto
    then show False using next_revision_fresh [of q d "rv_name r"] assms(2) by simp
  qed
  moreover have "map fd_name (put_feed n k fs) = (if n \<in> set (map fd_name fs) then map fd_name fs else map fd_name fs @ [n])" for n k fs
    by (auto simp: put_feed_def)
  ultimately show ?thesis using assms(1) by (auto simp: feed_keys_ok_def with_row_def)
qed

lemma find_revision_with_row:
  assumes "feed_keys_ok d" and "rv_revision r = next_revision (rv_name r) d"
  shows "find_revision n i (with_row r d) = (if n = rv_name r \<and> i = rv_revision r then Some r else find_revision n i d)"
proof -
  have "find (\<lambda>q. rv_name q = n \<and> rv_revision q = i) (rs @ [r]) =
      (case find (\<lambda>q. rv_name q = n \<and> rv_revision q = i) rs of Some q \<Rightarrow> Some q
       | None \<Rightarrow> if n = rv_name r \<and> i = rv_revision r then Some r else None)" for rs
    by (induction rs) auto
  moreover have "find_revision (rv_name r) (rv_revision r) d = None"
    using next_revision_fresh [of _ d "rv_name r"] assms(2) by (fastforce simp: find_revision_def find_None_iff)
  ultimately show ?thesis by (auto simp: find_revision_def with_row_def split: option.split)
qed

lemma find_feed_with_row:
  "find_feed n (with_row r d) = (if n = rv_name r then Some \<lparr>fd_name = rv_name r, fd_revision = rv_revision r\<rparr> else find_feed n d)"
  by (simp add: find_feed_def with_row_def find_put_feed)

lemma put_feed_set: "f \<in> set (put_feed n i fs) \<Longrightarrow> f \<in> set fs \<or> fd_name f = n \<and> fd_revision f = i"
  by (auto simp: put_feed_def split: if_splits)

lemma with_row_wf:
  assumes "feed_wf d" and "rv_revision r = next_revision (rv_name r) d" and "\<not> isl (decodeFeedManifest (rv_manifest r))"
  shows "feed_wf (with_row r d)"
proof -
  have "feed_keys_ok (with_row r d)" using assms with_row_keys by (simp add: feed_wf_def)
  moreover have "0 < rv_revision r" using next_revision_pos [OF assms(1)] assms(2) by simp
  moreover have "\<exists>q \<in> set (fb_revisions (with_row r d)). rv_name q = fd_name f \<and> rv_revision q = fd_revision f"
    if "f \<in> set (fb_feeds (with_row r d))" for f
    using that assms(1) put_feed_set [of f "rv_name r" "rv_revision r" "fb_feeds d"]
    by (fastforce simp: with_row_def feed_wf_def)
  ultimately show ?thesis using assms by (auto simp: feed_wf_def with_row_def)
qed

lemma saveUpdateFeed_wf:
  assumes "feed_wf d" and "request_wf i a" and "saveUpdateFeed E n i a d = (Inr f, d')"
  shows "feed_wf d'"
  using assms decode_marshal [of "fi_manifest i"]
  by (auto simp: saveUpdateFeed_ok new_row_def request_wf_def intro: with_row_wf)

lemma ensureDesktopUpdateSchema_wf:
  "feed_wf d \<Longrightarrow> fb_legacy d = None \<Longrightarrow> ensureDesktopUpdateSchema E d = (r, d') \<Longrightarrow> feed_wf d'"
  by (auto simp: ensureDesktopUpdateSchema_def feed_wf_def feed_keys_ok_def Let_def split: if_splits)

subsection \<open>The interface\<close>

lemma getUpdateFeed_revision:
  assumes "feed_wf d" and "sqlite_works E" and "validUpdateName n"
  shows "feed_revision (getUpdateFeed E n d) = current_revision n d"
proof (cases "find_feed n d")
  case (Some f)
  obtain r where r: "r \<in> set (fb_revisions d)" "rv_revision r = fd_revision f" "find_revision n (fd_revision f) d = Some r"
    using current_row [OF assms(1) Some] by blast
  then obtain m where "decodeFeedManifest (rv_manifest r) = Inr m"
    using assms(1) by (cases "decodeFeedManifest (rv_manifest r)") (auto simp: feed_wf_def)
  then show ?thesis
    using Some r assms(2,3) by (simp add: getUpdateFeed_def sqlite_works_def scanFeed_def feed_columns_def current_revision_def feed_revision_def)
qed (use assms in \<open>simp add: getUpdateFeed_def current_revision_def feed_revision_def\<close>)

interpretation sqlite_feeds: update_catalog saveUpdateFeed getUpdateFeed getPublicUpdate sqlite_works feed_wf
proof unfold_locales
  fix d d' E E' n i a f
  assume wf: "feed_wf d" and works: "sqlite_works E'"
  { assume "request_wf i a" and "saveUpdateFeed E n i a d = (Inr f, d')"
    then show "feed_revision (getUpdateFeed E' n d) = fi_revision i \<and> fi_revision i < uf_revision f"
      using current_revision_wf [OF wf, of n] getUpdateFeed_revision [OF wf works, of n]
      by (auto simp: saveUpdateFeed_ok input_ok_def new_row_def feed_columns_def no_feed_def) }
  assume m: "request_wf i a" and save: "saveUpdateFeed E n i a d = (Inr f, d')"
  then have ok: "input_ok n i a" "validateDesktopManifest (fi_manifest i) = Inr ()"
    and f: "f = (feed_columns (new_row E n i a d))\<lparr>uf_manifest := Some (fi_manifest i)\<rparr>"
    and d': "d' = with_row (new_row E n i a d) d" by (simp_all add: saveUpdateFeed_ok)
  have keys: "feed_keys_ok d" "rv_revision (new_row E n i a d) = next_revision (rv_name (new_row E n i a d)) d"
    using wf by (simp_all add: feed_wf_def new_row_def)
  have decode: "decodeFeedManifest (marshal (fi_manifest i)) = Inr (fi_manifest i)" 
    using decode_marshal m ok(2) by (simp add: request_wf_def)
  show "reports n i a f \<and> getUpdateFeed E' n d' = Inr f"
    using ok works decode find_revision_with_row [OF keys] find_feed_with_row
    by (auto simp: f d' reports_def input_ok_def getUpdateFeed_def sqlite_works_def scanFeed_def feed_columns_def no_feed_def new_row_def)
  show "getPublicUpdate E' n d' = (if fi_enabled i = Some True then Inr (fi_manifest i) else Inl DesktopUpdateNotFound)"
    using ok works decode find_revision_with_row [OF keys] find_feed_with_row
    by (auto simp: d' input_ok_def getPublicUpdate_def sqlite_works_def new_row_def)
next
  fix d d' E E' n n' i a f
  assume wf: "feed_wf d" and save: "saveUpdateFeed E n i a d = (Inr f, d')" and n': "n' \<noteq> n"
  have d': "d' = with_row (new_row E n i a d) d" using save by (simp add: saveUpdateFeed_ok)
  have keys: "feed_keys_ok d" "rv_revision (new_row E n i a d) = next_revision (rv_name (new_row E n i a d)) d"
    using wf by (simp_all add: feed_wf_def new_row_def)
  have "rv_name (new_row E n i a d) = n" by (simp add: new_row_def)
  then have "find_feed n' d' = find_feed n' d" "find_revision n' k d' = find_revision n' k d" for k
    using n' by (simp_all add: d' find_feed_with_row find_revision_with_row [OF keys])
  then show "getUpdateFeed E' n' d' = getUpdateFeed E' n' d \<and> getPublicUpdate E' n' d' = getPublicUpdate E' n' d"
    by (cases "find_feed n' d") (simp_all add: getUpdateFeed_def getPublicUpdate_def)
qed (rule saveUpdateFeed_wf)

end
