(* ===== verification/Release_Directory.thy ===== *)
theory Release_Directory
  imports Update_Catalog Go_Crypto
begin

text \<open>
  \<open>internal/release/directory_updates.go\<close>: the update feeds kept as files. A directory is the list of its
  entries in name order; the three directories in use are the public one, \<open>.disabled\<close> and \<open>.admin\<close>. What the
  operating system adds is the record \<open>direnv\<close>: which calls fail, the clock, and the modification time of
  files written. A file appears whole or not at all, because it is renamed into place.
\<close>

subsection \<open>Files\<close>

datatype node = Regular string int | Link | Directory

datatype place = Public | Disabled | Admin

record update_dir =
  ud_public :: "node gomap"
  ud_disabled :: "node gomap"
  ud_admin :: "node gomap"

fun entries :: "place \<Rightarrow> update_dir \<Rightarrow> node gomap" where
  "entries Public d = ud_public d"
| "entries Disabled d = ud_disabled d"
| "entries Admin d = ud_admin d"

fun map_entries :: "place \<Rightarrow> (node gomap \<Rightarrow> node gomap) \<Rightarrow> update_dir \<Rightarrow> update_dir" where
  "map_entries Public f d = d\<lparr>ud_public := f (ud_public d)\<rparr>"
| "map_entries Disabled f d = d\<lparr>ud_disabled := f (ud_disabled d)\<rparr>"
| "map_entries Admin f d = d\<lparr>ud_admin := f (ud_admin d)\<rparr>"

definition lookup :: "place \<Rightarrow> string \<Rightarrow> update_dir \<Rightarrow> node option" where
  "lookup p name d = map_of (entries p d) name"

datatype dir_op = OpRead | OpWrite | OpRemove | OpReadDir

record direnv =
  dr_fails :: "dir_op \<Rightarrow> place \<Rightarrow> string \<Rightarrow> bool"
  dr_now :: int
  dr_mtime :: int

text \<open>\<open>read\<close>: a regular file, within the limit, that holds a JSON document; with its modification time.\<close>

definition read_file :: "direnv \<Rightarrow> place \<Rightarrow> string \<Rightarrow> nat \<Rightarrow> update_dir \<Rightarrow> update_error + string \<times> int" where
  "read_file E p name limit d =
     (case lookup p name d of
        None \<Rightarrow> if dr_fails E OpRead p name then Inl UpdateFailure else Inl DesktopUpdateNotFound
      | Some (Regular data mtime) \<Rightarrow>
          if dr_fails E OpRead p name then Inl UpdateFailure
          else if limit < length data \<or> \<not> json_valid data then Inl (InvalidDesktopUpdate [])
          else Inr (data, mtime)
      | Some _ \<Rightarrow> if dr_fails E OpRead p name then Inl UpdateFailure else Inl (InvalidDesktopUpdate []))"

text \<open>\<open>atomicWrite\<close>: renaming onto a directory is refused; after an error the directory is as before.\<close>

definition atomicWrite :: "direnv \<Rightarrow> place \<Rightarrow> string \<Rightarrow> string \<Rightarrow> update_dir \<Rightarrow> (update_error + unit) \<times> update_dir" where
  "atomicWrite E p name data d =
     (if dr_fails E OpWrite p name \<or> lookup p name d = Some Directory then (Inl UpdateFailure, d)
      else (Inr (), map_entries p (map_put name (Regular data (dr_mtime E))) d))"

text \<open>\<open>Remove\<close>, where a missing file is no error.\<close>

definition remove_file :: "direnv \<Rightarrow> place \<Rightarrow> string \<Rightarrow> update_dir \<Rightarrow> (update_error + unit) \<times> update_dir" where
  "remove_file E p name d =
     (if dr_fails E OpRemove p name then (Inl UpdateFailure, d)
      else (Inr (), map_entries p (filter (\<lambda>(k, n). k \<noteq> name)) d))"

subsection \<open>The history file\<close>

definition feed_json :: "update_feed \<Rightarrow> jvalue" where
  "feed_json f =
     VObj ((if uf_etag f = [] then [] else [(''etag'', VStr (uf_etag f))])
       @ [(''name'', VStr (uf_name f)), (''description'', VStr (uf_description f)), (''enabled'', VBool (uf_enabled f)),
          (''revision'', jint (uf_revision f)), (''updatedAt'', VStr (uf_updatedAt f)), (''updatedBy'', jint (uf_updatedBy f))]
       @ (case uf_manifest f of None \<Rightarrow> [] | Some m \<Rightarrow> [(''manifest'', manifest_json m)]))"

definition feed_fields :: "(string \<times> update_feed decoder) list" where
  "feed_fields =
     [(''etag'', \<lambda>v f. map_option (\<lambda>x. f\<lparr>uf_etag := x\<rparr>) (dec_string v (uf_etag f))),
      (''name'', \<lambda>v f. map_option (\<lambda>x. f\<lparr>uf_name := x\<rparr>) (dec_string v (uf_name f))),
      (''description'', \<lambda>v f. map_option (\<lambda>x. f\<lparr>uf_description := x\<rparr>) (dec_string v (uf_description f))),
      (''enabled'', \<lambda>v f. map_option (\<lambda>x. f\<lparr>uf_enabled := x\<rparr>) (dec_bool v (uf_enabled f))),
      (''revision'', \<lambda>v f. map_option (\<lambda>x. f\<lparr>uf_revision := x\<rparr>) (dec_int v (uf_revision f))),
      (''updatedAt'', \<lambda>v f. map_option (\<lambda>x. f\<lparr>uf_updatedAt := x\<rparr>) (dec_string v (uf_updatedAt f))),
      (''updatedBy'', \<lambda>v f. map_option (\<lambda>x. f\<lparr>uf_updatedBy := x\<rparr>) (dec_int v (uf_updatedBy f))),
      (''manifest'', \<lambda>v f. map_option (\<lambda>x. f\<lparr>uf_manifest := x\<rparr>) (dec_pointer (dec_manifest False) no_manifest v (uf_manifest f)))]"

definition history_text :: "update_feed list \<Rightarrow> string" where
  "history_text fs = json_compact (VArr (map feed_json fs))"

definition maxHistoryBytes :: nat where
  "maxHistoryBytes = 64 * 1024 * 1024"

definition decode_history :: "string \<Rightarrow> update_feed list option" where
  "decode_history data =
     Option.bind (json_parse data) (\<lambda>v.
       map_option (\<lambda>x. case x of Some fs \<Rightarrow> fs | None \<Rightarrow> []) (dec_slice (dec_struct False feed_fields) no_feed v None))"

definition history :: "direnv \<Rightarrow> string \<Rightarrow> update_dir \<Rightarrow> update_error + update_feed list" where
  "history E name d =
     (case read_file E Admin name maxHistoryBytes d of
        Inl DesktopUpdateNotFound \<Rightarrow> Inr []
      | Inl e \<Rightarrow> Inl e
      | Inr (data, _) \<Rightarrow> (case decode_history data of None \<Rightarrow> Inl UpdateFailure | Some fs \<Rightarrow> Inr fs))"

subsection \<open>Reading feeds\<close>

definition dir_GetPublicJSON :: "direnv \<Rightarrow> string \<Rightarrow> update_dir \<Rightarrow> update_error + string" where
  "dir_GetPublicJSON E name d =
     (if \<not> validUpdateName name then Inl DesktopUpdateNotFound
      else map_sum id fst (read_file E Public name maxDesktopManifestBytes d))"

definition dir_GetPublicUpdate :: "direnv \<Rightarrow> string \<Rightarrow> update_dir \<Rightarrow> update_error + manifest" where
  "dir_GetPublicUpdate E name d =
     (case dir_GetPublicJSON E name d of Inl e \<Rightarrow> Inl e | Inr data \<Rightarrow> decodeFeedManifest data)"

definition etag_of :: "string \<Rightarrow> bool \<Rightarrow> int \<Rightarrow> string" where
  "etag_of data enabled revision =
     hex_encode (sha256 data) @ ''-'' @ (if enabled then ''true'' else ''false'') @ ''-'' @ show_int revision"

definition last_or :: "'a \<Rightarrow> 'a list \<Rightarrow> 'a" where
  "last_or x xs = (if xs = [] then x else last xs)"

text \<open>The feed that a file with the given content and the history make.\<close>

definition feed_of :: "string \<Rightarrow> bool \<Rightarrow> string \<Rightarrow> int \<Rightarrow> manifest \<Rightarrow> update_feed list \<Rightarrow> update_feed" where
  "feed_of name enabled data mtime m hist =
     (let l = last_or no_feed hist in
      no_feed\<lparr>uf_name := name, uf_enabled := enabled, uf_manifest := Some m, uf_updatedAt := format_time mtime,
        uf_revision := uf_revision l, uf_description := uf_description l, uf_updatedBy := uf_updatedBy l,
        uf_etag := etag_of data enabled (uf_revision l)\<rparr>)"

text \<open>The live file, or else the disabled one, with its place.\<close>

definition current_file :: "direnv \<Rightarrow> string \<Rightarrow> update_dir \<Rightarrow> update_error + bool \<times> string \<times> int" where
  "current_file E name d =
     (case read_file E Public name maxDesktopManifestBytes d of
        Inl DesktopUpdateNotFound \<Rightarrow> map_sum id (Pair False) (read_file E Disabled name maxDesktopManifestBytes d)
      | Inl e \<Rightarrow> Inl e
      | Inr x \<Rightarrow> Inr (True, x))"

definition dir_GetUpdateFeed :: "direnv \<Rightarrow> string \<Rightarrow> update_dir \<Rightarrow> update_error + update_feed" where
  "dir_GetUpdateFeed E name d =
     (if \<not> validUpdateName name then Inl DesktopUpdateNotFound
      else case current_file E name d of
        Inl e \<Rightarrow> Inl e
      | Inr (enabled, data, mtime) \<Rightarrow>
          (case decodeFeedManifest data of
             Inl e \<Rightarrow> Inl e
           | Inr m \<Rightarrow>
               (case history E name d of
                  Inl e \<Rightarrow> Inl e
                | Inr hist \<Rightarrow> Inr (feed_of name enabled data mtime m hist))))"

definition is_regular :: "node \<Rightarrow> bool" where
  "is_regular n = (case n of Regular _ _ \<Rightarrow> True | _ \<Rightarrow> False)"

definition feed_names :: "update_dir \<Rightarrow> string list" where
  "feed_names d =
     sort (remdups (map fst (filter (\<lambda>(k, n). validUpdateName k \<and> is_regular n) (ud_public d @ ud_disabled d))))"

fun list_feeds :: "direnv \<Rightarrow> string list \<Rightarrow> update_dir \<Rightarrow> update_error + update_feed list" where
  "list_feeds E [] d = Inr []"
| "list_feeds E (n # ns) d =
     (case dir_GetUpdateFeed E n d of
        Inl DesktopUpdateNotFound \<Rightarrow> list_feeds E ns d
      | Inl e \<Rightarrow> Inl e
      | Inr f \<Rightarrow> map_sum id ((#) (f\<lparr>uf_manifest := None\<rparr>)) (list_feeds E ns d))"

definition dir_ListUpdateFeeds :: "direnv \<Rightarrow> update_dir \<Rightarrow> update_error + update_feed list" where
  "dir_ListUpdateFeeds E d =
     (if dr_fails E OpReadDir Public [] \<or> dr_fails E OpReadDir Disabled [] then Inl UpdateFailure
      else list_feeds E (feed_names d) d)"

definition dir_UpdateFeedHistory :: "direnv \<Rightarrow> string \<Rightarrow> update_dir \<Rightarrow> update_error + update_feed list" where
  "dir_UpdateFeedHistory E name d =
     (if \<not> validUpdateName name then Inl DesktopUpdateNotFound
      else map_sum id (\<lambda>items. take 20 (rev items)) (history E name d))"

subsection \<open>Saving\<close>

text \<open>The next revision is an \<open>int64\<close> addition.\<close>

definition wrap64 :: "int \<Rightarrow> int" where
  "wrap64 i = (i + 2 ^ 63) mod 2 ^ 64 - 2 ^ 63"

definition new_entry :: "direnv \<Rightarrow> string \<Rightarrow> feed_input \<Rightarrow> int \<Rightarrow> update_feed list \<Rightarrow> update_feed" where
  "new_entry E name input actor hist =
     no_feed\<lparr>uf_name := name, uf_description := fi_description input, uf_enabled := the (fi_enabled input),
       uf_revision := (if hist = [] then 1 else wrap64 (uf_revision (last hist) + 1)), uf_updatedAt := format_time (dr_now E),
       uf_updatedBy := actor, uf_manifest := Some (fi_manifest input)\<rparr>"

definition manifest_file :: "manifest \<Rightarrow> string" where
  "manifest_file m = json_indent (manifest_json m) @ [CHR 0x0A]"

text \<open>The writes, in order: the file, the removal of its twin, the history; an error stops them.\<close>

definition write_feed :: "direnv \<Rightarrow> string \<Rightarrow> update_feed \<Rightarrow> string \<Rightarrow> string \<Rightarrow> update_dir \<Rightarrow> (update_error + update_feed) \<times> update_dir" where
  "write_feed E name item data metadata d =
     (let path = (if uf_enabled item then Public else Disabled); other = (if uf_enabled item then Disabled else Public)
      in case atomicWrite E path name data d of
           (Inl e, d1) \<Rightarrow> (Inl e, d1)
         | (Inr _, d1) \<Rightarrow>
             (case remove_file E other name d1 of
                (Inl e, d2) \<Rightarrow> (Inl e, d2)
              | (Inr _, d2) \<Rightarrow>
                  (case atomicWrite E Admin name metadata d2 of
                     (Inl e, d3) \<Rightarrow> (Inl e, d3)
                   | (Inr _, d3) \<Rightarrow> (dir_GetUpdateFeed E name d3, d3))))"

definition dir_SaveUpdateFeed :: "direnv \<Rightarrow> string \<Rightarrow> feed_input \<Rightarrow> int \<Rightarrow> update_dir \<Rightarrow> (update_error + update_feed) \<times> update_dir" where
  "dir_SaveUpdateFeed E name input actor d =
     (if \<not> input_ok name input actor then (Inl (InvalidDesktopUpdate []), d)
      else case validateDesktopManifest (fi_manifest input) of
        Inl e \<Rightarrow> (Inl e, d)
      | Inr _ \<Rightarrow>
          (case dir_GetUpdateFeed E name d of
             Inl UpdateFailure \<Rightarrow> (Inl UpdateFailure, d)
           | Inl UpdateConflict \<Rightarrow> (Inl UpdateConflict, d)
           | Inl (InvalidDesktopUpdate x) \<Rightarrow> (Inl (InvalidDesktopUpdate x), d)
           | current \<Rightarrow>
               let cur = (case current of Inr f \<Rightarrow> f | Inl _ \<Rightarrow> no_feed) in
               if uf_revision cur \<noteq> fi_revision input \<or> uf_etag cur \<noteq> fi_etag input then (Inl UpdateConflict, d)
               else case history E name d of
                 Inl e \<Rightarrow> (Inl e, d)
               | Inr hist \<Rightarrow>
                   let item = new_entry E name input actor hist; metadata = history_text (hist @ [item]) in
                   if maxHistoryBytes < length metadata then (Inl UpdateFailure, d)
                   else write_feed E name item (manifest_file (fi_manifest input)) metadata d))"

subsection \<open>The import of the SQLite feeds\<close>

definition indented_manifest :: "update_feed \<Rightarrow> string" where
  "indented_manifest f = json_indent (case uf_manifest f of None \<Rightarrow> VNull | Some m \<Rightarrow> manifest_json m)"

text \<open>The sidecar with the whole history is written unless there is one.\<close>

definition import_history :: "direnv \<Rightarrow> string \<Rightarrow> update_feed list \<Rightarrow> update_dir \<Rightarrow> (update_error + unit) \<times> update_dir" where
  "import_history E name hist d =
     (if dr_fails E OpRead Admin name then (Inl UpdateFailure, d)
      else if lookup Admin name d \<noteq> None then (Inr (), d)
      else atomicWrite E Admin name (history_text hist) d)"

text \<open>An existing public or disabled file wins over the imported one.\<close>

definition import_file :: "direnv \<Rightarrow> update_feed \<Rightarrow> update_dir \<Rightarrow> (update_error + unit) \<times> update_dir" where
  "import_file E f d =
     (if dr_fails E OpRead Public (uf_name f) \<or> dr_fails E OpRead Disabled (uf_name f) then (Inl UpdateFailure, d)
      else if lookup Public (uf_name f) d \<noteq> None \<or> lookup Disabled (uf_name f) d \<noteq> None then (Inr (), d)
      else atomicWrite E (if uf_enabled f then Public else Disabled) (uf_name f) (indented_manifest f) d)"

definition import_feed :: "direnv \<Rightarrow> sqlenv \<Rightarrow> feed_db \<Rightarrow> string \<Rightarrow> update_dir \<Rightarrow> (update_error + unit) \<times> update_dir" where
  "import_feed E S legacy name d =
     (case getUpdateFeed S name legacy of
        Inl e \<Rightarrow> (Inl e, d)
      | Inr current \<Rightarrow>
          if sq_fails S OpHistory then (Inl UpdateFailure, d)
          else
            (case collect (\<lambda>r. scanFeed (Some r) True) (sort_key rv_revision (revisions_of name legacy)) of
               Inl e \<Rightarrow> (Inl e, d)
             | Inr hist \<Rightarrow>
                 (case import_history E name hist d of
                    (Inl e, d1) \<Rightarrow> (Inl e, d1)
                  | (Inr _, d1) \<Rightarrow> import_file E current d1)))"

fun import_feeds :: "direnv \<Rightarrow> sqlenv \<Rightarrow> feed_db \<Rightarrow> string list \<Rightarrow> update_dir \<Rightarrow> (update_error + unit) \<times> update_dir" where
  "import_feeds E S legacy [] d = (Inr (), d)"
| "import_feeds E S legacy (n # ns) d =
     (case import_feed E S legacy n d of
        (Inl e, d1) \<Rightarrow> (Inl e, d1)
      | (Inr _, d1) \<Rightarrow> import_feeds E S legacy ns d1)"

definition export_marker :: string where
  "export_marker = ''.sqlite-exported''"

definition importLegacy :: "direnv \<Rightarrow> sqlenv \<Rightarrow> feed_db \<Rightarrow> update_dir \<Rightarrow> (update_error + unit) \<times> update_dir" where
  "importLegacy E S legacy d =
     (if dr_fails E OpRead Admin export_marker then (Inl UpdateFailure, d)
      else if lookup Admin export_marker d \<noteq> None then (Inr (), d)
      else case listUpdateFeeds S legacy of
        Inl e \<Rightarrow> (Inl e, d)
      | Inr items \<Rightarrow>
          (case import_feeds E S legacy (map uf_name items) d of
             (Inl e, d1) \<Rightarrow> (Inl e, d1)
           | (Inr _, d1) \<Rightarrow> atomicWrite E Admin export_marker (''true'' @ [CHR 0x0A]) d1))"

text \<open>\<open>OpenDirectoryUpdates\<close> makes the directories, which the model has always, and imports.\<close>

definition openDirectoryUpdates :: "direnv \<Rightarrow> sqlenv \<Rightarrow> feed_db option \<Rightarrow> update_dir \<Rightarrow> (update_error + unit) \<times> update_dir" where
  "openDirectoryUpdates E S legacy d = (case legacy of None \<Rightarrow> (Inr (), d) | Some db \<Rightarrow> importLegacy E S db d)"

end
