(* ===== verification/Release_Directory_Laws.thy ===== *)
theory Release_Directory_Laws
  imports Release_Directory
begin

text \<open>
  The update directory implements the catalogue interface: the round trip of the history file, what its
  integrity is, and the interpretation \<open>directory_feeds\<close> of the locale on the operations of the model.
\<close>

subsection \<open>The history file\<close>

definition feed_utf8 :: "update_feed \<Rightarrow> bool" where
  "feed_utf8 f \<longleftrightarrow> valid_utf8 (uf_etag f) \<and> valid_utf8 (uf_name f) \<and> valid_utf8 (uf_description f) \<and> valid_utf8 (uf_updatedAt f)
     \<and> int64 (uf_revision f) \<and> int64 (uf_updatedBy f) \<and> (\<forall>m. uf_manifest f = Some m \<longrightarrow> manifest_wf m)"

lemma feed_names_utf8:
  "valid_utf8 ''etag''" "valid_utf8 ''name''" "valid_utf8 ''description''" "valid_utf8 ''enabled''" "valid_utf8 ''revision''"
  "valid_utf8 ''updatedAt''" "valid_utf8 ''updatedBy''" "valid_utf8 ''manifest''" "valid_utf8 []"
  by (rule valid_utf8_ascii; simp add: is_ascii_def)+

lemma printable_feed: "feed_utf8 f \<Longrightarrow> printable (feed_json f)"
  by (auto simp: feed_json_def feed_utf8_def feed_names_utf8 printable_manifest split: option.split)

lemma nesting_feed: "nesting (feed_json f) \<le> 5"
proof -
  have "nesting (manifest_json m) \<le> 4" for m by (rule nesting_manifest)
  then show ?thesis by (auto simp: feed_json_def jint_def foldr_max_bound split: option.split)
qed

lemma manifest_json_not_null: "manifest_json m \<noteq> VNull"
  by (simp add: manifest_json_def)

lemma dec_feed: "feed_utf8 f \<Longrightarrow> dec_struct False feed_fields (feed_json f) no_feed = Some f"
  by (cases f; cases "uf_etag f = []"; cases "uf_manifest f")
    (auto simp: dec_struct_def feed_json_def feed_fields_def find_field_def feed_utf8_def dec_jint dec_pointer_def
      dec_manifest_json manifest_json_not_null no_feed_def)

lemma decode_history_text:
  assumes "list_all feed_utf8 fs"
  shows "decode_history (history_text fs) = Some fs"
proof -
  have "json_parse (history_text fs) = Some (VArr (map feed_json fs))"
    unfolding history_text_def
  proof (rule parse_compact)
    show "printable (VArr (map feed_json fs))" using assms by (auto simp: list_all_iff printable_feed)
    have "nesting (VArr (map feed_json fs)) \<le> 6" using nesting_feed by (simp add: foldr_max_bound)
    then show "nesting (VArr (map feed_json fs)) \<le> maxNesting" by (simp add: maxNesting_def)
  qed
  moreover have "dec_list (dec_struct False feed_fields) no_feed (map feed_json fs) = Some fs"
    using assms by (intro dec_list_map) (auto simp: list_all_iff dec_feed)
  ultimately show ?thesis by (simp add: decode_history_def dec_slice_def)
qed

lemma history_text_valid: "list_all feed_utf8 fs \<Longrightarrow> json_valid (history_text fs)"
  using decode_history_text [of fs] by (auto simp: json_valid_def decode_history_def bind_eq_Some_conv)

lemma length_join: "length (concat ws) \<le> length (join_with sep ws)"
  by (induction sep ws rule: join_with.induct) auto

lemma length_concat_nonempty: "\<forall>w \<in> set ws. w \<noteq> [] \<Longrightarrow> length ws \<le> length (concat ws)"
proof (induction ws)
  case (Cons w ws)
  then have "1 \<le> length w" by (cases w) auto
  with Cons show ?case by simp
qed simp

lemma history_text_length: "length fs \<le> length (history_text fs)"
proof (cases "fs = []")
  case False
  let ?ws = "map (jrender compact_nl '':'' (Suc 0)) (map feed_json fs)"
  have "\<forall>w \<in> set ?ws. w \<noteq> []" by (auto simp: feed_json_def)
  then have "length ?ws \<le> length (concat ?ws)" by (rule length_concat_nonempty)
  also have "\<dots> \<le> length (join_with ('','' @ compact_nl (Suc 0)) ?ws)" by (rule length_join)
  finally show ?thesis using False by (simp add: history_text_def json_compact_def)
qed simp

subsection \<open>Integrity\<close>

text \<open>
  The sidecar of a feed, when it is there, is a history the program wrote: it decodes, and its last
  revision is not negative and far from the end of the 64-bit range, because revisions grow with entries.
\<close>

definition history_wf :: "update_feed list \<Rightarrow> bool" where
  "history_wf hist \<longleftrightarrow> list_all feed_utf8 hist \<and> length (history_text hist) \<le> maxHistoryBytes
     \<and> 0 \<le> uf_revision (last_or no_feed hist) \<and> uf_revision (last_or no_feed hist) \<le> 2 ^ 62 + int (length hist)"

definition dir_wf :: "update_dir \<Rightarrow> bool" where
  "dir_wf d \<longleftrightarrow> (\<forall>n x. validUpdateName n \<longrightarrow> lookup Admin n d = Some x \<longrightarrow>
     (\<exists>hist t. history_wf hist \<and> x = Regular (history_text hist) t))"

definition empty_dir :: update_dir where
  "empty_dir = \<lparr>ud_public = [], ud_disabled = [], ud_admin = []\<rparr>"

lemma dir_wf_empty: "dir_wf empty_dir"
  by (simp add: dir_wf_def empty_dir_def lookup_def)

definition dir_works :: "direnv \<Rightarrow> bool" where
  "dir_works E \<longleftrightarrow> (\<forall>op p n. \<not> dr_fails E op p n) \<and> formattable (dr_now E)"

text \<open>The history of a feed, without an environment.\<close>

definition history_of :: "string \<Rightarrow> update_dir \<Rightarrow> update_feed list" where
  "history_of n d = (case lookup Admin n d of
     Some (Regular data _) \<Rightarrow> the (decode_history data) | _ \<Rightarrow> [])"

lemma history_works:
  assumes "dir_wf d" and "dir_works E" and "validUpdateName n"
  shows "history E n d = Inr (history_of n d) \<and> history_wf (history_of n d)"
proof (cases "lookup Admin n d")
  case None
  moreover have "history_wf []"
    by (simp add: history_wf_def last_or_def no_feed_def history_text_def json_compact_def maxHistoryBytes_def)
  ultimately show ?thesis using assms(2) by (simp add: history_def read_file_def history_of_def dir_works_def)
next
  case (Some x)
  then obtain hist t where h: "history_wf hist" "x = Regular (history_text hist) t"
    using assms(1,3) unfolding dir_wf_def by blast
  then have "decode_history (history_text hist) = Some hist" "json_valid (history_text hist)"
    by (auto simp: history_wf_def decode_history_text history_text_valid)
  then show ?thesis
    using Some h assms(2) by (simp add: history_def read_file_def history_of_def dir_works_def history_wf_def)
qed

text \<open>A working environment reads the same files, whatever its clock.\<close>

lemma read_works: "dir_works E \<Longrightarrow> dir_works E' \<Longrightarrow> read_file E p n l d = read_file E' p n l d"
  by (auto simp: read_file_def dir_works_def split: option.split node.split)

lemma get_works: "dir_works E \<Longrightarrow> dir_works E' \<Longrightarrow> dir_GetUpdateFeed E n d = dir_GetUpdateFeed E' n d"
proof -
  assume "dir_works E" "dir_works E'"
  then have "read_file E = read_file E'" by (intro ext read_works)
  then show ?thesis unfolding dir_GetUpdateFeed_def current_file_def history_def by (rule ssubst) (rule refl)
qed

subsection \<open>Directory entries\<close>

lemma lookup_put: "lookup p n (map_entries q (map_put k x) d) = (if p = q \<and> n = k then Some x else lookup p n d)"
  by (cases p; cases q) (auto simp: lookup_def map_of_map_put)

lemma map_of_filter_key: "map_of (filter (\<lambda>(k, x). k \<noteq> n) m) k' = (if k' = n then None else map_of m k')"
  by (induction m) auto

lemma lookup_remove: "lookup p n (map_entries q (filter (\<lambda>(k, x). k \<noteq> k')) d) = (if p = q \<and> n = k' then None else lookup p n d)"
  by (cases p; cases q) (auto simp: lookup_def map_of_filter_key)

declare map_entries.simps [simp del]

text \<open>Reading a feed depends on the entries of its name only.\<close>

lemma get_cong:
  assumes "\<And>p. lookup p n d' = lookup p n d"
  shows "dir_GetUpdateFeed E n d' = dir_GetUpdateFeed E n d" "dir_GetPublicUpdate E n d' = dir_GetPublicUpdate E n d"
    "dir_GetPublicJSON E n d' = dir_GetPublicJSON E n d"
proof -
  have read: "read_file E p n l d' = read_file E p n l d" for p l by (simp add: read_file_def assms)
  have cur: "current_file E n d' = current_file E n d" "history E n d' = history E n d"
    unfolding current_file_def history_def read by (rule refl)+
  show "dir_GetUpdateFeed E n d' = dir_GetUpdateFeed E n d" unfolding dir_GetUpdateFeed_def cur by (rule refl)
  show json: "dir_GetPublicJSON E n d' = dir_GetPublicJSON E n d" unfolding dir_GetPublicJSON_def read by (rule refl)
  show "dir_GetPublicUpdate E n d' = dir_GetPublicUpdate E n d" unfolding dir_GetPublicUpdate_def json by (rule refl)
qed

subsection \<open>Saving\<close>

lemma format_time_ascii:
  assumes "formattable t"
  shows "list_all is_ascii (format_time t)"
proof -
  have two: "list_all is_ascii (two_digits n)" if "0 \<le> n" "n < 100" for n
  proof -
    have "nat (n div 10) < 10" "nat (n mod 10) < 10" using that by auto
    then show ?thesis by (simp add: two_digits_def is_ascii_def)
  qed
  have four: "list_all is_ascii (four_digits n)" if "0 \<le> n" "n < 10000" for n
    using that two [of "n div 100"] two [of "n mod 100"] by (simp add: four_digits_def)
  have frac: "list_all is_ascii (fraction_text n)" if "0 \<le> n" "n < 10 ^ 9" for n
    using fraction_digits_value [OF that] by (auto simp: fraction_text_def is_ascii_def is_digit_def list_all_iff)
  define D ns where "D = t div day_ns + epoch_day" and "ns = t mod day_ns"
  define y where "y = year_of_day D"
  define yd where "yd = D - days_before_year y"
  define m where "m = month_of y yd"
  define d where "d = yd - days_before_month y m + 1"
  note date = date_of_day [OF y_def yd_def m_def d_def]
  have "0 \<le> ns" "ns < day_ns" by (simp_all add: ns_def day_ns_def)
  note clock = clock_parts [OF this]
  have y: "0 \<le> y" "y < 10000" using assms by (simp_all add: formattable_def y_def D_def Let_def)
  have "d < 100" using date by (auto simp: days_in_def split: if_splits)
  moreover have "format_time t = four_digits y @ ''-'' @ two_digits m @ ''-'' @ two_digits d @ ''T''
         @ two_digits (ns div hour) @ '':'' @ two_digits (ns div minute mod 60) @ '':''
         @ two_digits (ns div second mod 60) @ fraction_text (ns mod second) @ ''Z''"
    by (simp add: format_time_def Let_def D_def ns_def y_def yd_def m_def d_def)
  moreover have "0 \<le> ns mod second" "ns mod second < 10 ^ 9" by (simp_all add: second_def)
  ultimately show ?thesis
    using date clock y by (simp add: two four frac is_ascii_def)
qed

lemma wrap64_small: "- (2 ^ 63) \<le> i \<Longrightarrow> i < 2 ^ 63 \<Longrightarrow> wrap64 i = i"
  by (simp add: wrap64_def)

lemma name_utf8: "validUpdateName n \<Longrightarrow> valid_utf8 n"
proof (rule valid_utf8_ascii)
  assume v: "validUpdateName n"
  define stem where "stem = take (length n - 5) n"
  have stem: "stem \<noteq> []" "is_lower (hd stem) \<or> is_digit (hd stem)" "list_all is_lower_digit_dash (tl stem)"
    using v by (auto simp: validUpdateName_def feedNamePattern_def Let_def stem_def)
  have "list_all is_ascii stem"
    using stem by (cases stem) (auto simp: list_all_iff is_lower_digit_dash_def is_ascii_def is_lower_def is_digit_def)
  moreover have "n = stem @ ''.json''"
    using v by (auto simp: validUpdateName_def feedNamePattern_def stem_def suffix_def)
  ultimately show "list_all is_ascii n" by (simp add: is_ascii_def)
qed

lemma new_entry_wf:
  assumes "history_wf hist" and "validUpdateName n" and "request_wf i a" and "dir_works E"
    and "length (history_text (hist @ [new_entry E n i a hist])) \<le> maxHistoryBytes"
  shows "uf_revision (new_entry E n i a hist) = uf_revision (last_or no_feed hist) + 1"
    and "feed_utf8 (new_entry E n i a hist)" and "history_wf (hist @ [new_entry E n i a hist])"
proof -
  have len: "length hist < 64 * 1024 * 1024"
    using history_text_length [of "hist @ [new_entry E n i a hist]"] assms(5) by (simp add: maxHistoryBytes_def)
  then have b: "0 \<le> uf_revision (last_or no_feed hist)" "uf_revision (last_or no_feed hist) < 2 ^ 62 + 64 * 1024 * 1024"
    using assms(1) by (auto simp: history_wf_def)
  show rev: "uf_revision (new_entry E n i a hist) = uf_revision (last_or no_feed hist) + 1"
    using b by (auto simp: new_entry_def last_or_def wrap64_small no_feed_def)
  show utf8: "feed_utf8 (new_entry E n i a hist)"
    using assms(2-4) b rev format_time_ascii [of "dr_now E"]
    by (auto simp: feed_utf8_def new_entry_def request_wf_def dir_works_def no_feed_def name_utf8 feed_names_utf8
        valid_utf8_ascii int64_def)
  show "history_wf (hist @ [new_entry E n i a hist])"
    using assms(1,5) rev utf8 by (auto simp: history_wf_def last_or_def)
qed

definition written :: "direnv \<Rightarrow> string \<Rightarrow> update_feed \<Rightarrow> string \<Rightarrow> string \<Rightarrow> update_dir \<Rightarrow> update_dir" where
  "written E n item data metadata d =
     map_entries Admin (map_put n (Regular metadata (dr_mtime E)))
       (map_entries (if uf_enabled item then Disabled else Public) (filter (\<lambda>(k, x). k \<noteq> n))
         (map_entries (if uf_enabled item then Public else Disabled) (map_put n (Regular data (dr_mtime E))) d))"

lemma lookup_written:
  "lookup p k (written E n item data metadata d) =
     (if k \<noteq> n then lookup p k d
      else case p of Admin \<Rightarrow> Some (Regular metadata (dr_mtime E))
        | Public \<Rightarrow> if uf_enabled item then Some (Regular data (dr_mtime E)) else None
        | Disabled \<Rightarrow> if uf_enabled item then None else Some (Regular data (dr_mtime E)))"
  by (cases p) (auto simp: written_def lookup_put lookup_remove)

lemma write_feed_ok:
  assumes "write_feed E n item data metadata d = (Inr f, d')"
  shows "d' = written E n item data metadata d \<and> dir_GetUpdateFeed E n d' = Inr f"
  using assms
  by (auto simp: write_feed_def atomicWrite_def remove_file_def written_def Let_def split: if_splits)

lemma dir_SaveUpdateFeed_ok:
  assumes "dir_wf d" and "dir_works E" and "dir_SaveUpdateFeed E n i a d = (Inr f, d')"
  defines "hist \<equiv> history_of n d"
  defines "item \<equiv> new_entry E n i a hist"
  shows "input_ok n i a \<and> validateDesktopManifest (fi_manifest i) = Inr ()
    \<and> (dir_GetUpdateFeed E n d = Inl DesktopUpdateNotFound \<and> fi_revision i = 0
       \<or> (\<exists>c. dir_GetUpdateFeed E n d = Inr c \<and> uf_revision c = fi_revision i))
    \<and> length (history_text (hist @ [item])) \<le> maxHistoryBytes
    \<and> d' = written E n item (manifest_file (fi_manifest i)) (history_text (hist @ [item])) d
    \<and> dir_GetUpdateFeed E n d' = Inr f"
proof -
  have ok: "input_ok n i a" "validateDesktopManifest (fi_manifest i) = Inr ()"
    using assms(3) by (auto simp: dir_SaveUpdateFeed_def split: if_splits sum.splits)
  then have hist: "history E n d = Inr hist"
    using history_works [OF assms(1,2), of n] by (simp add: input_ok_def hist_def)
  show ?thesis
  proof (cases "dir_GetUpdateFeed E n d")
    case (Inl e)
    with assms(3) ok have "e = DesktopUpdateNotFound" by (cases e) (simp_all add: dir_SaveUpdateFeed_def)
    with Inl assms(3) ok hist show ?thesis
      by (auto simp: dir_SaveUpdateFeed_def Let_def item_def no_feed_def split: if_splits dest: write_feed_ok)
  next
    case (Inr c)
    with assms(3) ok hist show ?thesis
      by (auto simp: dir_SaveUpdateFeed_def Let_def item_def split: if_splits dest: write_feed_ok)
  qed
qed

text \<open>The revision a reader sees is that of the last entry of the history.\<close>

lemma get_revision:
  assumes "dir_wf d" and "dir_works E" and "validUpdateName n" and "dir_GetUpdateFeed E n d = Inr c"
  shows "uf_revision c = uf_revision (last_or no_feed (history_of n d))"
  using assms(3,4) history_works [OF assms(1-3)]
  by (auto simp: dir_GetUpdateFeed_def feed_of_def Let_def split: sum.splits)

lemma manifest_file_decodes:
  assumes "manifest_wf m" and "validateDesktopManifest m = Inr ()" and "length (manifest_file m) \<le> maxDesktopManifestBytes"
  shows "decodeFeedManifest (manifest_file m) = Inr m" and "json_valid (manifest_file m)"
proof -
  have "spaces [CHR 0x0A]" by (simp add: json_space_def)
  then show "decodeFeedManifest (manifest_file m) = Inr m"
    using assms decode_indented [of m "[CHR 0x0A]"] by (simp add: manifest_file_def)
  then show "json_valid (manifest_file m)"
    by (auto simp: decodeFeedManifest_def json_valid_def bind_eq_Some_conv split: if_splits option.splits)
qed

lemma dir_SaveUpdateFeed_wf:
  assumes "dir_wf d" and "dir_works E" and "request_wf i a" and "dir_SaveUpdateFeed E n i a d = (Inr f, d')"
  shows "dir_wf d'"
proof -
  define item where "item = new_entry E n i a (history_of n d)"
  note ok = dir_SaveUpdateFeed_ok [OF assms(1,2,4), folded item_def]
  have name: "validUpdateName n" using ok by (simp add: input_ok_def)
  have "history_wf (history_of n d @ [item])"
    unfolding item_def using history_works [OF assms(1,2) name] name assms(2,3) ok by (intro new_entry_wf) (auto simp: item_def)
  then show ?thesis
    using assms(1) ok unfolding dir_wf_def by (auto simp: lookup_written)
qed

lemma current_written:
  "dir_works E \<Longrightarrow> current_file E n (written F n item data metadata d) =
     (if length data \<le> maxDesktopManifestBytes \<and> json_valid data then Inr (uf_enabled item, data, dr_mtime F)
      else Inl (InvalidDesktopUpdate []))"
  by (auto simp: current_file_def read_file_def lookup_written dir_works_def)

lemma public_written:
  assumes "dir_works E" and "validUpdateName n"
  shows "dir_GetPublicUpdate E n (written F n item data metadata d) =
     (if \<not> uf_enabled item then Inl DesktopUpdateNotFound
      else if length data \<le> maxDesktopManifestBytes \<and> json_valid data then decodeFeedManifest data
      else Inl (InvalidDesktopUpdate []))"
  using assms by (simp add: dir_GetPublicUpdate_def dir_GetPublicJSON_def read_file_def lookup_written dir_works_def)

interpretation directory_feeds: update_catalog dir_SaveUpdateFeed dir_GetUpdateFeed dir_GetPublicUpdate dir_works dir_wf
proof unfold_locales
  fix d d' E E' n i a f
  assume wf: "dir_wf d" and works: "dir_works E" "dir_works E'" and req: "request_wf i a"
    and save: "dir_SaveUpdateFeed E n i a d = (Inr f, d')"
  define hist where "hist = history_of n d"
  define item where "item = new_entry E n i a hist"
  note ok = dir_SaveUpdateFeed_ok [OF wf works(1) save, folded hist_def, folded item_def]
  then have d': "d' = written E n item (manifest_file (fi_manifest i)) (history_text (hist @ [item])) d"
    and base: "dir_GetUpdateFeed E n d = Inl DesktopUpdateNotFound \<and> fi_revision i = 0
       \<or> (\<exists>c. dir_GetUpdateFeed E n d = Inr c \<and> uf_revision c = fi_revision i)"
    and get0: "dir_GetUpdateFeed E n d' = Inr f" by blast+
  have name: "validUpdateName n" using ok by (simp add: input_ok_def)
  have hist: "history_wf hist" using history_works [OF wf works(1) name] by (simp add: hist_def)
  have item: "uf_revision item = uf_revision (last_or no_feed hist) + 1" "history_wf (hist @ [item])"
    using new_entry_wf [OF hist name req works(1)] ok unfolding item_def by blast+
  have wf': "dir_wf d'" by (rule dir_SaveUpdateFeed_wf [OF wf works(1) req save])
  have new_history: "history_of n d' = hist @ [item]"
    using ok item(2) by (simp add: history_of_def lookup_written history_wf_def decode_history_text)
  have get: "dir_GetUpdateFeed E' n d' = Inr f" "dir_GetUpdateFeed E n d' = Inr f"
    using get0 get_works [OF works] by simp_all
  have f_rev: "uf_revision f = uf_revision item"
    using get_revision [OF wf' works(2) name get(1)] new_history by (simp add: last_or_def)
  show "feed_revision (dir_GetUpdateFeed E' n d) = fi_revision i \<and> fi_revision i < uf_revision f"
  proof (cases "dir_GetUpdateFeed E n d")
    case (Inl e)
    then show ?thesis using base get_works [OF works] f_rev item(1) hist by (auto simp: feed_revision_def history_wf_def)
  next
    case (Inr c)
    then show ?thesis
      using base get_works [OF works] f_rev item(1) get_revision [OF wf works(1) name Inr]
      by (auto simp: feed_revision_def hist_def)
  qed
  let ?data = "manifest_file (fi_manifest i)"
  have size: "length ?data \<le> maxDesktopManifestBytes"
    using get0 name by (auto simp: d' dir_GetUpdateFeed_def current_written [OF works(1)] split: if_splits)
  have valid: "validateDesktopManifest (fi_manifest i) = Inr ()" and enabled: "fi_enabled i = Some (uf_enabled item)"
    using ok by (auto simp: item_def new_entry_def input_ok_def)
  note decodes = manifest_file_decodes [OF _ valid size]
  have fields: "uf_description item = fi_description i" "uf_updatedBy item = a" by (simp_all add: item_def new_entry_def)
  have m: "manifest_wf (fi_manifest i)" using req by (simp add: request_wf_def)
  have "f = feed_of n (uf_enabled item) ?data (dr_mtime E) (fi_manifest i) (hist @ [item])"
    using get0 name history_works [OF wf' works(1) name] decodes [OF m] size new_history
    by (simp add: dir_GetUpdateFeed_def d' current_written [OF works(1)])
  then show "reports n i a f \<and> dir_GetUpdateFeed E' n d' = Inr f"
    using get(1) enabled fields by (simp add: reports_def feed_of_def last_or_def Let_def)
  show "dir_GetPublicUpdate E' n d' = (if fi_enabled i = Some True then Inr (fi_manifest i) else Inl DesktopUpdateNotFound)"
    using public_written [OF works(2) name, of E item ?data] enabled size decodes [OF m] by (simp add: d')
next
  fix d d' E E' n n' i a f
  assume save: "dir_wf d" "dir_works E" "dir_SaveUpdateFeed E n i a d = (Inr f, d')" and n': "n' \<noteq> n"
  obtain item data metadata where "d' = written E n item data metadata d" using dir_SaveUpdateFeed_ok [OF save] by blast
  then have same: "lookup p n' d' = lookup p n' d" for p using n' by (simp add: lookup_written)
  show "dir_GetUpdateFeed E' n' d' = dir_GetUpdateFeed E' n' d \<and> dir_GetPublicUpdate E' n' d' = dir_GetPublicUpdate E' n' d"
    using get_cong(1,2) [of n' d' d E', OF same] by simp
qed (auto intro: dir_SaveUpdateFeed_wf)

end
