(* ===== verification/Release_Properties.thy ===== *)
theory Release_Properties
  imports Release_Feeds_Laws Release_Directory_Laws
begin

text \<open>Properties of the update feeds and their two stores.\<close>

subsection \<open>A sample\<close>

definition sample_manifest :: manifest where
  "sample_manifest = \<lparr>mf_schemaVersion = 1, mf_productId = ''zenmind-desktop'', mf_version = ''1.4.0-beta.2+b7'',
     mf_publishedAt = ''2025-03-01T08:00:00Z'', mf_releaseNotes = Some [(''en'', Some [''Faster start'']), (''zh-CN'', Some [])],
     mf_artifacts = Some [(''darwin-arm64'', \<lparr>art_url = ''https://dl.example.com/a.zip'', art_size = 1024,
       art_sha256 = replicate 64 CHR ''a''\<rparr>)]\<rparr>"

definition sample_input :: feed_input where
  "sample_input = \<lparr>fi_etag = [], fi_description = ''stable'', fi_enabled = Some True, fi_revision = 0, fi_manifest = sample_manifest\<rparr>"

definition sample_sqlenv :: sqlenv where
  "sample_sqlenv = \<lparr>sq_fails = \<lambda>op. False, sq_now = 0\<rparr>"

definition sample_feed_name :: string where
  "sample_feed_name = ''desktop-latest.json''"

lemma sample_sqlite_works: "sqlite_works sample_sqlenv"
  by (simp add: sqlite_works_def sample_sqlenv_def)

lemma sample_manifest_valid: "validateDesktopManifest sample_manifest = Inr ()"
  by code_simp

lemma sample_request_wf: "request_wf sample_input 7"
proof -
  have "valid_utf8 s" if "list_all is_ascii s" for s using that by (rule valid_utf8_ascii)
  moreover have "gomap_wf [(''en'', Some [''Faster start'']), (''zh-CN'', Some [])]" by (simp add: gomap_wf_def)
  ultimately show ?thesis
    by (simp add: request_wf_def sample_input_def sample_manifest_def manifest_wf_def gomap_ok_def notes_utf8_def artifact_utf8_def
        is_ascii_def int64_def gomap_wf_def list_all_iff)
qed

lemma sample_name: "validUpdateName sample_feed_name"
  by code_simp


lemma sample_saved: "saveUpdateFeed sample_sqlenv sample_feed_name sample_input 7 empty_feeds =
    (Inr ((feed_columns (new_row sample_sqlenv sample_feed_name sample_input 7 empty_feeds))\<lparr>uf_manifest := Some (fi_manifest sample_input)\<rparr>),
     with_row (new_row sample_sqlenv sample_feed_name sample_input 7 empty_feeds) empty_feeds)"
proof -
  have "fi_manifest sample_input = sample_manifest" by (simp add: sample_input_def)
  moreover have "input_ok sample_feed_name sample_input 7" by code_simp
  moreover have "current_revision sample_feed_name empty_feeds = 0" "next_revision sample_feed_name empty_feeds = 1" "fi_revision sample_input = 0"
    by (simp_all add: current_revision_def next_revision_def find_feed_def revisions_of_def empty_feeds_def sample_input_def)
  ultimately show ?thesis
    using sample_manifest_valid sample_sqlite_works by (simp add: saveUpdateFeed_ok sqlite_works_def)
qed

subsection \<open>The SQLite feeds\<close>

text \<open>C29: A feed saved in SQLite is what administrators read back and, when it is enabled, what the public
  address serves, however many saves of other feeds follow; a disabled one is not served.\<close>

theorem sqlite_published:
  assumes "feed_wf d" and "sqlite_works E" and "request_wf i a" and "saveUpdateFeed E n i a d = (Inr f, d1)"
    and "(saved saveUpdateFeed sqlite_works (\<lambda>k. k \<noteq> n))\<^sup>*\<^sup>* d1 d2" and "sqlite_works E'"
  shows "getPublicUpdate E' n d2 = (if fi_enabled i = Some True then Inr (fi_manifest i) else Inl DesktopUpdateNotFound)
    \<and> getUpdateFeed E' n d2 = Inr f \<and> reports n i a f"
  using sqlite_feeds.published_until_saved [OF assms] sqlite_feeds.save_get [OF assms(1,2,6,3,4)] by blast

lemma sqlite_published_witness:
  "\<exists>f d1. saveUpdateFeed sample_sqlenv sample_feed_name sample_input 7 empty_feeds = (Inr f, d1)
     \<and> getPublicUpdate sample_sqlenv sample_feed_name d1 = Inr sample_manifest"
  using sqlite_published [OF feed_wf_empty sample_sqlite_works sample_request_wf sample_saved rtranclp.rtrancl_refl sample_sqlite_works]
    sample_saved by (auto simp: sample_input_def)

text \<open>C30: No update is lost in SQLite: after a save that succeeded, a save of the same feed that is still based
  on the revision it replaced, or an older one, is refused, whatever saves by anybody came between.\<close>

theorem sqlite_no_lost_update:
  assumes "feed_wf d" and "sqlite_works E" and "request_wf i a" and "saveUpdateFeed E n i a d = (Inr f, d1)"
    and "(saved saveUpdateFeed sqlite_works (\<lambda>k. True))\<^sup>*\<^sup>* d1 d2" and "sqlite_works E'"
    and "fi_revision i' \<le> fi_revision i" and "request_wf i' a'"
  shows "isl (fst (saveUpdateFeed E' n i' a' d2)) \<and> snd (saveUpdateFeed E' n i' a' d2) = d2"
proof -
  have "isl (fst (saveUpdateFeed E' n i' a' d2))" by (rule sqlite_feeds.no_lost_update [OF assms])
  then show ?thesis using saveUpdateFeed_error [of E' n i' a' d2] by (cases "saveUpdateFeed E' n i' a' d2") (auto simp: isl_def)
qed

lemma sqlite_no_lost_update_witness:
  "\<exists>f d1. saveUpdateFeed sample_sqlenv sample_feed_name sample_input 7 empty_feeds = (Inr f, d1)
     \<and> isl (fst (saveUpdateFeed sample_sqlenv sample_feed_name sample_input 7 d1))"
  using sqlite_no_lost_update [OF feed_wf_empty sample_sqlite_works sample_request_wf sample_saved rtranclp.rtrancl_refl
      sample_sqlite_works order_refl sample_request_wf] sample_saved by blast

lemma collect_ok: "collect g xs = Inr ys \<Longrightarrow> list_all2 (\<lambda>x y. g x = Inr y) xs ys"
  by (induction xs arbitrary: ys) (auto split: sum.splits)

lemma scanFeed_row: "scanFeed (Some r) True = Inr f \<Longrightarrow> uf_revision f = rv_revision r \<and> uf_name f = rv_name r"
  by (auto simp: scanFeed_def feed_columns_def split: sum.splits)

lemma revisions_distinct: "feed_wf d \<Longrightarrow> distinct (map rv_revision (revisions_of n d))"
proof -
  assume "feed_wf d"
  then have "distinct (map (\<lambda>r. (rv_name r, rv_revision r)) (revisions_of n d))"
    by (auto simp: feed_wf_def feed_keys_ok_def revisions_of_def distinct_map inj_on_def distinct_filter)
  then show ?thesis by (auto simp: distinct_map inj_on_def revisions_of_def)
qed

text \<open>C31: The history shown to administrators has at most twenty entries of the feed, each once, newest first,
  and no revision that was left out is newer than one that is shown.\<close>

theorem history_newest:
  assumes "feed_wf d" and "updateFeedHistory E n d = Inr fs"
  shows "length fs = min 20 (length (revisions_of n d)) \<and> sorted_wrt (\<lambda>f g. uf_revision g < uf_revision f) fs
    \<and> (\<forall>f \<in> set fs. uf_name f = n)
    \<and> (\<forall>r \<in> set (revisions_of n d). rv_revision r \<in> uf_revision ` set fs \<or> (\<forall>f \<in> set fs. rv_revision r < uf_revision f))"
proof -
  define rs where "rs = rev (sort_key rv_revision (revisions_of n d))"
  have "collect (\<lambda>r. scanFeed (Some r) True) (take 20 rs) = Inr fs"
    using assms(2) by (auto simp: updateFeedHistory_def rs_def split: sum.splits if_splits)
  then have all: "list_all2 (\<lambda>r f. scanFeed (Some r) True = Inr f) (take 20 rs) fs" by (rule collect_ok)
  have names: "map uf_revision fs = map rv_revision (take 20 rs)" "map uf_name fs = map rv_name (take 20 rs)"
    using all by (induction rule: list_all2_induct) (auto simp: scanFeed_row)
  note dist = revisions_distinct [OF assms(1), of n]
  have "sorted_wrt (<) (map rv_revision (sort_key rv_revision (revisions_of n d)))"
    using dist by (simp add: strict_sorted_iff distinct_map)
  then have sorted: "sorted_wrt (\<lambda>i j. j < i) (map rv_revision rs)"
    unfolding rs_def rev_map [symmetric] sorted_wrt_rev .
  have "set rs = set (revisions_of n d)" by (simp add: rs_def)
  then have parts: "set (revisions_of n d) = set (take 20 rs) \<union> set (drop 20 rs)" by (metis append_take_drop_id set_append)
  have older: "\<forall>r \<in> set (drop 20 rs). \<forall>q \<in> set (take 20 rs). rv_revision r < rv_revision q"
    using sorted unfolding sorted_wrt_map by (subst (asm) append_take_drop_id [of 20 rs, symmetric]) (auto simp: sorted_wrt_append simp del: append_take_drop_id)
  have len: "length fs = length (take 20 rs)" using list_all2_lengthD [OF all] by (rule sym)
  have "sorted_wrt (\<lambda>i j. j < i) (map uf_revision fs)"
    unfolding names(1) take_map [symmetric] by (rule sorted_wrt_take [OF sorted])
  then have decreasing: "sorted_wrt (\<lambda>f g. uf_revision g < uf_revision f) fs" by (simp add: sorted_wrt_map)
  have revs: "uf_revision ` set fs = rv_revision ` set (take 20 rs)" and name: "uf_name ` set fs = rv_name ` set (take 20 rs)"
    using names [THEN arg_cong, of set] by (simp_all del: take_map)
  have "\<forall>r \<in> set (take 20 rs). rv_name r = n" using parts by (auto simp: revisions_of_def)
  then have names_n: "\<forall>f \<in> set fs. uf_name f = n" using name by (metis imageE imageI)
  have "rv_revision r \<in> uf_revision ` set fs \<or> (\<forall>f \<in> set fs. rv_revision r < uf_revision f)" if "r \<in> set (revisions_of n d)" for r
  proof (cases "r \<in> set (take 20 rs)")
    case False
    then have "r \<in> set (drop 20 rs)" using that parts by blast
    then have "\<forall>q \<in> set (take 20 rs). rv_revision r < rv_revision q" using older by blast
    then show ?thesis using revs by (metis imageE imageI)
  qed (use revs in blast)
  moreover have "length rs = length (revisions_of n d)" by (simp add: rs_def)
  ultimately show ?thesis using decreasing names_n len by simp
qed

lemma history_newest_witness:
  "\<exists>f d1 fs. saveUpdateFeed sample_sqlenv sample_feed_name sample_input 7 empty_feeds = (Inr f, d1)
     \<and> updateFeedHistory sample_sqlenv sample_feed_name d1 = Inr fs \<and> length fs = 1"
proof -
  define d1 where "d1 = with_row (new_row sample_sqlenv sample_feed_name sample_input 7 empty_feeds) empty_feeds"
  obtain f where saved: "saveUpdateFeed sample_sqlenv sample_feed_name sample_input 7 empty_feeds = (Inr f, d1)"
    using sample_saved d1_def by blast
  note wf = saveUpdateFeed_wf [OF feed_wf_empty sample_request_wf saved]
  have rows: "revisions_of sample_feed_name d1 = [new_row sample_sqlenv sample_feed_name sample_input 7 empty_feeds]"
    by (simp add: d1_def revisions_of_def with_row_def new_row_def empty_feeds_def)
  have get: "getUpdateFeed sample_sqlenv sample_feed_name d1 = Inr f"
    using sqlite_feeds.save_get [OF feed_wf_empty sample_sqlite_works sample_sqlite_works sample_request_wf saved] by blast
  have "decodeFeedManifest (marshal (fi_manifest sample_input)) = Inr (fi_manifest sample_input)"
    using decode_marshal sample_request_wf sample_manifest_valid by (simp add: request_wf_def sample_input_def)
  then obtain g where "scanFeed (Some (new_row sample_sqlenv sample_feed_name sample_input 7 empty_feeds)) True = Inr g"
    by (auto simp: scanFeed_def new_row_def)
  then have "updateFeedHistory sample_sqlenv sample_feed_name d1 = Inr [g]"
    using get rows by (simp add: updateFeedHistory_def sample_sqlenv_def)
  with history_newest [OF wf this] rows saved show ?thesis by auto
qed

end
