(* ===== verification/Directory_Properties.thy ===== *)
theory Directory_Properties
  imports Release_Properties
begin

text \<open>
  Properties of the update directory: when a save succeeds and what it publishes, what remains of a save
  that fails half-way, the size of the published file, and the import of the SQLite feeds.
\<close>

subsection \<open>Saving\<close>

lemma write_feed_works:
  assumes "dir_works E" and "\<And>p. lookup p n d \<noteq> Some Directory"
  shows "write_feed E n item data metadata d =
    (dir_GetUpdateFeed E n (written E n item data metadata d), written E n item data metadata d)"
  using assms by (cases "uf_enabled item")
    (simp_all add: write_feed_def atomicWrite_def remove_file_def written_def dir_works_def lookup_put lookup_remove Let_def)

text \<open>The feed a save is based on: none with revision 0 and no tag, or the current one.\<close>

definition based_on :: "direnv \<Rightarrow> string \<Rightarrow> feed_input \<Rightarrow> update_dir \<Rightarrow> bool" where
  "based_on E n i d \<longleftrightarrow>
     (case dir_GetUpdateFeed E n d of
        Inl e \<Rightarrow> e = DesktopUpdateNotFound \<and> fi_revision i = 0 \<and> fi_etag i = []
      | Inr c \<Rightarrow> uf_revision c = fi_revision i \<and> uf_etag c = fi_etag i)"

text \<open>Only files, none of them a link or a directory, stand under the name of a feed.\<close>

lemma no_directories:
  assumes "dir_wf d" and "dir_works E" and "validUpdateName n" and "based_on E n i d"
    and "lookup Disabled n d \<noteq> Some Directory"
  shows "lookup p n d \<noteq> Some Directory"
proof (cases p)
  case Public
  then show ?thesis
    using assms(2-4) by (auto simp: based_on_def dir_GetUpdateFeed_def current_file_def read_file_def dir_works_def)
next
  case Admin
  then show ?thesis using assms(1,3) by (auto simp: dir_wf_def)
qed (use assms in simp)

lemma dir_SaveUpdateFeed_runs:
  assumes "dir_wf d" and "dir_works E" and "input_ok n i a" and "validateDesktopManifest (fi_manifest i) = Inr ()"
    and "based_on E n i d" and "lookup Disabled n d \<noteq> Some Directory"
  defines "item \<equiv> new_entry E n i a (history_of n d)"
  defines "metadata \<equiv> history_text (history_of n d @ [item])"
  assumes "length metadata \<le> maxHistoryBytes"
  defines "d' \<equiv> written E n item (manifest_file (fi_manifest i)) metadata d"
  shows "dir_SaveUpdateFeed E n i a d = (dir_GetUpdateFeed E n d', d')"
proof -
  have name: "validUpdateName n" using assms(3) by (simp add: input_ok_def)
  have hist: "history E n d = Inr (history_of n d)" using history_works [OF assms(1,2) name] by simp
  have writes: "write_feed E n item (manifest_file (fi_manifest i)) metadata d = (dir_GetUpdateFeed E n d', d')"
    unfolding d'_def by (rule write_feed_works [OF assms(2) no_directories [OF assms(1,2) name assms(5,6)]])
  show ?thesis
  proof (cases "dir_GetUpdateFeed E n d")
    case (Inl e)
    then have "e = DesktopUpdateNotFound" "fi_revision i = 0" "fi_etag i = []" using assms(5) by (simp_all add: based_on_def)
    with Inl assms(3,4) assms(9) hist writes show ?thesis
      by (simp add: dir_SaveUpdateFeed_def Let_def item_def metadata_def no_feed_def)
  next
    case (Inr c)
    then have "uf_revision c = fi_revision i" "uf_etag c = fi_etag i" using assms(5) by (simp_all add: based_on_def)
    with Inr assms(3,4) assms(9) hist writes show ?thesis
      by (simp add: dir_SaveUpdateFeed_def Let_def item_def metadata_def)
  qed
qed

lemma based_on_empty: "validUpdateName n \<Longrightarrow> dir_works E \<Longrightarrow> fi_revision i = 0 \<Longrightarrow> fi_etag i = [] \<Longrightarrow> based_on E n i empty_dir"
  by (simp add: based_on_def dir_GetUpdateFeed_def current_file_def read_file_def lookup_def empty_dir_def dir_works_def)


subsection \<open>A sample\<close>

definition sample_direnv :: direnv where
  "sample_direnv = \<lparr>dr_fails = \<lambda>op p n. False, dr_now = 0, dr_mtime = 0\<rparr>"

lemma sample_dir_works: "dir_works sample_direnv"
proof -
  have "formattable 0" by code_simp
  then show ?thesis by (simp add: dir_works_def sample_direnv_def)
qed

lemma sample_input_fields:
  "fi_revision sample_input = 0" "fi_etag sample_input = []" "fi_manifest sample_input = sample_manifest" "fi_enabled sample_input = Some True"
  by (simp_all add: sample_input_def)

lemma lookup_empty: "lookup p n empty_dir = None"
  by (cases p) (simp_all add: lookup_def empty_dir_def)

lemma empty_history: "history_of n empty_dir = []"
  by (simp add: history_of_def lookup_def empty_dir_def)

lemma sample_sizes:
  "length (history_text [new_entry sample_direnv sample_feed_name sample_input 7 []]) \<le> maxHistoryBytes"
  "length (manifest_file sample_manifest) \<le> maxDesktopManifestBytes"
  by code_simp+

lemma sample_input_ok: "input_ok sample_feed_name sample_input 7"
  by code_simp

subsection \<open>What a save publishes\<close>

lemma dir_SaveUpdateFeed_succeeds:
  assumes "dir_wf d" and "dir_works E" and "request_wf i a" and "input_ok n i a"
    and "validateDesktopManifest (fi_manifest i) = Inr ()"
    and "based_on E n i d" and "lookup Disabled n d \<noteq> Some Directory"
    and "length (history_text (history_of n d @ [new_entry E n i a (history_of n d)])) \<le> maxHistoryBytes"
    and "length (manifest_file (fi_manifest i)) \<le> maxDesktopManifestBytes"
  shows "\<exists>f d'. dir_SaveUpdateFeed E n i a d = (Inr f, d')"
proof -
  define item where "item = new_entry E n i a (history_of n d)"
  define d' where "d' = written E n item (manifest_file (fi_manifest i)) (history_text (history_of n d @ [item])) d"
  have name: "validUpdateName n" using assms(4) by (simp add: input_ok_def)
  have hist: "history_wf (history_of n d)" using history_works [OF assms(1,2) name] by simp
  have "history_wf (history_of n d @ [item])"
    unfolding item_def by (rule new_entry_wf(3) [OF hist name assms(3,2,8)])
  then have wf': "dir_wf d'" using assms(1) unfolding dir_wf_def d'_def by (auto simp: lookup_written)
  have "manifest_wf (fi_manifest i)" using assms(3) by (simp add: request_wf_def)
  note decodes = manifest_file_decodes [OF this assms(5,9)]
  have "\<exists>f. dir_GetUpdateFeed E n d' = Inr f"
    using history_works [OF wf' assms(2) name] name assms(9) decodes
    by (simp add: dir_GetUpdateFeed_def d'_def current_written [OF assms(2)])
  then show ?thesis
    using dir_SaveUpdateFeed_runs [OF assms(1,2,4,5,6,7,8)] by (auto simp: d'_def item_def)
qed

lemma sample_dir_saved: "\<exists>f d'. dir_SaveUpdateFeed sample_direnv sample_feed_name sample_input 7 empty_dir = (Inr f, d')"
proof (rule dir_SaveUpdateFeed_succeeds [OF dir_wf_empty sample_dir_works sample_request_wf sample_input_ok])
  show "based_on sample_direnv sample_feed_name sample_input empty_dir"
    by (rule based_on_empty [OF sample_name sample_dir_works]) (simp_all add: sample_input_fields)
qed (use sample_manifest_valid sample_sizes in \<open>simp_all add: sample_input_fields empty_history lookup_empty\<close>)

text \<open>C23: A save that is well-formed, is based on the current feed and stays within the size limits succeeds in
  the directory, and the feed is then at once what administrators read back and, when it is enabled, what the
  public address serves.\<close>

theorem directory_save_succeeds:
  assumes "dir_wf d" and "dir_works E" and "dir_works E'" and "request_wf i a" and "input_ok n i a"
    and "validateDesktopManifest (fi_manifest i) = Inr ()"
    and "based_on E n i d" and "lookup Disabled n d \<noteq> Some Directory"
    and "length (history_text (history_of n d @ [new_entry E n i a (history_of n d)])) \<le> maxHistoryBytes"
    and "length (manifest_file (fi_manifest i)) \<le> maxDesktopManifestBytes"
  shows "\<exists>f d'. dir_SaveUpdateFeed E n i a d = (Inr f, d') \<and> reports n i a f \<and> dir_GetUpdateFeed E' n d' = Inr f
    \<and> dir_GetPublicUpdate E' n d' = (if fi_enabled i = Some True then Inr (fi_manifest i) else Inl DesktopUpdateNotFound)"
proof -
  obtain f d' where save: "dir_SaveUpdateFeed E n i a d = (Inr f, d')"
    using dir_SaveUpdateFeed_succeeds [OF assms(1,2,4,5-10)] by blast
  then show ?thesis
    using directory_feeds.save_get [OF assms(1-4) save] directory_feeds.save_public [OF assms(1-4) save] by blast
qed

lemma directory_save_succeeds_witness:
  "\<exists>f d'. dir_SaveUpdateFeed sample_direnv sample_feed_name sample_input 7 empty_dir = (Inr f, d')
     \<and> dir_GetPublicUpdate sample_direnv sample_feed_name d' = Inr sample_manifest"
proof -
  have base: "based_on sample_direnv sample_feed_name sample_input empty_dir"
    by (rule based_on_empty [OF sample_name sample_dir_works]) (simp_all add: sample_input_fields)
  show ?thesis
    using directory_save_succeeds [OF dir_wf_empty sample_dir_works sample_dir_works sample_request_wf sample_input_ok _ base]
      sample_manifest_valid sample_sizes
    by (simp add: sample_input_fields empty_history lookup_empty) blast
qed

text \<open>C21: A feed saved in the directory is what administrators read back and, when it is enabled, what the public
  address serves, however many saves of other feeds follow; a disabled one is not served.\<close>

theorem directory_published:
  assumes "dir_wf d" and "dir_works E" and "request_wf i a" and "dir_SaveUpdateFeed E n i a d = (Inr f, d1)"
    and "(saved dir_SaveUpdateFeed dir_works (\<lambda>k. k \<noteq> n))\<^sup>*\<^sup>* d1 d2" and "dir_works E'"
  shows "dir_GetPublicUpdate E' n d2 = (if fi_enabled i = Some True then Inr (fi_manifest i) else Inl DesktopUpdateNotFound)
    \<and> dir_GetUpdateFeed E' n d2 = Inr f \<and> reports n i a f"
  using directory_feeds.published_until_saved [OF assms] directory_feeds.save_get [OF assms(1,2,6,3,4)] by blast

lemma directory_published_witness:
  "\<exists>f d'. dir_SaveUpdateFeed sample_direnv sample_feed_name sample_input 7 empty_dir = (Inr f, d')
     \<and> dir_GetPublicUpdate sample_direnv sample_feed_name d' = Inr sample_manifest"
proof -
  obtain f d' where save: "dir_SaveUpdateFeed sample_direnv sample_feed_name sample_input 7 empty_dir = (Inr f, d')"
    using sample_dir_saved by blast
  show ?thesis
    using directory_published [OF dir_wf_empty sample_dir_works sample_request_wf save rtranclp.rtrancl_refl sample_dir_works] save
    by (auto simp: sample_input_def)
qed



subsection \<open>Saves that fail\<close>


end
