(* ===== verification/Oversized_Feed.thy ===== *)
theory Oversized_Feed
  imports Directory_Properties
begin

text \<open>
  The size of the published file. The directory checks the size of a manifest in compact form and writes it
  indented, so a manifest near the limit becomes a file that the directory itself refuses to read.
\<close>

subsection \<open>A manifest at the limit\<close>

definition long_note :: string where
  "long_note = replicate 435 CHR ''<''"

definition long_manifest :: manifest where
  "long_manifest = sample_manifest\<lparr>mf_releaseNotes := Some [(''en'', Some (replicate 100 long_note))]\<rparr>"

definition long_input :: feed_input where
  "long_input = sample_input\<lparr>fi_manifest := long_manifest\<rparr>"

lemma length_join_replicate: "length (join_with sep (replicate (Suc n) w)) = Suc n * length w + n * length sep"
  by (induction n) auto

lemma length_quoted_less: "length (quote_bytes (replicate n 60)) = 6 * n"
  by (induction n) (simp_all add: quote_byte_def html_safe_def)

lemma long_note_length: "length (json_quote long_note) = 2612"
  using length_quoted_less [of 435] by (simp add: json_quote_def long_note_def map_replicate)

lemma length_replicated_array:
  "length (jrender nl co d (VArr (replicate (Suc n) (VStr s)))) =
     Suc n * length (json_quote s) + n * (1 + length (nl (Suc d))) + length (nl (Suc d)) + length (nl d) + 2"
  using length_join_replicate [of "'','' @ nl (Suc d)" n "json_quote s"] by simp

lemma long_notes_length:
  "length (jrender nl co d (VArr (replicate 100 (VStr long_note)))) =
     261200 + 99 * (1 + length (nl (Suc d))) + length (nl (Suc d)) + length (nl d) + 2"
  using length_replicated_array [of nl co d 99 long_note] by (simp add: long_note_length del: replicate_Suc)

lemma short_parts:
  "length (jrender compact_nl '':'' 1 (jmap artifact_json (mf_artifacts sample_manifest))) = 143"
  "length (jrender indent_nl '': '' 1 (jmap artifact_json (mf_artifacts sample_manifest))) = 181"
  by code_simp+

lemma key_lengths:
  "length (json_quote ''schemaVersion'') = 15" "length (json_quote ''productId'') = 11" "length (json_quote ''version'') = 9"
  "length (json_quote ''publishedAt'') = 13" "length (json_quote ''releaseNotes'') = 14" "length (json_quote ''artifacts'') = 11"
  "length (json_quote ''en'') = 4" "length (json_quote (mf_productId sample_manifest)) = 17"
  "length (json_quote (mf_version sample_manifest)) = 17" "length (json_quote (mf_publishedAt sample_manifest)) = 22"
  "length (show_int (mf_schemaVersion sample_manifest)) = 1"
  by code_simp+

lemma long_fields:
  "mf_releaseNotes long_manifest = Some [(''en'', Some (replicate 100 long_note))]"
  "mf_artifacts long_manifest = mf_artifacts sample_manifest" "mf_productId long_manifest = mf_productId sample_manifest"
  "mf_version long_manifest = mf_version sample_manifest" "mf_publishedAt long_manifest = mf_publishedAt sample_manifest"
  "mf_schemaVersion long_manifest = mf_schemaVersion sample_manifest"
  by (simp_all add: long_manifest_def)

lemma long_lengths:
  "length (marshal long_manifest) = 261594" "length (manifest_file long_manifest) = 262372"
proof -
  have long_notes: "jmap notes_json (mf_releaseNotes long_manifest) = VObj [(''en'', VArr (replicate 100 (VStr long_note)))]"
    by (simp add: long_fields jmap_def notes_json_def)
  show "length (marshal long_manifest) = 261594"
    unfolding marshal_def json_compact_def manifest_json_def long_notes
    using short_parts long_notes_length [of compact_nl "'':''" 2]
    by (simp add: jint_def long_fields key_lengths compact_nl_def)
  show "length (manifest_file long_manifest) = 262372"
    unfolding manifest_file_def json_indent_def manifest_json_def long_notes
    using short_parts long_notes_length [of indent_nl "'': ''" 2]
    by (simp add: jint_def long_fields key_lengths indent_nl_def)
qed

lemma long_manifest_valid: "validateDesktopManifest long_manifest = Inr ()"
proof -
  have "manifest_error sample_manifest = None"
    using sample_manifest_valid by (auto simp: validateDesktopManifest_def split: option.splits)
  then have "artifacts_error (mf_artifacts sample_manifest) = None" "parse_time (mf_publishedAt sample_manifest) \<noteq> None"
    "\<not> list_ex padded_number (prerelease_ids (mf_version sample_manifest))"
    "\<not> (128 < length (mf_version sample_manifest) \<or> \<not> desktopVersionPattern (mf_version sample_manifest))"
    "\<not> (mf_schemaVersion sample_manifest \<noteq> 1 \<or> \<not> desktopProductPattern (mf_productId sample_manifest))"
    unfolding manifest_error_def by (auto split: if_splits option.splits)
  moreover have "releaseNotes_error (mf_releaseNotes long_manifest) = None"
  proof -
    have "utf16_length long_note = 435"
      using utf8_runes_ascii [of long_note]
      by (simp add: utf16_length_def long_note_def is_ascii_def list_all_iff map_replicate sum_list_replicate)
    moreover have "desktopLocalePattern ''en''" by code_simp
    ultimately show ?thesis
      by (simp add: long_fields releaseNotes_error_def notes_error_def list_ex_iff)
  qed
  ultimately show ?thesis
    unfolding validateDesktopManifest_def manifest_error_def
    by (simp add: long_fields long_lengths maxDesktopManifestBytes_def)
qed

lemma long_request_wf: "request_wf long_input 7"
proof -
  have "manifest_wf sample_manifest" "valid_utf8 (fi_description sample_input)" "int64 7"
    using sample_request_wf by (simp_all add: request_wf_def sample_input_fields)
  moreover have "valid_utf8 long_note" "valid_utf8 ''en''" by (rule valid_utf8_ascii; simp add: long_note_def is_ascii_def list_all_iff)+
  ultimately show ?thesis
    by (simp add: request_wf_def long_input_def manifest_wf_def long_fields gomap_ok_def gomap_wf_def notes_utf8_def list_all_iff)
qed

lemma compact_depth: "jrender compact_nl co d v = jrender compact_nl co 0 v"
proof (induction v arbitrary: d)
  case (VArr vs)
  then have "map (jrender compact_nl co (Suc d)) vs = map (jrender compact_nl co (Suc 0)) vs" by (metis map_ext)
  then show ?case by (simp only: jrender.simps) (simp add: compact_nl_def)
next
  case (VObj ms)
  have member: "jrender compact_nl co e v = jrender compact_nl co 0 v" if "(k, v) \<in> set ms" for k v e
    using VObj [of "(k, v)" v e] that by simp
  have "map (\<lambda>(k, v). json_quote k @ co @ jrender compact_nl co (Suc d) v) ms
      = map (\<lambda>(k, v). json_quote k @ co @ jrender compact_nl co (Suc 0) v) ms"
    by (rule map_cong [OF refl]) (use member [of _ _ "Suc d"] member [of _ _ "Suc 0"] in auto)
  then show ?case by (simp only: jrender.simps) (simp add: compact_nl_def)
qed simp_all

lemma entry_lengths:
  "length (json_quote ''name'') = 6" "length (json_quote ''description'') = 13" "length (json_quote ''enabled'') = 9"
  "length (json_quote ''revision'') = 10" "length (json_quote ''updatedAt'') = 11" "length (json_quote ''updatedBy'') = 11"
  "length (json_quote ''manifest'') = 10" "length (json_quote sample_feed_name) = 21" "length (json_quote (fi_description sample_input)) = 8"
  "length (json_quote (format_time 0)) = 22" "length (show_int 1) = 1" "length (show_int 7) = 1"
  by code_simp+

lemma long_history_length:
  "length (history_text [new_entry sample_direnv sample_feed_name long_input 7 []]) \<le> 300000"
proof -
  have m: "length (jrender compact_nl '':'' d (manifest_json long_manifest)) = 261594" for d
    using long_lengths(1) compact_depth [of "'':''" d] by (simp add: marshal_def json_compact_def)
  show ?thesis
    unfolding history_text_def json_compact_def feed_json_def
    by (simp add: new_entry_def no_feed_def long_input_def sample_input_fields sample_direnv_def m jint_def entry_lengths compact_nl_def)
qed

text \<open>C25: A valid manifest whose indented text is longer than 256 KiB is accepted for a save and replaces the
  published file, but the save answers with an error, the public address stops serving the feed, and no later
  save of the feed succeeds or changes anything.\<close>

theorem oversized_feed_is_stuck:
  assumes "dir_wf d" and "dir_works E" and "dir_works E'" and "input_ok n i a"
    and "validateDesktopManifest (fi_manifest i) = Inr ()" and "fi_enabled i = Some True"
    and "based_on E n i d" and "lookup Disabled n d \<noteq> Some Directory"
    and "length (history_text (history_of n d @ [new_entry E n i a (history_of n d)])) \<le> maxHistoryBytes"
    and "maxDesktopManifestBytes < length (manifest_file (fi_manifest i))"
  shows "\<exists>d'. dir_SaveUpdateFeed E n i a d = (Inl (InvalidDesktopUpdate []), d')
    \<and> lookup Public n d' = Some (Regular (manifest_file (fi_manifest i)) (dr_mtime E))
    \<and> dir_GetPublicUpdate E' n d' = Inl (InvalidDesktopUpdate [])
    \<and> snd (dir_SaveUpdateFeed E' n i' a' d') = d' \<and> isl (fst (dir_SaveUpdateFeed E' n i' a' d'))"
proof -
  define item where "item = new_entry E n i a (history_of n d)"
  define d' where "d' = written E n item (manifest_file (fi_manifest i)) (history_text (history_of n d @ [item])) d"
  have name: "validUpdateName n" using assms(4) by (simp add: input_ok_def)
  have enabled: "uf_enabled item" using assms(6) by (simp add: item_def new_entry_def)
  have get: "dir_GetUpdateFeed F n d' = Inl (InvalidDesktopUpdate [])" if "dir_works F" for F
    using that name assms(10) by (simp add: dir_GetUpdateFeed_def d'_def current_written)
  have "dir_SaveUpdateFeed E n i a d = (dir_GetUpdateFeed E n d', d')"
    using dir_SaveUpdateFeed_runs [OF assms(1,2,4,5,7,8,9)] by (simp add: d'_def item_def)
  moreover have "dir_GetPublicUpdate E' n d' = Inl (InvalidDesktopUpdate [])"
    using public_written [OF assms(3) name] enabled assms(10) by (simp add: d'_def)
  moreover have "lookup Public n d' = Some (Regular (manifest_file (fi_manifest i)) (dr_mtime E))"
    using enabled by (simp add: d'_def lookup_written)
  moreover have "snd (dir_SaveUpdateFeed E' n i' a' d') = d' \<and> isl (fst (dir_SaveUpdateFeed E' n i' a' d'))"
    using get [OF assms(3)] by (auto simp: dir_SaveUpdateFeed_def split: sum.splits)
  ultimately show ?thesis using get [OF assms(2)] by auto
qed

lemma oversized_feed_is_stuck_witness:
  "\<exists>d'. dir_SaveUpdateFeed sample_direnv sample_feed_name long_input 7 empty_dir = (Inl (InvalidDesktopUpdate []), d')
     \<and> dir_GetPublicUpdate sample_direnv sample_feed_name d' = Inl (InvalidDesktopUpdate [])"
proof -
  have base: "based_on sample_direnv sample_feed_name long_input empty_dir"
    by (rule based_on_empty [OF sample_name sample_dir_works]) (simp_all add: long_input_def sample_input_fields)
  have ok: "input_ok sample_feed_name long_input 7" using sample_input_ok by (simp add: input_ok_def long_input_def)
  have i: "fi_manifest long_input = long_manifest" "fi_enabled long_input = Some True" by (simp_all add: long_input_def sample_input_fields)
  have small: "length (history_text [new_entry sample_direnv sample_feed_name long_input 7 []]) \<le> maxHistoryBytes"
    using long_history_length by (simp add: maxHistoryBytes_def)
  show ?thesis
    using oversized_feed_is_stuck [OF dir_wf_empty sample_dir_works sample_dir_works ok _ i(2) base] small long_manifest_valid
    by (simp add: i empty_history lookup_empty long_lengths maxDesktopManifestBytes_def) blast
qed

end
