(* ===== verification/Import_Properties.thy ===== *)
theory Import_Properties
  imports Directory_Properties
begin

text \<open>
  The import of the SQLite feeds into the directory: it never touches a file that is there, it leaves every
  feed of the database with a file and a history, and once it has succeeded it does nothing.
\<close>

subsection \<open>Files stay\<close>

text \<open>What a step may do to a directory: add files.\<close>

definition extends :: "update_dir \<Rightarrow> update_dir \<Rightarrow> bool" where
  "extends d d' \<longleftrightarrow> (\<forall>p k. lookup p k d = None \<or> lookup p k d' = lookup p k d)"

lemma extends_refl [simp, intro]: "extends d d"
  by (simp add: extends_def)

lemma extends_trans [trans]: "extends d d1 \<Longrightarrow> extends d1 d2 \<Longrightarrow> extends d d2"
  unfolding extends_def by metis

lemma extends_lookup: "extends d d' \<Longrightarrow> lookup p k d \<noteq> None \<Longrightarrow> lookup p k d' \<noteq> None"
  unfolding extends_def by metis

lemma atomicWrite_extends: "lookup p k d = None \<Longrightarrow> extends d (snd (atomicWrite E p k data d))"
  by (auto simp: atomicWrite_def extends_def lookup_put)

lemma atomicWrite_writes: "atomicWrite E p k data d = (Inr u, d') \<Longrightarrow> lookup p k d' \<noteq> None"
  by (auto simp: atomicWrite_def lookup_put split: if_splits)

lemma import_history_extends: "extends d (snd (import_history E n hist d))"
  by (auto simp: import_history_def atomicWrite_extends)

lemma import_file_extends: "extends d (snd (import_file E f d))"
  by (auto simp: import_file_def atomicWrite_extends)

lemma import_history_done: "import_history E n hist d = (Inr u, d') \<Longrightarrow> lookup Admin n d' \<noteq> None"
  by (auto simp: import_history_def dest: atomicWrite_writes split: if_splits)

lemma import_file_done:
  "import_file E f d = (Inr u, d') \<Longrightarrow> lookup Public (uf_name f) d' \<noteq> None \<or> lookup Disabled (uf_name f) d' \<noteq> None"
  by (auto simp: import_file_def dest: atomicWrite_writes split: if_splits)

lemma import_feed_extends: "extends d (snd (import_feed E S legacy n d))"
  by (auto simp: import_feed_def split: sum.split prod.split)
    (metis import_history_extends import_file_extends extends_trans snd_conv)+

lemma getUpdateFeed_name: "getUpdateFeed S n legacy = Inr f \<Longrightarrow> uf_name f = n"
  by (auto simp: getUpdateFeed_def scanFeed_def feed_columns_def find_revision_def no_feed_def
      split: if_splits option.splits sum.splits dest!: find_in)

lemma import_feed_done:
  assumes "import_feed E S legacy n d = (Inr u, d')"
  shows "lookup Admin n d' \<noteq> None \<and> (lookup Public n d' \<noteq> None \<or> lookup Disabled n d' \<noteq> None)"
proof -
  obtain f hist d1 where f: "getUpdateFeed S n legacy = Inr f" and h: "import_history E n hist d = (Inr (), d1)"
    and i: "import_file E f d1 = (Inr u, d')"
    using assms by (auto simp: import_feed_def split: if_splits sum.splits prod.splits)
  have "extends d1 d'" using import_file_extends [of d1 E f] i by simp
  then show ?thesis
    using import_history_done [OF h] import_file_done [OF i] getUpdateFeed_name [OF f] extends_lookup by metis
qed

lemma import_feeds_extends: "extends d (snd (import_feeds E S legacy ns d))"
proof (induction ns arbitrary: d)
  case (Cons n ns)
  show ?case
  proof (cases "import_feed E S legacy n d")
    case (Pair r d1)
    then have "extends d d1" using import_feed_extends [of d E S legacy n] by simp
    with Pair Cons [of d1] show ?thesis by (auto split: sum.split intro: extends_trans)
  qed
qed simp

lemma import_feeds_done:
  "import_feeds E S legacy ns d = (Inr u, d') \<Longrightarrow> n \<in> set ns \<Longrightarrow>
    lookup Admin n d' \<noteq> None \<and> (lookup Public n d' \<noteq> None \<or> lookup Disabled n d' \<noteq> None)"
proof (induction ns arbitrary: d)
  case (Cons k ns)
  obtain d1 where d1: "import_feed E S legacy k d = (Inr (), d1)" "import_feeds E S legacy ns d1 = (Inr u, d')"
    using Cons.prems(1) by (auto split: prod.splits sum.splits)
  show ?case
  proof (cases "n \<in> set ns")
    case False
    then have "n = k" using Cons.prems(2) by simp
    moreover have "extends d1 d'" using import_feeds_extends [of d1 E S legacy ns] d1(2) by simp
    ultimately show ?thesis using import_feed_done [OF d1(1)] extends_lookup by metis
  qed (rule Cons.IH [OF d1(2)])
qed simp

text \<open>C27: The import of the SQLite feeds never changes or removes a file of the directory, whatever fails: every
  file that was there before is still there with its content.\<close>

theorem import_keeps_files:
  "lookup p k d = None \<or> lookup p k (snd (importLegacy E S legacy d)) = lookup p k d"
proof -
  have "extends d (snd (importLegacy E S legacy d))"
  proof (cases "lookup Admin export_marker d = None \<and> \<not> isl (listUpdateFeeds S legacy)")
    case True
    then obtain items where items: "listUpdateFeeds S legacy = Inr items" by (cases "listUpdateFeeds S legacy") auto
    obtain r d1 where r: "import_feeds E S legacy (map uf_name items) d = (r, d1)" by force
    then have "extends d d1" using import_feeds_extends [of d E S legacy "map uf_name items"] by simp
    moreover from this True have "extends d (snd (atomicWrite E Admin export_marker (''true'' @ [CHR 0x0A]) d1))"
      by (auto simp: atomicWrite_def extends_def lookup_put)
    ultimately show ?thesis using items r by (auto simp: importLegacy_def split: sum.split)
  qed (auto simp: importLegacy_def split: sum.split)
  then show ?thesis by (simp add: extends_def)
qed

subsection \<open>Completeness\<close>

lemma listUpdateFeeds_names:
  assumes "listUpdateFeeds S legacy = Inr items" and "find_feed n legacy = Some f" and "find_revision n (fd_revision f) legacy = Some r"
  shows "n \<in> uf_name ` set items"
proof -
  let ?rows = "sort_key rv_name (List.map_filter (\<lambda>f. find_revision (fd_name f) (fd_revision f) legacy) (fb_feeds legacy))"
  have f: "f \<in> set (fb_feeds legacy)" "fd_name f = n" using find_in [of _ "fb_feeds legacy" f] assms(2) by (auto simp: find_feed_def)
  have r: "rv_name r = n" using assms(3) by (auto simp: find_revision_def dest: find_in)
  have "r \<in> set ?rows" using f assms(3) by (force simp: List.map_filter_def)
  moreover have "list_all2 (\<lambda>r g. scanFeed (Some r) False = Inr g) ?rows items"
    using assms(1) by (intro collect_ok) (auto simp: listUpdateFeeds_def split: if_splits)
  moreover from calculation obtain i where "i < length ?rows" "?rows ! i = r" unfolding in_set_conv_nth by blast
  ultimately have "items ! i \<in> set items" "scanFeed (Some r) False = Inr (items ! i)"
    by (auto simp: list_all2_conv_all_nth)
  moreover from this(2) have "items ! i = feed_columns r" by (simp add: scanFeed_def)
  moreover have "uf_name (feed_columns r) = n" using r by (simp add: feed_columns_def)
  ultimately show ?thesis by (metis imageI)
qed

text \<open>C28: When the import has succeeded, every feed of the database that has its revision stands in the directory,
  with a file and a history, and further imports, from any database, change nothing.\<close>

theorem import_completes:
  assumes "importLegacy E S legacy d = (Inr u, d')" and "lookup Admin export_marker d = None"
    and "find_feed n legacy = Some f" and "find_revision n (fd_revision f) legacy = Some r" and "dir_works E'"
  shows "lookup Admin n d' \<noteq> None \<and> (lookup Public n d' \<noteq> None \<or> lookup Disabled n d' \<noteq> None)
    \<and> importLegacy E' S' legacy' d' = (Inr (), d')"
proof -
  obtain items d1 where items: "listUpdateFeeds S legacy = Inr items" and d1: "import_feeds E S legacy (map uf_name items) d = (Inr (), d1)"
    and d': "atomicWrite E Admin export_marker (''true'' @ [CHR 0x0A]) d1 = (Inr u, d')"
    using assms(1,2) by (auto simp: importLegacy_def split: if_splits sum.splits prod.splits)
  have "lookup Admin n d1 \<noteq> None \<and> (lookup Public n d1 \<noteq> None \<or> lookup Disabled n d1 \<noteq> None)"
    using import_feeds_done [OF d1] listUpdateFeeds_names [OF items assms(3,4)] by auto
  moreover have "lookup p k d1 \<noteq> None \<Longrightarrow> lookup p k d' \<noteq> None" for p k
    using d' by (auto simp: atomicWrite_def lookup_put split: if_splits)
  ultimately show ?thesis using atomicWrite_writes [OF d'] assms(5) by (auto simp: importLegacy_def dir_works_def)
qed

subsection \<open>Content\<close>











subsection \<open>A sample\<close>

definition sample_feeds :: feed_db where
  "sample_feeds = with_row (new_row sample_sqlenv sample_feed_name sample_input 7 empty_feeds) empty_feeds"

lemma sample_feed: "\<exists>f. getUpdateFeed sample_sqlenv sample_feed_name sample_feeds = Inr f \<and> uf_manifest f = Some sample_manifest \<and> uf_enabled f"
  using sqlite_feeds.save_get [OF feed_wf_empty sample_sqlite_works sample_sqlite_works sample_request_wf sample_saved]
  by (auto simp: sample_feeds_def reports_def sample_input_fields)

lemma sample_import: "\<exists>d'. importLegacy sample_direnv sample_sqlenv sample_feeds empty_dir = (Inr (), d')"
proof -
  define r where "r = new_row sample_sqlenv sample_feed_name sample_input 7 empty_feeds"
  have name: "rv_name r = sample_feed_name" by (simp add: r_def new_row_def)
  have db: "fb_feeds sample_feeds = [\<lparr>fd_name = sample_feed_name, fd_revision = rv_revision r\<rparr>]" "fb_revisions sample_feeds = [r]"
    unfolding sample_feeds_def r_def [symmetric] by (simp_all add: with_row_def empty_feeds_def put_feed_def name)
  obtain m where "scanFeed (Some r) True = Inr m"
    using decode_marshal [of sample_manifest] sample_request_wf sample_manifest_valid
    by (auto simp: scanFeed_def r_def new_row_def request_wf_def sample_input_fields)
  moreover have "listUpdateFeeds sample_sqlenv sample_feeds = Inr [feed_columns r]"
    by (simp add: listUpdateFeeds_def db sample_sqlenv_def find_revision_def name scanFeed_def List.map_filter_def)
  moreover have "uf_name (feed_columns r) = sample_feed_name" by (simp add: feed_columns_def name)
  moreover have "\<not> dr_fails sample_direnv op p k" for op p k by (simp add: sample_direnv_def)
  ultimately show ?thesis
    using sample_feed
    by (auto simp: importLegacy_def import_feed_def import_history_def import_file_def atomicWrite_def lookup_empty lookup_put
        revisions_of_def db name sample_sqlenv_def export_marker_def)
qed


lemma import_completes_witness:
  "\<exists>d'. importLegacy sample_direnv sample_sqlenv sample_feeds empty_dir = (Inr (), d')
     \<and> importLegacy sample_direnv sample_sqlenv empty_feeds d' = (Inr (), d')"
proof -
  obtain d' where d': "importLegacy sample_direnv sample_sqlenv sample_feeds empty_dir = (Inr (), d')" using sample_import by blast
  obtain row r where "find_feed sample_feed_name sample_feeds = Some row"
    "find_revision sample_feed_name (fd_revision row) sample_feeds = Some r"
    using sample_feed by (auto simp: getUpdateFeed_def scanFeed_def split: if_splits option.splits)
  from import_completes [OF d' lookup_empty this sample_dir_works] d' show ?thesis by blast
qed

end
