(* ===== verification/Update_Handlers.thy ===== *)
theory Update_Handlers
  imports Auth_Session Release_Directory
begin

text \<open>
  \<open>internal/auth/desktop_updates.go\<close>: the handlers that serve and administer the update feeds, over the
  provider the server was built with: none, the SQLite feeds or the update directory. Each handler gets the
  bytes of the request body, where it reads one, and returns the response and the provider afterwards.
\<close>

subsection \<open>The provider\<close>

datatype update_provider = NoUpdates | SqliteUpdates feed_db | DirectoryUpdates update_dir

record update_env =
  ue_sqlite :: sqlenv
  ue_dir :: direnv

fun provider_list :: "update_env \<Rightarrow> update_provider \<Rightarrow> update_error + update_feed list" where
  "provider_list U NoUpdates = Inl UpdateFailure"
| "provider_list U (SqliteUpdates d) = listUpdateFeeds (ue_sqlite U) d"
| "provider_list U (DirectoryUpdates d) = dir_ListUpdateFeeds (ue_dir U) d"

fun provider_get :: "update_env \<Rightarrow> string \<Rightarrow> update_provider \<Rightarrow> update_error + update_feed" where
  "provider_get U n NoUpdates = Inl UpdateFailure"
| "provider_get U n (SqliteUpdates d) = getUpdateFeed (ue_sqlite U) n d"
| "provider_get U n (DirectoryUpdates d) = dir_GetUpdateFeed (ue_dir U) n d"

fun provider_history :: "update_env \<Rightarrow> string \<Rightarrow> update_provider \<Rightarrow> update_error + update_feed list" where
  "provider_history U n NoUpdates = Inl UpdateFailure"
| "provider_history U n (SqliteUpdates d) = updateFeedHistory (ue_sqlite U) n d"
| "provider_history U n (DirectoryUpdates d) = dir_UpdateFeedHistory (ue_dir U) n d"

fun provider_save :: "update_env \<Rightarrow> string \<Rightarrow> feed_input \<Rightarrow> int \<Rightarrow> update_provider \<Rightarrow> (update_error + update_feed) \<times> update_provider" where
  "provider_save U n i a NoUpdates = (Inl UpdateFailure, NoUpdates)"
| "provider_save U n i a (SqliteUpdates d) = apsnd SqliteUpdates (saveUpdateFeed (ue_sqlite U) n i a d)"
| "provider_save U n i a (DirectoryUpdates d) = apsnd DirectoryUpdates (dir_SaveUpdateFeed (ue_dir U) n i a d)"

subsection \<open>Responses\<close>

text \<open>\<open>writeJSON\<close> on a value with a fixed JSON form: the encoder ends the text with a newline.\<close>

definition jsonText :: "jvalue \<Rightarrow> string" where
  "jsonText v = json_compact v @ [CHR 0x0A]"

definition writeValue :: "int \<Rightarrow> jvalue \<Rightarrow> response" where
  "writeValue status v =
     \<lparr>rs_status = status, rs_headers = [(''Content-Type'', ''application/json'')], rs_cookies = [],
      rs_location = None, rs_body = RawBody (jsonText v)\<rparr>"

definition noStore :: "response \<Rightarrow> response" where
  "noStore rs = setHeader ''Cache-Control'' ''no-store'' rs"

definition updateError :: "update_error \<Rightarrow> response" where
  "updateError e =
     (case e of
        DesktopUpdateNotFound \<Rightarrow> writeError 404 ''desktop_update_not_configured'' ''No update information is configured.''
      | UpdateConflict \<Rightarrow> writeError 409 ''update_conflict'' ''This feed has changed. Reload before saving.''
      | _ \<Rightarrow> writeError 503 ''desktop_updates_unavailable'' ''Update information is unavailable.'')"

text \<open>\<open>err.Error()\<close> of an invalid update\<close>

definition invalid_text :: "string \<Rightarrow> string" where
  "invalid_text field = ''invalid desktop update manifest'' @ (if field = [] then [] else '': '' @ field)"

subsection \<open>The public address\<close>

definition desktopLatest :: "update_env \<Rightarrow> request \<Rightarrow> update_provider \<Rightarrow> response" where
  "desktopLatest U r P =
     (let name = rq_pathValue r ''name'' in
      noStore
       (if \<not> validUpdateName name
        then writeError 404 ''desktop_update_not_configured'' ''No update information is configured.''
        else case P of
          NoUpdates \<Rightarrow> updateError UpdateFailure
        | DirectoryUpdates d \<Rightarrow>
            (case dir_GetPublicJSON (ue_dir U) name d of
               Inl e \<Rightarrow> updateError e
             | Inr data \<Rightarrow>
                 \<lparr>rs_status = 200, rs_headers = [(''X-Content-Type-Options'', ''nosniff''),
                    (''Content-Type'', ''application/json; charset=utf-8'')], rs_cookies = [], rs_location = None,
                  rs_body = RawBody data\<rparr>)
        | SqliteUpdates d \<Rightarrow>
            (case getPublicUpdate (ue_sqlite U) name d of
               Inl e \<Rightarrow> updateError e
             | Inr m \<Rightarrow>
                 (case validateDesktopManifest m of
                    Inl e \<Rightarrow> updateError e
                  | Inr _ \<Rightarrow> writeValue 200 (manifest_json m)))))"

subsection \<open>Administration\<close>

text \<open>The guard of the administration: the response that stops the handler, or the administrator.\<close>

definition updateAdmin :: "server \<Rightarrow> dbenv \<Rightarrow> request \<Rightarrow> update_provider \<Rightarrow> db \<Rightarrow> (response + user) \<times> db" where
  "updateAdmin S E r P d =
     (case currentUser S E r d of
        (Inl ErrNotFound, d1) \<Rightarrow> (Inl (writeError 401 ''unauthorized'' ''Login required.''), d1)
      | (Inl _, d1) \<Rightarrow> (Inl (writeError 403 ''forbidden'' ''Administrator access required.''), d1)
      | (Inr u, d1) \<Rightarrow>
          if usr_role u \<noteq> ''admin'' \<and> usr_role u \<noteq> ''administrator''
          then (Inl (writeError 403 ''forbidden'' ''Administrator access required.''), d1)
          else
            (case (if rq_method r = ''PUT'' then requireCSRF S E r d1 else None) of
               Some rs \<Rightarrow> (Inl rs, d1)
             | None \<Rightarrow> (if P = NoUpdates then Inl (updateError UpdateFailure) else Inr u, d1)))"

definition items_json :: "update_feed list \<Rightarrow> jvalue" where
  "items_json fs = VObj [(''items'', VArr (map feed_json fs))]"

definition adminUpdateList :: "server \<Rightarrow> dbenv \<Rightarrow> update_env \<Rightarrow> request \<Rightarrow> update_provider \<Rightarrow> db \<Rightarrow> response \<times> db" where
  "adminUpdateList S E U r P d =
     apfst noStore
      (case updateAdmin S E r P d of
         (Inl rs, d1) \<Rightarrow> (rs, d1)
       | (Inr _, d1) \<Rightarrow>
           (case provider_list U P of
              Inl e \<Rightarrow> (updateError e, d1)
            | Inr items \<Rightarrow> (writeValue 200 (items_json items), d1)))"

definition adminUpdateDetail :: "server \<Rightarrow> dbenv \<Rightarrow> update_env \<Rightarrow> request \<Rightarrow> update_provider \<Rightarrow> db \<Rightarrow> response \<times> db" where
  "adminUpdateDetail S E U r P d =
     apfst noStore
      (case updateAdmin S E r P d of
         (Inl rs, d1) \<Rightarrow> (rs, d1)
       | (Inr _, d1) \<Rightarrow>
           (case provider_get U (rq_pathValue r ''name'') P of
              Inl e \<Rightarrow> (updateError e, d1)
            | Inr item \<Rightarrow> (writeValue 200 (feed_json item), d1)))"

definition adminUpdateHistory :: "server \<Rightarrow> dbenv \<Rightarrow> update_env \<Rightarrow> request \<Rightarrow> update_provider \<Rightarrow> db \<Rightarrow> response \<times> db" where
  "adminUpdateHistory S E U r P d =
     apfst noStore
      (case updateAdmin S E r P d of
         (Inl rs, d1) \<Rightarrow> (rs, d1)
       | (Inr _, d1) \<Rightarrow>
           (case provider_history U (rq_pathValue r ''name'') P of
              Inl e \<Rightarrow> (updateError e, d1)
            | Inr items \<Rightarrow> (writeValue 200 (items_json items), d1)))"

subsection \<open>The body of a save\<close>

definition no_input :: feed_input where
  "no_input = \<lparr>fi_etag = [], fi_description = [], fi_enabled = None, fi_revision = 0, fi_manifest = no_manifest\<rparr>"

definition input_fields :: "(string \<times> feed_input decoder) list" where
  "input_fields =
     [(''etag'', \<lambda>v i. map_option (\<lambda>x. i\<lparr>fi_etag := x\<rparr>) (dec_string v (fi_etag i))),
      (''description'', \<lambda>v i. map_option (\<lambda>x. i\<lparr>fi_description := x\<rparr>) (dec_string v (fi_description i))),
      (''enabled'', \<lambda>v i. map_option (\<lambda>x. i\<lparr>fi_enabled := x\<rparr>) (dec_pointer dec_bool False v (fi_enabled i))),
      (''revision'', \<lambda>v i. map_option (\<lambda>x. i\<lparr>fi_revision := x\<rparr>) (dec_int v (fi_revision i))),
      (''manifest'', \<lambda>v i. map_option (\<lambda>x. i\<lparr>fi_manifest := x\<rparr>) (dec_manifest True v (fi_manifest i)))]"

definition maxInputBytes :: nat where
  "maxInputBytes = maxDesktopManifestBytes + 8192"

text \<open>
  The first document of a body cut at the limit. An object or array ends with its last byte; after any other
  value the decoder reads on, and meets the limit instead of the end when the body is longer.
\<close>

definition first_document :: "string \<Rightarrow> (jvalue \<times> string) option" where
  "first_document body =
     (case json_first (take maxInputBytes body) of
        None \<Rightarrow> None
      | Some (v, rest) \<Rightarrow>
          if maxInputBytes < length body \<and> rest = [] \<and> (case v of VObj _ \<Rightarrow> False | VArr _ \<Rightarrow> False | _ \<Rightarrow> True)
          then None else Some (v, rest))"

text \<open>The input, or whether something follows the document.\<close>

definition decode_input :: "string \<Rightarrow> bool + feed_input" where
  "decode_input body =
     (case first_document body of
        None \<Rightarrow> Inl False
      | Some (v, rest) \<Rightarrow>
          (case dec_struct True input_fields v no_input of
             None \<Rightarrow> Inl False
           | Some i \<Rightarrow> if length body \<le> maxInputBytes \<and> list_all json_space rest then Inr i else Inl True))"

definition adminUpdateSave ::
  "server \<Rightarrow> dbenv \<Rightarrow> update_env \<Rightarrow> request \<Rightarrow> string \<Rightarrow> update_provider \<Rightarrow> db \<Rightarrow> response \<times> db \<times> update_provider" where
  "adminUpdateSave S E U r body P d =
     apfst noStore
      (case updateAdmin S E r P d of
         (Inl rs, d1) \<Rightarrow> (rs, d1, P)
       | (Inr u, d1) \<Rightarrow>
           (case decode_input body of
              Inl False \<Rightarrow> (writeError 400 ''invalid_update'' ''Invalid or oversized update configuration.'', d1, P)
            | Inl True \<Rightarrow> (writeError 400 ''invalid_update'' ''Only one JSON object is allowed.'', d1, P)
            | Inr input \<Rightarrow>
                (case provider_save U (rq_pathValue r ''name'') input (usr_id u) P of
                   (Inl (InvalidDesktopUpdate field), P') \<Rightarrow>
                     (writeError 400 ''invalid_update'' (invalid_text field), d1, P')
                 | (Inl e, P') \<Rightarrow> (updateError e, d1, P')
                 | (Inr item, P') \<Rightarrow> (writeValue 200 (feed_json item), d1, P'))))"

end
