(* ===== verification/Update_Handlers_Laws.thy ===== *)
theory Update_Handlers_Laws
  imports Update_Handlers Login_Properties Directory_Properties
begin

text \<open>
  Properties of the update handlers: who may save, and that what a save accepted is what the public address
  serves, whichever provider is behind it. The provider is one more implementation of the catalogue interface.
\<close>

subsection \<open>The provider as a catalogue\<close>

fun provider_public :: "update_env \<Rightarrow> string \<Rightarrow> update_provider \<Rightarrow> update_error + manifest" where
  "provider_public U n NoUpdates = Inl UpdateFailure"
| "provider_public U n (SqliteUpdates d) = getPublicUpdate (ue_sqlite U) n d"
| "provider_public U n (DirectoryUpdates d) = dir_GetPublicUpdate (ue_dir U) n d"

fun provider_wf :: "update_provider \<Rightarrow> bool" where
  "provider_wf NoUpdates = True"
| "provider_wf (SqliteUpdates d) = feed_wf d"
| "provider_wf (DirectoryUpdates d) = dir_wf d"

definition provider_works :: "update_env \<Rightarrow> bool" where
  "provider_works U \<longleftrightarrow> sqlite_works (ue_sqlite U) \<and> dir_works (ue_dir U)"

lemma provider_save_ok:
  "provider_save U n i a P = (Inr f, P') \<longleftrightarrow>
     (\<exists>d d'. P = SqliteUpdates d \<and> P' = SqliteUpdates d' \<and> saveUpdateFeed (ue_sqlite U) n i a d = (Inr f, d'))
     \<or> (\<exists>d d'. P = DirectoryUpdates d \<and> P' = DirectoryUpdates d' \<and> dir_SaveUpdateFeed (ue_dir U) n i a d = (Inr f, d'))"
  by (cases P) (auto simp: apsnd_def map_prod_def split: prod.splits)

interpretation providers: update_catalog provider_save provider_get provider_public provider_works provider_wf
proof unfold_locales
  fix P P' E n i a f
  assume "provider_wf P" "provider_works E" "request_wf i a" "provider_save E n i a P = (Inr f, P')"
  then show "provider_wf P'"
    using sqlite_feeds.save_inv directory_feeds.save_inv by (fastforce simp: provider_save_ok provider_works_def)
next
  fix P P' E E' n i a f
  assume *: "provider_wf P" "provider_works E" "provider_works E'" "request_wf i a" "provider_save E n i a P = (Inr f, P')"
  show "feed_revision (provider_get E' n P) = fi_revision i \<and> fi_revision i < uf_revision f"
    using * sqlite_feeds.save_base directory_feeds.save_base by (fastforce simp: provider_save_ok provider_works_def)
  show "reports n i a f \<and> provider_get E' n P' = Inr f"
    using * sqlite_feeds.save_get directory_feeds.save_get by (fastforce simp: provider_save_ok provider_works_def)
  show "provider_public E' n P' = (if fi_enabled i = Some True then Inr (fi_manifest i) else Inl DesktopUpdateNotFound)"
    using * sqlite_feeds.save_public directory_feeds.save_public by (fastforce simp: provider_save_ok provider_works_def)
next
  fix P P' E E' n n' i a f
  assume *: "provider_wf P" "provider_works E" "provider_save E n i a P = (Inr f, P')" "n' \<noteq> n"
  show "provider_get E' n' P' = provider_get E' n' P \<and> provider_public E' n' P' = provider_public E' n' P"
    using * sqlite_feeds.save_other directory_feeds.save_other by (fastforce simp: provider_save_ok provider_works_def)
qed

subsection \<open>The body\<close>

definition input_wf :: "feed_input \<Rightarrow> bool" where
  "input_wf i \<longleftrightarrow> valid_utf8 (fi_etag i) \<and> valid_utf8 (fi_description i) \<and> int64 (fi_revision i) \<and> manifest_wf (fi_manifest i)"

lemma keeps_true: "keeps (\<lambda>x. True) dec"
  by (simp add: keeps_def)

lemma keeps_input: "keeps input_wf (dec_struct True input_fields)"
proof (rule keeps_struct)
  show "\<forall>(k, d) \<in> set input_fields. keeps input_wf d"
    unfolding input_fields_def
    by (auto simp: input_wf_def intro: keeps_field [OF keeps_string] keeps_field [OF keeps_int] keeps_field [OF keeps_manifest]
        keeps_field [OF keeps_true])
qed

lemma decode_input_wf: "decode_input body = Inr i \<Longrightarrow> input_wf i"
proof -
  assume "decode_input body = Inr i"
  then obtain v rest where "json_first (take maxInputBytes body) = Some (v, rest)" "dec_struct True input_fields v no_input = Some i"
    by (auto simp: decode_input_def first_document_def split: option.splits prod.splits if_splits)
  moreover have "input_wf no_input"
    using no_values_utf8(2) valid_utf8_ascii [of "[]"] by (simp add: input_wf_def no_input_def int64_def)
  ultimately show ?thesis using keeps_input json_first_utf8 unfolding keeps_def by blast
qed

subsection \<open>Access\<close>

definition update_administrator :: "server \<Rightarrow> dbenv \<Rightarrow> request \<Rightarrow> db \<Rightarrow> user \<Rightarrow> bool" where
  "update_administrator S E r d u \<longleftrightarrow>
     fst (currentUser S E r d) = Inr u \<and> usr_role u \<in> {''admin'', ''administrator''}
     \<and> (rq_method r = ''PUT'' \<longrightarrow> requireCSRF S E r (snd (currentUser S E r d)) = None)"

lemma updateAdmin_iff:
  "fst (updateAdmin S E r P d) = Inr u \<longleftrightarrow> update_administrator S E r d u \<and> P \<noteq> NoUpdates"
  by (cases "currentUser S E r d")
    (auto simp: updateAdmin_def update_administrator_def split: sum.splits store_error.splits option.splits if_splits)

lemma updateAdmin_stops: "fst (updateAdmin S E r P d) = Inl rs \<Longrightarrow> rs_status rs \<in> {401, 403, 503}"
  by (cases "currentUser S E r d")
    (auto simp: updateAdmin_def updateError_def requireCSRF_def response_defs
      split: sum.splits store_error.splits option.splits if_splits)

lemma noStore_simps [simp]: "rs_status (noStore rs) = rs_status rs" "rs_body (noStore rs) = rs_body rs"
  by (simp_all add: noStore_def setHeader_def)

text \<open>Only administrators see or change feeds: a list, a detail, a history or a save answers with 200 only for a
  live session of a user with an administrator's role, who for a PUT passed the CSRF guard; and nothing else
  changes the feeds.\<close>

theorem updates_need_administrator:
  assumes "rs_status (fst (adminUpdateList S E U r P d)) = 200 \<or> rs_status (fst (adminUpdateDetail S E U r P d)) = 200
    \<or> rs_status (fst (adminUpdateHistory S E U r P d)) = 200 \<or> rs_status (fst (adminUpdateSave S E U r body P d)) = 200
    \<or> snd (snd (adminUpdateSave S E U r body P d)) \<noteq> P"
  shows "\<exists>u. update_administrator S E r d u"
proof (cases "updateAdmin S E r P d")
  case (Pair a d1)
  show ?thesis
  proof (cases a)
    case (Inl rs)
    then show ?thesis
      using assms Pair updateAdmin_stops [of S E r P d rs]
      by (auto simp: adminUpdateList_def adminUpdateDetail_def adminUpdateHistory_def adminUpdateSave_def)
  next
    case (Inr u)
    then show ?thesis using updateAdmin_iff [of S E r P d u] Pair by auto
  qed
qed

subsection \<open>Saving and serving\<close>

lemma adminUpdateSave_200:
  assumes "adminUpdateSave S E U r body P d = (rs, d', P')" and "rs_status rs = 200"
  obtains u i f where "update_administrator S E r d u" "decode_input body = Inr i"
    "provider_save U (rq_pathValue r ''name'') i (usr_id u) P = (Inr f, P')"
proof (cases "updateAdmin S E r P d")
  case (Pair a d1)
  show thesis
  proof (cases a)
    case (Inl rs)
    then show thesis using assms Pair updateAdmin_stops [of S E r P d rs] by (auto simp: adminUpdateSave_def)
  next
    case (Inr u)
    note pass = Pair [unfolded Inr]
    show thesis
    proof (cases "decode_input body")
      case (Inl b)
      then show thesis using pass assms by (cases b) (auto simp: adminUpdateSave_def response_defs)
    next
      case i: (Inr i)
      obtain res Q where res: "provider_save U (rq_pathValue r ''name'') i (usr_id u) P = (res, Q)" by force
      show thesis
      proof (cases res)
        case (Inl e)
        then show thesis using pass i res assms
          by (cases e) (auto simp: adminUpdateSave_def response_defs updateError_def)
      next
        case f: (Inr f)
        moreover have "update_administrator S E r d u" using updateAdmin_iff [of S E r P d u] pass by simp
        ultimately show thesis using that [of u i f] pass i res assms(1) by (simp add: adminUpdateSave_def)
      qed
    qed
  qed
qed

lemma marshal_parses: "manifest_wf m \<Longrightarrow> spaces tail \<Longrightarrow> json_parse (marshal m @ tail) = Some (manifest_json m)"
  unfolding marshal_def json_compact_def
  using parse_printed [of compact_nl "[]" "manifest_json m" tail 0] nesting_manifest [of m]
  by (simp add: layout_spaces printable_manifest maxNesting_def)

lemma file_parses: "manifest_wf m \<Longrightarrow> json_parse (manifest_file m) = Some (manifest_json m)"
  unfolding manifest_file_def using nesting_manifest [of m]
  by (intro parse_indent printable_manifest) (simp_all add: maxNesting_def json_space_def)

text \<open>What the public address answers for a published manifest, and for none.\<close>

definition serves :: "response \<Rightarrow> manifest \<Rightarrow> bool" where
  "serves rs m \<longleftrightarrow> rs_status rs = 200 \<and> (\<exists>text. rs_body rs = RawBody text \<and> json_parse text = Some (manifest_json m))"

lemma latest_sqlite:
  assumes "sqlite_works (ue_sqlite U)" and "validUpdateName (rq_pathValue r ''name'')"
    and "getPublicUpdate (ue_sqlite U) (rq_pathValue r ''name'') d = Inr m"
  shows "serves (desktopLatest U r (SqliteUpdates d)) m"
proof -
  have "manifest_wf m \<and> validateDesktopManifest m = Inr ()"
    using assms(3) by (auto simp: getPublicUpdate_def split: if_splits option.splits dest: decodeFeedManifest_ok)
  moreover have "spaces [CHR 0x0A]" by (simp add: json_space_def)
  ultimately show ?thesis
    using assms marshal_parses [of m "[CHR 0x0A]"]
    by (simp add: desktopLatest_def serves_def noStore_def setHeader_def writeValue_def jsonText_def marshal_def)
qed

lemma latest_directory:
  assumes "validUpdateName n" and "n = rq_pathValue r ''name''" and "dir_works (ue_dir U)" and "manifest_wf m"
    and "lookup Public n d = Some (Regular (manifest_file m) t)" and "length (manifest_file m) \<le> maxDesktopManifestBytes"
  shows "serves (desktopLatest U r (DirectoryUpdates d)) m"
  using assms file_parses [OF assms(4)]
  by (simp add: desktopLatest_def serves_def noStore_def setHeader_def dir_GetPublicJSON_def read_file_def dir_works_def json_valid_def)

lemma decode_found: "decodeFeedManifest s \<noteq> Inl DesktopUpdateNotFound"
  by (auto simp: decodeFeedManifest_def validateDesktopManifest_def split: option.splits sum.splits)

lemma latest_missing:
  assumes "provider_public U (rq_pathValue r ''name'') P = Inl DesktopUpdateNotFound"
  shows "rs_status (desktopLatest U r P) = 404"
proof (cases "validUpdateName (rq_pathValue r ''name'')")
  case True
  show ?thesis
  proof (cases P)
    case (DirectoryUpdates d)
    then have "dir_GetPublicJSON (ue_dir U) (rq_pathValue r ''name'') d = Inl DesktopUpdateNotFound"
      using assms decode_found by (auto simp: dir_GetPublicUpdate_def split: sum.splits)
    then show ?thesis using True DirectoryUpdates
      by (simp add: desktopLatest_def updateError_def writeError_def writeJSON_def)
  qed (use assms True in \<open>simp_all add: desktopLatest_def updateError_def writeError_def writeJSON_def\<close>)
qed (simp add: desktopLatest_def writeError_def writeJSON_def)

text \<open>C32: A manifest that the administration saved with status 200 is what the public address serves afterwards, as a
  JSON document of exactly that manifest when the feed is enabled and not at all when it is disabled, whichever
  provider keeps the feeds.\<close>

theorem saved_update_is_served:
  assumes "provider_wf P" and "provider_works U" and "provider_works U'"
    and "fst (currentUser S E r d) = Inr u" and "int64 (usr_id u)"
    and "adminUpdateSave S E U r body P d = (rs, d', P')" and "rs_status rs = 200"
    and "rq_pathValue r' ''name'' = rq_pathValue r ''name''"
  shows "\<exists>i. decode_input body = Inr i
    \<and> (if fi_enabled i = Some True then serves (desktopLatest U' r' P') (fi_manifest i)
       else rs_status (desktopLatest U' r' P') = 404)"
proof -
  obtain v i f where i: "update_administrator S E r d v" "decode_input body = Inr i"
    "provider_save U (rq_pathValue r ''name'') i (usr_id v) P = (Inr f, P')"
    using adminUpdateSave_200 [OF assms(6,7)] by blast
  have "v = u" using i(1) assms(4) by (simp add: update_administrator_def)
  then have req: "request_wf i (usr_id v)" "manifest_wf (fi_manifest i)"
    using decode_input_wf [OF i(2)] assms(5) by (simp_all add: input_wf_def request_wf_def)
  note public = providers.save_public [OF assms(1-3) req(1) i(3)]
  have works: "sqlite_works (ue_sqlite U')" "dir_works (ue_dir U')" "dir_works (ue_dir U)"
    using assms(2,3) by (simp_all add: provider_works_def)
  have name: "validUpdateName (rq_pathValue r ''name'')"
    using i(3) by (auto simp: provider_save_ok saveUpdateFeed_def dir_SaveUpdateFeed_def input_ok_def split: if_splits)
  show ?thesis
  proof (cases "fi_enabled i = Some True")
    case False
    then have "provider_public U' (rq_pathValue r' ''name'') P' = Inl DesktopUpdateNotFound" using public assms(8) by simp
    from latest_missing [OF this] False i(2) show ?thesis by auto
  next
    case True
    consider (sql) a b where "P = SqliteUpdates a" "P' = SqliteUpdates b"
      | (files) a b where "P = DirectoryUpdates a" "P' = DirectoryUpdates b"
          "dir_SaveUpdateFeed (ue_dir U) (rq_pathValue r ''name'') i (usr_id v) a = (Inr f, b)"
      using i(3) by (auto simp: provider_save_ok)
    then have "serves (desktopLatest U' r' P') (fi_manifest i)"
    proof cases
      case sql
      then show ?thesis using latest_sqlite [OF works(1)] public True name assms(8) by simp
    next
      case files
      have "dir_wf a" using assms(1) files by simp
      from dir_SaveUpdateFeed_ok [OF this works(3) files(3)] True
      have here: "lookup Public (rq_pathValue r ''name'') b = Some (Regular (manifest_file (fi_manifest i)) (dr_mtime (ue_dir U)))"
        by (auto simp: lookup_written new_entry_def)
      then have "length (manifest_file (fi_manifest i)) \<le> maxDesktopManifestBytes"
        using public True files(2) name works(2)
        by (auto simp: dir_GetPublicUpdate_def dir_GetPublicJSON_def read_file_def dir_works_def split: if_splits)
      from latest_directory [OF name assms(8) [symmetric] works(2) req(2) here this] files(2) show ?thesis by simp
    qed
    with True i(2) show ?thesis by auto
  qed
qed

subsection \<open>A sample\<close>

definition save_request :: request where
  "save_request = csrf_request\<lparr>rq_method := ''PUT'', rq_pathValue := (\<lambda>k. if k = ''name'' then sample_feed_name else [])\<rparr>"

definition save_body :: string where
  "save_body = json_compact (VObj [(''enabled'', VBool True), (''description'', VStr ''stable''),
     (''manifest'', manifest_json sample_manifest)])"

definition sample_update_env :: update_env where
  "sample_update_env = \<lparr>ue_sqlite = sample_sqlenv, ue_dir = sample_direnv\<rparr>"

lemma save_body_input: "decode_input save_body = Inr sample_input"
proof -
  let ?doc = "VObj [(''enabled'', VBool True), (''description'', VStr ''stable''), (''manifest'', manifest_json sample_manifest)]"
  have wf: "manifest_wf sample_manifest" using sample_request_wf by (simp add: request_wf_def sample_input_def)
  have "valid_utf8 k" if "k \<in> {''enabled'', ''description'', ''manifest'', ''stable''}" for k
    using that by (intro valid_utf8_ascii) (auto simp: is_ascii_def)
  then have "printable ?doc" using printable_manifest [OF wf] by simp
  moreover have "nesting ?doc \<le> maxNesting" using nesting_manifest [of sample_manifest] by (simp add: maxNesting_def)
  ultimately have "json_first save_body = Some (?doc, [])" unfolding save_body_def by (rule first_compact)
  moreover have "length save_body \<le> maxInputBytes" by code_simp
  ultimately have "first_document save_body = Some (?doc, [])" by (simp add: first_document_def)
  moreover have "dec_struct True input_fields ?doc no_input = Some sample_input"
    using dec_manifest_json [OF wf, of True]
    by (simp add: dec_struct_def input_fields_def find_field_def no_input_def sample_input_def dec_pointer_def)
  ultimately show ?thesis using \<open>length save_body \<le> maxInputBytes\<close> by (simp add: decode_input_def)
qed

lemma save_request_user:
  "update_administrator sample_server (sample_env 9) save_request session_db (sample_user\<lparr>usr_passwordHash := []\<rparr>)"
proof -
  have cookie: "rq_cookie save_request (sv_cookieName sample_server) = Some (ns_token sample_session)"
    by (simp add: save_request_def csrf_request_def sample_return_def)
  have token: "sessionToken sample_server save_request = Some (ns_token sample_session)" "ns_token sample_session \<noteq> []" by code_simp+
  have "map_option (scanUserWithPassword []) (user_by_id (w_db sample_world) 1) = Some (sample_user\<lparr>usr_passwordHash := []\<rparr>)" by code_simp
  moreover have "db_users session_db = db_users (w_db sample_world)" by (simp add: session_db_def CreateSession_def)
  ultimately obtain row where row: "user_by_id session_db 1 = Some row" "scanUserWithPassword [] row = sample_user\<lparr>usr_passwordHash := []\<rparr>"
    by (auto simp: user_by_id_def)
  have u: "usr_enabled sample_user" "usr_role sample_user = ''admin''" by (simp_all add: sample_user_def)
  note session = session_db_sessions sample_env_def serverNow_def time_units
  have user: "currentUser sample_server (sample_env 9) save_request session_db = (Inr (sample_user\<lparr>usr_passwordHash := []\<rparr>),
      session_db\<lparr>db_sessions := map (\<lambda>r. r\<lparr>s_lastSeenAt := 9\<rparr>) (db_sessions session_db)\<rparr>)"
    using cookie token(2) row u
    by (simp add: currentUser_def FindUserBySession_def live_session_def session update_rows_def)
  have "trimSpace (hdr save_request ''X-CSRF-Token'') = ns_csrf sample_session" by code_simp
  moreover have "originAllowed sample_server save_request" "ns_csrf sample_session \<noteq> []" by code_simp+
  ultimately have "requireCSRF sample_server (sample_env 9) save_request (snd (currentUser sample_server (sample_env 9) save_request session_db)) = None"
    unfolding user snd_conv using token(1) by (simp add: requireCSRF_def FindSessionCSRF_def live_session_def session)
  with user u show ?thesis by (simp add: update_administrator_def)
qed

lemma sample_update_saved:
  "\<exists>rs d' P'. adminUpdateSave sample_server (sample_env 9) sample_update_env save_request save_body (SqliteUpdates empty_feeds) session_db
     = (rs, d', P') \<and> rs_status rs = 200"
proof -
  obtain d1 where admin: "updateAdmin sample_server (sample_env 9) save_request (SqliteUpdates empty_feeds) session_db
      = (Inr (sample_user\<lparr>usr_passwordHash := []\<rparr>), d1)"
    using updateAdmin_iff [of sample_server "sample_env 9" save_request "SqliteUpdates empty_feeds" session_db "sample_user\<lparr>usr_passwordHash := []\<rparr>"]
      save_request_user by (cases "updateAdmin sample_server (sample_env 9) save_request (SqliteUpdates empty_feeds) session_db") auto
  have "input_ok sample_feed_name sample_input 1" by code_simp
  moreover have "current_revision sample_feed_name empty_feeds = fi_revision sample_input" "next_revision sample_feed_name empty_feeds = 1"
    by (simp_all add: current_revision_def next_revision_def find_feed_def revisions_of_def empty_feeds_def sample_input_fields)
  ultimately obtain f d2 where "saveUpdateFeed sample_sqlenv sample_feed_name sample_input 1 empty_feeds = (Inr f, d2)"
    using sample_manifest_valid sample_sqlite_works saveUpdateFeed_ok [of sample_sqlenv sample_feed_name sample_input 1 empty_feeds]
    by (auto simp: sample_input_fields sqlite_works_def)
  moreover have "rq_pathValue save_request ''name'' = sample_feed_name" by (simp add: save_request_def)
  ultimately show ?thesis
    using admin save_body_input
    by (simp add: adminUpdateSave_def sample_update_env_def sample_user_def writeValue_def noStore_def setHeader_def)
qed

lemma updates_need_administrator_witness:
  "\<exists>u. update_administrator sample_server (sample_env 9) save_request session_db u"
proof (rule updates_need_administrator)
  show "rs_status (fst (adminUpdateList sample_server (sample_env 9) sample_update_env save_request (SqliteUpdates empty_feeds) session_db)) = 200
    \<or> rs_status (fst (adminUpdateDetail sample_server (sample_env 9) sample_update_env save_request (SqliteUpdates empty_feeds) session_db)) = 200
    \<or> rs_status (fst (adminUpdateHistory sample_server (sample_env 9) sample_update_env save_request (SqliteUpdates empty_feeds) session_db)) = 200
    \<or> rs_status (fst (adminUpdateSave sample_server (sample_env 9) sample_update_env save_request save_body (SqliteUpdates empty_feeds) session_db)) = 200
    \<or> snd (snd (adminUpdateSave sample_server (sample_env 9) sample_update_env save_request save_body (SqliteUpdates empty_feeds) session_db)) \<noteq> SqliteUpdates empty_feeds"
    using sample_update_saved by auto
qed

lemma saved_update_is_served_witness:
  "\<exists>P'. serves (desktopLatest sample_update_env save_request P') sample_manifest"
proof -
  obtain rs d' P' where save: "adminUpdateSave sample_server (sample_env 9) sample_update_env save_request save_body
      (SqliteUpdates empty_feeds) session_db = (rs, d', P')" "rs_status rs = 200"
    using sample_update_saved by blast
  have works: "provider_works sample_update_env"
    by (simp add: provider_works_def sample_update_env_def sample_sqlite_works sample_dir_works)
  have "provider_wf (SqliteUpdates empty_feeds)" by (simp add: feed_wf_empty)
  moreover have "fst (currentUser sample_server (sample_env 9) save_request session_db) = Inr (sample_user\<lparr>usr_passwordHash := []\<rparr>)"
    using save_request_user by (simp add: update_administrator_def)
  moreover have "int64 (usr_id (sample_user\<lparr>usr_passwordHash := []\<rparr>))" by (simp add: sample_user_def int64_def)
  ultimately show ?thesis
    using saved_update_is_served [OF _ works works _ _ save refl] save_body_input by (auto simp: sample_input_fields)
qed

end
