(* ===== verification/Go_Path.thy ===== *)
theory Go_Path
  imports Go_Strings
begin

text \<open>
  The parts of Go's \<open>path\<close> and \<open>path/filepath\<close> that the release commands use, on a system whose separator
  is \<open>/\<close>: lexical cleaning, joining, and the first and last part of a path.
\<close>

text \<open>One element of a path on the stack of the elements before it, the last one first.\<close>

definition path_step :: "bool \<Rightarrow> string list \<Rightarrow> string \<Rightarrow> string list" where
  "path_step rooted st e =
     (if e = [] \<or> e = ''.'' then st
      else if e = ''..'' then
        (case st of
           [] \<Rightarrow> if rooted then [] else [''..'']
         | x # xs \<Rightarrow> if x = ''..'' then ''..'' # st else xs)
      else e # st)"

definition path_elements :: "string \<Rightarrow> string list" where
  "path_elements s = rev (foldl (path_step (prefix ''/'' s)) [] (split_on CHR ''/'' s))"

definition path_text :: "bool \<Rightarrow> string list \<Rightarrow> string" where
  "path_text rooted es =
     (if rooted then ''/'' @ join_with ''/'' es else if es = [] then ''.'' else join_with ''/'' es)"

definition path_clean :: "string \<Rightarrow> string" where
  "path_clean s = path_text (prefix ''/'' s) (path_elements s)"

definition path_join :: "string list \<Rightarrow> string" where
  "path_join es =
     (let given = filter (\<lambda>e. e \<noteq> []) es in if given = [] then [] else path_clean (join_with ''/'' given))"

definition path_base :: "string \<Rightarrow> string" where
  "path_base s =
     (if s = [] then ''.''
      else let t = last (split_on CHR ''/'' (trimRight_char CHR ''/'' s)) in if t = [] then ''/'' else t)"

definition path_dir :: "string \<Rightarrow> string" where
  "path_dir s = path_clean (if CHR ''/'' \<in> set s then join_with ''/'' (butlast (split_on CHR ''/'' s) @ [[]]) else [])"

text \<open>The directories on the way to a cleaned path, the outermost first, and the path itself.\<close>

definition path_prefixes :: "string \<Rightarrow> string list" where
  "path_prefixes s =
     (let es = path_elements s in map (\<lambda>n. path_text (prefix ''/'' s) (take n es)) [1 ..< Suc (length es)])"

subsection \<open>Segments\<close>

text \<open>A plain name: it is one element of a path, and neither \<open>.\<close> nor \<open>..\<close>.\<close>

definition plain_segment :: "string \<Rightarrow> bool" where
  "plain_segment s \<longleftrightarrow> s \<noteq> [] \<and> CHR ''/'' \<notin> set s \<and> s \<noteq> ''.'' \<and> s \<noteq> ''..''"

lemma split_single: "c \<notin> set s \<Longrightarrow> split_on c s = [s]"
  by (induction s) auto

lemma split_on_snoc: "c \<notin> set t \<Longrightarrow> split_on c (s @ c # t) = split_on c s @ [t]"
  by (induction s) (auto simp: split_single split: list.split)

lemma path_elements_segment:
  assumes "plain_segment e" and "a \<noteq> []"
  shows "path_elements (a @ ''/'' @ e) = path_elements a @ [e]"
proof -
  have "prefix ''/'' (a @ ''/'' @ e) = prefix ''/'' a" using assms(2) by (cases a) auto
  then show ?thesis
    using assms(1) split_on_snoc [of "CHR ''/''" e a]
    by (simp add: path_elements_def plain_segment_def path_step_def)
qed

lemma path_base_segment: "s \<noteq> [] \<Longrightarrow> CHR ''/'' \<notin> set s \<Longrightarrow> path_base s = s"
proof -
  assume s: "s \<noteq> []" "CHR ''/'' \<notin> set s"
  then have "dropWhile (\<lambda>x. x = CHR ''/'') (rev s) = rev s" by (cases s rule: rev_cases) auto
  then show ?thesis using s by (simp add: path_base_def trimRight_char_def split_single)
qed

subsection \<open>Cleaning\<close>

text \<open>The stack of a cleaned path: plain names above leading \<open>..\<close>, of which a rooted path has none.\<close>

definition clean_stack :: "bool \<Rightarrow> string list \<Rightarrow> bool" where
  "clean_stack rooted st \<longleftrightarrow> (\<exists>xs k. st = xs @ replicate k ''..'' \<and> list_all plain_segment xs \<and> (rooted \<longrightarrow> k = 0))"

lemma clean_stack_step:
  assumes "clean_stack rooted st" and "CHR ''/'' \<notin> set e"
  shows "clean_stack rooted (path_step rooted st e)"
proof -
  obtain xs k where st: "st = xs @ replicate k ''..''" "list_all plain_segment xs" "rooted \<longrightarrow> k = 0"
    using assms(1) by (auto simp: clean_stack_def)
  consider "e = [] \<or> e = ''.''" | "e = ''..''" | "plain_segment e" using assms(2) by (auto simp: plain_segment_def)
  then show ?thesis
  proof cases
    case 2
    show ?thesis
    proof (cases xs)
      case Nil
      with st 2 have "path_step rooted st e = (if rooted then [] else replicate (Suc k) ''..'')"
        by (cases k) (auto simp: path_step_def)
      then show ?thesis using Nil st unfolding clean_stack_def by (intro exI [of _ "[]"] exI [of _ "if rooted then 0 else Suc k"]) simp
    next
      case (Cons y ys)
      then have "path_step rooted st e = ys @ replicate k ''..''" using st 2 by (auto simp: path_step_def plain_segment_def)
      then show ?thesis using Cons st by (auto simp: clean_stack_def)
    qed
  next
    case 3
    then have "path_step rooted st e = (e # xs) @ replicate k ''..''" using st by (auto simp: path_step_def plain_segment_def)
    then show ?thesis using 3 st unfolding clean_stack_def by (intro exI [of _ "e # xs"] exI [of _ k]) simp
  qed (use assms(1) in \<open>auto simp: path_step_def\<close>)
qed

lemma clean_stack_fold:
  "clean_stack rooted st \<Longrightarrow> \<forall>e \<in> set es. CHR ''/'' \<notin> set e \<Longrightarrow> clean_stack rooted (foldl (path_step rooted) st es)"
  by (induction es arbitrary: st) (auto simp: clean_stack_step)

lemma path_elements_clean: "clean_stack (prefix ''/'' s) (rev (path_elements s))"
proof -
  have "clean_stack (prefix ''/'' s) []" by (simp add: clean_stack_def)
  then show ?thesis using clean_stack_fold split_on_no_sep by (simp add: path_elements_def)
qed

lemma clean_stack_tail: "clean_stack rooted (x # st) \<Longrightarrow> clean_stack rooted st"
proof -
  assume "clean_stack rooted (x # st)"
  then obtain xs k where "x # st = xs @ replicate k ''..''" "list_all plain_segment xs" "rooted \<longrightarrow> k = 0"
    by (auto simp: clean_stack_def)
  note st = this
  show ?thesis
  proof (cases xs)
    case Nil
    then show ?thesis using st unfolding clean_stack_def by (intro exI [of _ "[]"] exI [of _ "k - 1"]) (cases k; simp)
  next
    case (Cons y ys)
    then show ?thesis using st unfolding clean_stack_def by (intro exI [of _ ys] exI [of _ k]) simp
  qed
qed

lemma clean_stack_push:
  assumes "clean_stack rooted (x # st)"
  shows "path_step rooted st x = x # st"
proof -
  obtain xs k where st: "x # st = xs @ replicate k ''..''" "list_all plain_segment xs" "rooted \<longrightarrow> k = 0"
    using assms by (auto simp: clean_stack_def)
  show ?thesis
  proof (cases xs)
    case Nil
    then have "x = ''..''" "st = replicate (k - 1) ''..''" "k \<noteq> 0" using st by (cases k; simp)+
    then show ?thesis using st(3) by (cases "k - 1") (auto simp: path_step_def)
  next
    case (Cons y ys)
    then show ?thesis using st by (auto simp: path_step_def plain_segment_def)
  qed
qed

lemma foldl_clean: "clean_stack rooted (rev es) \<Longrightarrow> foldl (path_step rooted) [] es = rev es"
proof (induction es rule: rev_induct)
  case (snoc e es)
  then have "clean_stack rooted (rev es)" using clean_stack_tail by simp
  with snoc clean_stack_push [of rooted e "rev es"] show ?case by simp
qed simp

lemma split_join: "es \<noteq> [] \<Longrightarrow> \<forall>e \<in> set es. c \<notin> set e \<Longrightarrow> split_on c (join_with [c] es) = es"
proof (induction "[c]" es rule: join_with.induct)
  case (3 w v ws)
  have "split_on c (w @ c # t) = w # split_on c t" if "c \<notin> set w" for w t
    using that by (induction w) auto
  with 3 show ?case by simp
qed (auto simp: split_single)

lemma clean_stack_elements: "clean_stack rooted st \<Longrightarrow> e \<in> set st \<Longrightarrow> e \<noteq> [] \<and> CHR ''/'' \<notin> set e \<and> e \<noteq> ''.''"
proof -
  assume "clean_stack rooted st" and e: "e \<in> set st"
  then obtain xs k where "st = xs @ replicate k ''..''" "list_all plain_segment xs" by (auto simp: clean_stack_def)
  then have "plain_segment e \<or> e = ''..''" using e by (auto simp: list_all_iff)
  then show ?thesis by (auto simp: plain_segment_def)
qed

text \<open>Cleaning keeps the elements, so it is idempotent.\<close>

lemma path_elements_text:
  assumes "clean_stack rooted (rev es)"
  shows "path_elements (path_text rooted es) = es \<and> prefix ''/'' (path_text rooted es) = rooted"
proof (cases "es = []")
  case True
  then show ?thesis by (simp add: path_text_def path_elements_def path_step_def)
next
  case False
  have parts: "e \<noteq> [] \<and> CHR ''/'' \<notin> set e" if "e \<in> set es" for e using clean_stack_elements [OF assms] that by simp
  then have join: "split_on CHR ''/'' (join_with ''/'' es) = es" using split_join [OF False] by simp
  show ?thesis
  proof (cases rooted)
    case True
    then show ?thesis using False join foldl_clean [OF assms] by (simp add: path_text_def path_elements_def path_step_def)
  next
    case not_rooted: False
    obtain e es' where es: "es = e # es'" using False by (cases es) auto
    have "hd (join_with ''/'' es) = hd e" "join_with ''/'' es \<noteq> []"
      using parts [of e] es by (cases es'; simp)+
    moreover have "hd e \<in> set e" using parts [of e] es by simp
    ultimately have "\<not> prefix ''/'' (join_with ''/'' es)" using parts [of e] es by (cases "join_with ''/'' es") auto
    then show ?thesis using not_rooted False join foldl_clean [OF assms] by (simp add: path_text_def path_elements_def)
  qed
qed

lemma path_clean_elements [simp]: "path_elements (path_clean s) = path_elements s" "prefix ''/'' (path_clean s) = prefix ''/'' s"
  using path_elements_text [OF path_elements_clean [of s]] by (simp_all add: path_clean_def)

lemma path_clean_idem [simp]: "path_clean (path_clean s) = path_clean s"
  by (simp add: path_clean_def [of "path_clean s"]) (simp add: path_clean_def)

lemma path_clean_nonempty: "path_clean s \<noteq> []"
  using path_elements_clean [of s] clean_stack_elements [of "prefix ''/'' s" "rev (path_elements s)"]
  by (cases "path_elements s" rule: list.exhaust; cases "tl (path_elements s)")
    (auto simp: path_clean_def path_text_def)

lemma path_join_segment:
  assumes "plain_segment e" and "a \<noteq> []"
  shows "path_elements (path_join [a, e]) = path_elements a @ [e]" and "path_join [a, e] = path_clean (a @ ''/'' @ e)"
proof -
  show "path_join [a, e] = path_clean (a @ ''/'' @ e)" using assms by (simp add: path_join_def plain_segment_def)
  then show "path_elements (path_join [a, e]) = path_elements a @ [e]" using path_elements_segment [OF assms] by simp
qed

end
