(* ===== verification/Release_Catalog.thy ===== *)
theory Release_Catalog
  imports Release_Feeds Go_Path Go_Crypto Http
begin

text \<open>
  \<open>internal/release/catalog.go\<close> and \<open>upsert.go\<close>: the table of installers, the command that publishes an
  installer file, and the handler that lists them. The file system is a map from cleaned paths to files and
  directories without links; which system calls fail is the record \<open>fsenv\<close>.
\<close>

subsection \<open>Installers\<close>

datatype release_error = ErrInvalidInstallerKey | ErrInvalidInstaller string | ErrTargetExists string | ReleaseFailure

definition publicDownloadBase :: string where
  "publicDownloadBase = ''/install/releases/desktop''"

definition allowedInstallerKeys :: "string list" where
  "allowedInstallerKeys = [''mac'', ''windows'']"

record installer =
  in_key :: string
  in_available :: bool
  in_version :: string
  in_href :: string
  in_fileName :: string
  in_sizeBytes :: int
  in_sha256 :: string
  in_updatedAt :: int

definition isAllowedInstallerKey :: "string \<Rightarrow> bool" where
  "isAllowedInstallerKey key \<longleftrightarrow> trimSpace key \<in> set allowedInstallerKeys"

definition newInstallerHref :: "string \<Rightarrow> string \<Rightarrow> string" where
  "newInstallerHref version fileName = path_join [publicDownloadBase, trimSpace version, trimSpace fileName]"

subsection \<open>The table\<close>

record installer_row =
  ir_key :: string
  ir_available :: int
  ir_version :: string
  ir_href :: string
  ir_fileName :: string
  ir_sizeBytes :: int
  ir_sha256 :: string
  ir_createdAt :: string
  ir_updatedAt :: string

record release_db =
  rd_installers :: "installer_row list"
  rd_feeds :: feed_db

definition ensureSchema :: "sqlenv \<Rightarrow> release_db \<Rightarrow> (release_error + unit) \<times> release_db" where
  "ensureSchema E d =
     (if sq_fails E OpInstallerSchema then (Inl ReleaseFailure, d)
      else case ensureDesktopUpdateSchema E (rd_feeds d) of
        (Inl _, f) \<Rightarrow> (Inl ReleaseFailure, d\<lparr>rd_feeds := f\<rparr>)
      | (Inr _, f) \<Rightarrow> (Inr (), d\<lparr>rd_feeds := f\<rparr>))"

text \<open>A row as an installer. Times in the table are those the program writes, in UTC.\<close>

definition scanInstaller :: "installer_row \<Rightarrow> release_error + installer" where
  "scanInstaller r =
     (case parse_time (ir_updatedAt r) of
        None \<Rightarrow> Inl ReleaseFailure
      | Some t \<Rightarrow> Inr \<lparr>in_key = ir_key r, in_available = (ir_available r = 1), in_version = ir_version r, in_href = ir_href r,
          in_fileName = ir_fileName r, in_sizeBytes = ir_sizeBytes r, in_sha256 = ir_sha256 r, in_updatedAt = t\<rparr>)"

definition rows_of_key :: "string \<Rightarrow> release_db \<Rightarrow> installer_row list" where
  "rows_of_key key d = filter (\<lambda>r. ir_key r = key) (rd_installers d)"

definition listInstallers :: "sqlenv \<Rightarrow> release_db \<Rightarrow> release_error + installer list" where
  "listInstallers E d =
     (if sq_fails E OpListInstallers then Inl ReleaseFailure
      else collect scanInstaller
        (filter (\<lambda>r. isAllowedInstallerKey (ir_key r)) (rows_of_key ''windows'' d @ rows_of_key ''mac'' d)))"

definition trim_installer :: "installer \<Rightarrow> installer" where
  "trim_installer i =
     i\<lparr>in_key := trimSpace (in_key i), in_version := trimSpace (in_version i), in_href := trimSpace (in_href i),
       in_fileName := trimSpace (in_fileName i), in_sha256 := trimSpace (in_sha256 i)\<rparr>"

definition installer_error :: "installer \<Rightarrow> release_error option" where
  "installer_error i =
     (if \<not> isAllowedInstallerKey (in_key i) then Some ErrInvalidInstallerKey
      else if \<not> in_available i then None
      else if in_version i = [] \<or> in_href i = [] \<or> in_fileName i = []
      then Some (ErrInvalidInstaller ''version, href, and filename are required'')
      else if in_sizeBytes i < 0 then Some (ErrInvalidInstaller ''size must be non-negative'')
      else if \<not> prefix (publicDownloadBase @ ''/'') (in_href i)
      then Some (ErrInvalidInstaller (''href must live under '' @ publicDownloadBase))
      else None)"

definition installer_row_of :: "sqlenv \<Rightarrow> installer \<Rightarrow> installer_row" where
  "installer_row_of E i =
     \<lparr>ir_key = in_key i, ir_available = (if in_available i then 1 else 0), ir_version = in_version i, ir_href = in_href i,
      ir_fileName = in_fileName i, ir_sizeBytes = in_sizeBytes i, ir_sha256 = in_sha256 i,
      ir_createdAt = format_time (sq_now E),
      ir_updatedAt = format_time (if in_updatedAt i = zero_time then sq_now E else in_updatedAt i)\<rparr>"

text \<open>\<open>INSERT ... ON CONFLICT(KEY_) DO UPDATE\<close>: the creation time of a row stays.\<close>

definition put_installer :: "installer_row \<Rightarrow> installer_row list \<Rightarrow> installer_row list" where
  "put_installer r rs =
     (if ir_key r \<in> set (map ir_key rs)
      then map (\<lambda>q. if ir_key q = ir_key r then r\<lparr>ir_createdAt := ir_createdAt q\<rparr> else q) rs
      else rs @ [r])"

definition upsertInstaller :: "sqlenv \<Rightarrow> installer \<Rightarrow> release_db \<Rightarrow> (release_error + unit) \<times> release_db" where
  "upsertInstaller E i0 d =
     (let i = trim_installer i0 in
      case installer_error i of
        Some e \<Rightarrow> (Inl e, d)
      | None \<Rightarrow>
          if sq_fails E OpUpsertInstaller then (Inl ReleaseFailure, d)
          else (Inr (), d\<lparr>rd_installers := put_installer (installer_row_of E i) (rd_installers d)\<rparr>))"

subsection \<open>Files\<close>

text \<open>A file has its content and its permission bits.\<close>

datatype fnode = FileNode string int | DirNode

type_synonym file_system = "string \<Rightarrow> fnode option"

datatype fs_op = FsStat | FsRead | FsMkdir | FsCreate | FsRename | FsChmod

record fsenv =
  fe_fails :: "fs_op \<Rightarrow> string \<Rightarrow> bool"

datatype stat_result = StatOk fnode | StatMissing | StatError

definition is_file :: "fnode option \<Rightarrow> bool" where
  "is_file n = (case n of Some (FileNode _ _) \<Rightarrow> True | _ \<Rightarrow> False)"

definition fs_stat :: "fsenv \<Rightarrow> string \<Rightarrow> file_system \<Rightarrow> stat_result" where
  "fs_stat E p fs =
     (if fe_fails E FsStat p then StatError
      else case fs (path_clean p) of
        Some n \<Rightarrow> StatOk n
      | None \<Rightarrow> if list_ex (\<lambda>q. is_file (fs q)) (path_prefixes p) then StatError else StatMissing)"

definition fs_read :: "fsenv \<Rightarrow> string \<Rightarrow> file_system \<Rightarrow> string option" where
  "fs_read E p fs =
     (if fe_fails E FsRead p then None
      else case fs (path_clean p) of Some (FileNode data _) \<Rightarrow> Some data | _ \<Rightarrow> None)"

definition fileSHA256 :: "fsenv \<Rightarrow> string \<Rightarrow> file_system \<Rightarrow> string option" where
  "fileSHA256 E p fs = map_option (\<lambda>data. hex_encode (sha256 data)) (fs_read E p fs)"

fun make_dirs :: "fsenv \<Rightarrow> string list \<Rightarrow> file_system \<Rightarrow> bool \<times> file_system" where
  "make_dirs E [] fs = (True, fs)"
| "make_dirs E (p # ps) fs =
     (case fs p of
        Some DirNode \<Rightarrow> make_dirs E ps fs
      | Some (FileNode _ _) \<Rightarrow> (False, fs)
      | None \<Rightarrow> if fe_fails E FsMkdir p then (False, fs) else make_dirs E ps (fs(p \<mapsto> DirNode)))"

definition mkdirAll :: "fsenv \<Rightarrow> string \<Rightarrow> file_system \<Rightarrow> bool \<times> file_system" where
  "mkdirAll E p fs = make_dirs E (path_prefixes p) fs"

text \<open>
  The copy goes to a temporary file of the target's directory, which is renamed at the end and removed after
  an error, so that only the directories and the target itself change.
\<close>

definition copyFileAtomic :: "fsenv \<Rightarrow> string \<Rightarrow> string \<Rightarrow> file_system \<Rightarrow> bool \<times> file_system" where
  "copyFileAtomic E source target fs =
     (case mkdirAll E (path_dir target) fs of
        (False, fs1) \<Rightarrow> (False, fs1)
      | (True, fs1) \<Rightarrow>
          if fe_fails E FsCreate target then (False, fs1)
          else case fs_read E source fs1 of
            None \<Rightarrow> (False, fs1)
          | Some data \<Rightarrow>
              if fe_fails E FsRename target \<or> fs1 (path_clean target) = Some DirNode then (False, fs1)
              else (True, fs1(path_clean target \<mapsto> FileNode data 384)))"

definition fs_chmod :: "fsenv \<Rightarrow> string \<Rightarrow> int \<Rightarrow> file_system \<Rightarrow> bool \<times> file_system" where
  "fs_chmod E p mode fs =
     (if fe_fails E FsChmod p then (False, fs)
      else case fs (path_clean p) of
        None \<Rightarrow> (False, fs)
      | Some (FileNode data _) \<Rightarrow> (True, fs(path_clean p \<mapsto> FileNode data mode))
      | Some DirNode \<Rightarrow> (True, fs))"

subsection \<open>Publishing a file\<close>

record upsert_options =
  uo_dbPath :: string
  uo_releaseRoot :: string
  uo_key :: string
  uo_version :: string
  uo_source :: string
  uo_fileName :: string
  uo_replace :: bool

definition validatePathSegment :: "string \<Rightarrow> bool" where
  "validatePathSegment v \<longleftrightarrow> v \<noteq> [] \<and> v = path_base v \<and> \<not> list_ex (\<lambda>c. c = CHR ''/'' \<or> c = CHR 0x5C) v"

definition target_dir :: "upsert_options \<Rightarrow> string" where
  "target_dir o1 = path_join [trimSpace (uo_releaseRoot o1), ''desktop'', trimSpace (uo_version o1)]"

definition target_path :: "upsert_options \<Rightarrow> string" where
  "target_path o1 = path_join [target_dir o1, trimSpace (uo_fileName o1)]"

definition options_error :: "upsert_options \<Rightarrow> release_error option" where
  "options_error o1 =
     (if \<not> isAllowedInstallerKey (trimSpace (uo_key o1)) then Some ErrInvalidInstallerKey
      else if trimSpace (uo_version o1) = [] \<or> trimSpace (uo_source o1) = [] \<or> trimSpace (uo_fileName o1) = []
              \<or> trimSpace (uo_releaseRoot o1) = []
      then Some (ErrInvalidInstaller ''key, version, source, filename, and release root are required'')
      else if \<not> validatePathSegment (trimSpace (uo_version o1)) then Some (ErrInvalidInstaller ''invalid version'')
      else if \<not> validatePathSegment (trimSpace (uo_fileName o1)) then Some (ErrInvalidInstaller ''invalid filename'')
      else None)"

text \<open>The placement of the file: an existing file with other content is replaced on request only.\<close>

definition place_file :: "fsenv \<Rightarrow> upsert_options \<Rightarrow> string \<Rightarrow> file_system \<Rightarrow> (release_error + unit) \<times> file_system" where
  "place_file E o1 sourceSHA fs =
     (let source = trimSpace (uo_source o1); target = target_path o1 in
      case fs_stat E target fs of
        StatOk DirNode \<Rightarrow> (Inl (ErrInvalidInstaller ''target is a directory''), fs)
      | StatOk (FileNode _ _) \<Rightarrow>
          (case fileSHA256 E target fs of
             None \<Rightarrow> (Inl ReleaseFailure, fs)
           | Some targetSHA \<Rightarrow>
               if targetSHA \<noteq> sourceSHA \<and> \<not> uo_replace o1 then (Inl (ErrTargetExists target), fs)
               else if targetSHA \<noteq> sourceSHA
               then (case copyFileAtomic E source target fs of
                       (False, fs1) \<Rightarrow> (Inl ReleaseFailure, fs1)
                     | (True, fs1) \<Rightarrow> (Inr (), fs1))
               else (Inr (), fs))
      | StatMissing \<Rightarrow>
          (case mkdirAll E (target_dir o1) fs of
             (False, fs1) \<Rightarrow> (Inl ReleaseFailure, fs1)
           | (True, fs1) \<Rightarrow>
               (case copyFileAtomic E source target fs1 of
                  (False, fs2) \<Rightarrow> (Inl ReleaseFailure, fs2)
                | (True, fs2) \<Rightarrow> (Inr (), fs2)))
      | StatError \<Rightarrow> (Inl ReleaseFailure, fs))"

text \<open>\<open>OpenSQLite\<close>: the database itself is not a file of the model.\<close>

definition openSQLite :: "fsenv \<Rightarrow> sqlenv \<Rightarrow> string \<Rightarrow> file_system \<Rightarrow> (release_error + unit) \<times> file_system" where
  "openSQLite E Q dbPath fs =
     (if trimSpace dbPath = [] then (Inl (ErrInvalidInstaller ''database path is required''), fs)
      else case mkdirAll E (path_dir (trimSpace dbPath)) fs of
        (False, fs1) \<Rightarrow> (Inl ReleaseFailure, fs1)
      | (True, fs1) \<Rightarrow> (if sq_fails Q OpOpen then Inl ReleaseFailure else Inr (), fs1))"

definition upserted :: "sqlenv \<Rightarrow> upsert_options \<Rightarrow> string \<Rightarrow> nat \<Rightarrow> installer" where
  "upserted Q o1 targetSHA bytes =
     \<lparr>in_key = trimSpace (uo_key o1), in_available = True, in_version = trimSpace (uo_version o1),
      in_href = newInstallerHref (trimSpace (uo_version o1)) (trimSpace (uo_fileName o1)),
      in_fileName = trimSpace (uo_fileName o1), in_sizeBytes = int bytes, in_sha256 = targetSHA, in_updatedAt = sq_now Q\<rparr>"

text \<open>The entry in the catalogue, once the file is in place.\<close>

definition register_file ::
  "fsenv \<Rightarrow> sqlenv \<Rightarrow> upsert_options \<Rightarrow> file_system \<Rightarrow> release_db \<Rightarrow> (release_error + installer) \<times> file_system \<times> release_db" where
  "register_file E Q o1 fs d =
     (case (fs_stat E (target_path o1) fs, fileSHA256 E (target_path o1) fs) of
        (StatOk (FileNode data _), Some targetSHA) \<Rightarrow>
          (case openSQLite E Q (uo_dbPath o1) fs of
             (Inl e, fs1) \<Rightarrow> (Inl e, fs1, d)
           | (Inr _, fs1) \<Rightarrow>
               (case ensureSchema Q d of
                  (Inl e, d1) \<Rightarrow> (Inl e, fs1, d1)
                | (Inr _, d1) \<Rightarrow>
                    (let i = upserted Q o1 targetSHA (length data) in
                     case upsertInstaller Q i d1 of
                       (Inl e, d2) \<Rightarrow> (Inl e, fs1, d2)
                     | (Inr _, d2) \<Rightarrow> (Inr i, fs1, d2))))
      | _ \<Rightarrow> (Inl ReleaseFailure, fs, d))"

definition upsertFile ::
  "fsenv \<Rightarrow> sqlenv \<Rightarrow> upsert_options \<Rightarrow> file_system \<Rightarrow> release_db \<Rightarrow> (release_error + installer) \<times> file_system \<times> release_db" where
  "upsertFile E Q o1 fs d =
     (case options_error o1 of
        Some e \<Rightarrow> (Inl e, fs, d)
      | None \<Rightarrow>
          (case fs_stat E (trimSpace (uo_source o1)) fs of
             StatOk (FileNode _ _) \<Rightarrow>
               (case fileSHA256 E (trimSpace (uo_source o1)) fs of
                  None \<Rightarrow> (Inl ReleaseFailure, fs, d)
                | Some sourceSHA \<Rightarrow>
                    (case place_file E o1 sourceSHA fs of
                       (Inl e, fs1) \<Rightarrow> (Inl e, fs1, d)
                     | (Inr _, fs1) \<Rightarrow>
                         (case fs_chmod E (target_path o1) 420 fs1 of
                            (False, fs2) \<Rightarrow> (Inl ReleaseFailure, fs2, d)
                          | (True, fs2) \<Rightarrow> register_file E Q o1 fs2 d)))
           | StatOk DirNode \<Rightarrow> (Inl (ErrInvalidInstaller ''source must be a file''), fs, d)
           | _ \<Rightarrow> (Inl ReleaseFailure, fs, d)))"

subsection \<open>The handler\<close>

definition installer_json :: "installer \<Rightarrow> json" where
  "installer_json i =
     JObj [(''key'', JStr (in_key i)), (''available'', JBool (in_available i)), (''version'', JStr (in_version i)),
           (''href'', JStr (in_href i)), (''fileName'', JStr (in_fileName i)), (''sizeBytes'', JInt (in_sizeBytes i)),
           (''sha256'', JStr (in_sha256 i)), (''updatedAt'', JTime (in_updatedAt i))]"

text \<open>The server may have no catalogue.\<close>

definition installers :: "sqlenv \<Rightarrow> release_db option \<Rightarrow> response" where
  "installers E catalog =
     (case catalog of
        None \<Rightarrow> writeError 503 ''installers_unavailable'' ''Installer catalog is unavailable.''
      | Some d \<Rightarrow>
          (case listInstallers E d of
             Inl _ \<Rightarrow> writeError 503 ''installers_unavailable'' ''Installer catalog is unavailable.''
           | Inr is \<Rightarrow>
               writeJSON 200 (JObj [(''installers'',
                 JArr (map installer_json (filter (\<lambda>i. isAllowedInstallerKey (in_key i)) is)))])))"

end
