(* ===== verification/Release_Catalog_Laws.thy ===== *)
theory Release_Catalog_Laws
  imports Release_Catalog Release_Feeds_Laws
begin

text \<open>
  Properties of the installer catalogue: where a published file goes and what its entry says, that nothing
  else is overwritten, and the version \<open>..\<close>, which leaves the directory of the releases.
\<close>

subsection \<open>Names\<close>

text \<open>A version or file name is accepted as a path segment exactly when it is not empty and has no slash and no
  backslash; in particular \<open>.\<close> and \<open>..\<close> are accepted.\<close>

theorem validatePathSegment_iff:
  "validatePathSegment v \<longleftrightarrow> v \<noteq> [] \<and> CHR ''/'' \<notin> set v \<and> CHR 0x5C \<notin> set v"
  using path_base_segment [of v] by (auto simp: validatePathSegment_def list_ex_iff)

lemma href_elements:
  assumes "plain_segment v" and "plain_segment f" and "trimSpace v = v" and "trimSpace f = f"
  shows "newInstallerHref v f = publicDownloadBase @ ''/'' @ v @ ''/'' @ f"
proof -
  let ?s = "publicDownloadBase @ ''/'' @ v @ ''/'' @ f"
  have base: "publicDownloadBase \<noteq> []" by (simp add: publicDownloadBase_def)
  have "path_elements ((publicDownloadBase @ ''/'' @ v) @ ''/'' @ f) = path_elements (publicDownloadBase @ ''/'' @ v) @ [f]"
    by (rule path_elements_segment) (use assms base in simp_all)
  moreover have "path_elements (publicDownloadBase @ ''/'' @ v) = path_elements publicDownloadBase @ [v]"
    by (rule path_elements_segment) (use assms base in simp_all)
  moreover have "path_elements publicDownloadBase = [''install'', ''releases'', ''desktop'']" by code_simp
  ultimately have "path_elements ?s = [''install'', ''releases'', ''desktop'', v, f]" by simp
  moreover have "prefix ''/'' ?s" by (simp add: publicDownloadBase_def)
  moreover have "v \<noteq> []" "f \<noteq> []" using assms by (simp_all add: plain_segment_def)
  ultimately show ?thesis
    using assms base by (simp add: newInstallerHref_def path_join_def path_clean_def path_text_def publicDownloadBase_def)
qed

lemma target_elements:
  assumes "plain_segment (trimSpace (uo_version o1))" and "plain_segment (trimSpace (uo_fileName o1))" and "trimSpace (uo_releaseRoot o1) \<noteq> []"
  shows "path_elements (target_path o1) = path_elements (trimSpace (uo_releaseRoot o1)) @ [''desktop'', trimSpace (uo_version o1), trimSpace (uo_fileName o1)]"
    and "path_clean (target_path o1) = target_path o1"
proof -
  define root v f where "root = trimSpace (uo_releaseRoot o1)" and "v = trimSpace (uo_version o1)" and "f = trimSpace (uo_fileName o1)"
  note d = root_def [symmetric] v_def [symmetric] f_def [symmetric]
  have dir: "target_dir o1 = path_clean ((root @ ''/desktop'') @ ''/'' @ v)"
    using assms by (simp add: target_dir_def path_join_def d plain_segment_def)
  have "path_elements ((root @ ''/desktop'') @ ''/'' @ v) = path_elements (root @ ''/'' @ ''desktop'') @ [v]"
    using path_elements_segment [of v "root @ ''/desktop''"] assms by (simp add: d)
  moreover have "path_elements (root @ ''/'' @ ''desktop'') = path_elements root @ [''desktop'']"
    by (rule path_elements_segment) (use assms in \<open>simp_all add: d plain_segment_def\<close>)
  ultimately have "path_elements (target_dir o1) = path_elements root @ [''desktop'', v]" by (simp add: dir)
  moreover have "target_dir o1 \<noteq> []" using path_clean_nonempty by (simp add: dir)
  ultimately show "path_elements (target_path o1) = path_elements (trimSpace (uo_releaseRoot o1)) @ [''desktop'', trimSpace (uo_version o1), trimSpace (uo_fileName o1)]"
    "path_clean (target_path o1) = target_path o1"
    using path_join_segment [of f "target_dir o1"] assms(2) by (simp_all add: target_path_def d)
qed

subsection \<open>Files are kept\<close>

text \<open>Every file is still there with its content, but for those at the paths of \<open>A\<close>.\<close>

definition keeps_files :: "string set \<Rightarrow> file_system \<Rightarrow> file_system \<Rightarrow> bool" where
  "keeps_files A fs fs' \<longleftrightarrow> (\<forall>p data m. fs p = Some (FileNode data m) \<longrightarrow> p \<in> A \<or> (\<exists>m'. fs' p = Some (FileNode data m')))"

lemma keeps_files_refl [simp, intro]: "keeps_files A fs fs"
  by (simp add: keeps_files_def)

lemma keeps_files_trans [trans]: "keeps_files A fs fs1 \<Longrightarrow> keeps_files A fs1 fs2 \<Longrightarrow> keeps_files A fs fs2"
  unfolding keeps_files_def by meson

lemma keeps_files_mono: "keeps_files A fs fs' \<Longrightarrow> A \<subseteq> B \<Longrightarrow> keeps_files B fs fs'"
  unfolding keeps_files_def by blast

lemma make_dirs_keeps: "keeps_files A fs (snd (make_dirs E ps fs))"
proof (induction ps arbitrary: fs)
  case (Cons p ps)
  have "keeps_files A fs (fs(p \<mapsto> DirNode))" if "fs p = None" using that by (auto simp: keeps_files_def)
  with Cons show ?case by (auto split: option.split fnode.split intro: keeps_files_trans)
qed simp

lemma mkdirAll_keeps: "keeps_files A fs (snd (mkdirAll E p fs))"
  by (simp add: mkdirAll_def make_dirs_keeps)

lemma copyFileAtomic_keeps: "path_clean target \<in> A \<Longrightarrow> keeps_files A fs (snd (copyFileAtomic E source target fs))"
proof -
  assume "path_clean target \<in> A"
  then have "keeps_files A fs1 (fs1(path_clean target \<mapsto> x))" for fs1 x by (auto simp: keeps_files_def)
  then show ?thesis
    using mkdirAll_keeps [of A fs E "path_dir target"]
    by (auto simp: copyFileAtomic_def split: prod.split bool.split option.split intro: keeps_files_trans)
qed

lemma copyFileAtomic_new:
  assumes "\<not> is_file (fs (path_clean target))"
  shows "keeps_files A fs (snd (copyFileAtomic E source target fs))"
proof -
  have "keeps_files (insert (path_clean target) A) fs (snd (copyFileAtomic E source target fs))"
    by (rule copyFileAtomic_keeps) simp
  then show ?thesis using assms by (fastforce simp: keeps_files_def is_file_def)
qed

lemma make_dirs_same: "fs p = Some n \<Longrightarrow> snd (make_dirs E ps fs) p = Some n"
proof (induction ps arbitrary: fs)
  case (Cons a ps)
  then have "fs a = None \<Longrightarrow> (fs(a \<mapsto> DirNode)) p = Some n" by auto
  with Cons show ?case by (auto split: option.split fnode.split simp del: fun_upd_apply)
qed simp

lemma make_dirs_no_file: "\<not> is_file (fs p) \<Longrightarrow> \<not> is_file (snd (make_dirs E ps fs) p)"
proof (induction ps arbitrary: fs)
  case (Cons a ps)
  then have "\<not> is_file ((fs(a \<mapsto> DirNode)) p)" by (simp add: is_file_def)
  with Cons show ?case by (auto split: option.split fnode.split simp del: fun_upd_apply)
qed simp

lemma fs_chmod_keeps: "keeps_files A fs (snd (fs_chmod E p mode fs))"
  by (auto simp: fs_chmod_def keeps_files_def split: option.split fnode.split)

definition replaced_paths :: "upsert_options \<Rightarrow> string set" where
  "replaced_paths o1 = (if uo_replace o1 then {path_clean (target_path o1)} else {})"

lemma place_file_keeps: "keeps_files (replaced_paths o1) fs (snd (place_file E o1 sha fs))"
proof (cases "fs_stat E (target_path o1) fs")
  case (StatOk n)
  have "uo_replace o1 \<Longrightarrow> keeps_files (replaced_paths o1) fs (snd (copyFileAtomic E (trimSpace (uo_source o1)) (target_path o1) fs))"
    by (rule copyFileAtomic_keeps) (simp add: replaced_paths_def)
  then show ?thesis using StatOk
    by (cases n) (auto simp: place_file_def Let_def split: option.split prod.split bool.split)
next
  case StatMissing
  then have "fs (path_clean (target_path o1)) = None" by (auto simp: fs_stat_def split: if_splits option.splits)
  obtain b fs1 where dirs: "mkdirAll E (target_dir o1) fs = (b, fs1)" by force
  then have "\<not> is_file (fs1 (path_clean (target_path o1)))"
    using \<open>fs (path_clean (target_path o1)) = None\<close> make_dirs_no_file [of fs "path_clean (target_path o1)" E "path_prefixes (target_dir o1)"]
    by (simp add: mkdirAll_def is_file_def)
  from copyFileAtomic_new [of fs1 "target_path o1", OF this]
  have copied: "keeps_files (replaced_paths o1) fs (snd (copyFileAtomic E source (target_path o1) fs1))" for source
    using mkdirAll_keeps [of "replaced_paths o1" fs E "target_dir o1"] dirs by (auto intro: keeps_files_trans)
  have "keeps_files (replaced_paths o1) fs fs1" using mkdirAll_keeps [of "replaced_paths o1" fs E "target_dir o1"] dirs by simp
  then show ?thesis using StatMissing dirs copied [of "trimSpace (uo_source o1)"]
    by (auto simp: place_file_def Let_def split: prod.split bool.split)
next
  case StatError
  then show ?thesis by (simp add: place_file_def Let_def)
qed

lemma openSQLite_keeps: "keeps_files A fs (snd (openSQLite E Q p fs))"
  using mkdirAll_keeps [of A fs E "path_dir (trimSpace p)"] by (auto simp: openSQLite_def split: prod.split bool.split)

lemma register_file_keeps: "keeps_files A fs (fst (snd (register_file E Q o1 fs d)))"
  using openSQLite_keeps [of A fs E Q "uo_dbPath o1"]
  by (auto simp: register_file_def Let_def split: stat_result.split fnode.split option.split prod.split sum.split)

text \<open>Publishing a file never changes the content of another file and removes none, whatever fails; without the
  request to replace, it does not change the content of the target either.\<close>

theorem upsert_keeps_files:
  "keeps_files (if uo_replace o1 then {path_clean (target_path o1)} else {}) fs (fst (snd (upsertFile E Q o1 fs d)))"
proof -
  have "keeps_files (replaced_paths o1) fs (fst (snd (upsertFile E Q o1 fs d)))"
  proof (cases "options_error o1 = None \<and> (\<exists>data m. fs_stat E (trimSpace (uo_source o1)) fs = StatOk (FileNode data m))
      \<and> fileSHA256 E (trimSpace (uo_source o1)) fs \<noteq> None")
    case True
    then obtain data m sha where pre: "options_error o1 = None" "fs_stat E (trimSpace (uo_source o1)) fs = StatOk (FileNode data m)"
      "fileSHA256 E (trimSpace (uo_source o1)) fs = Some sha" by auto
    obtain r fs1 where place: "place_file E o1 sha fs = (r, fs1)" by force
    then have k1: "keeps_files (replaced_paths o1) fs fs1" using place_file_keeps [of o1 fs E sha] by simp
    obtain b fs2 where chmod: "fs_chmod E (target_path o1) 420 fs1 = (b, fs2)" by force
    then have k2: "keeps_files (replaced_paths o1) fs fs2"
      using k1 fs_chmod_keeps [of "replaced_paths o1" fs1 E "target_path o1" 420] by (auto intro: keeps_files_trans)
    then have "keeps_files (replaced_paths o1) fs (fst (snd (register_file E Q o1 fs2 d)))"
      using register_file_keeps by (rule keeps_files_trans)
    then show ?thesis using pre place k1 k2 chmod by (auto simp: upsertFile_def split: sum.split bool.split)
  qed (auto simp: upsertFile_def split: option.splits stat_result.split fnode.split)
  then show ?thesis by (simp add: replaced_paths_def)
qed

subsection \<open>The published file\<close>

lemma place_file_ok:
  assumes "place_file E o1 (hex_encode (sha256 src)) fs = (Inr u, fs1)" and "fs (path_clean (trimSpace (uo_source o1))) = Some (FileNode src m)"
  shows "\<exists>data m'. fs1 (path_clean (target_path o1)) = Some (FileNode data m') \<and> hex_encode (sha256 data) = hex_encode (sha256 src)"
proof -
  have copy: "fs2 (path_clean (target_path o1)) = Some (FileNode src 384)"
    if "copyFileAtomic E (trimSpace (uo_source o1)) (target_path o1) fs0 = (True, fs2)"
      and "fs0 (path_clean (trimSpace (uo_source o1))) = Some (FileNode src m)" for fs0 fs2
    using that make_dirs_same [of fs0 "path_clean (trimSpace (uo_source o1))" "FileNode src m" E "path_prefixes (path_dir (target_path o1))"]
    by (auto simp: copyFileAtomic_def mkdirAll_def fs_read_def split: prod.splits bool.splits option.splits if_splits)
  show ?thesis
  proof (cases "fs_stat E (target_path o1) fs")
    case (StatOk n)
    then have "fs (path_clean (target_path o1)) = Some n" by (auto simp: fs_stat_def split: if_splits option.splits)
    with StatOk assms copy [of fs] show ?thesis
      by (cases n) (auto simp: place_file_def Let_def fileSHA256_def fs_read_def split: option.splits prod.splits bool.splits if_splits)
  next
    case StatMissing
    with assms(1) obtain fs0 where "mkdirAll E (target_dir o1) fs = (True, fs0)"
      "copyFileAtomic E (trimSpace (uo_source o1)) (target_path o1) fs0 = (True, fs1)"
      by (auto simp: place_file_def Let_def split: prod.splits bool.splits)
    moreover from this(1) have "fs0 (path_clean (trimSpace (uo_source o1))) = Some (FileNode src m)"
      using make_dirs_same [of fs "path_clean (trimSpace (uo_source o1))", OF assms(2), of E "path_prefixes (target_dir o1)"] by (simp add: mkdirAll_def)
    ultimately show ?thesis using copy by blast
  next
    case StatError
    with assms(1) show ?thesis by (simp add: place_file_def Let_def)
  qed
qed

text \<open>The rows of the table: one per key, with times that can be read.\<close>

definition catalog_wf :: "release_db \<Rightarrow> bool" where
  "catalog_wf d \<longleftrightarrow> distinct (map ir_key (rd_installers d)) \<and> (\<forall>r \<in> set (rd_installers d). parse_time (ir_updatedAt r) \<noteq> None)"

lemma same_created: "\<exists>c. q = q\<lparr>ir_createdAt := c\<rparr>"
  by (rule exI [of _ "ir_createdAt q"]) simp

lemma put_installer_rows:
  "r \<in> set (put_installer q rs) \<Longrightarrow> r \<in> set rs \<or> (\<exists>c. r = q\<lparr>ir_createdAt := c\<rparr>)"
  using same_created [of q] by (cases "ir_key q \<in> set (map ir_key rs)") (auto simp: put_installer_def split: if_splits)

lemma put_installer_in: "\<exists>c. q\<lparr>ir_createdAt := c\<rparr> \<in> set (put_installer q rs)"
proof (cases "ir_key q \<in> set (map ir_key rs)")
  case True
  then obtain r where "r \<in> set rs" "ir_key r = ir_key q" by auto
  then have "q\<lparr>ir_createdAt := ir_createdAt r\<rparr> \<in> set (put_installer q rs)"
    using True by (auto simp: put_installer_def intro!: image_eqI [of _ _ r])
  then show ?thesis by blast
next
  case False
  have "q = q\<lparr>ir_createdAt := ir_createdAt q\<rparr>" by simp
  then show ?thesis using False by (auto simp: put_installer_def intro: exI [of _ "ir_createdAt q"])
qed

lemma collect_total: "\<forall>x \<in> set xs. \<not> isl (f x) \<Longrightarrow> \<exists>ys. collect f xs = Inr ys \<and> set ys = projr ` f ` set xs"
proof (induction xs)
  case (Cons x xs)
  then obtain ys y where "collect f xs = Inr ys" "set ys = projr ` f ` set xs" "f x = Inr y" by (cases "f x") auto
  then show ?case by simp
qed simp

lemma listed_after_upsert:
  assumes "catalog_wf d" and "upsertInstaller Q i d = (Inr u, d')" and "trim_installer i = i" and "formattable (sq_now Q)"
    and "in_updatedAt i = sq_now Q" and "\<not> sq_fails Q' OpListInstallers" and "in_available i"
  shows "\<exists>is. listInstallers Q' d' = Inr is \<and> i \<in> set is"
proof -
  let ?row = "installer_row_of Q i"
  have d': "d' = d\<lparr>rd_installers := put_installer ?row (rd_installers d)\<rparr>" and key: "isAllowedInstallerKey (in_key i)"
    using assms(2,3) by (auto simp: upsertInstaller_def installer_error_def Let_def split: option.splits if_splits)
  have scan: "scanInstaller (?row\<lparr>ir_createdAt := c\<rparr>) = Inr i" for c
    using parse_format_time [OF assms(4)] assms(5,7) by (auto simp: scanInstaller_def installer_row_of_def)
  have "\<not> isl (scanInstaller r)" if "r \<in> set (rd_installers d')" for r
  proof -
    note member = that
    consider "r \<in> set (rd_installers d)" | c where "r = ?row\<lparr>ir_createdAt := c\<rparr>"
      using put_installer_rows [of r ?row "rd_installers d"] member by (auto simp: d')
    then show ?thesis
    proof cases
      case 1
      then obtain t where "parse_time (ir_updatedAt r) = Some t" using assms(1) by (auto simp: catalog_wf_def)
      then show ?thesis by (simp add: scanInstaller_def)
    next
      case 2
      show ?thesis unfolding 2 scan by simp
    qed
  qed
  then have rows: "\<forall>r \<in> set (filter (\<lambda>r. isAllowedInstallerKey (ir_key r)) (rows_of_key ''windows'' d' @ rows_of_key ''mac'' d')). \<not> isl (scanInstaller r)"
    by (auto simp: rows_of_key_def)
  from collect_total [OF this] obtain ins where ins: "listInstallers Q' d' = Inr ins"
    "set ins = projr ` scanInstaller ` set (filter (\<lambda>r. isAllowedInstallerKey (ir_key r)) (rows_of_key ''windows'' d' @ rows_of_key ''mac'' d'))"
    using assms(6) unfolding listInstallers_def by auto
  obtain c where c: "?row\<lparr>ir_createdAt := c\<rparr> \<in> set (rd_installers d')" using put_installer_in by (auto simp: d')
  have "trimSpace (in_key i) = in_key i" using arg_cong [OF assms(3), of in_key] by (simp add: trim_installer_def)
  then have "in_key i \<in> {''mac'', ''windows''}" using key by (auto simp: isAllowedInstallerKey_def allowedInstallerKeys_def)
  then have "?row\<lparr>ir_createdAt := c\<rparr> \<in> set (filter (\<lambda>r. isAllowedInstallerKey (ir_key r)) (rows_of_key ''windows'' d' @ rows_of_key ''mac'' d'))"
    using c key by (auto simp: rows_of_key_def installer_row_of_def)
  then have "projr (scanInstaller (?row\<lparr>ir_createdAt := c\<rparr>)) \<in> set ins" unfolding ins(2) by blast
  then show ?thesis using ins(1) scan by auto
qed

lemma hex_trimmed: "trimSpace (hex_encode (sha256 s)) = hex_encode (sha256 s)"
  using hex_encode_plain [of "sha256 s"] sha256_bound [of _ s] by (simp add: trimSpace_plain_all)

lemma trimSpace_path:
  assumes "prefix ''/'' b" and "f \<noteq> []" and "trimSpace f = f"
  shows "trimSpace (b @ ''/'' @ f) = b @ ''/'' @ f"
proof (rule trimSpace_idI)
  fix p
  assume p: "p \<in> set space_runes" "p \<noteq> []"
  have plain: "\<not> plain_char (hd p)" using p space_rune_ends by (auto simp: list_all_iff)
  have "plain_char (CHR ''/'')" by (simp add: plain_char_def)
  then have "\<not> prefix p (b @ ''/'' @ f)" using plain p(2) assms(1) by (cases p; cases b) auto
  moreover have "\<not> suffix p ((b @ ''/'') @ f)"
  proof
    assume "suffix p ((b @ ''/'') @ f)"
    then have "suffix p f \<or> (\<exists>q. p = q @ f \<and> suffix q (b @ ''/''))" unfolding suffix_append [of p "b @ ''/''" f] .
    moreover have not_f: "\<not> suffix p f" using trimSpace_no_trailing [OF p, of f] assms(3) by simp
    ultimately obtain q where q: "p = q @ f" "suffix q (b @ ''/'')" by blast
    have "q \<noteq> []" using q(1) not_f by auto
    then have "last q = CHR ''/''" using q(2) by (auto simp: suffix_def simp del: append_assoc dest!: arg_cong [of _ _ last])
    then have "CHR ''/'' \<in> set p" using q(1) \<open>q \<noteq> []\<close> last_in_set [of q] by simp
    moreover have "list_all (\<lambda>p. CHR ''/'' \<notin> set p) space_runes" by code_simp
    ultimately show False using p(1) by (auto simp: list_all_iff)
  qed
  ultimately show "\<not> prefix p (b @ ''/'' @ f) \<and> \<not> suffix p (b @ ''/'' @ f)" by simp
qed

lemma upserted_trimmed:
  assumes "newInstallerHref (trimSpace (uo_version o1)) (trimSpace (uo_fileName o1)) = b @ ''/'' @ trimSpace (uo_fileName o1)"
    and "prefix ''/'' b" and "trimSpace (uo_fileName o1) \<noteq> []"
  shows "trim_installer (upserted Q o1 (hex_encode (sha256 s)) n) = upserted Q o1 (hex_encode (sha256 s)) n"
  using trimSpace_path [OF assms(2,3)] assms(1) by (simp add: trim_installer_def upserted_def hex_trimmed)

lemma fs_stat_ok: "fs_stat E p fs = StatOk n \<Longrightarrow> fs (path_clean p) = Some n"
  by (auto simp: fs_stat_def split: if_splits option.splits)

lemma register_file_ok:
  assumes "register_file E Q o1 fs d = (Inr i, fs', d')"
  obtains data m d1 fs1 where "fs (path_clean (target_path o1)) = Some (FileNode data m)" "fs' (path_clean (target_path o1)) = Some (FileNode data m)"
    "i = upserted Q o1 (hex_encode (sha256 data)) (length data)" "ensureSchema Q d = (Inr (), d1)" "upsertInstaller Q i d1 = (Inr (), d')"
proof -
  obtain data m sha where stat: "fs_stat E (target_path o1) fs = StatOk (FileNode data m)" "fileSHA256 E (target_path o1) fs = Some sha"
    using assms by (auto simp: register_file_def split: stat_result.splits fnode.splits option.splits)
  then have at: "fs (path_clean (target_path o1)) = Some (FileNode data m)" by (simp add: fs_stat_ok)
  then have sha: "sha = hex_encode (sha256 data)" using stat(2) by (auto simp: fileSHA256_def fs_read_def split: if_splits)
  obtain fs1 d1 where rest: "openSQLite E Q (uo_dbPath o1) fs = (Inr (), fs1)" "ensureSchema Q d = (Inr (), d1)"
    "upsertInstaller Q i d1 = (Inr (), d')" "i = upserted Q o1 sha (length data)" "fs' = fs1"
    using assms stat by (auto simp: register_file_def Let_def split: prod.splits sum.splits)
  have "fs1 (path_clean (target_path o1)) = Some (FileNode data m)"
    using rest(1) make_dirs_same [of fs "path_clean (target_path o1)", OF at, of E "path_prefixes (path_dir (trimSpace (uo_dbPath o1)))"]
    by (auto simp: openSQLite_def mkdirAll_def split: if_splits prod.splits bool.splits)
  then show thesis using that at rest sha by blast
qed

lemma ensureSchema_installers: "ensureSchema Q d = (r, d') \<Longrightarrow> rd_installers d' = rd_installers d"
  by (auto simp: ensureSchema_def split: if_splits prod.splits sum.splits)

text \<open>C33: When publishing succeeds for a plain version and file name, the file stands at
  \<open>root/desktop/version/file\<close>, readable, with the SHA-256 of the source; the entry has the hash and size of exactly
  that file and the address under the public base; and the catalogue lists it.\<close>

theorem upsert_publishes:
  assumes "upsertFile E Q o1 fs d = (Inr i, fs', d')" and "plain_segment (trimSpace (uo_version o1))" and "plain_segment (trimSpace (uo_fileName o1))"
    and "catalog_wf d" and "formattable (sq_now Q)" and "\<not> sq_fails Q' OpListInstallers"
  shows "path_elements (target_path o1) = path_elements (trimSpace (uo_releaseRoot o1)) @ [''desktop'', trimSpace (uo_version o1), trimSpace (uo_fileName o1)]
    \<and> in_href i = publicDownloadBase @ ''/'' @ trimSpace (uo_version o1) @ ''/'' @ trimSpace (uo_fileName o1)
    \<and> (\<exists>src m data. fs (path_clean (trimSpace (uo_source o1))) = Some (FileNode src m) \<and> fs' (target_path o1) = Some (FileNode data 420)
         \<and> hex_encode (sha256 data) = hex_encode (sha256 src) \<and> in_sha256 i = hex_encode (sha256 data) \<and> in_sizeBytes i = int (length data))
    \<and> (\<exists>is. listInstallers Q' d' = Inr is \<and> i \<in> set is)"
proof -
  have opts: "options_error o1 = None" using assms(1) by (auto simp: upsertFile_def split: option.splits)
  then have root: "trimSpace (uo_releaseRoot o1) \<noteq> []" by (auto simp: options_error_def split: if_splits)
  note target = target_elements [OF assms(2,3) root]
  obtain src m sha fs1 fs2 where steps: "fs_stat E (trimSpace (uo_source o1)) fs = StatOk (FileNode src m)" "fileSHA256 E (trimSpace (uo_source o1)) fs = Some sha"
    "place_file E o1 sha fs = (Inr (), fs1)" "fs_chmod E (target_path o1) 420 fs1 = (True, fs2)" "register_file E Q o1 fs2 d = (Inr i, fs', d')"
    using assms(1) opts by (auto simp: upsertFile_def split: stat_result.splits fnode.splits option.splits prod.splits sum.splits bool.splits)
  have source: "fs (path_clean (trimSpace (uo_source o1))) = Some (FileNode src m)" using fs_stat_ok [OF steps(1)] .
  then have "sha = hex_encode (sha256 src)" using steps(2) by (auto simp: fileSHA256_def fs_read_def split: if_splits)
  with steps(3) place_file_ok [of E o1 src fs "()" fs1 m, OF _ source] obtain data m' where placed: "fs1 (path_clean (target_path o1)) = Some (FileNode data m')"
    "hex_encode (sha256 data) = hex_encode (sha256 src)" by blast
  then have mode: "fs2 (path_clean (target_path o1)) = Some (FileNode data 420)"
    using steps(4) by (auto simp: fs_chmod_def split: if_splits)
  from register_file_ok [OF steps(5)] obtain data' m'' d1 where reg: "fs2 (path_clean (target_path o1)) = Some (FileNode data' m'')"
    "fs' (path_clean (target_path o1)) = Some (FileNode data' m'')" "i = upserted Q o1 (hex_encode (sha256 data')) (length data')"
    "ensureSchema Q d = (Inr (), d1)" "upsertInstaller Q i d1 = (Inr (), d')" by metis
  then have same: "data' = data" "m'' = 420" using mode by simp_all
  have "catalog_wf d1" using assms(4) ensureSchema_installers [OF reg(4)] by (simp add: catalog_wf_def)
  from listed_after_upsert [OF this reg(5) _ assms(5) _ assms(6)]
  have "\<exists>is. listInstallers Q' d' = Inr is \<and> i \<in> set is"
    using upserted_trimmed [of o1 "publicDownloadBase @ ''/'' @ trimSpace (uo_version o1)"] href_elements [OF assms(2,3)] assms(3) reg(3)
    by (simp add: upserted_def plain_segment_def publicDownloadBase_def)
  moreover have "in_href i = publicDownloadBase @ ''/'' @ trimSpace (uo_version o1) @ ''/'' @ trimSpace (uo_fileName o1)"
    using href_elements [OF assms(2,3)] reg(3) by (simp add: upserted_def)
  moreover have "fs' (target_path o1) = Some (FileNode data 420)" "in_sha256 i = hex_encode (sha256 data)" "in_sizeBytes i = int (length data)"
    using reg same target(2) by (simp_all add: upserted_def)
  ultimately show ?thesis using target(1) source placed(2) by blast
qed

subsection \<open>The version \<open>..\<close>\<close>

lemma make_dirs_existing: "\<forall>q \<in> set ps. fs q = Some DirNode \<Longrightarrow> make_dirs E ps fs = (True, fs)"
  by (induction ps) auto

lemma parent_target:
  assumes "trimSpace (uo_version o1) = ''..''" and "plain_segment (trimSpace (uo_fileName o1))" and "trimSpace (uo_releaseRoot o1) \<noteq> []"
  shows "path_elements (target_path o1) = path_elements (trimSpace (uo_releaseRoot o1)) @ [trimSpace (uo_fileName o1)]"
    and "path_clean (target_path o1) = target_path o1"
    and "newInstallerHref ''..'' (trimSpace (uo_fileName o1)) = ''/install/releases'' @ ''/'' @ trimSpace (uo_fileName o1)"
proof -
  define root f where "root = trimSpace (uo_releaseRoot o1)" and "f = trimSpace (uo_fileName o1)"
  have "path_elements (root @ ''/'' @ ''desktop'' @ ''/'' @ ''..'') = path_elements root"
  proof -
    have "prefix ''/'' (root @ x) = prefix ''/'' root" for x using assms(3) by (cases root) (auto simp: root_def)
    then show ?thesis
      using split_on_snoc [of "CHR ''/''" "''..''" "root @ ''/desktop''"] split_on_snoc [of "CHR ''/''" "''desktop''" root]
      by (simp add: path_elements_def path_step_def)
  qed
  then have "path_elements (target_dir o1) = path_elements root" "target_dir o1 \<noteq> []"
    using assms path_clean_nonempty by (simp_all add: target_dir_def path_join_def root_def [symmetric])
  then show "path_elements (target_path o1) = path_elements (trimSpace (uo_releaseRoot o1)) @ [trimSpace (uo_fileName o1)]"
    "path_clean (target_path o1) = target_path o1"
    using path_join_segment [of f "target_dir o1"] assms(2) by (simp_all add: target_path_def root_def f_def)
  have base: "path_elements (publicDownloadBase @ ''/..'') = [''install'', ''releases'']" by code_simp
  have "path_elements ((publicDownloadBase @ ''/..'') @ ''/'' @ f) = [''install'', ''releases'', f]"
    using path_elements_segment [of f "publicDownloadBase @ ''/..''"] assms(2) base by (simp add: f_def)
  moreover have "trimSpace ''..'' = ''..''" by code_simp
  moreover have "f \<noteq> []" using assms(2) by (simp add: plain_segment_def f_def)
  ultimately show "newInstallerHref ''..'' (trimSpace (uo_fileName o1)) = ''/install/releases'' @ ''/'' @ trimSpace (uo_fileName o1)"
    by (simp add: newInstallerHref_def path_join_def path_clean_def path_text_def publicDownloadBase_def f_def [symmetric])
      (simp add: f_def)
qed

text \<open>C34: With the version \<open>..\<close> the command fails, because the address leaves the public base, but only after it has
  copied the file next to the directory of the releases: \<open>root/file\<close> instead of \<open>root/desktop/version/file\<close>.\<close>

theorem upsert_parent_version:
  assumes "options_error o1 = None" and "trimSpace (uo_version o1) = ''..''" and "plain_segment (trimSpace (uo_fileName o1))"
    and "\<forall>op p. \<not> fe_fails E op p" and "\<forall>op. \<not> sq_fails Q op" and "fst (ensureSchema Q d) = Inr ()" and "trimSpace (uo_dbPath o1) \<noteq> []"
    and "fs_stat E (trimSpace (uo_source o1)) fs = StatOk (FileNode src m)" and "fs_stat E (target_path o1) fs = StatMissing"
    and "\<forall>q \<in> set (path_prefixes (target_dir o1)) \<union> set (path_prefixes (path_dir (target_path o1)))
      \<union> set (path_prefixes (path_dir (trimSpace (uo_dbPath o1)))). fs q = Some DirNode"
  shows "path_elements (target_path o1) = path_elements (trimSpace (uo_releaseRoot o1)) @ [trimSpace (uo_fileName o1)]
    \<and> (\<exists>fs' d'. upsertFile E Q o1 fs d = (Inl (ErrInvalidInstaller (''href must live under '' @ publicDownloadBase)), fs', d')
         \<and> fs (target_path o1) = None \<and> fs' (target_path o1) = Some (FileNode src 420))"
proof -
  have root: "trimSpace (uo_releaseRoot o1) \<noteq> []" "isAllowedInstallerKey (trimSpace (uo_key o1))"
    using assms(1) by (auto simp: options_error_def split: if_splits)
  note target = parent_target [OF assms(2,3) root(1)]
  have source: "fs (path_clean (trimSpace (uo_source o1))) = Some (FileNode src m)" using fs_stat_ok [OF assms(8)] .
  have missing: "fs (target_path o1) = None" using assms(4,9) target(2) by (auto simp: fs_stat_def split: option.splits if_splits)
  define fs1 where "fs1 = fs(target_path o1 \<mapsto> FileNode src 384)"
  define fs2 where "fs2 = fs1(target_path o1 \<mapsto> FileNode src 420)"
  have dirs: "mkdirAll E (target_dir o1) fs = (True, fs)" "mkdirAll E (path_dir (target_path o1)) fs = (True, fs)"
    using assms(10) by (simp_all add: mkdirAll_def make_dirs_existing)
  have "\<forall>q \<in> set (path_prefixes (path_dir (trimSpace (uo_dbPath o1)))). fs2 q = Some DirNode"
    using assms(10) missing by (auto simp: fs2_def fs1_def)
  then have db: "mkdirAll E (path_dir (trimSpace (uo_dbPath o1))) fs2 = (True, fs2)" by (simp add: mkdirAll_def make_dirs_existing)
  have "copyFileAtomic E (trimSpace (uo_source o1)) (target_path o1) fs = (True, fs1)"
    using dirs source assms(4) missing target(2) by (simp add: copyFileAtomic_def fs_read_def fs1_def)
  then have "place_file E o1 (hex_encode (sha256 src)) fs = (Inr (), fs1)"
    using assms(9) dirs by (simp add: place_file_def Let_def)
  moreover have "fs_chmod E (target_path o1) 420 fs1 = (True, fs2)"
    using assms(4) target(2) by (simp add: fs_chmod_def fs1_def fs2_def)
  moreover have "fileSHA256 E (trimSpace (uo_source o1)) fs = Some (hex_encode (sha256 src))"
    using source assms(4) by (simp add: fileSHA256_def fs_read_def)
  moreover obtain d1 where schema: "ensureSchema Q d = (Inr (), d1)" using assms(6) by (cases "ensureSchema Q d") auto
  have "register_file E Q o1 fs2 d = (Inl (ErrInvalidInstaller (''href must live under '' @ publicDownloadBase)), fs2, d1)"
  proof -
    let ?i = "upserted Q o1 (hex_encode (sha256 src)) (length src)"
    have f: "trimSpace (uo_fileName o1) \<noteq> []" "CHR ''/'' \<notin> set (trimSpace (uo_fileName o1))" using assms(3) by (simp_all add: plain_segment_def)
    then have "trim_installer ?i = ?i" using upserted_trimmed [of o1 "''/install/releases''"] target(3) assms(2) by simp
    moreover have "\<not> prefix (publicDownloadBase @ ''/'') (in_href ?i)"
      using f(2) target(3) assms(2) by (auto simp: upserted_def publicDownloadBase_def prefix_def)
    moreover have "in_href ?i \<noteq> []" using target(3) assms(2) by (simp add: upserted_def)
    ultimately have "upsertInstaller Q ?i d1 = (Inl (ErrInvalidInstaller (''href must live under '' @ publicDownloadBase)), d1)"
      using root(2) f(1) assms(2) by (simp add: upsertInstaller_def installer_error_def Let_def) (simp add: upserted_def)
    then show ?thesis
      using assms(4,5,7) schema db target(2)
      by (simp add: register_file_def fs_stat_def fileSHA256_def fs_read_def fs2_def openSQLite_def Let_def)
  qed
  ultimately have "upsertFile E Q o1 fs d = (Inl (ErrInvalidInstaller (''href must live under '' @ publicDownloadBase)), fs2, d1)"
    using assms(1,8) by (simp add: upsertFile_def)
  then show ?thesis using target(1) missing by (simp add: fs2_def)
qed

subsection \<open>A sample\<close>

definition installer_options :: "string \<Rightarrow> upsert_options" where
  "installer_options version = \<lparr>uo_dbPath = ''/data/data.sqlite'', uo_releaseRoot = ''/rel'', uo_key = ''mac'', uo_version = version,
     uo_source = ''/src/app.dmg'', uo_fileName = ''app.dmg'', uo_replace = False\<rparr>"

definition installer_files :: file_system where
  "installer_files = (\<lambda>p. if p = ''/src/app.dmg'' then Some (FileNode ''data'' 384)
     else if p \<in> {''/src'', ''/rel'', ''/rel/desktop'', ''/data''} then Some DirNode else None)"

definition installer_fsenv :: fsenv where
  "installer_fsenv = \<lparr>fe_fails = \<lambda>op p. False\<rparr>"

definition installer_sqlenv :: sqlenv where
  "installer_sqlenv = \<lparr>sq_fails = \<lambda>op. False, sq_now = 0\<rparr>"

definition installer_db :: release_db where
  "installer_db = \<lparr>rd_installers = [], rd_feeds = empty_feeds\<rparr>"

lemma installer_paths:
  "target_path (installer_options ''1.0.0'') = ''/rel/desktop/1.0.0/app.dmg''" "target_path (installer_options ''..'') = ''/rel/app.dmg''"
  "path_clean ''/rel/desktop/1.0.0/app.dmg'' = ''/rel/desktop/1.0.0/app.dmg''" "path_clean ''/src/app.dmg'' = ''/src/app.dmg''"
  "trimSpace (uo_source (installer_options v)) = ''/src/app.dmg''" "uo_dbPath (installer_options v) = ''/data/data.sqlite''"
  "path_prefixes (target_dir (installer_options ''1.0.0'')) = [''/rel'', ''/rel/desktop'', ''/rel/desktop/1.0.0'']"
  "path_prefixes (path_dir ''/rel/desktop/1.0.0/app.dmg'') = [''/rel'', ''/rel/desktop'', ''/rel/desktop/1.0.0'']"
  "path_prefixes (path_dir (trimSpace ''/data/data.sqlite'')) = [''/data'']" "trimSpace ''/data/data.sqlite'' \<noteq> []"
  "path_prefixes ''/rel/desktop/1.0.0/app.dmg'' = [''/rel'', ''/rel/desktop'', ''/rel/desktop/1.0.0'', ''/rel/desktop/1.0.0/app.dmg'']"
  by (simp_all add: installer_options_def) code_simp+

lemma installer_schema: "ensureSchema installer_sqlenv installer_db = (Inr (), installer_db\<lparr>rd_feeds := empty_feeds\<lparr>fb_migrated := True\<rparr>\<rparr>)"
  by (simp add: ensureSchema_def installer_sqlenv_def installer_db_def ensureDesktopUpdateSchema_def empty_feeds_def feed_keys_ok_def Let_def)

lemma installer_upserted:
  "\<exists>i fs' d'. upsertFile installer_fsenv installer_sqlenv (installer_options ''1.0.0'') installer_files installer_db = (Inr i, fs', d')"
proof -
  have "options_error (installer_options ''1.0.0'') = None \<and> plain_segment ''1.0.0'' \<and> plain_segment ''app.dmg''
      \<and> trimSpace ''1.0.0'' = ''1.0.0'' \<and> trimSpace ''app.dmg'' = ''app.dmg'' \<and> trimSpace ''mac'' = ''mac''
      \<and> newInstallerHref ''1.0.0'' ''app.dmg'' = ''/install/releases/desktop/1.0.0/app.dmg'' \<and> isAllowedInstallerKey ''mac''" by code_simp
  then have opts: "options_error (installer_options ''1.0.0'') = None" "plain_segment ''1.0.0''" "plain_segment ''app.dmg''"
    and trims: "trimSpace ''1.0.0'' = ''1.0.0''" "trimSpace ''app.dmg'' = ''app.dmg''" "trimSpace ''mac'' = ''mac''"
    and href: "newInstallerHref ''1.0.0'' ''app.dmg'' = ''/install/releases/desktop/1.0.0/app.dmg''"
    and mac: "isAllowedInstallerKey ''mac''" by simp_all
  have "trim_installer (upserted installer_sqlenv (installer_options ''1.0.0'') (hex_encode (sha256 ''data'')) 4)
      = upserted installer_sqlenv (installer_options ''1.0.0'') (hex_encode (sha256 ''data'')) 4"
    by (rule upserted_trimmed [of _ "''/install/releases/desktop/1.0.0''"]) (simp_all add: installer_options_def trims href)
  then show ?thesis
    using opts mac
    by (simp add: upsertFile_def fs_stat_def installer_paths installer_files_def installer_fsenv_def fileSHA256_def fs_read_def
        place_file_def copyFileAtomic_def mkdirAll_def fs_chmod_def register_file_def openSQLite_def installer_schema is_file_def
        upsertInstaller_def installer_error_def Let_def)
      (simp add: upserted_def installer_options_def installer_sqlenv_def trims href publicDownloadBase_def)
qed

lemma upsert_publishes_witness:
  "\<exists>i fs' d'. upsertFile installer_fsenv installer_sqlenv (installer_options ''1.0.0'') installer_files installer_db = (Inr i, fs', d')
     \<and> in_href i = ''/install/releases/desktop/1.0.0/app.dmg''"
proof -
  obtain i fs' d' where ok: "upsertFile installer_fsenv installer_sqlenv (installer_options ''1.0.0'') installer_files installer_db = (Inr i, fs', d')"
    using installer_upserted by blast
  have "plain_segment (trimSpace (uo_version (installer_options ''1.0.0'')))" "plain_segment (trimSpace (uo_fileName (installer_options ''1.0.0'')))"
    "formattable (sq_now installer_sqlenv)" "catalog_wf installer_db" by code_simp+
  moreover have "\<not> sq_fails installer_sqlenv OpListInstallers" by (simp add: installer_sqlenv_def)
  moreover have "publicDownloadBase @ ''/'' @ trimSpace (uo_version (installer_options ''1.0.0'')) @ ''/'' @ trimSpace (uo_fileName (installer_options ''1.0.0''))
      = ''/install/releases/desktop/1.0.0/app.dmg''" by code_simp
  ultimately show ?thesis using upsert_publishes [OF ok, of installer_sqlenv] ok by auto
qed

lemma upsert_parent_version_witness:
  "\<exists>e fs' d'. upsertFile installer_fsenv installer_sqlenv (installer_options ''..'') installer_files installer_db = (Inl e, fs', d')
     \<and> installer_files ''/rel/app.dmg'' = None \<and> fs' ''/rel/app.dmg'' = Some (FileNode ''data'' 420)"
proof -
  have "options_error (installer_options ''..'') = None \<and> trimSpace (uo_version (installer_options ''..'')) = ''..''
      \<and> plain_segment (trimSpace (uo_fileName (installer_options ''..''))) \<and> trimSpace (uo_dbPath (installer_options ''..'')) \<noteq> []
      \<and> fs_stat installer_fsenv (trimSpace (uo_source (installer_options ''..''))) installer_files = StatOk (FileNode ''data'' 384)
      \<and> fs_stat installer_fsenv (target_path (installer_options ''..'')) installer_files = StatMissing" by code_simp
  then have opts: "options_error (installer_options ''..'') = None" "trimSpace (uo_version (installer_options ''..'')) = ''..''"
      "plain_segment (trimSpace (uo_fileName (installer_options ''..'')))" "trimSpace (uo_dbPath (installer_options ''..'')) \<noteq> []"
    and stat: "fs_stat installer_fsenv (trimSpace (uo_source (installer_options ''..''))) installer_files = StatOk (FileNode ''data'' 384)"
      "fs_stat installer_fsenv (target_path (installer_options ''..'')) installer_files = StatMissing" by simp_all
  have fails: "\<forall>op p. \<not> fe_fails installer_fsenv op p" "\<forall>op. \<not> sq_fails installer_sqlenv op"
    by (simp_all add: installer_fsenv_def installer_sqlenv_def)
  have dirs: "\<forall>q \<in> set (path_prefixes (target_dir (installer_options ''..''))) \<union> set (path_prefixes (path_dir (target_path (installer_options ''..''))))
      \<union> set (path_prefixes (path_dir (trimSpace (uo_dbPath (installer_options ''..''))))). installer_files q = Some DirNode" by code_simp
  have schema: "fst (ensureSchema installer_sqlenv installer_db) = Inr ()" by (simp add: installer_schema)
  from upsert_parent_version [OF opts(1-3) fails schema opts(4) stat dirs] show ?thesis
    unfolding installer_paths by blast
qed

end
