(* ===== verification/Downloads.thy ===== *)
theory Downloads
  imports Auth_Session Release_Catalog Go_Json_Decode
begin

text \<open>
  \<open>internal/auth/download_store.go\<close> and the handlers of \<open>server.go\<close> that count downloads: a table of events
  and a table of totals in SQLite. Which operations fail and the clock of the store are the record \<open>dlenv\<close>;
  a failed transaction changes nothing. Without a store nothing is counted.
\<close>

subsection \<open>Types\<close>

record download_event =
  de_installerKey :: string
  de_version :: string
  de_clientIP :: string
  de_remoteAddr :: string
  de_xForwardedFor :: string
  de_xRealIP :: string
  de_userAgent :: string
  de_referer :: string
  de_acceptLanguage :: string
  de_downloadedAt :: int

record download_stat =
  st_installerKey :: string
  st_total :: int

record stat_row =
  sr_installerKey :: string
  sr_total :: int
  sr_createdAt :: string
  sr_updatedAt :: string

record download_row =
  dw_id :: int
  dw_installerKey :: string
  dw_version :: string
  dw_clientIP :: string
  dw_remoteAddr :: string
  dw_xForwardedFor :: string
  dw_xRealIP :: string
  dw_userAgent :: string
  dw_referer :: string
  dw_acceptLanguage :: string
  dw_downloadedAt :: string

record download_db =
  dd_stats :: "stat_row list"
  dd_downloads :: "download_row list"
  dd_nextID :: int

definition empty_downloads :: download_db where
  "empty_downloads = \<lparr>dd_stats = [], dd_downloads = [], dd_nextID = 1\<rparr>"

datatype download_op = DlOpen | DlSchema | DlListStats | DlRecord

record dlenv =
  dl_fails :: "download_op \<Rightarrow> bool"
  dl_now :: int

subsection \<open>The store\<close>

text \<open>Opening makes the directory of the database; the result says whether there was an error.\<close>

definition openSQLiteDownloadStore :: "fsenv \<Rightarrow> dlenv \<Rightarrow> string \<Rightarrow> file_system \<Rightarrow> bool \<times> file_system" where
  "openSQLiteDownloadStore E D dbPath fs =
     (if trimSpace dbPath = [] then (False, fs)
      else case mkdirAll E (path_dir (trimSpace dbPath)) fs of
        (False, fs1) \<Rightarrow> (False, fs1)
      | (True, fs1) \<Rightarrow> (\<not> dl_fails D DlOpen, fs1))"

definition listDownloadStats :: "dlenv \<Rightarrow> download_db option \<Rightarrow> download_stat list option" where
  "listDownloadStats D store =
     (case store of
        None \<Rightarrow> Some []
      | Some d \<Rightarrow>
          if dl_fails D DlListStats then None
          else Some (map (\<lambda>r. \<lparr>st_installerKey = sr_installerKey r, st_total = sr_total r\<rparr>) (dd_stats d)))"

definition download_row_of :: "string \<Rightarrow> download_event \<Rightarrow> download_db \<Rightarrow> download_row" where
  "download_row_of at ev d =
     \<lparr>dw_id = dd_nextID d, dw_installerKey = truncateStr (trimSpace (de_installerKey ev)) 64,
      dw_version = truncateStr (trimSpace (de_version ev)) 32, dw_clientIP = truncateStr (trimSpace (de_clientIP ev)) 64,
      dw_remoteAddr = truncateStr (trimSpace (de_remoteAddr ev)) 128,
      dw_xForwardedFor = truncateStr (trimSpace (de_xForwardedFor ev)) 1024,
      dw_xRealIP = truncateStr (trimSpace (de_xRealIP ev)) 64, dw_userAgent = truncateStr (trimSpace (de_userAgent ev)) 512,
      dw_referer = truncateStr (trimSpace (de_referer ev)) 1024,
      dw_acceptLanguage = truncateStr (trimSpace (de_acceptLanguage ev)) 256, dw_downloadedAt = at\<rparr>"

definition bump_stat :: "string \<Rightarrow> string \<Rightarrow> stat_row list \<Rightarrow> stat_row list" where
  "bump_stat key at rows =
     (if key \<in> set (map sr_installerKey rows)
      then map (\<lambda>r. if sr_installerKey r = key then r\<lparr>sr_total := sr_total r + 1, sr_updatedAt := at\<rparr> else r) rows
      else rows @ [\<lparr>sr_installerKey = key, sr_total = 1, sr_createdAt = at, sr_updatedAt = at\<rparr>])"

definition recordDownloadEvent :: "dlenv \<Rightarrow> download_event \<Rightarrow> download_db option \<Rightarrow> bool \<times> download_db option" where
  "recordDownloadEvent D ev store =
     (case store of
        None \<Rightarrow> (True, None)
      | Some d \<Rightarrow>
          if dl_fails D DlRecord then (False, Some d)
          else
            let downloadedAt = format_time (if de_downloadedAt ev = zero_time then dl_now D else de_downloadedAt ev);
                row = download_row_of downloadedAt ev d
            in (True, Some (d\<lparr>dd_downloads := dd_downloads d @ [row],
                  dd_stats := bump_stat (dw_installerKey row) (format_time (dl_now D)) (dd_stats d),
                  dd_nextID := dd_nextID d + 1\<rparr>)))"

subsection \<open>Handlers\<close>

definition serverInstallerKeys :: "string list" where
  "serverInstallerKeys = [''mac'', ''windows'']"

definition health :: response where
  "health = writeJSON 200 (JObj [(''status'', JStr ''ok'')])"

text \<open>The total of a key: a later row replaces an earlier one.\<close>

definition total_of :: "download_stat list \<Rightarrow> string \<Rightarrow> int" where
  "total_of stats key = foldl (\<lambda>n s. if st_installerKey s = key then st_total s else n) 0 stats"

definition downloadStats :: "dlenv \<Rightarrow> download_db option \<Rightarrow> response" where
  "downloadStats D store =
     (case listDownloadStats D store of
        None \<Rightarrow> writeError 500 ''server_error'' ''Unable to read download stats.''
      | Some stats \<Rightarrow>
          writeJSON 200 (JObj [(''totals'', JObj (map (\<lambda>k. (k, JInt (total_of stats k))) serverInstallerKeys))]))"

record event_request =
  ev_installerKey :: string
  ev_version :: string

definition event_fields :: "(string \<times> event_request decoder) list" where
  "event_fields =
     [(''installerKey'', \<lambda>v q. map_option (\<lambda>x. q\<lparr>ev_installerKey := x\<rparr>) (dec_string v (ev_installerKey q))),
      (''version'', \<lambda>v q. map_option (\<lambda>x. q\<lparr>ev_version := x\<rparr>) (dec_string v (ev_version q)))]"

definition decode_event :: "string \<Rightarrow> event_request option" where
  "decode_event body =
     Option.bind (json_first body) (\<lambda>(v, rest). dec_struct False event_fields v \<lparr>ev_installerKey = [], ev_version = []\<rparr>)"

definition downloadEventFromRequest :: "request \<Rightarrow> string \<Rightarrow> string \<Rightarrow> int \<Rightarrow> download_event" where
  "downloadEventFromRequest r installerKey version downloadedAt =
     \<lparr>de_installerKey = installerKey, de_version = version, de_clientIP = validRemoteIP (rq_remoteAddr r),
      de_remoteAddr = trimSpace (rq_remoteAddr r), de_xForwardedFor = trimSpace (hdr r ''X-Forwarded-For''),
      de_xRealIP = trimSpace (hdr r ''X-Real-IP''), de_userAgent = userAgent r, de_referer = trimSpace (referer r),
      de_acceptLanguage = trimSpace (hdr r ''Accept-Language''), de_downloadedAt = downloadedAt\<rparr>"

definition downloadEvent ::
  "server \<Rightarrow> dbenv \<Rightarrow> dlenv \<Rightarrow> request \<Rightarrow> string \<Rightarrow> download_db option \<Rightarrow> response \<times> download_db option" where
  "downloadEvent S E D r body store =
     (case decode_event body of
        None \<Rightarrow> (writeError 400 ''invalid_json'' ''Invalid download event.'', store)
      | Some q \<Rightarrow>
          let key = trimSpace (ev_installerKey q) in
          if key \<notin> set serverInstallerKeys then (writeError 400 ''invalid_installer'' ''Unknown installer.'', store)
          else
            let ev = (downloadEventFromRequest r key (ev_version q) (serverNow E))\<lparr>de_clientIP := clientIP S r\<rparr> in
            case recordDownloadEvent D ev store of
              (False, store1) \<Rightarrow> (writeError 500 ''server_error'' ''Unable to record download event.'', store1)
            | (True, store1) \<Rightarrow> (writeJSON 202 (JObj [(''ok'', JBool True)]), store1))"

end
