(* ===== verification/Downloads_Laws.thy ===== *)
theory Downloads_Laws
  imports Downloads Login_Properties
begin

text \<open>
  Properties of the download statistics: the totals are the numbers of recorded downloads, and the public
  address reports exactly the accepted events.
\<close>

subsection \<open>Integrity\<close>

text \<open>One total per installer, equal to the number of downloads recorded for it.\<close>

definition downloads_wf :: "download_db \<Rightarrow> bool" where
  "downloads_wf d \<longleftrightarrow> distinct (map sr_installerKey (dd_stats d))
     \<and> (\<forall>r \<in> set (dd_stats d). sr_total r = int (count_list (map dw_installerKey (dd_downloads d)) (sr_installerKey r)))
     \<and> (\<forall>e \<in> set (dd_downloads d). dw_installerKey e \<in> set (map sr_installerKey (dd_stats d)))"

lemma bump_stat_keys: "map sr_installerKey (bump_stat k t rows) =
    (if k \<in> set (map sr_installerKey rows) then map sr_installerKey rows else map sr_installerKey rows @ [k])"
  by (auto simp: bump_stat_def)

lemma recordDownloadEvent_wf:
  assumes "downloads_wf d" and "recordDownloadEvent D ev (Some d) = (ok, Some d')"
  shows "downloads_wf d'"
proof (cases "dl_fails D DlRecord")
  case False
  define row where "row = download_row_of (format_time (if de_downloadedAt ev = zero_time then dl_now D else de_downloadedAt ev)) ev d"
  have d': "dd_downloads d' = dd_downloads d @ [row]" "dd_stats d' = bump_stat (dw_installerKey row) (format_time (dl_now D)) (dd_stats d)"
    using assms(2) False by (auto simp: recordDownloadEvent_def Let_def row_def)
  have total: "sr_total r = int (count_list (map dw_installerKey (dd_downloads d')) (sr_installerKey r))" if r: "r \<in> set (dd_stats d')" for r
  proof -
    have absent: "sr_installerKey q \<noteq> dw_installerKey row"
      if "dw_installerKey row \<notin> sr_installerKey ` set (dd_stats d)" "q \<in> set (dd_stats d)" for q
      using that by (metis imageI)
    consider q where "q \<in> set (dd_stats d)" "sr_installerKey q = dw_installerKey row" "sr_installerKey r = sr_installerKey q" "sr_total r = sr_total q + 1"
      | "r \<in> set (dd_stats d)" "sr_installerKey r \<noteq> dw_installerKey row"
      | "dw_installerKey row \<notin> set (map sr_installerKey (dd_stats d))" "sr_installerKey r = dw_installerKey row" "sr_total r = 1"
      using r absent unfolding d' bump_stat_def by (auto split: if_splits)
    then show ?thesis
    proof cases
      case 3
      then have "dw_installerKey row \<notin> set (map dw_installerKey (dd_downloads d))" using assms(1) by (auto simp: downloads_wf_def)
      then have "count_list (map dw_installerKey (dd_downloads d)) (dw_installerKey row) = 0" by (simp only: count_list_0_iff not_False_eq_True)
      with 3 d' show ?thesis by simp
    qed (use assms(1) d' in \<open>auto simp: downloads_wf_def\<close>)
  qed
  have keys: "distinct (map sr_installerKey (dd_stats d'))" using assms(1) by (simp add: d' bump_stat_keys downloads_wf_def)
  have "dw_installerKey e \<in> set (map sr_installerKey (dd_stats d'))" if "e \<in> set (dd_downloads d')" for e
    using that assms(1) unfolding d' bump_stat_keys by (auto simp: downloads_wf_def)
  with keys total show ?thesis by (simp add: downloads_wf_def)
qed (use assms in \<open>simp add: recordDownloadEvent_def\<close>)

lemma total_of_downloads:
  assumes "downloads_wf d"
  shows "total_of (map (\<lambda>r. \<lparr>st_installerKey = sr_installerKey r, st_total = sr_total r\<rparr>) (dd_stats d)) k
    = int (count_list (map dw_installerKey (dd_downloads d)) k)"
proof -
  define last_total where "last_total = (\<lambda>n (rows :: stat_row list). foldl (\<lambda>n r. if sr_installerKey r = k then sr_total r else n) n rows)"
  have fold: "total_of (map (\<lambda>r. \<lparr>st_installerKey = sr_installerKey r, st_total = sr_total r\<rparr>) rows) k = last_total 0 rows" for rows
    by (simp add: total_of_def last_total_def foldl_map) (simp cong: if_cong)
  have none: "last_total n rows = n" if "k \<notin> set (map sr_installerKey rows)" for n rows
    using that unfolding last_total_def by (induction rows arbitrary: n) auto
  have some: "last_total n rows = sr_total r" if "distinct (map sr_installerKey rows)" "r \<in> set rows" "sr_installerKey r = k" for n rows r
    using that
  proof (induction rows arbitrary: n)
    case (Cons a rows)
    have step: "last_total n (a # rows) = last_total (if sr_installerKey a = k then sr_total a else n) rows" by (simp add: last_total_def)
    show ?case
    proof (cases "sr_installerKey a = k")
      case True
      then have "k \<notin> set (map sr_installerKey rows)" using Cons.prems(1) by simp
      moreover from this have "r = a" using Cons.prems(2,3) by (auto dest: imageI [of _ _ sr_installerKey])
      moreover note True
      ultimately have "r = a" "k \<notin> set (map sr_installerKey rows)" by simp_all
      then show ?thesis using True none by (simp add: step)
    next
      case False
      then have "r \<in> set rows" using Cons.prems(2,3) by auto
      then show ?thesis using Cons.IH Cons.prems False by (simp add: step)
    qed
  qed simp
  show ?thesis
  proof (cases "k \<in> set (map sr_installerKey (dd_stats d))")
    case True
    then obtain r where "r \<in> set (dd_stats d)" "sr_installerKey r = k" by auto
    moreover from this have "last_total 0 (dd_stats d) = sr_total r" using some assms by (simp add: downloads_wf_def)
    ultimately show ?thesis using assms unfolding fold by (auto simp: downloads_wf_def)
  next
    case False
    then have "k \<notin> set (map dw_installerKey (dd_downloads d))" using assms by (auto simp: downloads_wf_def)
    then have "count_list (map dw_installerKey (dd_downloads d)) k = 0" by (simp only: count_list_0_iff not_False_eq_True)
    then show ?thesis using none [OF False] unfolding fold by simp
  qed
qed

subsection \<open>Requests\<close>

record download_call =
  dlc_env :: dbenv
  dlc_store :: dlenv
  dlc_request :: request
  dlc_body :: string

fun serve_downloads :: "server \<Rightarrow> download_call list \<Rightarrow> download_db option \<Rightarrow> response list \<times> download_db option" where
  "serve_downloads S [] st = ([], st)"
| "serve_downloads S (c # cs) st =
     (case downloadEvent S (dlc_env c) (dlc_store c) (dlc_request c) (dlc_body c) st of
        (rs, st1) \<Rightarrow> (case serve_downloads S cs st1 of (rss, st2) \<Rightarrow> (rs # rss, st2)))"

definition event_key :: "string \<Rightarrow> string" where
  "event_key body = (case decode_event body of None \<Rightarrow> [] | Some q \<Rightarrow> trimSpace (ev_installerKey q))"

lemma server_keys_plain: "k \<in> set serverInstallerKeys \<Longrightarrow> truncateStr (trimSpace k) 64 = k"
proof -
  have "list_all (\<lambda>k. truncateStr (trimSpace k) 64 = k) serverInstallerKeys" by code_simp
  then show "k \<in> set serverInstallerKeys \<Longrightarrow> truncateStr (trimSpace k) 64 = k" by (simp add: list_all_iff)
qed

lemma downloadEvent_effect:
  assumes "downloadEvent S E D r body (Some d) = (rs, st)"
  obtains d' where "st = Some d'" "downloads_wf d \<Longrightarrow> downloads_wf d'"
    "map dw_installerKey (dd_downloads d') = map dw_installerKey (dd_downloads d) @ (if rs_status rs = 202 then [event_key body] else [])"
    "rs_status rs = 202 \<Longrightarrow> event_key body \<in> set serverInstallerKeys"
proof (cases "decode_event body = None \<or> event_key body \<notin> set serverInstallerKeys \<or> dl_fails D DlRecord")
  case True
  then have "st = Some d \<and> rs_status rs \<noteq> 202"
    using assms by (auto simp: downloadEvent_def event_key_def Let_def recordDownloadEvent_def response_defs split: if_splits option.splits)
  then show thesis using that [of d] by simp
next
  case False
  then obtain q where q: "decode_event body = Some q" by auto
  define ev where "ev = (downloadEventFromRequest r (event_key body) (ev_version q) (serverNow E))\<lparr>de_clientIP := clientIP S r\<rparr>"
  have key: "event_key body = trimSpace (ev_installerKey q)" "event_key body \<in> set serverInstallerKeys" "de_installerKey ev = event_key body"
    using q False by (simp_all add: event_key_def ev_def downloadEventFromRequest_def)
  obtain d' where rec: "recordDownloadEvent D ev (Some d) = (True, Some d')"
    using False by (simp add: recordDownloadEvent_def Let_def)
  have st: "st = Some d'" "rs_status rs = 202"
    using assms q key rec by (auto simp: downloadEvent_def ev_def Let_def response_defs)
  have "map dw_installerKey (dd_downloads d') = map dw_installerKey (dd_downloads d) @ [event_key body]"
    using rec False key(3) server_keys_plain [OF key(2)] by (auto simp: recordDownloadEvent_def Let_def download_row_of_def)
  then show thesis using that st key recordDownloadEvent_wf rec by simp
qed

lemma serve_downloads_effect:
  assumes "downloads_wf d" and "serve_downloads S cs (Some d) = (rss, st)"
  shows "\<exists>d'. st = Some d' \<and> downloads_wf d' \<and> length rss = length cs
    \<and> map dw_installerKey (dd_downloads d') = map dw_installerKey (dd_downloads d)
        @ map (\<lambda>(c, rs). event_key (dlc_body c)) (filter (\<lambda>(c, rs). rs_status rs = 202) (zip cs rss))"
  using assms
proof (induction cs arbitrary: d rss)
  case (Cons c cs)
  obtain rs st1 where one: "downloadEvent S (dlc_env c) (dlc_store c) (dlc_request c) (dlc_body c) (Some d) = (rs, st1)" by force
  obtain rest st2 where many: "serve_downloads S cs st1 = (rest, st2)" by force
  have rss: "rss = rs # rest" "st = st2" using Cons.prems one many by simp_all
  from downloadEvent_effect [OF one] obtain d1 where d1: "st1 = Some d1" "downloads_wf d1"
    "map dw_installerKey (dd_downloads d1) = map dw_installerKey (dd_downloads d) @ (if rs_status rs = 202 then [event_key (dlc_body c)] else [])"
    using Cons.prems(1) by metis
  from Cons.IH [OF d1(2), of rest] many [unfolded d1(1)] rss(2) obtain d' where "st = Some d'" "downloads_wf d'" "length rest = length cs"
    "map dw_installerKey (dd_downloads d') = map dw_installerKey (dd_downloads d1)
        @ map (\<lambda>(c, rs). event_key (dlc_body c)) (filter (\<lambda>(c, rs). rs_status rs = 202) (zip cs rest))" by blast
  then show ?case using rss d1(3) by simp
qed auto

text \<open>C35: The public statistics report, for each installer, exactly the number of download events that were accepted
  for it, whatever requests came in and whichever of them failed.\<close>

theorem downloads_counted:
  assumes "serve_downloads S cs (Some empty_downloads) = (rss, st)" and "\<not> dl_fails D DlListStats"
  shows "downloadStats D st = writeJSON 200 (JObj [(''totals'', JObj (map (\<lambda>k. (k, JInt (int (length
      (filter (\<lambda>(c, rs). rs_status rs = 202 \<and> event_key (dlc_body c) = k) (zip cs rss)))))) serverInstallerKeys))])"
proof -
  have "downloads_wf empty_downloads" by (simp add: downloads_wf_def empty_downloads_def)
  from serve_downloads_effect [OF this assms(1)] obtain d where d: "st = Some d" "downloads_wf d"
    "map dw_installerKey (dd_downloads d) = map (\<lambda>(c, rs). event_key (dlc_body c)) (filter (\<lambda>(c, rs). rs_status rs = 202) (zip cs rss))"
    by (auto simp: empty_downloads_def)
  have "count_list (map (\<lambda>(c, rs). event_key (dlc_body c)) (filter (\<lambda>(c, rs). rs_status rs = 202) ps)) k
      = length (filter (\<lambda>(c, rs). rs_status rs = 202 \<and> event_key (dlc_body c) = k) ps)" for k and ps :: "(download_call \<times> response) list"
    by (induction ps) auto
  then show ?thesis
    using assms(2) d total_of_downloads [OF d(2)] by (simp add: downloadStats_def listDownloadStats_def)
qed

definition sample_call :: "string \<Rightarrow> download_call" where
  "sample_call key = \<lparr>dlc_env = sample_env 9, dlc_store = \<lparr>dl_fails = \<lambda>op. False, dl_now = 9\<rparr>, dlc_request = sample_request,
     dlc_body = json_compact (VObj [(''installerKey'', VStr key), (''version'', VStr ''1.0.0'')])\<rparr>"

definition sample_calls :: "download_call list" where
  "sample_calls = [sample_call ''mac'', sample_call ''linux'', sample_call '' mac '']"

lemma sample_call_decoded:
  assumes "list_all is_ascii key"
  shows "decode_event (dlc_body (sample_call key)) = Some \<lparr>ev_installerKey = key, ev_version = ''1.0.0''\<rparr>"
proof -
  let ?doc = "VObj [(''installerKey'', VStr key), (''version'', VStr ''1.0.0'')]"
  have "valid_utf8 k" if "k \<in> {''installerKey'', ''version'', ''1.0.0'', key}" for k
    using that assms by (intro valid_utf8_ascii) (auto simp: is_ascii_def)
  then have "printable ?doc" by simp
  moreover have "nesting ?doc \<le> maxNesting" by (simp add: maxNesting_def)
  ultimately have "json_first (json_compact ?doc) = Some (?doc, [])" by (rule first_compact)
  then show ?thesis
    by (simp add: decode_event_def sample_call_def dec_struct_def event_fields_def find_field_def)
qed

lemma downloads_counted_witness:
  "downloadStats (dlc_store (sample_call [])) (snd (serve_downloads sample_server sample_calls (Some empty_downloads)))
     = writeJSON 200 (JObj [(''totals'', JObj [(''mac'', JInt 2), (''windows'', JInt 0)])])"
proof -
  obtain rss st where run: "serve_downloads sample_server sample_calls (Some empty_downloads) = (rss, st)" by force
  have trim: "trimSpace ''mac'' = ''mac''" "trimSpace ''linux'' = ''linux''" "trimSpace '' mac '' = ''mac''" by code_simp+
  have dec: "decode_event (dlc_body (sample_call k)) = Some \<lparr>ev_installerKey = k, ev_version = ''1.0.0''\<rparr>"
    if "k \<in> {''mac'', ''linux'', '' mac ''}" for k
    using that by (intro sample_call_decoded) (auto simp: is_ascii_def)
  have fails: "\<not> dl_fails (dlc_store (sample_call k)) op" for k op by (simp add: sample_call_def)
  have "map rs_status (fst (serve_downloads sample_server sample_calls (Some empty_downloads))) = [202, 400, 202]"
    by (simp add: sample_calls_def downloadEvent_def dec trim fails serverInstallerKeys_def recordDownloadEvent_def Let_def
        response_defs split: prod.split)
  then have "map rs_status rss = [202, 400, 202]" by (simp add: run)
  then obtain a b c where rss: "rss = [a, b, c]" "rs_status a = 202" "rs_status b = 400" "rs_status c = 202"
    by (auto simp: map_eq_Cons_conv)
  have "event_key (dlc_body (sample_call ''mac'')) = ''mac''" "event_key (dlc_body (sample_call '' mac '')) = ''mac''"
    by (simp_all add: event_key_def dec trim)
  moreover have "zip sample_calls rss = [(sample_call ''mac'', a), (sample_call ''linux'', b), (sample_call '' mac '', c)]"
    using rss by (simp add: sample_calls_def)
  moreover have "\<not> dl_fails (dlc_store (sample_call [])) DlListStats" by (simp add: sample_call_def)
  ultimately show ?thesis
    using downloads_counted [OF run] rss unfolding run snd_conv serverInstallerKeys_def by simp
qed

end
