(* ===== verification/Go_Strconv.thy ===== *)
theory Go_Strconv
  imports Go_Strings
begin

text \<open>
  What the configuration uses of the standard library: \<open>strconv.ParseBool\<close>, \<open>strconv.ParseInt\<close> with base ten and
  64 bits, and \<open>time.ParseDuration\<close>. The library computes the fraction of a duration in double precision,
  so the rounding to 53 bits is written out.
\<close>

definition parse_bool :: "string \<Rightarrow> bool option" where
  "parse_bool s =
     (if s \<in> {''1'', ''t'', ''T'', ''TRUE'', ''true'', ''True''} then Some True
      else if s \<in> {''0'', ''f'', ''F'', ''FALSE'', ''false'', ''False''} then Some False
      else None)"

text \<open>A sign, and the rest.\<close>

definition split_sign :: "string \<Rightarrow> bool \<times> string" where
  "split_sign s = (case s of c # cs \<Rightarrow> if c = CHR ''-'' \<or> c = CHR ''+'' then (c = CHR ''-'', cs) else (False, s) | [] \<Rightarrow> (False, []))"

definition parse_int10 :: "string \<Rightarrow> int option" where
  "parse_int10 s =
     (let (neg, ds) = split_sign s; i = (if neg then - int (digits_val ds) else int (digits_val ds))
      in if ds \<noteq> [] \<and> list_all is_digit ds \<and> - (2 ^ 63) \<le> i \<and> i < 2 ^ 63 then Some i else None)"

subsection \<open>Doubles\<close>

fun bit_width :: "nat \<Rightarrow> nat" where
  "bit_width n = (if n = 0 then 0 else Suc (bit_width (n div 2)))"

declare bit_width.simps [simp del]

text \<open>The quotient to the nearest integer, ties to even.\<close>

definition round_div :: "nat \<Rightarrow> nat \<Rightarrow> nat" where
  "round_div a b =
     (let q = a div b; r = a mod b in
      if 2 * r < b then q else if b < 2 * r then Suc q else if even q then q else Suc q)"

text \<open>
  A positive double as a mantissa and an exponent. \<open>double_of a b\<close> is the double nearest to \<open>a / b\<close>: the
  scaled quotient has 53 bits. Durations stay far from overflow and underflow.
\<close>

definition scaled_div :: "nat \<Rightarrow> nat \<Rightarrow> int \<Rightarrow> nat \<times> nat" where
  "scaled_div a b e = (if 0 \<le> e then (a, b * 2 ^ nat e) else (a * 2 ^ nat (- e), b))"

definition double_of :: "nat \<Rightarrow> nat \<Rightarrow> nat \<times> int" where
  "double_of a b =
     (let e0 = int (bit_width a) - int (bit_width b) - 53;
          (n0, m0) = scaled_div a b e0;
          e = (if 2 ^ 53 \<le> n0 div m0 then e0 + 1 else e0);
          (n, m) = scaled_div a b e
      in (round_div n m, e))"

text \<open>The product of two doubles, rounded again, and the integer part of a double.\<close>

definition double_mult :: "nat \<times> int \<Rightarrow> nat \<times> int \<Rightarrow> nat \<times> int" where
  "double_mult x y = (let (m, e) = double_of (fst x * fst y) 1 in (m, e + snd x + snd y))"

definition double_trunc :: "nat \<times> int \<Rightarrow> nat" where
  "double_trunc x = (let (n, m) = scaled_div (fst x) 1 (- snd x) in n div m)"

subsection \<open>Durations\<close>

fun leading_int :: "nat \<Rightarrow> string \<Rightarrow> (nat \<times> string) option" where
  "leading_int x [] = Some (x, [])"
| "leading_int x (c # cs) =
     (if \<not> is_digit c then Some (x, c # cs)
      else if 2 ^ 63 div 10 < x then None
      else let y = x * 10 + (of_char c - 48) in if 2 ^ 63 < y then None else leading_int y cs)"

text \<open>The digits of a fraction; after an overflow the rest is skipped.\<close>

fun leading_fraction :: "bool \<Rightarrow> nat \<Rightarrow> nat \<Rightarrow> string \<Rightarrow> nat \<times> nat \<times> string" where
  "leading_fraction over x scale [] = (x, scale, [])"
| "leading_fraction over x scale (c # cs) =
     (if \<not> is_digit c then (x, scale, c # cs)
      else if over \<or> (2 ^ 63 - 1) div 10 < x then leading_fraction True x scale cs
      else let y = x * 10 + (of_char c - 48) in
        if 2 ^ 63 < y then leading_fraction True x scale cs else leading_fraction False y (scale * 10) cs)"

definition unit_ns :: "string \<Rightarrow> nat option" where
  "unit_ns u =
     map_of [(''ns'', 1), (''us'', 1000), ([CHR 0xC2, CHR 0xB5] @ ''s'', 1000), ([CHR 0xCE, CHR 0xBC] @ ''s'', 1000),
       (''ms'', 1000000), (''s'', 1000000000), (''m'', 60000000000), (''h'', 3600000000000)] u"

definition unit_char :: "char \<Rightarrow> bool" where
  "unit_char c \<longleftrightarrow> c \<noteq> CHR ''.'' \<and> \<not> is_digit c"

text \<open>A number with its unit: its nanoseconds and the rest.\<close>

definition duration_part :: "string \<Rightarrow> (nat \<times> string) option" where
  "duration_part s =
     (if unit_char (hd s) then None
      else case leading_int 0 s of
        None \<Rightarrow> None
      | Some (v, s1) \<Rightarrow>
          (let (f, scale, s2) = (if prefix ''.'' s1 then leading_fraction False 0 1 (tl s1) else (0, 1, s1));
               pre = length s1 < length s;
               post = (prefix ''.'' s1 \<and> length s2 < length (tl s1));
               u = takeWhile unit_char s2
           in if \<not> pre \<and> \<not> post \<or> u = [] then None
              else case unit_ns u of
                None \<Rightarrow> None
              | Some n \<Rightarrow>
                  if 2 ^ 63 div n < v then None
                  else
                    (let w = v * n + (if 0 < f then double_trunc (double_mult (double_of f 1) (double_of n scale)) else 0)
                     in if 2 ^ 63 < w then None else Some (w, dropWhile unit_char s2))))"

lemma leading_int_length: "leading_int x s = Some (v, r) \<Longrightarrow> length r \<le> length s"
  by (induction x s rule: leading_int.induct) (auto simp: Let_def split: if_splits)

lemma leading_fraction_length: "leading_fraction b x k s = (f, k', r) \<Longrightarrow> length r \<le> length s"
proof (induction s arbitrary: b x k)
  case (Cons c cs)
  then show ?case by (fastforce simp: Let_def intro: le_SucI split: if_splits)
qed simp

lemma duration_part_length:
  assumes "duration_part s = Some (w, r)"
  shows "length r < length s"
proof -
  obtain v s1 where s1: "leading_int 0 s = Some (v, s1)"
    using assms by (auto simp: duration_part_def split: option.splits if_splits)
  obtain f k s2 where s2: "(if prefix ''.'' s1 then leading_fraction False 0 1 (tl s1) else (0, 1, s1)) = (f, k, s2)"
    by (metis prod_cases3)
  have "length s2 \<le> length s1"
    using s2 leading_fraction_length [of False 0 1 "tl s1" f k s2] by (cases s1) (auto split: if_splits)
  then have "length s2 \<le> length s" using leading_int_length [OF s1] by simp
  moreover have "takeWhile unit_char s2 \<noteq> [] \<and> r = dropWhile unit_char s2"
    using assms unfolding duration_part_def s1 option.case prod.case s2 Let_def by (auto split: if_splits option.splits)
  moreover have "length s2 = length (takeWhile unit_char s2) + length (dropWhile unit_char s2)"
    by (metis length_append takeWhile_dropWhile_id)
  ultimately show ?thesis by (cases "takeWhile unit_char s2") auto
qed

text \<open>The sum is kept in 64 bits, so that two parts of \<open>2 ^ 63\<close> nanoseconds wrap around to zero.\<close>

function duration_sum :: "nat \<Rightarrow> string \<Rightarrow> nat option" where
  "duration_sum d s =
     (if s = [] then Some d
      else case duration_part s of
        None \<Rightarrow> None
      | Some (v, rest) \<Rightarrow> let d' = (d + v) mod 2 ^ 64 in if 2 ^ 63 < d' then None else duration_sum d' rest)"
  by pat_completeness auto
termination
  by (relation "measure (\<lambda>(d, s). length s)") (auto dest: duration_part_length)

declare duration_sum.simps [simp del]

definition parse_duration :: "string \<Rightarrow> int option" where
  "parse_duration s =
     (let (neg, t) = split_sign s in
      if t = ''0'' then Some 0
      else if t = [] then None
      else case duration_sum 0 t of
        None \<Rightarrow> None
      | Some d \<Rightarrow> if neg then Some (- int d) else if 2 ^ 63 - 1 < d then None else Some (int d))"

end
