(* ===== verification/Config.thy ===== *)
theory Config
  imports Go_Strconv Auth_Server
begin

text \<open>
  \<open>internal/config/config.go\<close>: the configuration read from the environment. An environment gives every
  variable a text, the empty one when it is not set, as \<open>os.Getenv\<close> does.
\<close>

type_synonym environ = "string \<Rightarrow> string"

subsection \<open>Reading one variable\<close>

definition envOr :: "environ \<Rightarrow> string \<Rightarrow> string \<Rightarrow> string" where
  "envOr e key fallback = (if e key = [] then fallback else e key)"

definition csvEnv :: "environ \<Rightarrow> string \<Rightarrow> string \<Rightarrow> string list" where
  "csvEnv e key fallback = distinct_trimmed [] (split_on CHR '','' (envOr e key fallback))"

definition envBool :: "environ \<Rightarrow> string \<Rightarrow> bool \<Rightarrow> bool" where
  "envBool e key fallback =
     (if e key = [] then fallback else case parse_bool (e key) of None \<Rightarrow> fallback | Some b \<Rightarrow> b)"

definition envDuration :: "environ \<Rightarrow> string \<Rightarrow> int \<Rightarrow> int" where
  "envDuration e key fallback =
     (if e key = [] then fallback else case parse_duration (e key) of None \<Rightarrow> fallback | Some d \<Rightarrow> d)"

definition envInt64 :: "environ \<Rightarrow> string \<Rightarrow> int \<Rightarrow> int" where
  "envInt64 e key fallback =
     (let v = trimSpace (e key) in
      if v = [] then fallback else case parse_int10 v of None \<Rightarrow> fallback | Some i \<Rightarrow> if i \<le> 0 then fallback else i)"

definition isHTTPSOrigin :: "string \<Rightarrow> bool" where
  "isHTTPSOrigin v =
     (case url_parse (trimSpace v) of
        None \<Rightarrow> False
      | Some u \<Rightarrow>
          url_scheme u = ''https'' \<and> url_host u \<noteq> [] \<and> url_user u = None \<and> (url_path u = [] \<or> url_path u = ''/'')
          \<and> url_rawQuery u = [] \<and> url_fragment u = [])"

subsection \<open>The configuration\<close>

record config =
  cf_Addr :: string
  cf_DatabaseURL :: string
  cf_InitAdminEmail :: string
  cf_InitAdminPassword :: string
  cf_CookieName :: string
  cf_CookieSecure :: bool
  cf_SessionTTL :: int
  cf_TrustedProxyCIDRs :: "string list"
  cf_GoogleClientID :: string
  cf_GoogleDesktopID :: string
  cf_GoogleSecret :: string
  cf_GoogleRedirectURL :: string
  cf_SSOBridgeToken :: string
  cf_DesktopSSOProvider :: string
  cf_DesktopSSOTicketTTL :: int
  cf_SSOJWTPrivateKeyFile :: string
  cf_SSOJWTPrivateKeyPEM :: string
  cf_SSOJWTIssuer :: string
  cf_SSOJWTAudiences :: "string list"
  cf_SSOJWTKeyID :: string
  cf_SSOJWTTTL :: int
  cf_MarketJWTAudience :: string
  cf_MarketJWTTTL :: int
  cf_AuthLoginURL :: string
  cf_AuthSuccessURL :: string
  cf_AuthFailureURL :: string
  cf_AuthPublicOrigin :: string
  cf_AvatarProxyEnabled :: bool
  cf_AvatarUpstreamOrigins :: "string list"
  cf_AvatarCacheDir :: string
  cf_AvatarCacheTTL :: int
  cf_AvatarFetchTimeout :: int
  cf_AvatarMaxBytes :: int
  cf_SMTPHost :: string
  cf_SMTPPort :: string
  cf_SMTPUsername :: string
  cf_SMTPPassword :: string
  cf_SMTPFrom :: string
  cf_MarketServerURL :: string
  cf_MarketProxyToken :: string
  cf_SQLiteDBPath :: string
  cf_UpdatesDir :: string

datatype config_error =
  DatabaseURLRequired | AdminRequired | PublicOriginInvalid | UpstreamOriginsRequired | UpstreamOriginInvalid string

text \<open>The fields that are read in any case; the database and the administrator follow.\<close>

definition base_config :: "environ \<Rightarrow> config" where
  "base_config e =
     \<lparr>cf_Addr = envOr e ''APP_ADDR'' '':8080'',
      cf_DatabaseURL = [],
      cf_InitAdminEmail = [],
      cf_InitAdminPassword = [],
      cf_CookieName = envOr e ''COOKIE_NAME'' ''zenmind_session'',
      cf_CookieSecure = envBool e ''COOKIE_SECURE'' True,
      cf_SessionTTL = envDuration e ''SESSION_TTL'' (24 * hour),
      cf_TrustedProxyCIDRs = csvEnv e ''TRUSTED_PROXY_CIDRS'' ''172.20.0.0/16'',
      cf_GoogleClientID = e ''GOOGLE_CLIENT_ID'',
      cf_GoogleDesktopID = e ''GOOGLE_DESKTOP_CLIENT_ID'',
      cf_GoogleSecret = e ''GOOGLE_CLIENT_SECRET'',
      cf_GoogleRedirectURL = e ''GOOGLE_REDIRECT_URL'',
      cf_SSOBridgeToken = e ''SSO_BRIDGE_TOKEN'',
      cf_DesktopSSOProvider = envOr e ''DESKTOP_SSO_PROVIDER'' ''first_party'',
      cf_DesktopSSOTicketTTL = envDuration e ''DESKTOP_SSO_TICKET_TTL'' (2 * minute),
      cf_SSOJWTPrivateKeyFile = trimSpace (e ''SSO_JWT_PRIVATE_KEY_FILE''),
      cf_SSOJWTPrivateKeyPEM = trimSpace (e ''SSO_JWT_PRIVATE_KEY_PEM''),
      cf_SSOJWTIssuer = trimSpace (e ''SSO_JWT_ISSUER''),
      cf_SSOJWTAudiences = csvEnv e ''SSO_JWT_AUDIENCES'' ''market,tunnel,kanban,zenmind-im-server'',
      cf_SSOJWTKeyID = envOr e ''SSO_JWT_KEY_ID'' ''default'',
      cf_SSOJWTTTL = envDuration e ''SSO_JWT_TTL'' (12 * hour),
      cf_MarketJWTAudience = envOr e ''MARKET_JWT_AUDIENCE'' ''market'',
      cf_MarketJWTTTL = envDuration e ''MARKET_JWT_TTL'' (90 * second),
      cf_AuthLoginURL = envOr e ''AUTH_LOGIN_URL'' ''/login'',
      cf_AuthSuccessURL = envOr e ''AUTH_SUCCESS_URL'' ''http://localhost:5173/login'',
      cf_AuthFailureURL = envOr e ''AUTH_FAILURE_URL'' ''http://localhost:5173/login'',
      cf_AuthPublicOrigin = trimRight_char CHR ''/'' (trimSpace (e ''AUTH_PUBLIC_ORIGIN'')),
      cf_AvatarProxyEnabled = envBool e ''AVATAR_PROXY_ENABLED'' False,
      cf_AvatarUpstreamOrigins = csvEnv e ''AVATAR_UPSTREAM_ORIGINS'' [],
      cf_AvatarCacheDir = envOr e ''AVATAR_CACHE_DIR'' ''/data/avatars'',
      cf_AvatarCacheTTL = envDuration e ''AVATAR_CACHE_TTL'' (24 * hour),
      cf_AvatarFetchTimeout = envDuration e ''AVATAR_FETCH_TIMEOUT'' (10 * second),
      cf_AvatarMaxBytes = envInt64 e ''AVATAR_MAX_BYTES'' (1024 * 1024),
      cf_SMTPHost = envOr e ''SMTP_HOST'' ''smtp.gmail.com'',
      cf_SMTPPort = envOr e ''SMTP_PORT'' ''587'',
      cf_SMTPUsername = envOr e ''SMTP_USERNAME'' ''linlay.zenmind@gmail.com'',
      cf_SMTPPassword = e ''SMTP_PASSWORD'',
      cf_SMTPFrom = envOr e ''SMTP_FROM'' ''linlay.zenmind@gmail.com'',
      cf_MarketServerURL = trimRight_char CHR ''/'' (envOr e ''MARKET_SERVER_URL'' ''http://zenmind-market-server:8088''),
      cf_MarketProxyToken = e ''MARKET_PROXY_TOKEN'',
      cf_SQLiteDBPath = envOr e ''SQLITE_DB_PATH'' ''/data/data.sqlite'',
      cf_UpdatesDir = envOr e ''UPDATES_DIR'' ''/data/updates''\<rparr>"

definition database_url :: "environ \<Rightarrow> string option" where
  "database_url e =
     (if e ''DATABASE_URL'' \<noteq> [] then Some (e ''DATABASE_URL'')
      else if e ''MYSQL_PASSWORD'' = [] then None
      else Some (envOr e ''MYSQL_USER'' ''zenmind'' @ '':'' @ e ''MYSQL_PASSWORD'' @ ''@tcp('' @ envOr e ''MYSQL_HOST'' ''mysql'' @ '':''
             @ envOr e ''MYSQL_PORT'' ''3306'' @ '')/'' @ envOr e ''MYSQL_DATABASE'' ''zenmind_website''
             @ ''?parseTime=true&charset=utf8mb4&collation=utf8mb4_unicode_ci''))"

text \<open>The first origin of the list that is not one.\<close>

definition avatar_error :: "config \<Rightarrow> config_error option" where
  "avatar_error cfg =
     (if \<not> cf_AvatarProxyEnabled cfg then None
      else if \<not> isHTTPSOrigin (cf_AuthPublicOrigin cfg) then Some PublicOriginInvalid
      else if cf_AvatarUpstreamOrigins cfg = [] then Some UpstreamOriginsRequired
      else map_option UpstreamOriginInvalid (find (\<lambda>v. \<not> isHTTPSOrigin v) (cf_AvatarUpstreamOrigins cfg)))"

text \<open>The caller uses the configuration only when there is no error.\<close>

definition fromEnv :: "environ \<Rightarrow> config_error + config" where
  "fromEnv e =
     (case database_url e of
        None \<Rightarrow> Inl DatabaseURLRequired
      | Some url \<Rightarrow>
          if e ''INIT_ADMIN_EMAIL'' = [] \<or> e ''INIT_ADMIN_PASSWORD'' = [] then Inl AdminRequired
          else
            let cfg = (base_config e)\<lparr>cf_DatabaseURL := url, cf_InitAdminEmail := e ''INIT_ADMIN_EMAIL'',
                 cf_InitAdminPassword := e ''INIT_ADMIN_PASSWORD''\<rparr>
            in case avatar_error cfg of Some err \<Rightarrow> Inl err | None \<Rightarrow> Inr cfg)"

end
