(* ===== verification/Entry_Points.thy ===== *)
theory Entry_Points
  imports Config Update_Handlers Downloads
begin

text \<open>
  \<open>cmd/server/main.go\<close> and \<open>cmd/releasectl/main.go\<close>: how the server is put together from the environment, and
  the command that publishes an installer. What lasts between runs is the record \<open>system\<close>; the libraries, the
  database engines and the operating system are the record \<open>machine\<close>. The requests that are
  served and the end of the server are in \<^theory_text>\<open>Server_Run\<close>.
\<close>

subsection \<open>The server\<close>

record machine =
  me_libs :: libs
  me_openMySQL :: "string \<Rightarrow> bool"
  me_mysqlSchema :: bool
  me_db :: dbenv
  me_fs :: fsenv
  me_sql :: sqlenv
  me_downloads :: dlenv
  me_openUpdates :: "string \<Rightarrow> bool"
  me_dir :: direnv

record system =
  sy_db :: db
  sy_files :: file_system
  sy_release :: release_db
  sy_downloads :: download_db
  sy_updates :: update_dir

datatype start_error =
  StartConfig config_error | StartMySQL | StartAdmin store_error | StartCatalog release_error | StartDownloads
| StartUpdates update_error

definition google_of :: "config \<Rightarrow> google_config" where
  "google_of cfg =
     \<lparr>gcf_clientID = cf_GoogleClientID cfg, gcf_clientSecret = cf_GoogleSecret cfg, gcf_redirectURL = cf_GoogleRedirectURL cfg,
      gcf_desktopClientID = cf_GoogleDesktopID cfg\<rparr>"

definition avatar_of :: "config \<Rightarrow> avatar_config" where
  "avatar_of cfg =
     \<lparr>avc_enabled = cf_AvatarProxyEnabled cfg, avc_publicOrigin = cf_AuthPublicOrigin cfg,
      avc_allowedOrigins = cf_AvatarUpstreamOrigins cfg, avc_cacheDir = cf_AvatarCacheDir cfg,
      avc_cacheTTL = cf_AvatarCacheTTL cfg, avc_fetchTimeout = cf_AvatarFetchTimeout cfg, avc_maxBytes = cf_AvatarMaxBytes cfg\<rparr>"

definition jwt_of :: "config \<Rightarrow> jwt_config" where
  "jwt_of cfg =
     \<lparr>jc_privateKeyFile = cf_SSOJWTPrivateKeyFile cfg, jc_privateKeyPEM = cf_SSOJWTPrivateKeyPEM cfg,
      jc_issuer = cf_SSOJWTIssuer cfg, jc_audiences = cf_SSOJWTAudiences cfg, jc_keyID = cf_SSOJWTKeyID cfg, jc_ttl = cf_SSOJWTTTL cfg\<rparr>"

definition mailer_of :: "config \<Rightarrow> smtp_config" where
  "mailer_of cfg =
     \<lparr>smc_host = cf_SMTPHost cfg, smc_port = cf_SMTPPort cfg, smc_username = cf_SMTPUsername cfg,
      smc_password = cf_SMTPPassword cfg, smc_from = cf_SMTPFrom cfg\<rparr>"

definition options_of :: "config \<Rightarrow> server_options" where
  "options_of cfg =
     \<lparr>op_cookieName = cf_CookieName cfg, op_cookieSecure = cf_CookieSecure cfg, op_sessionTTL = cf_SessionTTL cfg,
      op_trustedProxyCIDRs = cf_TrustedProxyCIDRs cfg, op_google = newGoogleProvider (google_of cfg),
      op_authLoginURL = cf_AuthLoginURL cfg, op_authSuccessURL = cf_AuthSuccessURL cfg, op_authFailureURL = cf_AuthFailureURL cfg,
      op_ssoBridgeToken = cf_SSOBridgeToken cfg, op_desktopSSOProvider = cf_DesktopSSOProvider cfg,
      op_desktopTicketTTL = cf_DesktopSSOTicketTTL cfg, op_desktopJWT = jwt_of cfg,
      op_marketServerURL = cf_MarketServerURL cfg, op_marketProxyToken = cf_MarketProxyToken cfg,
      op_marketJWTAudience = cf_MarketJWTAudience cfg, op_marketJWTTTL = cf_MarketJWTTTL cfg,
      op_mailer = newSMTPMailer (mailer_of cfg), op_avatarProxy = avatar_of cfg\<rparr>"

text \<open>The stores in SQLite and the directory of the updates, once the users' database is ready.\<close>

definition open_stores :: "machine \<Rightarrow> config \<Rightarrow> system \<Rightarrow> (start_error + unit) \<times> system" where
  "open_stores M cfg sy =
     (case openSQLite (me_fs M) (me_sql M) (cf_SQLiteDBPath cfg) (sy_files sy) of
        (Inl err, fs) \<Rightarrow> (Inl (StartCatalog err), sy\<lparr>sy_files := fs\<rparr>)
      | (Inr _, fs) \<Rightarrow>
          (case ensureSchema (me_sql M) (sy_release sy) of
             (Inl err, rel) \<Rightarrow> (Inl (StartCatalog err), sy\<lparr>sy_files := fs, sy_release := rel\<rparr>)
           | (Inr _, rel) \<Rightarrow>
               (case openSQLiteDownloadStore (me_fs M) (me_downloads M) (cf_SQLiteDBPath cfg) fs of
                  (ok, fs1) \<Rightarrow>
                    (let sy1 = sy\<lparr>sy_files := fs1, sy_release := rel\<rparr> in
                     if \<not> ok \<or> dl_fails (me_downloads M) DlSchema then (Inl StartDownloads, sy1)
                     else if \<not> me_openUpdates M (cf_UpdatesDir cfg) then (Inl (StartUpdates UpdateFailure), sy1)
                     else (case openDirectoryUpdates (me_dir M) (me_sql M) (Some (rd_feeds rel)) (sy_updates sy) of
                             (Inl err, dir) \<Rightarrow> (Inl (StartUpdates err), sy1\<lparr>sy_updates := dir\<rparr>)
                           | (Inr _, dir) \<Rightarrow> (Inr (), sy1\<lparr>sy_updates := dir\<rparr>))))))"

definition startServer :: "machine \<Rightarrow> environ \<Rightarrow> system \<Rightarrow> (start_error + server) \<times> system" where
  "startServer M e sy =
     (case fromEnv e of
        Inl err \<Rightarrow> (Inl (StartConfig err), sy)
      | Inr cfg \<Rightarrow>
          if \<not> me_openMySQL M (cf_DatabaseURL cfg) \<or> \<not> me_mysqlSchema M then (Inl StartMySQL, sy)
          else
            (case ensureInitialAdmin (me_libs M) (me_db M) (cf_InitAdminEmail cfg) (cf_InitAdminPassword cfg) (sy_db sy) of
               (Inl err, d) \<Rightarrow> (Inl (StartAdmin err), sy\<lparr>sy_db := d\<rparr>)
             | (Inr _, d) \<Rightarrow>
                 (case open_stores M cfg (sy\<lparr>sy_db := d\<rparr>) of
                    (Inl err, sy1) \<Rightarrow> (Inl err, sy1)
                  | (Inr _, sy1) \<Rightarrow> (Inr (newServer (me_libs M) (options_of cfg)), sy1))))"

text \<open>What the handlers of a new server start with, beside the source of random bytes.\<close>

definition start_world :: "string \<Rightarrow> system \<Rightarrow> world" where
  "start_world rnd sy = \<lparr>w_db = sy_db sy, w_limiter = newRateLimiter, w_rnd = rnd, w_smtp = []\<rparr>"

subsection \<open>The flags of a command\<close>

text \<open>What a flag takes: any text, or the texts of \<open>strconv.ParseBool\<close>.\<close>

datatype flag_kind = StringFlag | BoolFlag

datatype flag_error = BadFlagSyntax | FlagHelp | UnknownFlag string | InvalidFlagValue string | FlagNeedsArgument string

text \<open>
  \<open>flag.FlagSet.Parse\<close>: one flag at the start of the arguments, with the arguments after it; \<^const>\<open>None\<close> where
  the flags end. The name ends at the first equality sign that is not its first character.
\<close>

definition parse_one_flag ::
  "(string \<Rightarrow> flag_kind option) \<Rightarrow> string list \<Rightarrow> (flag_error + (string \<times> string) \<times> string list) option" where
  "parse_one_flag kinds args =
     (case args of
        [] \<Rightarrow> None
      | s # rest \<Rightarrow>
          if length s < 2 \<or> hd s \<noteq> CHR ''-'' \<or> s = ''--'' then None
          else
            (let name = (if prefix ''--'' s then drop 2 s else tl s) in
             if name = [] \<or> hd name = CHR ''-'' \<or> hd name = CHR ''='' then Some (Inl BadFlagSyntax)
             else
               (let key = hd name # takeWhile (\<lambda>c. c \<noteq> CHR ''='') (tl name);
                    hasValue = CHR ''='' \<in> set (tl name);
                    v = tl (dropWhile (\<lambda>c. c \<noteq> CHR ''='') (tl name))
                in Some
                 (case kinds key of
                    None \<Rightarrow> Inl (if key = ''help'' \<or> key = ''h'' then FlagHelp else UnknownFlag key)
                  | Some BoolFlag \<Rightarrow>
                      if hasValue then (if parse_bool v = None then Inl (InvalidFlagValue key) else Inr ((key, v), rest))
                      else Inr ((key, ''true''), rest)
                  | Some StringFlag \<Rightarrow>
                      if hasValue then Inr ((key, v), rest)
                      else (case rest of [] \<Rightarrow> Inl (FlagNeedsArgument key) | a # rest' \<Rightarrow> Inr ((key, a), rest'))))))"

lemma parse_one_flag_shorter: "parse_one_flag kinds args = Some (Inr (kv, rest)) \<Longrightarrow> length rest < length args"
proof (cases args)
  case (Cons s r)
  assume "parse_one_flag kinds args = Some (Inr (kv, rest))"
  then show ?thesis unfolding Cons parse_one_flag_def Let_def list.case
    by (simp split: if_split_asm option.split_asm flag_kind.split_asm list.split_asm)
qed (simp add: parse_one_flag_def)

text \<open>The flags that were set, in order; what is left of the arguments is not used.\<close>

function parse_flags :: "(string \<Rightarrow> flag_kind option) \<Rightarrow> string list \<Rightarrow> flag_error + (string \<times> string) list" where
  "parse_flags kinds args =
     (case parse_one_flag kinds args of
        None \<Rightarrow> Inr []
      | Some (Inl err) \<Rightarrow> Inl err
      | Some (Inr (kv, rest)) \<Rightarrow>
          (case parse_flags kinds rest of Inl err \<Rightarrow> Inl err | Inr kvs \<Rightarrow> Inr (kv # kvs)))"
  by pat_completeness auto
termination
  by (relation "measure (\<lambda>(kinds, args). length args)") (auto dest: parse_one_flag_shorter)

declare parse_flags.simps [simp del]

text \<open>The value of a flag: the last one that was set, or the default.\<close>

definition flag_value :: "(string \<times> string) list \<Rightarrow> string \<Rightarrow> string \<Rightarrow> string" where
  "flag_value kvs key fallback = (case map_of (rev kvs) key of None \<Rightarrow> fallback | Some v \<Rightarrow> v)"

subsection \<open>releasectl\<close>

datatype command_error = CommandUsage | UnknownCommand string | CommandFlags flag_error | CommandFailed release_error

definition upsert_flags :: "string \<Rightarrow> flag_kind option" where
  "upsert_flags =
     map_of [(''db'', StringFlag), (''release-root'', StringFlag), (''key'', StringFlag), (''version'', StringFlag),
       (''source'', StringFlag), (''filename'', StringFlag), (''replace'', BoolFlag)]"

definition upsert_options_of :: "environ \<Rightarrow> (string \<times> string) list \<Rightarrow> upsert_options" where
  "upsert_options_of e kvs =
     \<lparr>uo_dbPath = flag_value kvs ''db'' (envOr e ''SQLITE_DB_PATH'' ''/docker/zenmind-official-server/data/data.sqlite''),
      uo_releaseRoot = flag_value kvs ''release-root'' (envOr e ''RELEASE_ROOT'' ''/docker/zenmind-releases''),
      uo_key = flag_value kvs ''key'' [], uo_version = flag_value kvs ''version'' [], uo_source = flag_value kvs ''source'' [],
      uo_fileName = flag_value kvs ''filename'' [],
      uo_replace = (parse_bool (flag_value kvs ''replace'' ''false'') = Some True)\<rparr>"

definition runUpsert ::
  "fsenv \<Rightarrow> sqlenv \<Rightarrow> environ \<Rightarrow> string list \<Rightarrow> file_system \<Rightarrow> release_db \<Rightarrow> (command_error + installer) \<times> file_system \<times> release_db" where
  "runUpsert F Q e args fs d =
     (case parse_flags upsert_flags args of
        Inl err \<Rightarrow> (Inl (CommandFlags err), fs, d)
      | Inr kvs \<Rightarrow>
          (case upsertFile F Q (upsert_options_of e kvs) fs d of
             (Inl err, fs1, d1) \<Rightarrow> (Inl (CommandFailed err), fs1, d1)
           | (Inr i, fs1, d1) \<Rightarrow> (Inr i, fs1, d1)))"

text \<open>The arguments come without the name of the program; on success the installer is printed.\<close>

definition releasectl ::
  "fsenv \<Rightarrow> sqlenv \<Rightarrow> environ \<Rightarrow> string list \<Rightarrow> file_system \<Rightarrow> release_db \<Rightarrow> (command_error + installer) \<times> file_system \<times> release_db" where
  "releasectl F Q e args fs d =
     (case args of
        [] \<Rightarrow> (Inl CommandUsage, fs, d)
      | c # rest \<Rightarrow> if c = ''upsert'' then runUpsert F Q e rest fs d else (Inl (UnknownCommand c), fs, d))"

end
