(* ===== verification/Entry_Properties.thy ===== *)
theory Entry_Properties
  imports Entry_Points Login_Properties Directory_Properties
begin

text \<open>
  Properties of the start of the server: what an accepted configuration is like, that it switches the avatar
  proxy on exactly when asked to, that a first start lets the administrator in; and that the command line of
  \<open>releasectl\<close> expresses every set of options.
\<close>

subsection \<open>Types of the configuration\<close>

lemma duration_sum_bound: "duration_sum d s = Some r \<Longrightarrow> d \<le> 2 ^ 63 \<Longrightarrow> r \<le> 2 ^ 63"
proof (induction d s rule: duration_sum.induct)
  case (1 d s)
  show ?case
  proof (cases "s = []")
    case True
    then show ?thesis using "1.prems" by (simp add: duration_sum.simps [of d "[]"])
  next
    case False
    then obtain v rest where part: "duration_part s = Some (v, rest)" "\<not> 2 ^ 63 < (d + v) mod 2 ^ 64"
      "duration_sum ((d + v) mod 2 ^ 64) rest = Some r"
      using "1.prems"(1) by (auto simp: duration_sum.simps [of d s] Let_def split: option.splits if_splits)
    from "1.IH" [OF False part(1) refl refl part(2,3)] part(2) show ?thesis by simp
  qed
qed

lemma parse_duration_int64: "parse_duration s = Some d \<Longrightarrow> int64 d"
  using duration_sum_bound [of 0 "snd (split_sign s)"]
  by (force simp: parse_duration_def int64_def case_prod_beta Let_def split: if_splits option.splits)

lemma envDuration_int64: "int64 fallback \<Longrightarrow> int64 (envDuration e key fallback)"
  by (auto simp: envDuration_def parse_duration_int64 split: option.split)

lemma parse_int10_int64: "parse_int10 s = Some i \<Longrightarrow> int64 i"
  by (auto simp: parse_int10_def int64_def Let_def case_prod_beta split: if_splits)

lemma envInt64_positive: "0 < fallback \<Longrightarrow> int64 fallback \<Longrightarrow> 0 < envInt64 e key fallback \<and> int64 (envInt64 e key fallback)"
  by (auto simp: envInt64_def Let_def parse_int10_int64 split: option.split)

text \<open>A list of trimmed, different, non-empty texts.\<close>

definition clean_list :: "string list \<Rightarrow> bool" where
  "clean_list vs \<longleftrightarrow> distinct vs \<and> (\<forall>v \<in> set vs. v \<noteq> [] \<and> trimSpace v = v)"

lemma distinct_trimmed_clean: "clean_list (distinct_trimmed seen vs) \<and> set (distinct_trimmed seen vs) \<inter> set seen = {}"
proof (induction seen vs rule: distinct_trimmed.induct)
  case (2 seen c cs)
  show ?case
  proof (cases "trimSpace c = [] \<or> trimSpace c \<in> set seen")
    case True
    then show ?thesis using "2.IH"(1) [OF refl] by auto
  next
    case False
    then show ?thesis using "2.IH"(2) [OF refl] by (auto simp: clean_list_def Let_def)
  qed
qed (simp add: clean_list_def)

lemma csvEnv_clean: "clean_list (csvEnv e key fallback)"
  using distinct_trimmed_clean by (simp add: csvEnv_def)

lemma envOr_nonempty: "fallback \<noteq> [] \<Longrightarrow> envOr e key fallback \<noteq> []"
  by (simp add: envOr_def)

definition config_wf :: "config \<Rightarrow> bool" where
  "config_wf cfg \<longleftrightarrow>
     (\<forall>d \<in> {cf_SessionTTL cfg, cf_DesktopSSOTicketTTL cfg, cf_SSOJWTTTL cfg, cf_MarketJWTTTL cfg, cf_AvatarCacheTTL cfg,
        cf_AvatarFetchTimeout cfg, cf_AvatarMaxBytes cfg}. int64 d)
     \<and> 0 < cf_AvatarMaxBytes cfg
     \<and> (\<forall>vs \<in> {cf_TrustedProxyCIDRs cfg, cf_SSOJWTAudiences cfg, cf_AvatarUpstreamOrigins cfg}. clean_list vs)
     \<and> (\<forall>v \<in> {cf_Addr cfg, cf_DatabaseURL cfg, cf_InitAdminEmail cfg, cf_InitAdminPassword cfg, cf_CookieName cfg,
        cf_AuthLoginURL cfg, cf_AuthSuccessURL cfg, cf_AuthFailureURL cfg, cf_SQLiteDBPath cfg, cf_UpdatesDir cfg,
        cf_AvatarCacheDir cfg}. v \<noteq> [])"

lemma fromEnv_fields:
  assumes "fromEnv e = Inr cfg"
  obtains url where "database_url e = Some url" and "e ''INIT_ADMIN_EMAIL'' \<noteq> []" and "e ''INIT_ADMIN_PASSWORD'' \<noteq> []"
    and "cfg = (base_config e)\<lparr>cf_DatabaseURL := url, cf_InitAdminEmail := e ''INIT_ADMIN_EMAIL'',
      cf_InitAdminPassword := e ''INIT_ADMIN_PASSWORD''\<rparr>" and "avatar_error cfg = None"
  using assms by (auto simp: fromEnv_def Let_def split: option.splits if_splits)

text \<open>C37: Whatever the environment says, an accepted configuration is well-formed: durations and sizes fit in 64 bits,
  the size limit of avatars is positive, the lists have no blanks, empty parts or repetitions, and the
  database, the administrator, the cookie and the paths are named.\<close>

theorem fromEnv_wf:
  assumes "fromEnv e = Inr cfg"
  shows "config_wf cfg"
proof -
  obtain url where cfg: "cfg = (base_config e)\<lparr>cf_DatabaseURL := url, cf_InitAdminEmail := e ''INIT_ADMIN_EMAIL'',
      cf_InitAdminPassword := e ''INIT_ADMIN_PASSWORD''\<rparr>" and url: "database_url e = Some url"
    and admin: "e ''INIT_ADMIN_EMAIL'' \<noteq> []" "e ''INIT_ADMIN_PASSWORD'' \<noteq> []"
    using fromEnv_fields [OF assms] by metis
  have "url \<noteq> []" using url by (auto simp: database_url_def split: if_splits)
  moreover have "int64 (envDuration e key d)" if "d \<in> {24 * hour, 2 * minute, 12 * hour, 90 * second, 10 * second}" for key d
    using that by (intro envDuration_int64) (auto simp: int64_def time_units)
  moreover have "0 < envInt64 e ''AVATAR_MAX_BYTES'' (1024 * 1024) \<and> int64 (envInt64 e ''AVATAR_MAX_BYTES'' (1024 * 1024))"
    by (rule envInt64_positive) (simp_all add: int64_def)
  ultimately show ?thesis
    using admin by (simp add: config_wf_def cfg base_config_def csvEnv_clean envOr_nonempty)
qed

subsection \<open>The avatar proxy\<close>

lemma toLower_nonempty: "s \<noteq> [] \<Longrightarrow> toLower s \<noteq> []"
proof (cases s)
  case (Cons c cs)
  have "encode_rune r \<noteq> []" for r by (simp add: encode_rune_def)
  then show ?thesis by (simp add: Cons toLower_def utf8_runes_def utf8_encode_def)
qed simp

lemma isHTTPSOrigin_normalizes: "isHTTPSOrigin v \<longleftrightarrow> normalizeAvatarOrigin v \<noteq> []"
proof (cases "url_parse (trimSpace v)")
  case (Some u)
  have "toLower (''https://'' @ url_host u) \<noteq> []" by (rule toLower_nonempty) simp
  with Some show ?thesis unfolding isHTTPSOrigin_def normalizeAvatarOrigin_def by (simp del: not_None_eq)
qed (simp add: isHTTPSOrigin_def normalizeAvatarOrigin_def)

text \<open>An accepted configuration never leaves the avatar proxy half configured: the server's proxy is enabled exactly
  when the configuration asks for it, and then every upstream origin of the configuration is one it fetches from.\<close>

theorem config_enables_avatar_proxy:
  assumes "fromEnv e = Inr cfg" and "p = sv_avatarProxy (newServer X (options_of cfg))"
  shows "av_enabled p = av_configured p \<and> av_configured p = cf_AvatarProxyEnabled cfg
    \<and> (av_enabled p \<longrightarrow> (\<forall>v \<in> set (cf_AvatarUpstreamOrigins cfg). normalizeAvatarOrigin v \<in> set (av_allowedOrigins p))
         \<and> av_publicOrigin p = normalizeAvatarOrigin (cf_AuthPublicOrigin cfg) \<and> av_publicOrigin p \<noteq> [])"
proof -
  have ok: "avatar_error cfg = None" using fromEnv_fields [OF assms(1)] by metis
  have p: "p = newAvatarProxy (avatar_of cfg)" by (simp add: assms(2) newServer_def options_of_def Let_def)
  show ?thesis
  proof (cases "cf_AvatarProxyEnabled cfg")
    case False
    then show ?thesis by (simp add: p newAvatarProxy_def avatar_of_def Let_def)
  next
    case True
    then have "normalizeAvatarOrigin (cf_AuthPublicOrigin cfg) \<noteq> []" "cf_AvatarUpstreamOrigins cfg \<noteq> []"
      "\<forall>v \<in> set (cf_AvatarUpstreamOrigins cfg). normalizeAvatarOrigin v \<noteq> []"
      using ok by (auto simp: avatar_error_def isHTTPSOrigin_normalizes find_None_iff split: if_splits)
    moreover from this have "filter (\<lambda>o'. o' \<noteq> []) (map normalizeAvatarOrigin (cf_AvatarUpstreamOrigins cfg)) \<noteq> []"
      by (cases "cf_AvatarUpstreamOrigins cfg") auto
    ultimately show ?thesis using True by (auto simp: p newAvatarProxy_def avatar_of_def Let_def)
  qed
qed

subsection \<open>The first start\<close>

lemma startServer_ok:
  assumes "startServer M e sy = (Inr S, sy')"
  obtains cfg where "fromEnv e = Inr cfg" and "S = newServer (me_libs M) (options_of cfg)"
    and "ensureInitialAdmin (me_libs M) (me_db M) (e ''INIT_ADMIN_EMAIL'') (e ''INIT_ADMIN_PASSWORD'') (sy_db sy) = (Inr (), sy_db sy')"
proof -
  obtain cfg d where cfg: "fromEnv e = Inr cfg"
    and admin: "ensureInitialAdmin (me_libs M) (me_db M) (cf_InitAdminEmail cfg) (cf_InitAdminPassword cfg) (sy_db sy) = (Inr (), d)"
    and stores: "open_stores M cfg (sy\<lparr>sy_db := d\<rparr>) = (Inr (), sy')" and S: "S = newServer (me_libs M) (options_of cfg)"
    using assms by (auto simp: startServer_def split: sum.splits prod.splits if_splits)
  have "sy_db sy' = d"
    using stores by (auto simp: open_stores_def Let_def split: sum.splits prod.splits if_splits)
  moreover have "cf_InitAdminEmail cfg = e ''INIT_ADMIN_EMAIL''" "cf_InitAdminPassword cfg = e ''INIT_ADMIN_PASSWORD''"
    using cfg by (auto elim!: fromEnv_fields)
  ultimately show thesis using that [OF cfg S] admin by simp
qed

lemma limited_new:
  assumes "w_limiter w = newRateLimiter"
  shows "\<exists>w1. limited key 5 E w = (False, w1) \<and> w_db w1 = w_db w \<and> w_rnd w1 = w_rnd w"
proof (cases "allow (w_limiter w) key 5 (15 * minute) (serverNow E)")
  case (Pair ok l)
  then have "ok" using assms by (auto simp: allow_def newRateLimiter_def rate_lookup_def Let_def split: if_splits)
  with Pair show ?thesis by (simp add: limited_def)
qed

text \<open>The first start on an empty database lets the configured administrator in: if the server starts, a login
  with the configured password and any spelling of the configured address, from an allowed origin, is answered
  with a session cookie and the data of an administrator.\<close>

theorem first_start_admin_login:
  assumes "startServer M e sy = (Inr S, sy')" and "sy_db sy = emptyDb"
    and "\<And>h. lib_bcryptHash (me_libs M) (e ''INIT_ADMIN_PASSWORD'') = Some h \<Longrightarrow>
           lib_bcryptCompare (me_libs M) h (e ''INIT_ADMIN_PASSWORD'')"
    and "normalizeEmail (lr_email req) = normalizeEmail (e ''INIT_ADMIN_EMAIL'')" and "lr_password req = e ''INIT_ADMIN_PASSWORD''"
    and "originAllowed S r" and "\<forall>op. \<not> db_fails E op" and "64 \<le> length rnd"
  shows "\<exists>u (ns :: new_session) w. login (me_libs M) S E r (Some req) (start_world rnd sy') =
      (setCookie (sessionCookie S (ns_token ns) (serverNow E + sv_sessionTTL S)) (writeJSON 200 (JObj [(''user'', publicUser S u)])), w)
    \<and> usr_role u = ''admin'' \<and> usr_enabled u \<and> usr_email u = normalizeEmail (e ''INIT_ADMIN_EMAIL'')"
proof -
  obtain h where h: "lib_bcryptHash (me_libs M) (e ''INIT_ADMIN_PASSWORD'') = Some h"
    and admin: "EnsureAdmin (me_db M) (e ''INIT_ADMIN_EMAIL'') h emptyDb = (Inr (), sy_db sy')"
    by (rule startServer_ok [OF assms(1)]) (auto simp: assms(2) ensureInitialAdmin_def split: if_splits option.splits)
  define m where "m = normalizeEmail (e ''INIT_ADMIN_EMAIL'')"
  define row where "row = \<lparr>u_id = 1, u_email = m, u_displayName = m, u_avatarURL = [], u_provider = ''local'', u_sub = m,
    u_role = ''admin'', u_enabled = True, u_createdAt = db_time (me_db M) (db_now (me_db M)),
    u_updatedAt = db_time (me_db M) (db_now (me_db M)), u_lastLoginAt = None\<rparr>"
  have db: "db_users (sy_db sy') = [row]" "db_sessions (sy_db sy') = []" "map c_user (db_credentials (sy_db sy')) = [1]"
    "map c_passwordHash (db_credentials (sy_db sy')) = [h]"
    using admin by (auto simp: EnsureAdmin_def emptyDb_def upsert_admin_def insert_credential_def row_def m_def Let_def
        dest!: sym [where t = "sy_db sy'"] split: if_splits)
  define w where "w = start_world rnd sy'"
  obtain w1 where limited: "limited (''admin:'' @ clientIP S r @ '':'' @ normalizeEmail (lr_email req)) 5 E w = (False, w1)"
    and w1: "w_db w1 = sy_db sy'" "w_rnd w1 = rnd"
    using limited_new [of w "''admin:'' @ clientIP S r @ '':'' @ normalizeEmail (lr_email req)" E] by (auto simp: w_def start_world_def)
  have user: "fst (FindLocalUserByEmail E (lr_email req) (w_db w1)) = Inr (scanUserWithPassword h row)"
    using db assms(4,7)
    by (auto simp: FindLocalUserByEmail_def w1 m_def row_def sqlEq_def List.map_filter_def map_eq_Cons_conv)
  obtain t rnd1 where t: "randomToken rnd = Some (t, rnd1)" "32 \<le> length rnd1" using assms(8) by (auto simp: randomToken_def)
  then obtain c rnd2 where c: "randomToken rnd1 = Some (c, rnd2)" by (auto simp: randomToken_def)
  obtain w2 where session: "createSession S E r 1 w1 = (Some \<lparr>ns_token = t, ns_csrf = c, ns_expiresAt = serverNow E + sv_sessionTTL S\<rparr>, w2)"
    using db t(1) c assms(7) by (simp add: createSession_def CreateSession_def w1 user_by_id_def row_def Let_def)
  have "requireValidOrigin S r = None" using assms(6) by (simp add: requireValidOrigin_def)
  moreover define ns where "ns = \<lparr>ns_token = t, ns_csrf = c, ns_expiresAt = serverNow E + sv_sessionTTL S\<rparr>"
  moreover define u where "u = (scanUserWithPassword h row)\<lparr>usr_lastLoginAt := Some (serverNow E)\<rparr>"
  ultimately obtain w' where "login (me_libs M) S E r (Some req) w =
      (setCookie (sessionCookie S (ns_token ns) (serverNow E + sv_sessionTTL S)) (writeJSON 200 (JObj [(''user'', publicUser S u)])), w')"
    using limited user session assms(3) [OF h] assms(5)
    by (simp add: login_def finish_login_def scanUserWithPassword_def row_def)
  moreover have "usr_role u = ''admin'' \<and> usr_enabled u \<and> usr_email u = normalizeEmail (e ''INIT_ADMIN_EMAIL'')"
    by (simp add: u_def scanUserWithPassword_def row_def m_def)
  ultimately show ?thesis unfolding w_def by blast
qed

definition sample_environ :: environ where
  "sample_environ key =
     (case map_of [(''MYSQL_PASSWORD'', ''secret''), (''INIT_ADMIN_EMAIL'', ''Root@X.io''), (''INIT_ADMIN_PASSWORD'', ''hash''),
        (''AVATAR_PROXY_ENABLED'', ''true''), (''AUTH_PUBLIC_ORIGIN'', ''https://X.io/''),
        (''AVATAR_UPSTREAM_ORIGINS'', ''https://a.io, https://a.io,,https://b.io'')] key of
        None \<Rightarrow> [] | Some v \<Rightarrow> v)"

definition sample_config :: config where
  "sample_config = (base_config sample_environ)\<lparr>cf_DatabaseURL := the (database_url sample_environ),
     cf_InitAdminEmail := ''Root@X.io'', cf_InitAdminPassword := ''hash''\<rparr>"

lemma sample_environ_simps [simp]:
  "sample_environ ''DATABASE_URL'' = []" "sample_environ ''MYSQL_PASSWORD'' = ''secret''" "sample_environ ''INIT_ADMIN_EMAIL'' = ''Root@X.io''"
  "sample_environ ''INIT_ADMIN_PASSWORD'' = ''hash''" "sample_environ ''AVATAR_PROXY_ENABLED'' = ''true''" "sample_environ ''SQLITE_DB_PATH'' = []"
  "sample_environ ''AUTH_PUBLIC_ORIGIN'' = ''https://X.io/''" "sample_environ ''AVATAR_UPSTREAM_ORIGINS'' = ''https://a.io, https://a.io,,https://b.io''"
  by (simp_all add: sample_environ_def)

lemma sample_config_ok: "fromEnv sample_environ = Inr sample_config" "cf_AvatarProxyEnabled sample_config"
proof -
  have "isHTTPSOrigin (trimRight_char CHR ''/'' (trimSpace ''https://X.io/'')) \<and> isHTTPSOrigin ''https://a.io'' \<and> isHTTPSOrigin ''https://b.io''
      \<and> distinct_trimmed [] (split_on CHR '','' ''https://a.io, https://a.io,,https://b.io'') = [''https://a.io'', ''https://b.io'']" by code_simp
  moreover have enabled: "cf_AvatarProxyEnabled sample_config"
    by (simp add: sample_config_def base_config_def envBool_def parse_bool_def)
  ultimately have "avatar_error sample_config = None"
    by (simp add: avatar_error_def sample_config_def base_config_def csvEnv_def envOr_def)
  moreover have "database_url sample_environ = Some (the (database_url sample_environ))" by (simp add: database_url_def)
  ultimately show "fromEnv sample_environ = Inr sample_config" "cf_AvatarProxyEnabled sample_config"
    using enabled by (auto simp: fromEnv_def sample_config_def Let_def split: option.splits)
qed

lemma fromEnv_wf_witness: "config_wf sample_config"
  by (rule fromEnv_wf [OF sample_config_ok(1)])

lemma config_enables_avatar_proxy_witness:
  "av_enabled (sv_avatarProxy (newServer sample_libs (options_of sample_config)))"
  using config_enables_avatar_proxy [OF sample_config_ok(1) refl, of sample_libs] sample_config_ok(2) by simp

definition sample_machine :: machine where
  "sample_machine = \<lparr>me_libs = sample_libs, me_openMySQL = (\<lambda>dsn. True), me_mysqlSchema = True, me_db = sample_env 1,
     me_fs = \<lparr>fe_fails = \<lambda>op p. False\<rparr>, me_sql = \<lparr>sq_fails = \<lambda>op. False, sq_now = 1\<rparr>,
     me_downloads = \<lparr>dl_fails = \<lambda>op. False, dl_now = 1\<rparr>, me_openUpdates = (\<lambda>dir. True),
     me_dir = \<lparr>dr_fails = \<lambda>op p n. False, dr_now = 1, dr_mtime = 1\<rparr>\<rparr>"

definition empty_system :: system where
  "empty_system = \<lparr>sy_db = emptyDb, sy_files = Map.empty, sy_release = \<lparr>rd_installers = [], rd_feeds = empty_feeds\<rparr>,
     sy_downloads = empty_downloads, sy_updates = empty_dir\<rparr>"

definition sample_start :: "server \<times> system" where
  "sample_start = (newServer sample_libs (options_of sample_config), snd (startServer sample_machine sample_environ empty_system))"

lemma sample_starts: "startServer sample_machine sample_environ empty_system = (Inr (fst sample_start), snd sample_start)"
proof -
  have paths: "path_prefixes (path_dir ''/data/data.sqlite'') = [''/data'']" "trimSpace ''/data/data.sqlite'' = ''/data/data.sqlite''"
    "trimSpace ''hash'' = ''hash''" by code_simp+
  have db: "cf_SQLiteDBPath sample_config = ''/data/data.sqlite''" "cf_InitAdminPassword sample_config = ''hash''"
    by (simp_all add: sample_config_def base_config_def envOr_def)
  have opened: "fst (open_stores sample_machine sample_config (empty_system\<lparr>sy_db := d\<rparr>)) = Inr ()" for d
    by (simp add: open_stores_def db openSQLite_def openSQLiteDownloadStore_def mkdirAll_def paths sample_machine_def empty_system_def
        ensureSchema_def ensureDesktopUpdateSchema_def empty_feeds_def feed_keys_ok_def openDirectoryUpdates_def importLegacy_def
        listUpdateFeeds_def lookup_empty atomicWrite_def Let_def)
  have "fst (ensureInitialAdmin sample_libs (sample_env 1) (cf_InitAdminEmail sample_config) ''hash'' emptyDb) = Inr ()"
    by (simp add: ensureInitialAdmin_def paths sample_libs_def EnsureAdmin_def upsert_admin_def emptyDb_def sample_env_def Let_def)
  then obtain d where d: "ensureInitialAdmin sample_libs (sample_env 1) (cf_InitAdminEmail sample_config) ''hash'' emptyDb = (Inr (), d)"
    by (cases "ensureInitialAdmin sample_libs (sample_env 1) (cf_InitAdminEmail sample_config) ''hash'' emptyDb") simp
  obtain sy1 where sy1: "open_stores sample_machine sample_config (empty_system\<lparr>sy_db := d\<rparr>) = (Inr (), sy1)"
    using opened [of d] by (cases "open_stores sample_machine sample_config (empty_system\<lparr>sy_db := d\<rparr>)") simp
  have "me_openMySQL sample_machine dsn" "me_mysqlSchema sample_machine" "me_libs sample_machine = sample_libs"
      "me_db sample_machine = sample_env 1" "sy_db empty_system = emptyDb" for dsn
    by (simp_all add: sample_machine_def empty_system_def)
  then have "fst (startServer sample_machine sample_environ empty_system) = Inr (fst sample_start)"
    using d sy1 by (simp add: startServer_def sample_config_ok db sample_start_def)
  then show ?thesis by (simp add: sample_start_def prod_eq_iff)
qed

definition first_login :: login_request where
  "first_login = \<lparr>lr_email = '' ROOT@x.io'', lr_password = ''hash''\<rparr>"

lemma first_start_admin_login_witness:
  "\<exists>u (ns :: new_session) w. login sample_libs (fst sample_start) (sample_env 2) sample_request (Some first_login) (start_world (replicate 64 CHR ''a'') (snd sample_start)) =
      (setCookie (sessionCookie (fst sample_start) (ns_token ns) (serverNow (sample_env 2) + sv_sessionTTL (fst sample_start)))
         (writeJSON 200 (JObj [(''user'', publicUser (fst sample_start) u)])), w)
    \<and> usr_role u = ''admin'' \<and> usr_enabled u \<and> usr_email u = ''root@x.io''"
proof -
  have libs: "me_libs sample_machine = sample_libs" by (simp add: sample_machine_def)
  have hash: "lib_bcryptCompare sample_libs h (sample_environ ''INIT_ADMIN_PASSWORD'')"
    if "lib_bcryptHash sample_libs (sample_environ ''INIT_ADMIN_PASSWORD'') = Some h" for h
    using that by (simp add: sample_libs_def)
  have email: "normalizeEmail (lr_email first_login) = ''root@x.io'' \<and> normalizeEmail ''Root@X.io'' = ''root@x.io''" by code_simp
  have "trimSpace (hdr sample_request ''Origin'') = []" by code_simp
  then have origin: "originAllowed (fst sample_start) sample_request" by (simp add: originAllowed_def validRequestOrigin_def)
  have empty: "sy_db empty_system = emptyDb" by (simp add: empty_system_def)
  have "normalizeEmail (lr_email first_login) = normalizeEmail (sample_environ ''INIT_ADMIN_EMAIL'')" using email by simp
  moreover have "lr_password first_login = sample_environ ''INIT_ADMIN_PASSWORD''" by (simp add: first_login_def)
  moreover have "\<forall>op. \<not> db_fails (sample_env 2) op" "64 \<le> length (replicate 64 CHR ''a'')" by (simp_all add: sample_env_def)
  ultimately show ?thesis
    using first_start_admin_login [OF sample_starts empty, unfolded libs, OF hash _ _ origin] email by simp
qed

subsection \<open>The command line\<close>

definition upsert_args :: "upsert_options \<Rightarrow> string list" where
  "upsert_args o1 =
     [''-db'', uo_dbPath o1, ''-release-root'', uo_releaseRoot o1, ''-key'', uo_key o1, ''-version'', uo_version o1,
      ''-source'', uo_source o1, ''-filename'', uo_fileName o1, ''-replace='' @ (if uo_replace o1 then ''true'' else ''false'')]"

lemma parse_upsert_args:
  "parse_flags upsert_flags (upsert_args o1) = Inr
     [(''db'', uo_dbPath o1), (''release-root'', uo_releaseRoot o1), (''key'', uo_key o1), (''version'', uo_version o1),
      (''source'', uo_source o1), (''filename'', uo_fileName o1), (''replace'', if uo_replace o1 then ''true'' else ''false'')]"
  by (simp add: upsert_args_def parse_flags.simps parse_one_flag_def upsert_flags_def parse_bool_def)

text \<open>C38: Every set of options can be given on the command line: the command with these arguments is \<open>UpsertFile\<close> with
  exactly these options, whatever the environment and the texts of the options are.\<close>

theorem releasectl_options:
  "releasectl F Q e (''upsert'' # upsert_args o1) fs d =
     (case upsertFile F Q o1 fs d of
        (Inl err, fs1, d1) \<Rightarrow> (Inl (CommandFailed err), fs1, d1)
      | (Inr i, fs1, d1) \<Rightarrow> (Inr i, fs1, d1))"
proof -
  have "upsert_options_of e
     [(''db'', uo_dbPath o1), (''release-root'', uo_releaseRoot o1), (''key'', uo_key o1), (''version'', uo_version o1),
      (''source'', uo_source o1), (''filename'', uo_fileName o1), (''replace'', if uo_replace o1 then ''true'' else ''false'')] = o1"
    by (simp add: upsert_options_of_def flag_value_def parse_bool_def)
  then show ?thesis by (simp add: releasectl_def runUpsert_def parse_upsert_args)
qed

end
