(* ===== verification/Go_Media.thy ===== *)
theory Go_Media
  imports Go_Url
begin

text \<open>
  What the avatar proxy uses beside \<open>url.Parse\<close>: \<open>URL.Parse\<close> of a redirect target relative to the URL it came
  from, and \<open>mime.ParseMediaType\<close> of a content type, of which only the media type is used.
\<close>

subsection \<open>References\<close>

text \<open>
  \<open>resolvePath\<close> writes the elements of the path after a first slash; the flag says whether the next element is
  written without a slash before it.
\<close>

fun resolve_elements :: "bool \<Rightarrow> string \<Rightarrow> string list \<Rightarrow> string" where
  "resolve_elements first dst [] = dst"
| "resolve_elements first dst (e # es) =
     (if e = ''.'' then resolve_elements False dst es
      else if e = ''..'' then
        (case cut_last CHR ''/'' dst of
           None \<Rightarrow> resolve_elements True [] es
         | Some (d, _) \<Rightarrow> resolve_elements first d es)
      else resolve_elements False (if first then dst @ e else dst @ ''/'' @ e) es)"

definition resolve_path :: "string \<Rightarrow> string \<Rightarrow> string" where
  "resolve_path base ref =
     (let full = (if ref = [] then base
                  else if hd ref \<noteq> CHR ''/'' then (case cut_last CHR ''/'' base of None \<Rightarrow> [] | Some (d, _) \<Rightarrow> d @ ''/'') @ ref
                  else ref)
      in if full = [] then []
         else
           (let es = split_on CHR ''/'' full;
                dst = resolve_elements True [] es @ (if last es = ''.'' \<or> last es = ''..'' then ''/'' else [])
            in if prefix ''/'' dst then dst else CHR ''/'' # dst))"

text \<open>\<open>setPath\<close> of an escaped path does not fail; if it did, the path would stay.\<close>

definition with_path :: "string \<Rightarrow> url \<Rightarrow> url" where
  "with_path p u = (case setPath p u of None \<Rightarrow> u | Some u' \<Rightarrow> u')"

definition resolveReference :: "url \<Rightarrow> url \<Rightarrow> url" where
  "resolveReference u ref =
     (let r1 = (if url_scheme ref = [] then ref\<lparr>url_scheme := url_scheme u\<rparr> else ref) in
      if url_scheme ref \<noteq> [] \<or> url_host ref \<noteq> [] \<or> url_user ref \<noteq> None then with_path (resolve_path (escapedPath ref) []) r1
      else if url_opaque ref \<noteq> [] then r1\<lparr>url_user := None, url_host := [], url_path := []\<rparr>
      else
        (let r2 = (if url_path ref = [] \<and> \<not> url_forceQuery ref \<and> url_rawQuery ref = []
                   then (let r = r1\<lparr>url_rawQuery := url_rawQuery u\<rparr> in
                         if url_fragment ref = [] then r\<lparr>url_fragment := url_fragment u, url_rawFragment := url_rawFragment u\<rparr> else r)
                   else r1)
         in if url_path ref = [] \<and> url_opaque u \<noteq> []
            then r2\<lparr>url_opaque := url_opaque u, url_user := None, url_host := [], url_path := []\<rparr>
            else with_path (resolve_path (escapedPath u) (escapedPath ref)) (r2\<lparr>url_host := url_host u, url_user := url_user u\<rparr>)))"

definition url_relative :: "url \<Rightarrow> string \<Rightarrow> url option" where
  "url_relative base ref = map_option (resolveReference base) (url_parse ref)"

subsection \<open>Media types\<close>

definition trimLeftSpace :: "string \<Rightarrow> string" where
  "trimLeftSpace s = strip_leading space_runes s"

definition tspecial :: "char \<Rightarrow> bool" where
  "tspecial c \<longleftrightarrow> c \<in> set (''()<>@,;:'' @ [CHR 0x5C, CHR 0x22] @ ''/[]?='')"

definition mime_token_char :: "char \<Rightarrow> bool" where
  "mime_token_char c \<longleftrightarrow> CHR 0x20 < c \<and> c < CHR 0x7F \<and> \<not> tspecial c"

definition consumeToken :: "string \<Rightarrow> string \<times> string" where
  "consumeToken s = (takeWhile mime_token_char s, dropWhile mime_token_char s)"

text \<open>\<open>checkMediaTypeDisposition\<close>: a token, or two with a slash between them.\<close>

definition media_type_ok :: "string \<Rightarrow> bool" where
  "media_type_ok s =
     (case consumeToken s of
        (typ, rest) \<Rightarrow>
          typ \<noteq> [] \<and> (rest = [] \<or> prefix ''/'' rest \<and> (case consumeToken (tl rest) of (sub, rest') \<Rightarrow> sub \<noteq> [] \<and> rest' = [])))"

text \<open>The rest of a quoted string; \<^const>\<open>None\<close> without the closing quote or with a line break.\<close>

fun consume_quoted :: "string \<Rightarrow> string \<Rightarrow> (string \<times> string) option" where
  "consume_quoted acc [] = None"
| "consume_quoted acc (c # cs) =
     (if c = CHR 0x22 then Some (rev acc, cs)
      else if c = CHR 0x5C then
        (case cs of
           d # ds \<Rightarrow> if tspecial d then consume_quoted (d # acc) ds else consume_quoted (c # acc) cs
         | [] \<Rightarrow> None)
      else if c = CHR 0x0D \<or> c = CHR 0x0A then None
      else consume_quoted (c # acc) cs)"

definition consumeValue :: "string \<Rightarrow> string \<times> string" where
  "consumeValue v =
     (if prefix [CHR 0x22] v then (case consume_quoted [] (tl v) of None \<Rightarrow> ([], v) | Some r \<Rightarrow> r) else consumeToken v)"

text \<open>A parameter with its value, and the rest.\<close>

definition consumeMediaParam :: "string \<Rightarrow> (string \<times> string \<times> string) option" where
  "consumeMediaParam v =
     (let s = trimLeftSpace v in
      if \<not> prefix '';'' s then None
      else
        (let (param, s1) = consumeToken (trimLeftSpace (tl s)); s2 = trimLeftSpace s1 in
         if param = [] \<or> \<not> prefix ''='' s2 then None
         else
           (let s3 = trimLeftSpace (tl s2); (val, s4) = consumeValue s3 in
            if val = [] \<and> s4 = s3 then None else Some (toLower param, val, s4))))"

lemma trimLeftSpace_length: "length (trimLeftSpace s) \<le> length s"
  using strip_leading_suffix [of space_runes s] by (simp add: trimLeftSpace_def suffix_length_le)

lemma consumeToken_length: "length (snd (consumeToken s)) \<le> length s"
  by (simp add: consumeToken_def length_dropWhile_le)

lemma consume_quoted_length: "consume_quoted acc s = Some (v, r) \<Longrightarrow> length r \<le> length s"
  by (induction acc s rule: consume_quoted.induct) (auto split: if_splits list.splits)

lemma consumeValue_length: "length (snd (consumeValue s)) \<le> length s"
proof (cases "prefix [CHR 0x22] s")
  case True
  then show ?thesis
    by (cases s) (auto simp: consumeValue_def split: option.split dest: consume_quoted_length)
qed (simp add: consumeValue_def consumeToken_length)

lemma consumeMediaParam_length:
  assumes "consumeMediaParam v = Some (k, x, r)"
  shows "length r < length v"
proof -
  define s where "s = trimLeftSpace v"
  define s1 where "s1 = snd (consumeToken (trimLeftSpace (tl s)))"
  define s3 where "s3 = trimLeftSpace (tl (trimLeftSpace s1))"
  have "prefix '';'' s" and r: "r = snd (consumeValue s3)"
    using assms by (auto simp: consumeMediaParam_def s_def s1_def s3_def Let_def case_prod_beta split: if_splits)
  then have "length (tl s) < length s" by (cases s) auto
  moreover have "length s \<le> length v" by (simp add: s_def trimLeftSpace_length)
  moreover have "length s1 \<le> length (tl s)"
    using consumeToken_length [of "trimLeftSpace (tl s)"] trimLeftSpace_length [of "tl s"] by (simp add: s1_def)
  moreover have "length s3 \<le> length s1"
    using trimLeftSpace_length [of "tl (trimLeftSpace s1)"] trimLeftSpace_length [of s1] by (simp add: s3_def)
  moreover have "length r \<le> length s3" by (simp add: r consumeValue_length)
  ultimately show ?thesis by simp
qed

text \<open>Whether the parameters are well-formed: none is repeated with another value, and a last semicolon may stand alone.\<close>

function media_params_ok :: "(string \<times> string) list \<Rightarrow> string \<Rightarrow> bool" where
  "media_params_ok seen v =
     (let s = trimLeftSpace v in
      if s = [] then True
      else case consumeMediaParam s of
        None \<Rightarrow> trimSpace s = '';''
      | Some (k, x, rest) \<Rightarrow>
          (case map_of seen k of Some y \<Rightarrow> x = y | None \<Rightarrow> True) \<and> media_params_ok ((k, x) # seen) rest)"
  by pat_completeness auto
termination
proof (relation "measure (\<lambda>(seen, v). length v)", simp)
  fix seen v s k x rest p q
  assume "s = trimLeftSpace v" "consumeMediaParam s = Some p" "(k, q) = p" "(x, rest) = q"
  then show "(((k, x) # seen, rest), seen, v) \<in> measure (\<lambda>(seen, v). length v)"
    using consumeMediaParam_length [of s k x rest] trimLeftSpace_length [of v] by simp
qed

declare media_params_ok.simps [simp del]

definition parseMediaType :: "string \<Rightarrow> string option" where
  "parseMediaType v =
     (let base = takeWhile (\<lambda>c. c \<noteq> CHR '';'') v; t = trimSpace (toLower base) in
      if media_type_ok t \<and> media_params_ok [] (drop (length base) v) then Some t else None)"

end
