(* ===== verification/Avatar_Fetch.thy ===== *)
theory Avatar_Fetch
  imports Go_Media Auth_Session
begin

text \<open>
  The rest of \<open>internal/auth/avatar_proxy.go\<close>: the download of an avatar with its redirects, the files of the
  cache, and the handler. The sites that serve avatars are a function from requested URLs to answers; which
  file operations fail, the clock and the order in which Go walks a map are the record \<open>avatar_env\<close>.
\<close>

subsection \<open>Download\<close>

text \<open>The answer of a site: status, the two headers that are read, the announced length (\<open>-1\<close> for none), the body,
  and whether reading the body fails.\<close>

record web_answer =
  wa_status :: int
  wa_location :: string
  wa_contentType :: string
  wa_contentLength :: int
  wa_body :: string
  wa_readFails :: bool

type_synonym web = "string \<Rightarrow> web_answer option"

definition avatarProxyMaxRedirects :: nat where
  "avatarProxyMaxRedirects = 3"

definition avatarExtensionByContentType :: "(string \<times> string) list" where
  "avatarExtensionByContentType =
     [(''image/gif'', ''.gif''), (''image/jpeg'', ''.jpg''), (''image/png'', ''.png''), (''image/webp'', ''.webp'')]"

definition avatarContentTypeByExtension :: "(string \<times> string) list" where
  "avatarContentTypeByExtension =
     [(''.gif'', ''image/gif''), (''.jpg'', ''image/jpeg''), (''.png'', ''image/png''), (''.webp'', ''image/webp'')]"

definition redirect_status :: "int \<Rightarrow> bool" where
  "redirect_status s \<longleftrightarrow> s \<in> {301, 302, 303, 307, 308}"

text \<open>An \<open>int64\<close>: the limit of the reader wraps around when the limit of the proxy is the largest number.\<close>

definition wrap_int64 :: "int \<Rightarrow> int" where
  "wrap_int64 i = (i + 2 ^ 63) mod 2 ^ 64 - 2 ^ 63"

text \<open>What a final answer gives: the content and the extension of its type.\<close>

definition accept_answer :: "avatar_proxy \<Rightarrow> web_answer \<Rightarrow> (string \<times> string) option" where
  "accept_answer p a =
     (if wa_status a \<noteq> 200 then None
      else case parseMediaType (wa_contentType a) of
        None \<Rightarrow> None
      | Some t \<Rightarrow>
          (case map_of avatarExtensionByContentType (toLower t) of
             None \<Rightarrow> None
           | Some extension \<Rightarrow>
               if av_maxBytes p < wa_contentLength a \<or> wa_readFails a then None
               else
                 (let content = take (nat (wrap_int64 (av_maxBytes p + 1))) (wa_body a) in
                  if content = [] \<or> av_maxBytes p < int (length content) then None else Some (content, extension))))"

text \<open>The loop, with the number of redirects left; the second result lists the URLs that were requested.\<close>

fun download_from :: "avatar_proxy \<Rightarrow> web \<Rightarrow> nat \<Rightarrow> string \<Rightarrow> (string \<times> string) option \<times> string list" where
  "download_from p net n currentURL =
     (if \<not> snd (sourceURL p currentURL) then (None, [])
      else case net currentURL of
        None \<Rightarrow> (None, [currentURL])
      | Some a \<Rightarrow>
          if redirect_status (wa_status a) then
            (case n of
               0 \<Rightarrow> (None, [currentURL])
             | Suc m \<Rightarrow>
                 (let location = trimSpace (wa_location a) in
                  if location = [] then (None, [currentURL])
                  else case Option.bind (url_parse currentURL) (\<lambda>base. url_relative base location) of
                    None \<Rightarrow> (None, [currentURL])
                  | Some next_url \<Rightarrow> apsnd (\<lambda>us. currentURL # us) (download_from p net m (url_string next_url))))
          else (accept_answer p a, [currentURL]))"

declare download_from.simps [simp del]

definition download :: "avatar_proxy \<Rightarrow> web \<Rightarrow> string \<Rightarrow> (string \<times> string) option \<times> string list" where
  "download p net rawURL = download_from p net avatarProxyMaxRedirects (trimSpace rawURL)"

subsection \<open>The cache\<close>

text \<open>The directory of each user: files with their content and time, and anything else as a directory.\<close>

datatype cache_node = CacheFile string int | CacheDir

type_synonym avatar_cache = "int \<times> string \<Rightarrow> cache_node option"

datatype avatar_op = AvatarLstat | AvatarWrite | AvatarRename | AvatarRemove | AvatarStat | AvatarRead

record avatar_env =
  ae_fails :: "avatar_op \<Rightarrow> string \<Rightarrow> bool"
  ae_now :: int
  ae_order :: "nat \<Rightarrow> string list"

text \<open>The first extension, in the order of this walk, for which there is a regular file.\<close>

definition findCachedAvatar :: "avatar_env \<Rightarrow> nat \<Rightarrow> user \<Rightarrow> string \<Rightarrow> avatar_cache \<Rightarrow> (string \<times> int) option" where
  "findCachedAvatar E k u version c =
     (case find (\<lambda>x. \<not> ae_fails E AvatarLstat (version @ x) \<and> (case c (usr_id u, version @ x) of Some (CacheFile _ _) \<Rightarrow> True | _ \<Rightarrow> False))
        (ae_order E k) of
        None \<Rightarrow> None
      | Some x \<Rightarrow> (case c (usr_id u, version @ x) of Some (CacheFile _ t) \<Rightarrow> Some (version @ x, t) | _ \<Rightarrow> None))"

text \<open>The temporary file is renamed to the target or removed; then the other files of the user go.\<close>

definition writeCache :: "avatar_env \<Rightarrow> user \<Rightarrow> string \<Rightarrow> string \<Rightarrow> string \<Rightarrow> avatar_cache \<Rightarrow> string option \<times> avatar_cache" where
  "writeCache E u version extension content c =
     (let name = version @ extension in
      if ae_fails E AvatarWrite name \<or> ae_fails E AvatarRename name \<or> c (usr_id u, name) = Some CacheDir then (None, c)
      else
        (Some name,
         \<lambda>(i, n). if i \<noteq> usr_id u then c (i, n)
                  else if n = name then Some (CacheFile content (ae_now E))
                  else (case c (i, n) of
                          Some (CacheFile d t) \<Rightarrow> if ae_fails E AvatarRemove n then Some (CacheFile d t) else None
                        | other \<Rightarrow> other)))"

subsection \<open>The handler\<close>

text \<open>
  A response, or the content that \<open>http.ServeContent\<close> sends with these headers, which decides itself between the
  whole content, a part of it and "not modified".
\<close>

datatype avatar_response = Plain response | Served "(string \<times> string) list" string int string

text \<open>\<open>filepath.Ext\<close>\<close>

definition path_ext :: "string \<Rightarrow> string" where
  "path_ext name = (case cut_last CHR ''.'' name of None \<Rightarrow> [] | Some (_, x) \<Rightarrow> if CHR ''/'' \<in> set x then [] else CHR ''.'' # x)"

definition serveFile :: "avatar_env \<Rightarrow> request \<Rightarrow> user \<Rightarrow> string \<Rightarrow> string \<Rightarrow> int \<Rightarrow> avatar_cache \<Rightarrow> avatar_response" where
  "serveFile E r u version name modTime c =
     (case map_of avatarContentTypeByExtension (toLower (path_ext name)) of
        None \<Rightarrow> Plain notFound
      | Some contentType \<Rightarrow>
          (let etag = CHR 0x22 # version @ [CHR 0x22];
               headers = [(''Cache-Control'', ''private, max-age=3600''), (''Content-Type'', contentType), (''ETag'', etag)]
           in
           if trimSpace (hdr r ''If-None-Match'') = etag
           then Plain \<lparr>rs_status = 304, rs_headers = headers, rs_cookies = [], rs_location = None, rs_body = NoBody\<rparr>
           else case (ae_fails E AvatarRead name, c (usr_id u, name)) of
             (False, Some (CacheFile content _)) \<Rightarrow> Served headers name modTime content
           | _ \<Rightarrow> Plain notFound))"

definition fresh_cache :: "avatar_env \<Rightarrow> avatar_proxy \<Rightarrow> (string \<times> int) option \<Rightarrow> bool" where
  "fresh_cache E p cached = (case cached of None \<Rightarrow> False | Some (_, t) \<Rightarrow> ae_now E - t < av_cacheTTL p)"

text \<open>
  The part under the lock of the user and the version. The results are the response, the cache and the URLs that
  were requested.
\<close>

definition serve_locked ::
  "avatar_env \<Rightarrow> web \<Rightarrow> avatar_proxy \<Rightarrow> request \<Rightarrow> user \<Rightarrow> string \<Rightarrow> avatar_cache \<Rightarrow> avatar_response \<times> avatar_cache \<times> string list" where
  "serve_locked E net p r u version c =
     (let cached = findCachedAvatar E 1 u version c in
      case (cached, fresh_cache E p cached) of
        (Some (name, t), True) \<Rightarrow> (serveFile E r u version name t c, c, [])
      | _ \<Rightarrow>
          (case download p net (usr_avatarURL u) of
             (None, us) \<Rightarrow>
               (case cached of
                  Some (name, t) \<Rightarrow> (serveFile E r u version name t c, c, us)
                | None \<Rightarrow> (Plain (writeError 502 ''avatar_unavailable'' ''Avatar is temporarily unavailable.''), c, us))
           | (Some (content, extension), us) \<Rightarrow>
               (case writeCache E u version extension content c of
                  (None, c1) \<Rightarrow> (Plain (writeError 500 ''avatar_cache_failed'' ''Unable to cache avatar.''), c1, us)
                | (Some name, c1) \<Rightarrow>
                    (case (ae_fails E AvatarStat name, c1 (usr_id u, name)) of
                       (False, Some (CacheFile _ t)) \<Rightarrow> (serveFile E r u version name t c1, c1, us)
                     | _ \<Rightarrow> (Plain (writeError 500 ''avatar_cache_failed'' ''Unable to read cached avatar.''), c1, us)))))"

text \<open>
  \<open>serve\<close> looks into the cache \<open>c0\<close> first; by the time it has the lock, other requests may have changed the cache
  to \<open>c1\<close>.
\<close>

definition serve ::
  "avatar_env \<Rightarrow> web \<Rightarrow> avatar_proxy \<Rightarrow> request \<Rightarrow> user \<Rightarrow> string \<Rightarrow> avatar_cache \<Rightarrow> avatar_cache
   \<Rightarrow> avatar_response \<times> avatar_cache \<times> string list" where
  "serve E net p r u version c0 c1 =
     (if \<not> av_enabled p \<or> version = [] \<or> version \<noteq> avatarVersion u \<or> \<not> snd (sourceURL p (usr_avatarURL u))
      then (Plain notFound, c1, [])
      else
        (let cached = findCachedAvatar E 0 u version c0 in
         case (cached, fresh_cache E p cached) of
           (Some (name, t), True) \<Rightarrow> (serveFile E r u version name t c0, c1, [])
         | _ \<Rightarrow> serve_locked E net p r u version c1))"

definition avatar ::
  "server \<Rightarrow> dbenv \<Rightarrow> avatar_env \<Rightarrow> web \<Rightarrow> request \<Rightarrow> avatar_cache \<Rightarrow> avatar_cache \<Rightarrow> db
   \<Rightarrow> (avatar_response \<times> avatar_cache \<times> string list) \<times> db" where
  "avatar S D E net r c0 c1 d =
     (case currentUser S D r d of
        (Inl ErrNotFound, d1) \<Rightarrow> ((Plain (writeError 401 ''unauthorized'' ''Login required.''), c1, []), d1)
      | (Inl (ErrDisabledUser u), d1) \<Rightarrow> ((Plain (writeError 403 ''account_disabled'' ''This account is disabled.''), c1, []), d1)
      | (Inl _, d1) \<Rightarrow> ((Plain (writeError 500 ''server_error'' ''Unable to read session.''), c1, []), d1)
      | (Inr u, d1) \<Rightarrow> (serve E net (sv_avatarProxy S) r u (trimSpace (rq_pathValue r ''version'')) c0 c1, d1))"

end
