(* ===== verification/Avatar_Laws.thy ===== *)
theory Avatar_Laws
  imports Avatar_Fetch Login_Properties
begin

text \<open>
  Properties of the avatar proxy: which sites it asks, and where the images come from that it shows.
\<close>

subsection \<open>Requests\<close>

lemma download_from_allowed:
  "set (snd (download_from p net n v)) \<subseteq> {v. snd (sourceURL p v)} \<and> length (snd (download_from p net n v)) \<le> Suc n"
proof (induction p net n v rule: download_from.induct)
  case (1 p net n v)
  show ?case
  proof (cases "snd (sourceURL p v)")
    case True
    then show ?thesis
      using "1.IH" by (auto simp: download_from.simps [of p net n v] Let_def split: option.splits nat.splits)
  qed (simp add: download_from.simps [of p net n v])
qed

lemma download_allowed:
  "set (snd (download p net v)) \<subseteq> {v. snd (sourceURL p v)} \<and> length (snd (download p net v)) \<le> 4"
  using download_from_allowed [of p net 3 "trimSpace v"] by (simp add: download_def avatarProxyMaxRedirects_def)

lemma serve_locked_requests:
  "snd (snd (serve_locked E net p r u version c)) \<in> {[], snd (download p net (usr_avatarURL u))}"
  by (auto simp: serve_locked_def Let_def split: option.splits prod.splits bool.splits cache_node.splits)

text \<open>C40: Whatever the sites answer, a request for an avatar makes the server ask at most four URLs, each with https on
  an allowed origin and without credentials: redirects do not lead anywhere else.\<close>

theorem avatar_requests_allowed:
  "set (snd (snd (serve E net p r u version c0 c1)))
     \<subseteq> {v. \<exists>w. sourceURL p v = (Some w, True) \<and> url_scheme w = ''https'' \<and> url_user w = None
               \<and> toLower (url_scheme w @ ''://'' @ url_host w) \<in> set (av_allowedOrigins p)}
   \<and> length (snd (snd (serve E net p r u version c0 c1))) \<le> 4"
proof -
  have source: "\<exists>w. sourceURL p v = (Some w, True) \<and> url_scheme w = ''https'' \<and> url_user w = None
      \<and> toLower (url_scheme w @ ''://'' @ url_host w) \<in> set (av_allowedOrigins p)" if "snd (sourceURL p v)" for v
    using that unfolding sourceURL_def by (auto simp del: not_None_eq split: if_splits option.splits)
  have "snd (snd (serve E net p r u version c0 c1)) \<in> {[], snd (download p net (usr_avatarURL u))}"
    using serve_locked_requests [of E net p r u version c1]
    by (auto simp: serve_def Let_def split: option.splits prod.splits bool.splits)
  then show ?thesis using download_allowed [of p net "usr_avatarURL u"] source by auto
qed

subsection \<open>Content\<close>




text \<open>
  With the largest \<open>int64\<close> as the limit, which the configuration accepts, the limit of the reader wraps around
  to a negative number: nothing is read, and every avatar is refused as empty.
\<close>

lemma largest_limit_refuses: "av_maxBytes p = 2 ^ 63 - 1 \<Longrightarrow> accept_answer p a = None"
  by (simp add: accept_answer_def wrap_int64_def Let_def split: option.split)














subsection \<open>A sample\<close>








end
