(* ===== verification/Go_Mux.thy ===== *)
theory Go_Mux
  imports Http Go_Path
begin

text \<open>
  What the program uses of the \<open>ServeMux\<close> of Go's \<open>net/http\<close>: patterns with an optional method, wildcards for one
  segment and a trailing slash that matches the rest; the search that prefers literal segments and patterns with a
  method; cleaning of paths, the two redirects, and the answer to a path that only other methods have. No pattern of
  the program names a host.
\<close>

subsection \<open>Patterns\<close>

datatype path_segment = Literal string | Wildcard string | TrailingSlash

record 'a route =
  rt_method :: "string option"
  rt_segments :: "path_segment list"
  rt_target :: 'a

definition segment_of :: "string \<Rightarrow> path_segment" where
  "segment_of s =
     (if s = [] then TrailingSlash
      else if hd s = CHR 0x7B \<and> last s = CHR 0x7D then Wildcard (butlast (tl s)) else Literal s)"

text \<open>A pattern is a path, or a method, a space and a path.\<close>

definition parsePattern :: "string \<Rightarrow> string option \<times> path_segment list" where
  "parsePattern pat =
     (let m = takeWhile (\<lambda>c. c \<noteq> CHR '' '') pat;
          path = (if CHR '' '' \<in> set pat then drop (Suc (length m)) pat else pat)
      in (if CHR '' '' \<in> set pat then Some m else None, map segment_of (split_on CHR ''/'' (tl path))))"

definition handleFunc :: "string \<Rightarrow> 'a \<Rightarrow> 'a route" where
  "handleFunc pat x = \<lparr>rt_method = fst (parsePattern pat), rt_segments = snd (parsePattern pat), rt_target = x\<rparr>"

subsection \<open>The search\<close>

text \<open>The first segment, unescaped where that is possible, and the rest of a path.\<close>

definition pathUnescape :: "string \<Rightarrow> string" where
  "pathUnescape s = (case unescape EncPath s of None \<Rightarrow> s | Some t \<Rightarrow> t)"

definition firstSegment :: "string \<Rightarrow> string \<times> string" where
  "firstSegment path =
     (if path = ''/'' then (''/'', [])
      else (pathUnescape (takeWhile (\<lambda>c. c \<noteq> CHR ''/'') (tl path)), dropWhile (\<lambda>c. c \<noteq> CHR ''/'') (tl path)))"

lemma firstSegment_shorter: "path \<noteq> [] \<Longrightarrow> length (snd (firstSegment path)) < length path"
  using length_dropWhile_le [of "\<lambda>c. c \<noteq> CHR ''/''" "tl path"] by (cases path) (auto simp: firstSegment_def)

text \<open>
  The tree of patterns as the patterns that are left at a node, each with the segments that still have to match.
  The result has the values of the wildcards in their order.
\<close>

definition below :: "(path_segment \<Rightarrow> bool) \<Rightarrow> (path_segment list \<times> 'a) list \<Rightarrow> (path_segment list \<times> 'a) list" where
  "below P ps = map (\<lambda>(ss, x). (tl ss, x)) (filter (\<lambda>(ss, x). ss \<noteq> [] \<and> P (hd ss)) ps)"

definition leaf :: "path_segment list \<Rightarrow> (path_segment list \<times> 'a) list \<Rightarrow> 'a option" where
  "leaf ss ps = map_option snd (find (\<lambda>p. fst p = ss) ps)"

function matchPath :: "(path_segment list \<times> 'a) list \<Rightarrow> string \<Rightarrow> string list \<Rightarrow> ('a \<times> string list) option" where
  "matchPath ps path ms =
     (if path = [] then map_option (\<lambda>x. (x, ms)) (leaf [] ps)
      else
        (let seg = fst (firstSegment path); rest = snd (firstSegment path) in
         case matchPath (below (\<lambda>s. s = Literal seg) ps) rest ms of
           Some found \<Rightarrow> Some found
         | None \<Rightarrow>
             (case (if seg = ''/'' then None
                    else matchPath (below (\<lambda>s. case s of Wildcard _ \<Rightarrow> True | _ \<Rightarrow> False) ps) rest (ms @ [seg])) of
                Some found \<Rightarrow> Some found
              | None \<Rightarrow> map_option (\<lambda>x. (x, ms)) (leaf [TrailingSlash] ps))))"
  by pat_completeness auto
termination
  by (relation "measure (\<lambda>(ps, path, ms). length path)") (auto dest: firstSegment_shorter)

declare matchPath.simps [simp del]

definition patterns_of :: "string option \<Rightarrow> 'a route list \<Rightarrow> (path_segment list \<times> 'a route) list" where
  "patterns_of m rs = map (\<lambda>r. (rt_segments r, r)) (filter (\<lambda>r. rt_method r = m) rs)"

definition match_in :: "'a route list \<Rightarrow> string option \<Rightarrow> string \<Rightarrow> ('a route \<times> string list) option" where
  "match_in rs m path = matchPath (patterns_of m rs) path []"

definition match_route :: "'a route list \<Rightarrow> string \<Rightarrow> string \<Rightarrow> ('a route \<times> string list) option" where
  "match_route rs method path =
     (case match_in rs (Some method) path of
        Some found \<Rightarrow> Some found
      | None \<Rightarrow>
          (case (if method = ''HEAD'' then match_in rs (Some ''GET'') path else None) of
             Some found \<Rightarrow> Some found
           | None \<Rightarrow> match_in rs None path))"

subsection \<open>Requests\<close>

definition cleanPath :: "string \<Rightarrow> string" where
  "cleanPath p =
     (if p = [] then ''/''
      else
        (let p' = (if hd p = CHR ''/'' then p else CHR ''/'' # p); np = path_clean p'
         in if last p' = CHR ''/'' \<and> np \<noteq> ''/'' then np @ ''/'' else np))"

text \<open>A pattern with a trailing slash matches exactly if nothing follows its slash.\<close>

definition exactMatch :: "('a route \<times> string list) option \<Rightarrow> string \<Rightarrow> bool" where
  "exactMatch found path =
     (case found of
        None \<Rightarrow> False
      | Some (r, _) \<Rightarrow>
          if rt_segments r = [] \<or> last (rt_segments r) \<noteq> TrailingSlash then True
          else suffix ''/'' path \<and> length (rt_segments r) = length (filter (\<lambda>c. c = CHR ''/'') path))"

definition redirectsToSlash :: "'a route list \<Rightarrow> string \<Rightarrow> string \<Rightarrow> bool" where
  "redirectsToSlash rs method path \<longleftrightarrow>
     \<not> exactMatch (match_route rs method path) path \<and> \<not> suffix ''/'' path
     \<and> exactMatch (match_route rs method (path @ ''/'')) (path @ ''/'')"

definition matchingMethods :: "'a route list \<Rightarrow> string \<Rightarrow> string list" where
  "matchingMethods rs path =
     (let has = (\<lambda>m. match_in rs (Some m) path \<noteq> None \<or> match_in rs (Some m) (path @ ''/'') \<noteq> None)
      in filter (\<lambda>m. has m \<or> m = ''HEAD'' \<and> has ''GET'') [''GET'', ''HEAD'', ''POST'', ''PUT''])"

datatype 'a mux_result =
  Handler 'a "(string \<times> string) list" | RedirectTo url | NotAllowed "string list" | NoHandler | BadTarget

text \<open>The names of the wildcards with their values.\<close>

definition path_values :: "'a route \<Rightarrow> string list \<Rightarrow> (string \<times> string) list" where
  "path_values r ms = zip (List.map_filter (\<lambda>s. case s of Wildcard n \<Rightarrow> Some n | _ \<Rightarrow> None) (rt_segments r)) ms"

definition findHandler :: "'a route list \<Rightarrow> request \<Rightarrow> 'a mux_result" where
  "findHandler rs r =
     (let u = rq_url r; m = rq_method r; escaped = escapedPath u;
          path = (if m = ''CONNECT'' then escaped else cleanPath escaped)
      in
      if url_path u = ''*'' then BadTarget
      else if redirectsToSlash rs m path
      then RedirectTo (empty_url\<lparr>url_path := cleanPath (url_path u) @ ''/'', url_rawQuery := url_rawQuery u\<rparr>)
      else if path \<noteq> escaped then RedirectTo (empty_url\<lparr>url_path := path, url_rawQuery := url_rawQuery u\<rparr>)
      else
        (case match_route rs m path of
           Some (found, ms) \<Rightarrow> Handler (rt_target found) (path_values found ms)
         | None \<Rightarrow> if matchingMethods rs path = [] then NoHandler else NotAllowed (matchingMethods rs path)))"

definition methodNotAllowed :: "string list \<Rightarrow> response" where
  "methodNotAllowed allowed =
     \<lparr>rs_status = 405, rs_headers = [(''Content-Type'', ''text/plain; charset=utf-8''), (''Allow'', join_with '', '' allowed)],
      rs_cookies = [], rs_location = None, rs_body = RawBody (''Method Not Allowed'' @ [CHR 0x0A])\<rparr>"

text \<open>The redirects of the mux are temporary, so that the client keeps the method.\<close>

definition muxRedirect :: "url \<Rightarrow> response" where
  "muxRedirect u =
     \<lparr>rs_status = 307, rs_headers = [], rs_cookies = [], rs_location = Some (url_string u), rs_body = NoBody\<rparr>"

definition badTarget :: response where
  "badTarget = \<lparr>rs_status = 400, rs_headers = [(''Connection'', ''close'')], rs_cookies = [], rs_location = None, rs_body = NoBody\<rparr>"

end
