(* ===== verification/Routes.thy ===== *)
theory Routes
  imports Go_Mux Login_Handlers Google_Handlers Desktop_Sso Market_Proxy Downloads Avatar_Fetch Entry_Points
begin

text \<open>
  \<open>Routes\<close> of \<open>server.go\<close>: the table of addresses, the decoding of the request bodies, and the whole service,
  which takes a request through the mux to its handler and sets the security headers on what comes back. The
  service's state gathers the users' database with the limiter, the feeds, the installers, the downloads and the
  cached avatars; \<open>backend\<close> gathers the engines, file systems and other sites the handlers talk to.
\<close>

subsection \<open>Request bodies\<close>

text \<open>The first JSON document of a body into a struct; unknown members are ignored, and so is what follows.\<close>

definition decode_body :: "(string \<times> 'a decoder) list \<Rightarrow> 'a \<Rightarrow> string \<Rightarrow> 'a option" where
  "decode_body members zero body = Option.bind (json_first body) (\<lambda>(v, rest). dec_struct False members v zero)"

definition decode_login :: "string \<Rightarrow> login_request option" where
  "decode_login =
     decode_body
       [(''email'', \<lambda>v q. map_option (\<lambda>x. q\<lparr>lr_email := x\<rparr>) (dec_string v (lr_email q))),
        (''password'', \<lambda>v q. map_option (\<lambda>x. q\<lparr>lr_password := x\<rparr>) (dec_string v (lr_password q)))]
       \<lparr>lr_email = [], lr_password = []\<rparr>"

definition decode_email_start :: "string \<Rightarrow> string option" where
  "decode_email_start = decode_body [(''email'', dec_string)] []"

definition decode_verify :: "string \<Rightarrow> verify_request option" where
  "decode_verify =
     decode_body
       [(''email'', \<lambda>v q. map_option (\<lambda>x. q\<lparr>vr_email := x\<rparr>) (dec_string v (vr_email q))),
        (''code'', \<lambda>v q. map_option (\<lambda>x. q\<lparr>vr_code := x\<rparr>) (dec_string v (vr_code q)))]
       \<lparr>vr_email = [], vr_code = []\<rparr>"

definition decode_sso :: "string \<Rightarrow> sso_request option" where
  "decode_sso =
     decode_body
       [(''provider'', \<lambda>v q. map_option (\<lambda>x. q\<lparr>sr_provider := x\<rparr>) (dec_string v (sr_provider q))),
        (''id_token'', \<lambda>v q. map_option (\<lambda>x. q\<lparr>sr_idToken := x\<rparr>) (dec_string v (sr_idToken q))),
        (''ticket'', \<lambda>v q. map_option (\<lambda>x. q\<lparr>sr_ticket := x\<rparr>) (dec_string v (sr_ticket q)))]
       \<lparr>sr_provider = [], sr_idToken = [], sr_ticket = []\<rparr>"

subsection \<open>The table\<close>

datatype endpoint =
  Health | Installers | DesktopLatest | AdminUpdateList | AdminUpdateDetail | AdminUpdateHistory | AdminUpdateSave
| DownloadStats | DownloadEvent | Login | EmailCodeStart | EmailCodeVerify | GoogleStart | GoogleCallback
| GoogleDesktopStart | DesktopSsoStart | DesktopSsoContinue | DesktopSsoSession | DesktopSsoToken
| AuthentikSsoSession | Csrf | Me | Avatar | Logout | Market

definition routes :: "endpoint route list" where
  "routes =
     [handleFunc ''GET /api/health'' Health,
      handleFunc ''GET /api/installers'' Installers,
      handleFunc ''GET /api/updates/{name}'' DesktopLatest,
      handleFunc ''GET /api/admin/updates'' AdminUpdateList,
      handleFunc ''GET /api/admin/updates/{name}'' AdminUpdateDetail,
      handleFunc ''GET /api/admin/updates/{name}/history'' AdminUpdateHistory,
      handleFunc ''PUT /api/admin/updates/{name}'' AdminUpdateSave,
      handleFunc ''GET /api/downloads/stats'' DownloadStats,
      handleFunc ''POST /api/downloads/events'' DownloadEvent,
      handleFunc ''POST /api/auth/login'' Login,
      handleFunc ''POST /api/auth/email-code/start'' EmailCodeStart,
      handleFunc ''POST /api/auth/email-code/verify'' EmailCodeVerify,
      handleFunc ''GET /api/auth/google/start'' GoogleStart,
      handleFunc ''GET /api/auth/google/callback'' GoogleCallback,
      handleFunc ''GET /api/v1/auth/google/callback'' GoogleCallback,
      handleFunc ''GET /api/auth/google/desktop/start'' GoogleDesktopStart,
      handleFunc ''GET /api/auth/desktop-sso/start'' DesktopSsoStart,
      handleFunc ''GET /api/auth/desktop-sso/continue'' DesktopSsoContinue,
      handleFunc ''POST /api/auth/desktop-sso/session'' DesktopSsoSession,
      handleFunc ''POST /api/auth/desktop-sso/token'' DesktopSsoToken,
      handleFunc ''GET /api/auth/sso/session'' AuthentikSsoSession,
      handleFunc ''GET /api/auth/csrf'' Csrf,
      handleFunc ''GET /api/auth/me'' Me,
      handleFunc ''GET /api/auth/avatar/{version}'' Avatar,
      handleFunc ''POST /api/auth/logout'' Logout,
      handleFunc ''/api/market/'' Market]"

subsection \<open>The service\<close>

record service =
  sc_world :: world
  sc_updates :: update_provider
  sc_release :: "release_db option"
  sc_downloads :: "download_db option"
  sc_avatars :: avatar_cache

record backend =
  be_db :: dbenv
  be_updates :: update_env
  be_catalog :: sqlenv
  be_downloads :: dlenv
  be_avatars :: avatar_env
  be_web :: web
  be_market :: "proxy_request \<Rightarrow> response option"

text \<open>A handler that works on the users' world, or on the users' database alone, in the service.\<close>

definition on_world :: "(world \<Rightarrow> response \<times> world) \<Rightarrow> service \<Rightarrow> avatar_response \<times> service" where
  "on_world h sc = (case h (sc_world sc) of (rs, w) \<Rightarrow> (Plain rs, sc\<lparr>sc_world := w\<rparr>))"

definition set_db :: "db \<Rightarrow> service \<Rightarrow> service" where
  "set_db d sc = sc\<lparr>sc_world := (sc_world sc)\<lparr>w_db := d\<rparr>\<rparr>"

definition on_db :: "(db \<Rightarrow> response \<times> db) \<Rightarrow> service \<Rightarrow> avatar_response \<times> service" where
  "on_db h sc = (case h (w_db (sc_world sc)) of (rs, d) \<Rightarrow> (Plain rs, set_db d sc))"

fun handle :: "libs \<Rightarrow> server \<Rightarrow> backend \<Rightarrow> request \<Rightarrow> string \<Rightarrow> endpoint \<Rightarrow> service \<Rightarrow> avatar_response \<times> service" where
  "handle X S B r body Health sc = (Plain health, sc)"
| "handle X S B r body Installers sc = (Plain (installers (be_catalog B) (sc_release sc)), sc)"
| "handle X S B r body DesktopLatest sc = (Plain (desktopLatest (be_updates B) r (sc_updates sc)), sc)"
| "handle X S B r body AdminUpdateList sc = on_db (adminUpdateList S (be_db B) (be_updates B) r (sc_updates sc)) sc"
| "handle X S B r body AdminUpdateDetail sc = on_db (adminUpdateDetail S (be_db B) (be_updates B) r (sc_updates sc)) sc"
| "handle X S B r body AdminUpdateHistory sc = on_db (adminUpdateHistory S (be_db B) (be_updates B) r (sc_updates sc)) sc"
| "handle X S B r body AdminUpdateSave sc =
     (case adminUpdateSave S (be_db B) (be_updates B) r body (sc_updates sc) (w_db (sc_world sc)) of
        (rs, d, P) \<Rightarrow> (Plain rs, (set_db d sc)\<lparr>sc_updates := P\<rparr>))"
| "handle X S B r body DownloadStats sc = (Plain (downloadStats (be_downloads B) (sc_downloads sc)), sc)"
| "handle X S B r body DownloadEvent sc =
     (case downloadEvent S (be_db B) (be_downloads B) r body (sc_downloads sc) of
        (rs, store) \<Rightarrow> (Plain rs, sc\<lparr>sc_downloads := store\<rparr>))"
| "handle X S B r body Login sc = on_world (login X S (be_db B) r (decode_login body)) sc"
| "handle X S B r body EmailCodeStart sc = on_world (emailCodeStart X S (be_db B) r (decode_email_start body)) sc"
| "handle X S B r body EmailCodeVerify sc = on_world (emailCodeVerify S (be_db B) r (decode_verify body)) sc"
| "handle X S B r body GoogleStart sc = on_world (googleStart X S (be_db B) r) sc"
| "handle X S B r body GoogleCallback sc = on_world (googleCallback X S (be_db B) r) sc"
| "handle X S B r body GoogleDesktopStart sc = on_world (googleDesktopStart X S (be_db B) r) sc"
| "handle X S B r body DesktopSsoStart sc = on_world (desktopSsoStart S (be_db B) r) sc"
| "handle X S B r body DesktopSsoContinue sc = on_world (desktopSsoContinue S (be_db B) r) sc"
| "handle X S B r body DesktopSsoSession sc = on_world (desktopSsoSession X S (be_db B) r (decode_sso body)) sc"
| "handle X S B r body DesktopSsoToken sc = on_world (desktopSsoToken X S (be_db B) r) sc"
| "handle X S B r body AuthentikSsoSession sc = on_world (authentikSsoSession S (be_db B) r) sc"
| "handle X S B r body Csrf sc = on_world (csrf S (be_db B) r) sc"
| "handle X S B r body Me sc = on_world (me S (be_db B) r) sc"
| "handle X S B r body Avatar sc =
     (case avatar S (be_db B) (be_avatars B) (be_web B) r (sc_avatars sc) (sc_avatars sc) (w_db (sc_world sc)) of
        ((rs, cache, us), d) \<Rightarrow> (rs, (set_db d sc)\<lparr>sc_avatars := cache\<rparr>))"
| "handle X S B r body Logout sc = on_world (logout S (be_db B) r) sc"
| "handle X S B r body Market sc = on_world (marketProxy (be_market B) X S (be_db B) r) sc"

text \<open>
  The headers are set before the handler runs, so they are on every response; a handler that panics gives none.
\<close>

definition secured :: "avatar_response \<Rightarrow> avatar_response" where
  "secured a =
     (case a of
        Plain rs \<Rightarrow> Plain (if rs_status rs = 0 then rs else securityHeaders rs)
      | Served hs name t content \<Rightarrow>
          Served ((''X-Frame-Options'', ''DENY'') # (''X-Content-Type-Options'', ''nosniff'') # hs) name t content)"

definition muxed :: "libs \<Rightarrow> server \<Rightarrow> backend \<Rightarrow> request \<Rightarrow> string \<Rightarrow> service \<Rightarrow> avatar_response \<times> service" where
  "muxed X S B r body sc =
     (case findHandler routes r of
        Handler e vs \<Rightarrow> handle X S B (r\<lparr>rq_pathValue := (\<lambda>n. case map_of vs n of None \<Rightarrow> [] | Some v \<Rightarrow> v)\<rparr>) body e sc
      | RedirectTo u \<Rightarrow> (Plain (muxRedirect u), sc)
      | NotAllowed ms \<Rightarrow> (Plain (methodNotAllowed ms), sc)
      | NoHandler \<Rightarrow> (Plain notFound, sc)
      | BadTarget \<Rightarrow> (Plain badTarget, sc))"

definition serveHTTP :: "libs \<Rightarrow> server \<Rightarrow> backend \<Rightarrow> request \<Rightarrow> string \<Rightarrow> service \<Rightarrow> avatar_response \<times> service" where
  "serveHTTP X S B r body sc = apfst secured (muxed X S B r body sc)"

text \<open>What the handlers of a server start with: \<open>run\<close> gives it the three stores it has opened.\<close>

definition start_service :: "string \<Rightarrow> avatar_cache \<Rightarrow> system \<Rightarrow> service" where
  "start_service rnd cache sy =
     \<lparr>sc_world = start_world rnd sy, sc_updates = DirectoryUpdates (sy_updates sy), sc_release = Some (sy_release sy),
      sc_downloads = Some (sy_downloads sy), sc_avatars = cache\<rparr>"

end
