(* ===== verification/Handler_Runs.thy ===== *)
theory Handler_Runs
  imports Login_Handlers Google_Handlers Desktop_Sso Market_Proxy Update_Handlers Avatar_Fetch
begin

text \<open>
  Every handler works on the users' database through the operations of the store and nothing else. The interface
  \<open>store_client\<close> states this for any relation between databases that every operation respects; \<open>logout\<close> is the
  only handler that revokes a session, and is the client of an extended interface. What the store guarantees for
  any sequence of its operations thereby holds for any sequence of requests.
\<close>

named_theorems runs

lemmas handler_splits = option.split sum.split bool.split store_error.split if_split

locale store_client =
  fixes K :: "string \<Rightarrow> string" and leads :: "db \<Rightarrow> db \<Rightarrow> bool"
  assumes leads_refl: "leads d d"
    and leads_trans: "leads d0 d \<Longrightarrow> leads d d' \<Longrightarrow> leads d0 d'"
    and leads_FindUserBySession: "db_collate E = K \<Longrightarrow> leads d (snd (FindUserBySession E th now d))"
    and leads_upsertIdentityUser: "db_collate E = K \<Longrightarrow> leads d (snd (upsertIdentityUser E p s e n a d))"
    and leads_UpsertAuthentikUser: "db_collate E = K \<Longrightarrow> leads d (snd (UpsertAuthentikUser E ai d))"
    and leads_SaveEmailCode: "db_collate E = K \<Longrightarrow> leads d (snd (SaveEmailCode E e h t d))"
    and leads_ConsumeEmailCode: "db_collate E = K \<Longrightarrow> leads d (snd (ConsumeEmailCode E e h now d))"
    and leads_SaveOAuthRequest: "db_collate E = K \<Longrightarrow> leads d (snd (SaveOAuthRequest E h q d))"
    and leads_ConsumeOAuthRequest: "db_collate E = K \<Longrightarrow> leads d (snd (ConsumeOAuthRequest E h now d))"
    and leads_CreateSession: "db_collate E = K \<Longrightarrow> leads d (snd (CreateSession E u h c t ua ip d))"
    and leads_SaveTicket: "db_collate E = K \<Longrightarrow> leads d (snd (SaveDesktopSsoTicket E u h t ip ua d))"
    and leads_ConsumeTicket: "db_collate E = K \<Longrightarrow> leads d (snd (ConsumeDesktopSsoTicket E h now d))"
    and leads_TouchLastLogin: "db_collate E = K \<Longrightarrow> leads d (snd (TouchLastLogin E u t d))"
    and leads_RecordLogin: "db_collate E = K \<Longrightarrow> leads d (snd (RecordLogin E entry d))"
begin

subsection \<open>Operations\<close>

text \<open>An operation after what has already happened since the database \<open>d0\<close>.\<close>

lemma run_operations [runs]:
  assumes "db_collate E = K" and "leads d0 d"
  shows "leads d0 (snd (FindUserBySession E th now d))"
    and "leads d0 (snd (upsertIdentityUser E p s e n a d))"
    and "leads d0 (snd (UpsertAuthentikUser E ai d))"
    and "leads d0 (snd (SaveEmailCode E e h t d))"
    and "leads d0 (snd (ConsumeEmailCode E e h now d))"
    and "leads d0 (snd (SaveOAuthRequest E h q d))"
    and "leads d0 (snd (ConsumeOAuthRequest E h now d))"
    and "leads d0 (snd (CreateSession E u h c t ua ip d))"
    and "leads d0 (snd (SaveDesktopSsoTicket E u h t ip ua d))"
    and "leads d0 (snd (ConsumeDesktopSsoTicket E h now d))"
    and "leads d0 (snd (TouchLastLogin E u t d))"
    and "leads d0 (snd (RecordLogin E entry d))"
  by (rule leads_trans [OF assms(2)],
      rule leads_FindUserBySession leads_upsertIdentityUser leads_UpsertAuthentikUser leads_SaveEmailCode
        leads_ConsumeEmailCode leads_SaveOAuthRequest leads_ConsumeOAuthRequest leads_CreateSession leads_SaveTicket
        leads_ConsumeTicket leads_TouchLastLogin leads_RecordLogin, rule assms(1))+

lemma run_users [runs]:
  assumes "db_collate E = K" and "leads d0 d"
  shows "leads d0 (snd (UpsertEmailCodeUser E email d))" and "leads d0 (snd (UpsertGoogleUser E ident d))"
  using assms run_operations(2) [OF assms] by (auto simp: UpsertEmailCodeUser_def UpsertGoogleUser_def Let_def)

subsection \<open>Helpers\<close>

lemma run_currentUser [runs]:
  assumes "db_collate E = K" and "leads d0 d"
  shows "leads d0 (snd (currentUser S E r d))"
  using assms by (auto simp: currentUser_def intro: runs split: option.split)

lemma run_recordLogin [runs]:
  assumes "db_collate E = K" and "leads d0 (w_db w)"
  shows "leads d0 (w_db (recordLogin S E r entry w))"
  using assms by (auto simp: recordLogin_def intro: runs)

lemma run_touchLastLogin [runs]:
  assumes "db_collate E = K" and "leads d0 (w_db w)"
  shows "leads d0 (w_db (touchLastLogin E u w))"
  using assms by (auto simp: touchLastLogin_def intro: runs)

lemma run_limited [runs]: "leads d0 (w_db w) \<Longrightarrow> leads d0 (w_db (snd (limited key n E w)))"
  by (simp add: limited_def split: prod.split)

lemma run_createSession [runs]:
  assumes "db_collate E = K" and "leads d0 (w_db w)"
  shows "leads d0 (w_db (snd (createSession S E r u w)))"
  using assms by (simp add: createSession_def Let_def case_prod_beta runs split: handler_splits)

lemma run_createDesktopSsoTicket [runs]:
  assumes "db_collate E = K" and "leads d0 (w_db w)"
  shows "leads d0 (w_db (snd (createDesktopSsoTicket S E r u w)))"
  using assms by (simp add: createDesktopSsoTicket_def Let_def case_prod_beta runs split: handler_splits)

subsection \<open>Handlers\<close>

lemma run_finish_login [runs]:
  assumes "db_collate E = K" and "leads d0 (w_db w)"
  shows "leads d0 (w_db (snd (finish_login S E r u m ns w)))"
  using assms by (simp add: finish_login_def runs)

lemma run_login [runs]:
  assumes "db_collate E = K" and "leads d0 (w_db w)"
  shows "leads d0 (w_db (snd (login X S E r body w)))"
  using assms by (simp add: login_def Let_def case_prod_beta runs split: handler_splits)

lemma run_emailCodeStart [runs]:
  assumes "db_collate E = K" and "leads d0 (w_db w)"
  shows "leads d0 (w_db (snd (emailCodeStart X S E r body w)))"
  using assms by (simp add: emailCodeStart_def Let_def case_prod_beta runs split: handler_splits)

lemma run_emailCodeVerify [runs]:
  assumes "db_collate E = K" and "leads d0 (w_db w)"
  shows "leads d0 (w_db (snd (emailCodeVerify S E r body w)))"
  using assms by (simp add: emailCodeVerify_def Let_def case_prod_beta runs split: handler_splits)

lemma run_session_endpoints [runs]:
  assumes "db_collate E = K" and "leads d0 (w_db w)"
  shows "leads d0 (w_db (snd (csrf S E r w)))" and "leads d0 (w_db (snd (me S E r w)))"
  using assms by (simp_all add: csrf_def me_def Let_def case_prod_beta runs split: handler_splits)

lemma run_google [runs]:
  assumes "db_collate E = K" and "leads d0 (w_db w)"
  shows "leads d0 (w_db (snd (startGoogleOAuth X S E q w)))"
    and "leads d0 (w_db (snd (googleLogin S E r q ident w)))"
  using assms by (simp_all add: startGoogleOAuth_def googleLogin_def Let_def case_prod_beta runs split: handler_splits)

lemma run_google_handlers [runs]:
  assumes "db_collate E = K" and "leads d0 (w_db w)"
  shows "leads d0 (w_db (snd (googleStart X S E r w)))"
    and "leads d0 (w_db (snd (googleDesktopStart X S E r w)))"
    and "leads d0 (w_db (snd (googleCallback X S E r w)))"
  using assms
  by (simp_all add: googleStart_def googleDesktopStart_def googleCallback_def Let_def case_prod_beta runs split: handler_splits)

lemma run_sso_parts [runs]:
  assumes "db_collate E = K" and "leads d0 (w_db w)"
  shows "leads d0 (w_db (snd (completeDesktopSsoBridge S E r ctx w)))"
    and "leads d0 (w_db (snd (writeDesktopSsoSessionResponse S E r u m w)))"
    and "leads d0 (w_db (snd (desktopAccessToken X S E r u w)))"
  using assms
  by (simp_all add: completeDesktopSsoBridge_def writeDesktopSsoSessionResponse_def desktopAccessToken_def Let_def
      case_prod_beta runs split: handler_splits)

lemma run_sso_sessions [runs]:
  assumes "db_collate E = K" and "leads d0 (w_db w)"
  shows "leads d0 (w_db (snd (desktopSsoTicketSession S E r ticket w)))"
    and "leads d0 (w_db (snd (desktopSsoGoogleSession X S E r idToken w)))"
  using assms
  by (simp_all add: desktopSsoTicketSession_def desktopSsoGoogleSession_def Let_def case_prod_beta runs split: handler_splits)

lemma run_sso_handlers [runs]:
  assumes "db_collate E = K" and "leads d0 (w_db w)"
  shows "leads d0 (w_db (snd (desktopSsoStart S E r w)))"
    and "leads d0 (w_db (snd (desktopSsoContinue S E r w)))"
    and "leads d0 (w_db (snd (desktopSsoSession X S E r req w)))"
    and "leads d0 (w_db (snd (desktopSsoToken X S E r w)))"
    and "leads d0 (w_db (snd (authentikSsoSession S E r w)))"
  using assms
  by (simp_all add: desktopSsoStart_def desktopSsoContinue_def desktopSsoSession_def desktopSsoToken_def
      authentikSsoSession_def Let_def case_prod_beta runs split: handler_splits)

lemma run_marketProxy [runs]:
  assumes "db_collate E = K" and "leads d0 (w_db w)"
  shows "leads d0 (w_db (snd (marketProxy upstream X S E r w)))"
  using assms by (simp add: marketProxy_def Let_def case_prod_beta runs split: handler_splits)

lemma run_updateAdmin [runs]:
  assumes "db_collate E = K" and "leads d0 d"
  shows "leads d0 (snd (updateAdmin S E r P d))"
  using assms by (simp add: updateAdmin_def Let_def case_prod_beta runs split: handler_splits)

lemma run_update_handlers [runs]:
  assumes "db_collate E = K" and "leads d0 d"
  shows "leads d0 (snd (adminUpdateList S E U r P d))"
    and "leads d0 (snd (adminUpdateDetail S E U r P d))"
    and "leads d0 (snd (adminUpdateHistory S E U r P d))"
    and "leads d0 (fst (snd (adminUpdateSave S E U r body P d)))"
  using assms
  by (simp_all add: adminUpdateList_def adminUpdateDetail_def adminUpdateHistory_def adminUpdateSave_def Let_def
      case_prod_beta runs split: handler_splits update_error.split)

lemma run_avatar [runs]:
  assumes "db_collate E = K" and "leads d0 d"
  shows "leads d0 (snd (avatar S E A net r c0 c1 d))"
  using assms by (simp add: avatar_def case_prod_beta runs split: handler_splits)

end

text \<open>The one handler that revokes.\<close>

locale store_client_revoking = store_client +
  assumes leads_RevokeSession: "db_collate E = K \<Longrightarrow> leads d (snd (RevokeSession E h d))"
begin

lemma run_logout [runs]:
  assumes "db_collate E = K" and "leads d0 (w_db w)"
  shows "leads d0 (w_db (snd (logout S E r w)))"
  using assms(2) leads_trans [OF assms(2) leads_RevokeSession [OF assms(1)]]
  by (simp add: logout_def Let_def split: option.split)

end

subsection \<open>The store's own steps\<close>

abbreviation store_run :: "(string \<Rightarrow> string) \<Rightarrow> db \<Rightarrow> db \<Rightarrow> bool" where
  "store_run K \<equiv> (store_step K)\<^sup>*\<^sup>*"

interpretation run: store_client_revoking K "store_run K" for K
  by unfold_locales (auto intro: store_step.intros)

end
