(* ===== verification/Mux_Laws.thy ===== *)
theory Mux_Laws
  imports Go_Mux
begin

text \<open>
  The search of the mux against its meaning: a table without overlapping patterns is searched as if one looked for
  the only pattern that matches. A pattern matches segment by segment; an overlap is decided from the patterns.
\<close>

fun segs_match :: "path_segment list \<Rightarrow> string \<Rightarrow> string list option" where
  "segs_match [] path = (if path = [] then Some [] else None)"
| "segs_match (Literal l # ss) path =
     (if path \<noteq> [] \<and> fst (firstSegment path) = l then segs_match ss (snd (firstSegment path)) else None)"
| "segs_match (Wildcard n # ss) path =
     (if path \<noteq> [] \<and> fst (firstSegment path) \<noteq> ''/''
      then map_option (\<lambda>ms. fst (firstSegment path) # ms) (segs_match ss (snd (firstSegment path))) else None)"
| "segs_match (TrailingSlash # ss) path = (if path \<noteq> [] \<and> ss = [] then Some [] else None)"

lemma leaf_SomeD: "leaf ss ps = Some x \<Longrightarrow> (ss, x) \<in> set ps"
  by (induction ps) (auto simp: leaf_def split: if_splits)

lemma leaf_None: "leaf ss ps = None \<longleftrightarrow> (\<forall>x. (ss, x) \<notin> set ps)"
  by (auto simp: leaf_def find_None_iff)

lemma leaf_Some: "(ss, x) \<in> set ps \<Longrightarrow> \<exists>y. leaf ss ps = Some y"
  using leaf_None [of ss ps] by auto

lemma is_wildcard: "(case s of Wildcard _ \<Rightarrow> True | _ \<Rightarrow> False) \<longleftrightarrow> (\<exists>n. s = Wildcard n)"
  by (cases s) auto

lemma segs_match_nil [simp]: "segs_match ss [] = Some vs \<longleftrightarrow> ss = [] \<and> vs = []"
  by (cases ss; cases "hd ss") auto

lemma below_set: "(ss, x) \<in> set (below P ps) \<longleftrightarrow> (\<exists>s. P s \<and> (s # ss, x) \<in> set ps)"
  by (force simp: below_def image_iff neq_Nil_conv)

lemma matchPath_sound:
  "matchPath ps path ms = Some (x, ms') \<Longrightarrow> \<exists>ss vs. (ss, x) \<in> set ps \<and> segs_match ss path = Some vs \<and> ms' = ms @ vs"
proof (induction ps path ms rule: matchPath.induct)
  case (1 ps path ms)
  let ?seg = "fst (firstSegment path)" and ?rest = "snd (firstSegment path)"
  let ?lit = "below (\<lambda>s. s = Literal ?seg) ps" and ?wild = "below (\<lambda>s. case s of Wildcard _ \<Rightarrow> True | _ \<Rightarrow> False) ps"
  show ?case
  proof (cases "path = []")
    case True
    then show ?thesis using 1(3) by (intro exI [of _ "[]"]) (auto simp: matchPath.simps [of ps] dest: leaf_SomeD)
  next
    case False
    consider (lit) "matchPath ?lit ?rest ms = Some (x, ms')"
      | (wild) "matchPath ?lit ?rest ms = None" "?seg \<noteq> ''/''" "matchPath ?wild ?rest (ms @ [?seg]) = Some (x, ms')"
      | (slash) "leaf [TrailingSlash] ps = Some x" "ms' = ms"
      using 1(3) False by (simp add: matchPath.simps [of ps] Let_def split: option.splits if_splits)
    then show ?thesis
    proof cases
      case lit
      from 1(1) [OF False refl refl lit] obtain ss vs
        where "(ss, x) \<in> set ?lit" "segs_match ss ?rest = Some vs" "ms' = ms @ vs" by blast
      then show ?thesis using False by (intro exI [of _ "Literal ?seg # ss"] exI [of _ vs]) (simp add: below_set)
    next
      case wild
      then obtain ss vs where "(ss, x) \<in> set ?wild" "segs_match ss ?rest = Some vs" "ms' = (ms @ [?seg]) @ vs"
        using 1(2) [OF False refl refl] by (auto simp only: if_False)
      then obtain n where "(Wildcard n # ss, x) \<in> set ps" "segs_match ss ?rest = Some vs" "ms' = ms @ ?seg # vs"
        by (auto simp: below_set is_wildcard)
      then show ?thesis using False wild(2) by (intro exI [of _ "Wildcard n # ss"] exI [of _ "?seg # vs"]) simp
    next
      case slash
      then show ?thesis using False by (intro exI [of _ "[TrailingSlash]"]) (auto dest: leaf_SomeD)
    qed
  qed
qed

lemma matchPath_complete:
  "(ss, x) \<in> set ps \<Longrightarrow> segs_match ss path = Some vs \<Longrightarrow> matchPath ps path ms \<noteq> None"
proof (induction ps path ms arbitrary: ss vs rule: matchPath.induct)
  case (1 ps path ms)
  let ?seg = "fst (firstSegment path)" and ?rest = "snd (firstSegment path)"
  let ?lit = "below (\<lambda>s. s = Literal ?seg) ps" and ?wild = "below (\<lambda>s. case s of Wildcard _ \<Rightarrow> True | _ \<Rightarrow> False) ps"
  show ?case
  proof (cases "path = [] \<or> matchPath ?lit ?rest ms \<noteq> None")
    case True
    then show ?thesis using 1(3,4)
      by (auto simp: matchPath.simps [of ps] Let_def dest: leaf_Some)
  next
    case False
    then have p: "path \<noteq> []" and none: "matchPath ?lit ?rest ms = None" by (auto simp del: not_None_eq)
    obtain s ss' where ss: "ss = s # ss'" using 1(4) p by (cases ss) auto
    show ?thesis
    proof (cases s)
      case (Literal l)
      then have "(ss', x) \<in> set ?lit" "segs_match ss' ?rest = Some vs"
        using 1(3,4) ss by (auto simp: below_set split: if_splits)
      then show ?thesis using 1(1) [OF p refl refl] none by blast
    next
      case (Wildcard n)
      then obtain vs' where "(ss', x) \<in> set ?wild" "segs_match ss' ?rest = Some vs'" "?seg \<noteq> ''/''"
        using 1(3,4) ss by (force simp: below_set is_wildcard split: if_splits)
      then have "matchPath ?wild ?rest (ms @ [?seg]) \<noteq> None" using 1(2) [OF p refl refl none] by blast
      then show ?thesis using p none \<open>?seg \<noteq> ''/''\<close> by (auto simp: matchPath.simps [of ps] Let_def split: option.split)
    next
      case TrailingSlash
      then have "([TrailingSlash], x) \<in> set ps" using 1(3,4) ss by (auto split: if_splits)
      then have "leaf [TrailingSlash] ps \<noteq> None" by (auto simp: leaf_None)
      then show ?thesis using p by (auto simp: matchPath.simps [of ps] Let_def split: option.split)
    qed
  qed
qed

subsection \<open>Overlaps\<close>

text \<open>Whether two patterns can match the same path, as far as the literals and the lengths tell.\<close>

fun overlap :: "path_segment list \<Rightarrow> path_segment list \<Rightarrow> bool" where
  "overlap [] ss = (ss = [])"
| "overlap ss [] = (ss = [])"
| "overlap (TrailingSlash # ss) _ = True"
| "overlap _ (TrailingSlash # ss) = True"
| "overlap (Literal a # ss) (Literal b # ts) = (a = b \<and> overlap ss ts)"
| "overlap (_ # ss) (_ # ts) = overlap ss ts"

lemma segs_match_overlap: "segs_match ss path = Some vs \<Longrightarrow> segs_match ts path = Some ws \<Longrightarrow> overlap ss ts"
by (induction ss ts arbitrary: path vs ws rule: overlap.induct) (auto split: if_splits)

definition no_overlap :: "'a route list \<Rightarrow> bool" where
  "no_overlap rs \<longleftrightarrow>
     (\<forall>a \<in> set rs. rt_method a \<noteq> Some ''HEAD'' \<and>
        (\<forall>b \<in> set rs. overlap (rt_segments a) (rt_segments b) \<longrightarrow>
           a = b \<or> rt_method a \<noteq> rt_method b \<and> rt_method a \<noteq> None \<and> rt_method b \<noteq> None))"

text \<open>A route takes its own method, a route for \<open>GET\<close> also \<open>HEAD\<close>, a route without method every method.\<close>

definition takes_method :: "'a route \<Rightarrow> string \<Rightarrow> bool" where
  "takes_method rt m \<longleftrightarrow> (case rt_method rt of None \<Rightarrow> True | Some m' \<Rightarrow> m' = m \<or> m = ''HEAD'' \<and> m' = ''GET'')"

definition route_serves :: "'a route list \<Rightarrow> string \<Rightarrow> string \<Rightarrow> 'a route \<Rightarrow> string list \<Rightarrow> bool" where
  "route_serves rs m path rt ms \<longleftrightarrow>
     rt \<in> set rs \<and> takes_method rt m \<and> segs_match (rt_segments rt) path = Some ms"

lemma match_in_sound:
  "match_in rs m path = Some (rt, ms) \<Longrightarrow> rt \<in> set rs \<and> rt_method rt = m \<and> segs_match (rt_segments rt) path = Some ms"
  by (auto simp: match_in_def patterns_of_def dest!: matchPath_sound)

lemma match_in_complete:
  assumes "rt \<in> set rs" and "segs_match (rt_segments rt) path = Some ms"
  shows "match_in rs (rt_method rt) path \<noteq> None"
  unfolding match_in_def by (rule matchPath_complete [OF _ assms(2)]) (auto simp: patterns_of_def assms(1))

lemma match_route_sound: "match_route rs m path = Some (rt, ms) \<Longrightarrow> route_serves rs m path rt ms"
  by (auto simp: match_route_def route_serves_def takes_method_def dest!: match_in_sound split: option.splits if_splits)

lemma match_route_complete: "route_serves rs m path rt ms \<Longrightarrow> match_route rs m path \<noteq> None"
  using match_in_complete [of rt rs path ms]
  by (auto simp: route_serves_def takes_method_def match_route_def split: option.splits if_splits)

lemma route_serves_unique:
  assumes "no_overlap rs" and "route_serves rs m path a ms" and "route_serves rs m path b ms'"
  shows "a = b \<and> ms = ms'"
proof -
  have "overlap (rt_segments a) (rt_segments b)" using assms(2,3) segs_match_overlap by (auto simp: route_serves_def)
  moreover have "a \<in> set rs" "b \<in> set rs" using assms(2,3) by (simp_all add: route_serves_def)
  ultimately have "a = b \<or> rt_method a \<noteq> rt_method b \<and> rt_method a \<noteq> None \<and> rt_method b \<noteq> None"
    and "rt_method a \<noteq> Some ''HEAD''" and "rt_method b \<noteq> Some ''HEAD''"
    using assms(1) unfolding no_overlap_def by blast+
  then have "a = b" using assms(2,3) by (auto simp: route_serves_def takes_method_def split: option.splits)
  then show ?thesis using assms(2,3) by (simp add: route_serves_def)
qed

lemma match_route_iff:
  assumes "no_overlap rs"
  shows "match_route rs m path = Some (rt, ms) \<longleftrightarrow> route_serves rs m path rt ms"
proof
  assume "route_serves rs m path rt ms"
  with match_route_complete obtain a where "match_route rs m path = Some a" by blast
  with \<open>route_serves rs m path rt ms\<close> show "match_route rs m path = Some (rt, ms)"
    using match_route_sound [of rs m path "fst a" "snd a"] route_serves_unique [OF assms] by (metis prod.collapse)
qed (rule match_route_sound)

subsection \<open>Requests\<close>

text \<open>A path that ends in a slash is matched by a pattern with a trailing slash only, if no literal is a slash.\<close>

definition slashes :: "string \<Rightarrow> nat" where
  "slashes p = length (filter (\<lambda>c. c = CHR ''/'') p)"

definition plain_literals :: "path_segment list \<Rightarrow> bool" where
  "plain_literals ss \<longleftrightarrow> Literal ''/'' \<notin> set ss"

lemma slashes_simps [simp]: "slashes [] = 0" "slashes (CHR ''/'' # p) = Suc (slashes p)" "slashes (p @ ''/'') = Suc (slashes p)"
  by (simp_all add: slashes_def)

lemma slashes_rest: "slashes (dropWhile (\<lambda>c. c \<noteq> CHR ''/'') p) = slashes p"
  by (induction p) (auto simp: slashes_def)

lemma rest_rooted: "dropWhile (\<lambda>c. c \<noteq> CHR ''/'') p = [] \<or> prefix ''/'' (dropWhile (\<lambda>c. c \<noteq> CHR ''/'') p)"
  by (induction p) auto

lemma firstSegment_rooted:
  "firstSegment (CHR ''/'' # p) =
     (if p = [] then (''/'', []) else (pathUnescape (takeWhile (\<lambda>c. c \<noteq> CHR ''/'') p), dropWhile (\<lambda>c. c \<noteq> CHR ''/'') p))"
  by (simp add: firstSegment_def)

lemma segs_match_step:
  "segs_match (s # ss) (CHR ''/'' # q) = Some vs \<Longrightarrow> s \<noteq> TrailingSlash
   \<Longrightarrow> \<exists>ws. segs_match ss (dropWhile (\<lambda>c. c \<noteq> CHR ''/'') q) = Some ws"
  by (cases s) (auto simp: firstSegment_rooted split: if_splits)

lemma trailing_slashes:
  "segs_match ss p = Some vs \<Longrightarrow> ss \<noteq> [] \<Longrightarrow> last ss = TrailingSlash \<Longrightarrow> p = [] \<or> prefix ''/'' p \<Longrightarrow> length ss \<le> slashes p"
proof (induction ss arbitrary: p vs)
  case (Cons s ss)
  obtain q where p: "p = CHR ''/'' # q" using Cons.prems(1,4) by (cases p) auto
  show ?case
  proof (cases "s = TrailingSlash")
    case True
    then show ?thesis using Cons.prems(1) p by (simp split: if_splits)
  next
    case False
    then have ss: "ss \<noteq> []" "last ss = TrailingSlash" using Cons.prems(3) by (auto split: if_splits)
    obtain ws where "segs_match ss (dropWhile (\<lambda>c. c \<noteq> CHR ''/'') q) = Some ws"
      using segs_match_step Cons.prems(1) False p by blast
    from Cons.IH [OF this ss rest_rooted] show ?thesis by (simp add: p slashes_rest)
  qed
qed simp

lemma takeWhile_slash: "dropWhile (\<lambda>c. c \<noteq> CHR ''/'') q \<noteq> [] \<Longrightarrow>
    takeWhile (\<lambda>c. c \<noteq> CHR ''/'') (q @ t) = takeWhile (\<lambda>c. c \<noteq> CHR ''/'') q
  \<and> dropWhile (\<lambda>c. c \<noteq> CHR ''/'') (q @ t) = dropWhile (\<lambda>c. c \<noteq> CHR ''/'') q @ t"
  by (induction q) auto

lemma segs_match_rest: "\<exists>ws. segs_match ss p = Some ws \<Longrightarrow> ss \<noteq> [] \<Longrightarrow> p \<noteq> []"
  by auto

lemma trailing_longer:
  "segs_match ss p = Some vs \<Longrightarrow> ss \<noteq> [] \<Longrightarrow> last ss = TrailingSlash \<Longrightarrow> p = [] \<or> prefix ''/'' p
   \<Longrightarrow> \<exists>ws. segs_match ss (p @ ''/'') = Some ws"
proof (induction ss arbitrary: p vs)
  case (Cons s ss)
  obtain q where p: "p = CHR ''/'' # q" using Cons.prems(1,4) by (cases p) auto
  let ?rest = "dropWhile (\<lambda>c. c \<noteq> CHR ''/'') q"
  show ?case
  proof (cases "s = TrailingSlash")
    case True
    then show ?thesis using Cons.prems(1) p by (simp split: if_splits)
  next
    case False
    then have ss: "ss \<noteq> []" "last ss = TrailingSlash" using Cons.prems(3) by (auto split: if_splits)
    obtain us where us: "segs_match ss ?rest = Some us" using segs_match_step Cons.prems(1) False p by blast
    obtain ws where ws: "segs_match ss (?rest @ ''/'') = Some ws" using Cons.IH [OF us ss rest_rooted] by blast
    have "?rest \<noteq> []" using segs_match_rest us ss(1) by blast
    moreover have "q \<noteq> []" using calculation by (cases q) auto
    ultimately show ?thesis
      using Cons.prems(1) ws takeWhile_slash [of q "''/''"] p False
      by (cases s) (simp_all add: firstSegment_rooted split: if_splits)
  qed
qed simp

lemma dropWhile_slash: "dropWhile (\<lambda>c. c \<noteq> CHR ''/'') (q @ ''/'') = dropWhile (\<lambda>c. c \<noteq> CHR ''/'') q @ ''/''"
  by (induction q) auto

lemma slash_needs_trailing:
  "segs_match ss (p @ ''/'') = Some vs \<Longrightarrow> plain_literals ss \<Longrightarrow> p = [] \<or> prefix ''/'' p \<Longrightarrow> ss \<noteq> [] \<and> last ss = TrailingSlash"
proof (induction ss arbitrary: p vs)
  case (Cons s ss)
  have step: "ss \<noteq> [] \<and> last ss = TrailingSlash"
    if "segs_match ss (dropWhile (\<lambda>c. c \<noteq> CHR ''/'') (q @ ''/'')) = Some ws" "p = CHR ''/'' # q" for q ws
    using Cons.IH [of "dropWhile (\<lambda>c. c \<noteq> CHR ''/'') q" ws] Cons.prems(2) that rest_rooted [of q]
    by (auto simp: dropWhile_slash plain_literals_def)
  show ?case
  proof (cases p)
    case Nil
    then show ?thesis using Cons.prems by (cases s) (auto simp: firstSegment_def plain_literals_def split: if_splits)
  next
    case (Cons a q)
    then have p: "p = CHR ''/'' # q" using Cons.prems(3) by auto
    then show ?thesis using step [OF _ p] Cons.prems(1)
      by (cases s) (auto simp: firstSegment_rooted split: if_splits)
  qed
qed simp

definition wf_routes :: "'a route list \<Rightarrow> bool" where
  "wf_routes rs \<longleftrightarrow> no_overlap rs \<and> (\<forall>rt \<in> set rs. plain_literals (rt_segments rt))"

lemma no_slash_redirect:
  assumes "wf_routes rs" and "route_serves rs m p rt ms" and "prefix ''/'' p"
  shows "\<not> redirectsToSlash rs m p"
proof
  assume red: "redirectsToSlash rs m p"
  have un: "no_overlap rs" using assms(1) by (simp add: wf_routes_def)
  have "match_route rs m p = Some (rt, ms)" using match_route_iff [OF un] assms(2) by blast
  then have last: "rt_segments rt \<noteq> []" "last (rt_segments rt) = TrailingSlash"
    using red by (auto simp: redirectsToSlash_def exactMatch_def split: if_splits)
  obtain rt' ms' where m': "match_route rs m (p @ ''/'') = Some (rt', ms')"
    and ex: "exactMatch (Some (rt', ms')) (p @ ''/'')"
    using red by (auto simp: redirectsToSlash_def exactMatch_def split: option.splits)
  have seg: "segs_match (rt_segments rt) p = Some ms" using assms(2) by (simp add: route_serves_def)
  have serves': "route_serves rs m (p @ ''/'') rt' ms'" using match_route_sound [OF m'] .
  obtain ws where "segs_match (rt_segments rt) (p @ ''/'') = Some ws" using trailing_longer [OF seg last] assms(3) by blast
  then have "route_serves rs m (p @ ''/'') rt ws" using assms(2) by (simp add: route_serves_def)
  then have eq: "rt' = rt" using route_serves_unique [OF un serves'] by blast
  then have "length (rt_segments rt) = Suc (slashes p)"
    using ex last by (auto simp: exactMatch_def slashes_def)
  then show False using trailing_slashes [OF seg last] assms(3) by simp
qed

text \<open>A request whose path needs no cleaning, as a client that was redirected sends it.\<close>

definition canonical_request :: "request \<Rightarrow> bool" where
  "canonical_request r \<longleftrightarrow>
     rq_method r \<noteq> ''CONNECT'' \<and> url_path (rq_url r) \<noteq> ''*'' \<and> cleanPath (escapedPath (rq_url r)) = escapedPath (rq_url r)"

lemma cleanPath_rooted: "prefix ''/'' (cleanPath p)"
  using path_clean_elements(2) [of "CHR ''/'' # p"] path_clean_elements(2) [of p]
  by (cases p) (auto simp: cleanPath_def Let_def simp del: path_clean_elements)

lemma findHandler_sound:
  assumes "findHandler rs r = Handler e vs"
  shows "\<exists>rt ms. route_serves rs (rq_method r) (escapedPath (rq_url r)) rt ms \<and> rt_target rt = e \<and> vs = path_values rt ms"
  using assms by (auto simp: findHandler_def Let_def dest!: match_route_sound split: if_splits option.splits)

lemma findHandler_iff:
  assumes "wf_routes rs" and "canonical_request r"
  shows "findHandler rs r = Handler e vs \<longleftrightarrow>
    (\<exists>rt ms. route_serves rs (rq_method r) (escapedPath (rq_url r)) rt ms \<and> rt_target rt = e \<and> vs = path_values rt ms)"
proof
  assume "\<exists>rt ms. route_serves rs (rq_method r) (escapedPath (rq_url r)) rt ms \<and> rt_target rt = e \<and> vs = path_values rt ms"
  then obtain rt ms where rt: "route_serves rs (rq_method r) (escapedPath (rq_url r)) rt ms"
    and e: "rt_target rt = e" "vs = path_values rt ms" by blast
  have "prefix ''/'' (escapedPath (rq_url r))"
    using assms(2) cleanPath_rooted [of "escapedPath (rq_url r)"] by (simp add: canonical_request_def)
  then have "\<not> redirectsToSlash rs (rq_method r) (escapedPath (rq_url r))" using no_slash_redirect [OF assms(1) rt] by blast
  moreover have "match_route rs (rq_method r) (escapedPath (rq_url r)) = Some (rt, ms)"
    using match_route_iff [THEN iffD2, OF _ rt] assms(1) by (simp add: wf_routes_def)
  ultimately show "findHandler rs r = Handler e vs" using assms(2) e by (simp add: findHandler_def canonical_request_def Let_def)
qed (rule findHandler_sound)

end
