(* ===== verification/Service_Laws.thy ===== *)
theory Service_Laws
  imports Routes Handler_Runs Mux_Laws Login_Properties
begin

text \<open>
  The service as a state machine: one step is one request, with whatever the engines, the file systems and the other
  sites do in it. A relation that the store's operations respect holds between the databases before and after any
  run of the service; the interpretations below give three such relations.
\<close>

subsection \<open>Steps\<close>

inductive service_step :: "libs \<Rightarrow> server \<Rightarrow> (string \<Rightarrow> string) \<Rightarrow> service \<Rightarrow> service \<Rightarrow> bool" for X S K where
  request: "db_collate (be_db B) = K \<Longrightarrow> serveHTTP X S B r body sc = (rs, sc') \<Longrightarrow> service_step X S K sc sc'"

inductive_cases service_stepE: "service_step X S K sc sc'"

abbreviation users_db :: "service \<Rightarrow> db" where
  "users_db sc \<equiv> w_db (sc_world sc)"

lemma on_world_users [simp]: "users_db (snd (on_world h sc)) = w_db (snd (h (sc_world sc)))"
  by (simp add: on_world_def case_prod_beta)

lemma on_db_users [simp]: "users_db (snd (on_db h sc)) = snd (h (users_db sc))"
  by (simp add: on_db_def set_db_def case_prod_beta)

context store_client
begin

lemma run_handle:
  assumes "db_collate (be_db B) = K" and "e \<noteq> Logout"
  shows "leads (users_db sc) (users_db (snd (handle X S B r body e sc)))"
  using assms leads_refl by (cases e) (simp_all add: runs case_prod_beta set_db_def)

text \<open>A request that does not reach \<open>logout\<close>.\<close>

lemma run_serveHTTP_other:
  assumes "db_collate (be_db B) = K" and "\<forall>vs. findHandler routes r \<noteq> Handler Logout vs"
  shows "leads (users_db sc) (users_db (snd (serveHTTP X S B r body sc)))"
  using run_handle [OF assms(1)] assms(2) leads_refl by (auto simp: serveHTTP_def muxed_def split: mux_result.split)

end

context store_client_revoking
begin

lemma run_serveHTTP:
  assumes "db_collate (be_db B) = K"
  shows "leads (users_db sc) (users_db (snd (serveHTTP X S B r body sc)))"
proof (cases "\<exists>vs. findHandler routes r = Handler Logout vs")
  case True
  then show ?thesis using assms leads_refl by (auto simp: serveHTTP_def muxed_def runs)
next
  case False
  then show ?thesis using run_serveHTTP_other [OF assms] by blast
qed

lemma service_run:
  assumes "(service_step X S K)\<^sup>*\<^sup>* sc sc'"
  shows "leads (users_db sc) (users_db sc')"
  using assms
proof induction
  case (step sc1 sc2)
  then obtain B r body rs where "db_collate (be_db B) = K" "serveHTTP X S B r body sc1 = (rs, sc2)"
    by (auto elim: service_stepE)
  then have "leads (users_db sc1) (users_db sc2)" using run_serveHTTP [of B sc1 X S r body] by simp
  then show ?case using step.IH by (rule leads_trans [rotated])
qed (rule leads_refl)

end

subsection \<open>What no request changes\<close>

text \<open>Accounts keep their role and their enabled flag, and new accounts are ordinary users.\<close>

definition access_kept :: "db \<Rightarrow> db \<Rightarrow> bool" where
  "access_kept d d' \<longleftrightarrow>
     (\<exists>new. map access_facts (db_users d') = map access_facts (db_users d) @ new
        \<and> list_all (\<lambda>(i, role, enabled). role = ''user'' \<and> enabled) new)"

lemma access_kept_same: "map access_facts (db_users d') = map access_facts (db_users d) \<Longrightarrow> access_kept d d'"
  by (simp add: access_kept_def)

lemma access_kept_new:
  "map access_facts (db_users d') = map access_facts (db_users d) @ [(i, ''user'', True)] \<Longrightarrow> access_kept d d'"
  by (auto simp: access_kept_def)

lemma access_kept_refl: "access_kept d d"
  by (simp add: access_kept_same)

lemma access_kept_trans: "access_kept d0 d \<Longrightarrow> access_kept d d' \<Longrightarrow> access_kept d0 d'"
  by (force simp: access_kept_def)

lemma identity_access: "access_kept d (snd (upsertIdentityUser E p s e n a d))"
  using identity_login_keeps_access [of E p s e n a d] by (auto intro: access_kept_same access_kept_new)

lemma upsert_authentik_access: "access_kept d (upsert_authentik E subject email name picture now d)"
  by (cases "find (authentik_user E subject) (db_users d)")
    (auto simp: upsert_authentik_def access_facts_def map_update_rows intro: access_kept_same access_kept_new)

lemma UpsertAuthentikUser_access: "access_kept d (snd (UpsertAuthentikUser E ai d))"
  by (simp add: UpsertAuthentikUser_def Let_def upsert_authentik_access access_kept_refl split: option.split)

lemma plain_users:
  "db_users (snd (FindUserBySession E th now d)) = db_users d" "db_users (snd (SaveEmailCode E e h t d)) = db_users d"
  "db_users (snd (ConsumeEmailCode E e h now d)) = db_users d" "db_users (snd (SaveOAuthRequest E h q d)) = db_users d"
  "db_users (snd (ConsumeOAuthRequest E h now d)) = db_users d" "db_users (snd (RevokeSession E h d)) = db_users d"
  "db_users (snd (SaveDesktopSsoTicket E u h t ip ua d)) = db_users d"
  "db_users (snd (ConsumeDesktopSsoTicket E h now d)) = db_users d" "db_users (snd (RecordLogin E entry d)) = db_users d"
  by (auto simp: store_op_defs split: option.split)

lemma TouchLastLogin_facts: "map access_facts (db_users (snd (TouchLastLogin E u t d))) = map access_facts (db_users d)"
  by (simp add: TouchLastLogin_def access_facts_def map_update_rows)

interpretation access: store_client_revoking K access_kept for K
proof unfold_locales
  show "access_kept d0 d \<Longrightarrow> access_kept d d' \<Longrightarrow> access_kept d0 d'" for d0 d d' by (rule access_kept_trans)
qed (simp_all add: access_kept_refl identity_access UpsertAuthentikUser_access access_kept_same plain_users TouchLastLogin_facts)

subsection \<open>What only a logout ends\<close>

definition session_kept :: "(string \<Rightarrow> string) \<Rightarrow> string \<Rightarrow> db \<Rightarrow> db \<Rightarrow> bool" where
  "session_kept K k d d' \<longleftrightarrow>
     (store_wf K d \<longrightarrow> store_wf K d' \<and> (\<forall>e. session_map K d k = Some e \<longrightarrow> session_map K d' k = Some e))"

lemma session_kept_same: "(store_wf K d \<Longrightarrow> store_wf K d') \<Longrightarrow> db_sessions d' = db_sessions d \<Longrightarrow> session_kept K k d d'"
  using session_map_cong [of d' d K] by (simp add: session_kept_def)

lemma CreateSession_kept:
  assumes "db_collate E = K"
  shows "session_kept K k d (snd (CreateSession E u h c t ua ip d))"
proof (cases "CreateSession E u h c t ua ip d")
  case (Pair r d')
  show ?thesis
  proof (cases r)
    case (Inl e)
    then show ?thesis using Pair CreateSession_wf [of K d E u h c t ua ip] assms
      by (intro session_kept_same) (auto simp: CreateSession_def Let_def split: if_splits)
  next
    case (Inr x)
    then show ?thesis using Pair CreateSession_wf [of K d E u h c t ua ip] create_session_map [of E u h c t ua ip d d' K] assms
      by (auto simp: session_kept_def)
  qed
qed

lemma find_seen:
  "map_option session_entry (find (\<lambda>r. K (s_tokenHash r) = k) (update_rows P (\<lambda>r. r\<lparr>s_lastSeenAt := t\<rparr>) rows))
   = map_option session_entry (find (\<lambda>r. K (s_tokenHash r) = k) rows)"
  by (induction rows) (auto simp: update_rows_def session_entry_def)

lemma FindUserBySession_kept:
  assumes "db_collate E = K"
  shows "session_kept K k d (snd (FindUserBySession E th now d))"
proof -
  have "session_map K (snd (FindUserBySession E th now d)) k = session_map K d k"
    by (simp add: FindUserBySession_def session_map_def Let_def find_seen split: option.split)
  then show ?thesis using FindUserBySession_wf [of K d E th now] assms by (auto simp: session_kept_def)
qed

lemma plain_sessions:
  "db_sessions (snd (SaveEmailCode E e h t d)) = db_sessions d" "db_sessions (snd (ConsumeEmailCode E e h now d)) = db_sessions d"
  "db_sessions (snd (SaveOAuthRequest E h q d)) = db_sessions d" "db_sessions (snd (ConsumeOAuthRequest E h now d)) = db_sessions d"
  "db_sessions (snd (SaveDesktopSsoTicket E u h t ip ua d)) = db_sessions d"
  "db_sessions (snd (ConsumeDesktopSsoTicket E h now d)) = db_sessions d" "db_sessions (snd (TouchLastLogin E u t d)) = db_sessions d"
  "db_sessions (snd (RecordLogin E entry d)) = db_sessions d"
  by (auto simp: store_op_defs split: option.split)

interpretation kept: store_client K "session_kept K k" for K k
proof unfold_locales
  show "session_kept K k d d" for d by (simp add: session_kept_def)
  show "session_kept K k d0 d \<Longrightarrow> session_kept K k d d' \<Longrightarrow> session_kept K k d0 d'" for d0 d d'
    by (auto simp: session_kept_def)
qed (auto intro!: session_kept_same FindUserBySession_kept CreateSession_kept operations_wf simp: plain_sessions)

lemma RevokeSession_other_kept:
  assumes "db_collate E = K" and "K th \<noteq> k"
  shows "session_kept K k d (snd (RevokeSession E th d))"
proof (cases "RevokeSession E th d")
  case (Pair r d')
  then show ?thesis
    using revoke_session_map [of E th d d' K] RevokeSession_wf [of K d E th] assms
    by (cases r) (auto simp: session_kept_def RevokeSession_def split: if_splits)
qed

text \<open>A request that logs this session out: it reaches \<open>logout\<close> with the session's cookie.\<close>

definition logs_out :: "server \<Rightarrow> (string \<Rightarrow> string) \<Rightarrow> string \<Rightarrow> request \<Rightarrow> bool" where
  "logs_out S K k r \<longleftrightarrow>
     (case findHandler routes r of
        Handler Logout vs \<Rightarrow> (case rq_cookie r (sv_cookieName S) of None \<Rightarrow> False | Some v \<Rightarrow> K (tokenHash v) = k)
      | _ \<Rightarrow> False)"

inductive other_step ::
  "libs \<Rightarrow> server \<Rightarrow> (string \<Rightarrow> string) \<Rightarrow> string \<Rightarrow> service \<Rightarrow> service \<Rightarrow> bool" for X S K k where
  request: "db_collate (be_db B) = K \<Longrightarrow> \<not> logs_out S K k r \<Longrightarrow> serveHTTP X S B r body sc = (rs, sc')
    \<Longrightarrow> other_step X S K k sc sc'"

inductive_cases other_stepE: "other_step X S K k sc sc'"

lemma other_step_service: "other_step X S K k sc sc' \<Longrightarrow> service_step X S K sc sc'"
  by (auto elim: other_stepE intro: service_step.intros)

lemma other_run_service: "(other_step X S K k)\<^sup>*\<^sup>* sc sc' \<Longrightarrow> (service_step X S K)\<^sup>*\<^sup>* sc sc'"
  by (rule rtranclp_mono [THEN predicate2D]) (auto intro: other_step_service)

lemma logout_other_kept:
  assumes "db_collate E = K" and "\<forall>v. rq_cookie r (sv_cookieName S) = Some v \<longrightarrow> K (tokenHash v) \<noteq> k"
  shows "session_kept K k (w_db w) (w_db (snd (logout S E r w)))"
  using assms RevokeSession_other_kept [OF assms(1)] kept.leads_refl
  by (auto simp: logout_def Let_def split: option.split)

lemma other_step_kept:
  assumes "other_step X S K k sc sc'"
  shows "session_kept K k (users_db sc) (users_db sc')"
proof -
  obtain B r body rs where step: "db_collate (be_db B) = K" "\<not> logs_out S K k r" "serveHTTP X S B r body sc = (rs, sc')"
    using assms by (auto elim: other_stepE)
  have sc': "sc' = snd (serveHTTP X S B r body sc)" using step(3) by simp
  show ?thesis
  proof (cases "\<exists>vs. findHandler routes r = Handler Logout vs")
    case True
    then have "\<forall>v. rq_cookie r (sv_cookieName S) = Some v \<longrightarrow> K (tokenHash v) \<noteq> k"
      using step(2) by (auto simp: logs_out_def)
    then show ?thesis using True logout_other_kept [OF step(1)] by (auto simp: sc' serveHTTP_def muxed_def)
  next
    case False
    then show ?thesis unfolding sc' using kept.run_serveHTTP_other [OF step(1)] by blast
  qed
qed

lemma other_run_kept: "(other_step X S K k)\<^sup>*\<^sup>* sc sc' \<Longrightarrow> session_kept K k (users_db sc) (users_db sc')"
proof (induction rule: rtranclp_induct)
  case (step sc1 sc2)
  then show ?case using other_step_kept kept.leads_trans by blast
qed (rule kept.leads_refl)

lemma access_kept_user:
  assumes "access_kept d d'" and "user_by_id d i = Some row"
  shows "\<exists>row'. user_by_id d' i = Some row' \<and> access_facts row' = access_facts row"
proof -
  obtain new where new: "map access_facts (db_users d') = map access_facts (db_users d) @ new"
    using assms(1) by (auto simp: access_kept_def)
  have facts: "map_option access_facts (user_by_id x i) = find (\<lambda>f. fst f = i) (map access_facts (db_users x))" for x
    using find_map [of access_facts "\<lambda>f. fst f = i"] by (simp add: user_by_id_def access_facts_def)
  have "map_option access_facts (user_by_id d' i) = Some (access_facts row)"
    using facts [of d, symmetric] assms(2) by (simp add: facts [of d'] new find_append)
  then show ?thesis by auto
qed

end
