(* ===== verification/Service_Properties.thy ===== *)
theory Service_Properties
  imports Service_Laws Entry_Properties Update_Handlers_Laws
begin

text \<open>
  The properties of the whole service, over requests as they come in: what a login is worth after any other traffic,
  what no request can do, who may change the feeds, and that every request is answered.
\<close>

subsection \<open>Integrity\<close>

lemma start_run:
  assumes "startServer M e sy = (Inr S, sy')"
  shows "store_run (db_collate (me_db M)) (sy_db sy) (sy_db sy')"
proof -
  obtain h where "EnsureAdmin (me_db M) (e ''INIT_ADMIN_EMAIL'') h (sy_db sy) = (Inr (), sy_db sy')"
    by (rule startServer_ok [OF assms]) (auto simp: ensureInitialAdmin_def split: if_splits option.splits)
  then show ?thesis using store_step.ensure_admin [of "me_db M" _ "sy_db sy"] by (metis r_into_rtranclp snd_conv)
qed

lemma store_run_wf: "store_run K d d' \<Longrightarrow> store_wf K d \<Longrightarrow> store_wf K d'"
  by (induction rule: rtranclp_induct) (auto intro: store_step_wf)

text \<open>Whatever requests a started server gets, and whatever fails in them, the users' database is one that a sequence
  of the store's operations makes from the database before the start, and it satisfies the keys and references of
  the schema.\<close>

theorem service_reachable_wf:
  assumes "startServer M e sy = (Inr S, sy')" and "store_wf (db_collate (me_db M)) (sy_db sy)"
    and "(service_step X S (db_collate (me_db M)))\<^sup>*\<^sup>* (start_service rnd cache sy') sc"
  shows "store_run (db_collate (me_db M)) (sy_db sy) (users_db sc) \<and> store_wf (db_collate (me_db M)) (users_db sc)"
proof -
  have "users_db (start_service rnd cache sy') = sy_db sy'" by (simp add: start_service_def start_world_def)
  then have "store_run (db_collate (me_db M)) (sy_db sy') (users_db sc)" using run.service_run [OF assms(3)] by simp
  then have "store_run (db_collate (me_db M)) (sy_db sy) (users_db sc)" using start_run [OF assms(1)] by (rule rtranclp_trans [rotated])
  then show ?thesis using store_run_wf assms(2) by blast
qed

subsection \<open>Sessions\<close>

lemma serve_endpoint:
  assumes "findHandler routes r = Handler e vs"
  shows "serveHTTP X S B r body sc =
    apfst secured (handle X S B (r\<lparr>rq_pathValue := (\<lambda>n. case map_of vs n of None \<Rightarrow> [] | Some v \<Rightarrow> v)\<rparr>) body e sc)"
  by (simp add: serveHTTP_def muxed_def assms)

lemma securityHeaders_simps [simp]:
  "rs_status (securityHeaders rs) = rs_status rs" "rs_cookies (securityHeaders rs) = rs_cookies rs"
  "rs_body (securityHeaders rs) = rs_body rs" "rs_location (securityHeaders rs) = rs_location rs"
  by (simp_all add: securityHeaders_def setHeader_def)

lemma secured_plain: "secured a = Plain rs \<Longrightarrow> \<exists>rs0. a = Plain rs0 \<and> rs_status rs = rs_status rs0 \<and> rs_cookies rs = rs_cookies rs0
    \<and> rs_body rs = rs_body rs0"
  by (cases a) (auto simp: secured_def split: if_splits)

lemma session_lasts:
  assumes wf: "store_wf K (users_db sc)" and run: "(other_step X S K (K (tokenHash v)))\<^sup>*\<^sup>* sc sc'"
    and entry: "session_map K (users_db sc) (K (tokenHash v)) = Some (i, csrfText, expires, created)"
    and row: "user_by_id (users_db sc) i = Some row" "u_enabled row" and v: "v \<noteq> []"
    and E: "db_collate E = K" "\<not> db_fails E OpFindUserBySession" "db_now E < expires"
    and cookie: "rq_cookie r (sv_cookieName S) = Some v"
  shows "\<exists>row'. fst (currentUser S E r (users_db sc')) = Inr (scanUserWithPassword [] row')
    \<and> access_facts row' = access_facts row"
proof -
  have kept: "store_wf K (users_db sc')" "session_map K (users_db sc') (K (tokenHash v)) = Some (i, csrfText, expires, created)"
    using other_run_kept [OF run] wf entry by (auto simp: session_kept_def)
  obtain row' where row': "user_by_id (users_db sc') i = Some row'" "access_facts row' = access_facts row"
    using access_kept_user [OF access.service_run [OF other_run_service [OF run]] row(1)] by blast
  then have "u_enabled row'" using row(2) by (simp add: access_facts_def)
  then have "fst (currentUser S E r (users_db sc')) = Inr (scanUserWithPassword [] row')"
    using session_identifies [of E "users_db sc'" E v i csrfText expires created r S row'] kept row' E cookie v by simp
  then show ?thesis using row' by blast
qed

text \<open>C1: A login by password lasts: with the cookie that the service sets, \<open>/api/auth/me\<close> answers with the user who logged
  in until the session expires, whatever other requests are served in between, from anyone, unless one of them logs
  this session out.\<close>

theorem login_lasts:
  assumes "store_wf K (users_db sc)" and "db_collate (be_db B) = K" and "findHandler routes r = Handler Login vs"
    and "serveHTTP X S B r body sc = (Plain rs, sc1)" and "c \<in> set (rs_cookies rs)"
    and "(other_step X S K (K (tokenHash (ck_value c))))\<^sup>*\<^sup>* sc1 sc2"
    and "findHandler routes r' = Handler Me vs'" and "rq_cookie r' (ck_name c) = Some (ck_value c)"
    and "db_collate (be_db B') = K" and "\<not> db_fails (be_db B') OpFindUserBySession"
    and "db_now (be_db B') < db_time (be_db B) (ck_expires c)"
  shows "\<exists>u u' rs' sc3. fst (FindLocalUserByEmail (be_db B) (lr_email (the (decode_login body))) (users_db sc)) = Inr u
    \<and> serveHTTP X S B' r' body' sc2 = (Plain rs', sc3) \<and> rs_status rs' = 200
    \<and> rs_body rs' = JsonBody (JObj [(''user'', publicUser S u')]) \<and> usr_id u' = usr_id u"
proof -
  define q where "q = r\<lparr>rq_pathValue := (\<lambda>n. case map_of vs n of None \<Rightarrow> [] | Some v \<Rightarrow> v)\<rparr>"
  define q' where "q' = r'\<lparr>rq_pathValue := (\<lambda>n. case map_of vs' n of None \<Rightarrow> [] | Some v \<Rightarrow> v)\<rparr>"
  obtain rs0 w' where login: "login X S (be_db B) q (decode_login body) (sc_world sc) = (rs0, w')" "sc1 = sc\<lparr>sc_world := w'\<rparr>"
    and c: "c \<in> set (rs_cookies rs0)"
    using assms(4,5) by (auto simp: serve_endpoint [OF assms(3)] q_def on_world_def case_prod_beta dest!: secured_plain
        dest: sym) (metis prod.collapse)
  obtain req u csrfText created row where entry: "decode_login body = Some req"
    "fst (FindLocalUserByEmail (be_db B) (lr_email req) (users_db sc)) = Inr u" "store_wf K (users_db sc1)"
    "ck_name c = sv_cookieName S" "ck_value c \<noteq> []"
    "session_map K (users_db sc1) (K (tokenHash (ck_value c))) = Some (usr_id u, csrfText, db_time (be_db B) (ck_expires c), created)"
    "user_by_id (users_db sc1) (usr_id u) = Some row" "u_enabled row" "u_id row = usr_id u"
    by (rule login_cookie_session [OF _ login(1) c]) (use assms(1,2) login(2) in auto)
  have cookie: "rq_cookie q' (sv_cookieName S) = Some (ck_value c)" using assms(8) entry(4) by (simp add: q'_def)
  obtain row' where "fst (currentUser S (be_db B') q' (users_db sc2)) = Inr (scanUserWithPassword [] row')"
    and row': "access_facts row' = access_facts row"
    using session_lasts [OF entry(3) assms(6) entry(6-8,5) assms(9-11) cookie] by blast
  then have "me S (be_db B') q' (sc_world sc2) =
      (writeJSON 200 (JObj [(''user'', publicUser S (scanUserWithPassword [] row'))]),
       (sc_world sc2)\<lparr>w_db := snd (currentUser S (be_db B') q' (users_db sc2))\<rparr>)"
    by (simp add: me_def case_prod_beta)
  moreover have "usr_id (scanUserWithPassword [] row') = usr_id u"
    using row' entry(9) by (simp add: scanUserWithPassword_def access_facts_def)
  ultimately show ?thesis using entry(1,2)
    by (auto simp: serve_endpoint [OF assms(7)] q'_def [symmetric] on_world_def secured_def writeJSON_def securityHeaders_def setHeader_def)
qed

subsection \<open>One-shot tickets\<close>

text \<open>A request that offers this ticket for a session.\<close>

definition ticket_request :: "string \<Rightarrow> request \<Rightarrow> string \<Rightarrow> bool" where
  "ticket_request ticket r body \<longleftrightarrow>
     ticket \<noteq> [] \<and> (case findHandler routes r of Handler DesktopSsoSession vs \<Rightarrow> True | _ \<Rightarrow> False)
     \<and> (case decode_sso body of None \<Rightarrow> False | Some q \<Rightarrow> trimSpace (sr_ticket q) = ticket)"

lemma ticket_session_200:
  assumes "rs_status (fst (desktopSsoSession X S E r (Some q) w)) = 200" and "trimSpace (sr_ticket q) = ticket" and "ticket \<noteq> []"
  obtains u where "fst (ConsumeDesktopSsoTicket E (tokenHash ticket) (serverNow E) (w_db w)) = Inr u"
    and "desktopSsoSession X S E r (Some q) w = writeDesktopSsoSessionResponse S E r u (desktopSSOAuthMethod S)
          (w\<lparr>w_db := snd (ConsumeDesktopSsoTicket E (tokenHash ticket) (serverNow E) (w_db w))\<rparr>)"
  using assms that
  by (cases "ConsumeDesktopSsoTicket E (tokenHash ticket) (serverNow E) (w_db w)")
    (auto simp: desktopSsoSession_def desktopSsoTicketSession_def requireValidOrigin_def response_defs Let_def
      split: if_splits sum.splits store_error.splits)

lemma ticket_request_served:
  assumes "ticket_request ticket r body" and "serveHTTP X S B r body sc = (Plain rs, sc')" and "rs_status rs = 200"
    and "db_collate (be_db B) = K"
  obtains u d where "ConsumeDesktopSsoTicket (be_db B) (tokenHash ticket) (serverNow (be_db B)) (users_db sc) = (Inr u, d)"
    and "store_run K d (users_db sc')"
proof -
  obtain vs where h: "findHandler routes r = Handler DesktopSsoSession vs"
    using assms(1) by (auto simp: ticket_request_def split: mux_result.splits endpoint.splits)
  obtain q where q: "decode_sso body = Some q" "trimSpace (sr_ticket q) = ticket" "ticket \<noteq> []"
    using assms(1) by (auto simp: ticket_request_def split: option.splits)
  define r' where "r' = r\<lparr>rq_pathValue := (\<lambda>n. case map_of vs n of None \<Rightarrow> [] | Some v \<Rightarrow> v)\<rparr>"
  let ?h = "desktopSsoSession X S (be_db B) r' (Some q) (sc_world sc)"
  have sc': "secured (Plain (fst ?h)) = Plain rs" "sc_world sc' = snd ?h"
    using assms(2) by (auto simp: serve_endpoint [OF h] q r'_def on_world_def case_prod_beta)
  then have "rs_status (fst ?h) = 200" using assms(3) secured_plain by fastforce
  then obtain u where u: "fst (ConsumeDesktopSsoTicket (be_db B) (tokenHash ticket) (serverNow (be_db B)) (users_db sc)) = Inr u"
    and rest: "?h = writeDesktopSsoSessionResponse S (be_db B) r' u (desktopSSOAuthMethod S)
      ((sc_world sc)\<lparr>w_db := snd (ConsumeDesktopSsoTicket (be_db B) (tokenHash ticket) (serverNow (be_db B)) (users_db sc))\<rparr>)"
    using ticket_session_200 q(2,3) by metis
  obtain d where d: "ConsumeDesktopSsoTicket (be_db B) (tokenHash ticket) (serverNow (be_db B)) (users_db sc) = (Inr u, d)"
    using u by (metis prod.collapse)
  have "store_run K d (users_db sc')" unfolding sc' rest d by (rule run.run_sso_parts(2) [OF assms(4)]) simp
  then show thesis using that d by blast
qed

text \<open>C3: A desktop ticket opens one session: after a request with the ticket was answered with 200, no later request with
  the same ticket is, whatever requests are served in between and whatever fails in them.\<close>

theorem ticket_opens_one_session:
  assumes "store_wf K (users_db sc)" and "ticket_request ticket r body" and "db_collate (be_db B) = K"
    and "serveHTTP X S B r body sc = (Plain rs, sc1)" and "rs_status rs = 200"
    and "(service_step X S K)\<^sup>*\<^sup>* sc1 sc2" and "ticket_request ticket r' body'" and "db_collate (be_db B') = K"
    and "serveHTTP X S B' r' body' sc2 = (Plain rs', sc3)"
  shows "rs_status rs' \<noteq> 200"
proof
  assume again: "rs_status rs' = 200"
  obtain u d where first: "ConsumeDesktopSsoTicket (be_db B) (tokenHash ticket) (serverNow (be_db B)) (users_db sc) = (Inr u, d)"
    and "store_run K d (users_db sc1)"
    by (rule ticket_request_served [OF assms(2,4,5,3)])
  then have between: "store_run K d (users_db sc2)" using run.service_run [OF assms(6)] by (blast intro: rtranclp_trans)
  obtain u' d' where second: "ConsumeDesktopSsoTicket (be_db B') (tokenHash ticket) (serverNow (be_db B')) (users_db sc2) = (Inr u', d')"
    by (rule ticket_request_served [OF assms(7,9) again assms(8)])
  have "ticket_accepts K (tokenHash ticket) (users_db sc) d" using first assms(3) by (auto simp: ticket_accepts_def)
  from ticket.once [OF assms(1) this between] show False using second assms(8) by (auto simp: ticket_accepts_def)
qed

subsection \<open>Rights\<close>

text \<open>C4: No request gives rights: whatever requests are served, every account keeps its role and its enabled flag, and an
  account that is new is an ordinary, enabled user. In particular nobody becomes an administrator over HTTP.\<close>

theorem requests_grant_no_role:
  assumes "(service_step X S K)\<^sup>*\<^sup>* sc sc'"
  shows "\<exists>new. map access_facts (db_users (users_db sc')) = map access_facts (db_users (users_db sc)) @ new
    \<and> list_all (\<lambda>(i, role, enabled). role = ''user'' \<and> enabled) new"
  using access.service_run [OF assms] by (simp add: access_kept_def)

lemma on_world_updates [simp]: "sc_updates (snd (on_world h sc)) = sc_updates sc"
  by (simp add: on_world_def case_prod_beta)

lemma on_db_updates [simp]: "sc_updates (snd (on_db h sc)) = sc_updates sc" "sc_updates (set_db d sc) = sc_updates sc"
  by (simp_all add: on_db_def set_db_def case_prod_beta)

lemma request_path [simp]:
  "hdr (r\<lparr>rq_pathValue := f\<rparr>) = hdr r" "sessionToken S (r\<lparr>rq_pathValue := f\<rparr>) = sessionToken S r"
  "currentUser S E (r\<lparr>rq_pathValue := f\<rparr>) = currentUser S E r" "rq_remoteAddr (r\<lparr>rq_pathValue := f\<rparr>) = rq_remoteAddr r"
  "rq_tls (r\<lparr>rq_pathValue := f\<rparr>) = rq_tls r" "rq_host (r\<lparr>rq_pathValue := f\<rparr>) = rq_host r"
  "rq_method (r\<lparr>rq_pathValue := f\<rparr>) = rq_method r"
  by (simp_all add: hdr_def sessionToken_def currentUser_def fun_eq_iff)

lemma origin_path [simp]: "originAllowed S (r\<lparr>rq_pathValue := f\<rparr>) = originAllowed S r"
  unfolding originAllowed_def validRequestOrigin_def request_scheme_def by (simp only: request_path)

lemma update_administrator_path [simp]:
  "update_administrator S E (r\<lparr>rq_pathValue := f\<rparr>) d u = update_administrator S E r d u"
  unfolding update_administrator_def requireCSRF_def by (simp only: request_path origin_path)

definition admin_endpoints :: "endpoint list" where
  "admin_endpoints = [AdminUpdateList, AdminUpdateDetail, AdminUpdateHistory, AdminUpdateSave]"

lemma admin_route_methods:
  "list_all (\<lambda>rt. rt_target rt = AdminUpdateSave \<longrightarrow> rt_method rt = Some ''PUT'') routes"
  by code_simp

lemma save_is_put: "findHandler routes r = Handler AdminUpdateSave vs \<Longrightarrow> rq_method r = ''PUT''"
  using admin_route_methods
  by (fastforce simp: list_all_iff route_serves_def takes_method_def dest!: findHandler_sound split: option.splits)

lemma handle_updates: "e \<noteq> AdminUpdateSave \<Longrightarrow> sc_updates (snd (handle X S B r body e sc)) = sc_updates sc"
  by (cases e) (simp_all add: case_prod_beta)

text \<open>C5: The feeds are the administrators': a request that changes a feed, or that the administration answers with 200,
  carries a live session of an administrator; one that changes a feed is also a \<open>PUT\<close> that the CSRF guard lets
  pass.\<close>

theorem feeds_need_administrator:
  assumes "serveHTTP X S B r body sc = (Plain rs, sc')"
    and "sc_updates sc' \<noteq> sc_updates sc \<or> (\<exists>e vs. findHandler routes r = Handler e vs \<and> e \<in> set admin_endpoints) \<and> rs_status rs = 200"
  shows "\<exists>u. update_administrator S (be_db B) r (users_db sc) u
    \<and> (sc_updates sc' \<noteq> sc_updates sc \<longrightarrow> rq_method r = ''PUT'' \<and> requireCSRF S (be_db B) r (snd (currentUser S (be_db B) r (users_db sc))) = None)"
proof -
  obtain e vs where h: "findHandler routes r = Handler e vs"
    using assms by (auto simp: serveHTTP_def muxed_def split: mux_result.splits)
  define r' where "r' = r\<lparr>rq_pathValue := (\<lambda>n. case map_of vs n of None \<Rightarrow> [] | Some v \<Rightarrow> v)\<rparr>"
  have served: "apfst secured (handle X S B r' body e sc) = (Plain rs, sc')"
    using assms(1) by (simp add: serve_endpoint [OF h] r'_def)
  then have sc': "sc' = snd (handle X S B r' body e sc)" by (cases "handle X S B r' body e sc") simp
  have e: "e \<in> set admin_endpoints" and put: "sc_updates sc' \<noteq> sc_updates sc \<Longrightarrow> rq_method r = ''PUT''"
    using assms(2) handle_updates [of e X S B r' body sc] sc' h save_is_put [of r vs] by (auto simp: admin_endpoints_def)
  let ?P = "sc_updates sc" and ?d = "users_db sc" and ?E = "be_db B" and ?U = "be_updates B"
  have "rs_status (fst (adminUpdateList S ?E ?U r' ?P ?d)) = 200 \<or> rs_status (fst (adminUpdateDetail S ?E ?U r' ?P ?d)) = 200
    \<or> rs_status (fst (adminUpdateHistory S ?E ?U r' ?P ?d)) = 200 \<or> rs_status (fst (adminUpdateSave S ?E ?U r' body ?P ?d)) = 200
    \<or> snd (snd (adminUpdateSave S ?E ?U r' body ?P ?d)) \<noteq> ?P"
    using e served assms(2)
    by (auto simp: admin_endpoints_def on_db_def case_prod_beta set_db_def dest!: secured_plain)
  from updates_need_administrator [OF this] obtain u where "update_administrator S ?E r ?d u" by (auto simp: r'_def)
  then show ?thesis using put by (auto simp: update_administrator_def)
qed

subsection \<open>Addresses\<close>

lemma routes_wf: "wf_routes routes"
  by code_simp


subsection \<open>The first login\<close>

definition login_document :: "string \<Rightarrow> string \<Rightarrow> string" where
  "login_document email password = json_compact (VObj [(''email'', VStr email), (''password'', VStr password)])"

lemma decode_login_document:
  assumes "valid_utf8 email" and "valid_utf8 password"
  shows "decode_login (login_document email password) = Some \<lparr>lr_email = email, lr_password = password\<rparr>"
proof -
  have "valid_utf8 ''email''" "valid_utf8 ''password''" by code_simp+
  then have "json_first (login_document email password) = Some (VObj [(''email'', VStr email), (''password'', VStr password)], [])"
    unfolding login_document_def using assms by (intro first_compact) (simp_all add: maxNesting_def)
  then show ?thesis by (simp add: decode_login_def decode_body_def dec_struct_def find_field_def)
qed

text \<open>C8: The first start on an empty database lets the configured administrator in over HTTP: a request to the login address
  from an allowed origin, with the JSON document of the configured password and any spelling of the configured
  address, is answered with 200, a session cookie and the data of an enabled administrator.\<close>

theorem administrator_logs_in:
  assumes "startServer M e sy = (Inr S, sy')" and "sy_db sy = emptyDb"
    and "\<And>h. lib_bcryptHash (me_libs M) (e ''INIT_ADMIN_PASSWORD'') = Some h \<Longrightarrow>
           lib_bcryptCompare (me_libs M) h (e ''INIT_ADMIN_PASSWORD'')"
    and "normalizeEmail email = normalizeEmail (e ''INIT_ADMIN_EMAIL'')"
    and "valid_utf8 email" and "valid_utf8 (e ''INIT_ADMIN_PASSWORD'')"
    and "findHandler routes r = Handler Login vs" and "originAllowed S r" and "\<forall>op. \<not> db_fails (be_db B) op" and "64 \<le> length rnd"
  shows "\<exists>u c rs sc. serveHTTP (me_libs M) S B r (login_document email (e ''INIT_ADMIN_PASSWORD'')) (start_service rnd cache sy') = (Plain rs, sc)
    \<and> rs_status rs = 200 \<and> rs_body rs = JsonBody (JObj [(''user'', publicUser S u)]) \<and> usr_role u = ''admin'' \<and> usr_enabled u
    \<and> usr_email u = normalizeEmail (e ''INIT_ADMIN_EMAIL'') \<and> rs_cookies rs = [c] \<and> ck_name c = sv_cookieName S"
proof -
  define q where "q = r\<lparr>rq_pathValue := (\<lambda>n. case map_of vs n of None \<Rightarrow> [] | Some v \<Rightarrow> v)\<rparr>"
  let ?req = "\<lparr>lr_email = email, lr_password = e ''INIT_ADMIN_PASSWORD''\<rparr>"
  have "normalizeEmail (lr_email ?req) = normalizeEmail (e ''INIT_ADMIN_EMAIL'')" "lr_password ?req = e ''INIT_ADMIN_PASSWORD''"
    "originAllowed S q" using assms(4,8) by (simp_all add: q_def)
  from first_start_admin_login [OF assms(1,2) _ this assms(9,10)] assms(3) obtain u w and ns :: new_session
    where login: "login (me_libs M) S (be_db B) q (Some ?req) (start_world rnd sy') =
      (setCookie (sessionCookie S (ns_token ns) (serverNow (be_db B) + sv_sessionTTL S)) (writeJSON 200 (JObj [(''user'', publicUser S u)])), w)"
      and u: "usr_role u = ''admin'' \<and> usr_enabled u \<and> usr_email u = normalizeEmail (e ''INIT_ADMIN_EMAIL'')" by blast
  have "sc_world (start_service rnd cache sy') = start_world rnd sy'" by (simp add: start_service_def)
  then show ?thesis
    using login u decode_login_document [OF assms(5,6)]
    by (auto simp: serve_endpoint [OF assms(7)] q_def [symmetric] on_world_def secured_def response_defs securityHeaders_def sessionCookie_def)
qed

subsection \<open>The market gateway\<close>

text \<open>C11: The gateway does not keep a request below the market's \<open>/api\<close>: dot segments that are percent-encoded pass the mux,
  and the director joins the decoded path, so that the request for \<open>/api/market/%2e%2e/admin\<close> goes to
  \<open>/api/../admin\<close>, which is \<open>/admin\<close>, with the user's gateway token.\<close>

theorem market_dot_segments:
  assumes "rq_method r = ''GET''" and "url_parse ''/api/market/%2e%2e/admin'' = Some (rq_url r)"
    and "url_path target = []" and "token \<noteq> []"
  shows "findHandler routes r = Handler Market []
    \<and> px_path (market_director target token r) = ''/api/../admin'' \<and> path_clean ''/api/../admin'' = ''/admin''
    \<and> header_get (px_header (market_director target token r)) ''Authorization'' = ''Bearer '' @ token"
proof -
  have u: "url_path (rq_url r) = ''/api/market/../admin''" "escapedPath (rq_url r) = ''/api/market/%2e%2e/admin''"
  proof -
    have "map_option (\<lambda>u. (url_path u, escapedPath u)) (url_parse ''/api/market/%2e%2e/admin'')
        = Some (''/api/market/../admin'', ''/api/market/%2e%2e/admin'')" by code_simp
    then show "url_path (rq_url r) = ''/api/market/../admin''" "escapedPath (rq_url r) = ''/api/market/%2e%2e/admin''"
      using assms(2) by simp_all
  qed
  have clean: "cleanPath ''/api/market/%2e%2e/admin'' = ''/api/market/%2e%2e/admin'' \<and> path_clean ''/api/../admin'' = ''/admin''" by code_simp
  let ?rt = "\<lparr>rt_method = None, rt_segments = [Literal ''api'', Literal ''market'', TrailingSlash], rt_target = Market\<rparr>"
  have "list_ex (\<lambda>rt. rt_method rt = None \<and> rt_segments rt = rt_segments ?rt \<and> rt_target rt = Market) routes"
    and seg: "segs_match (rt_segments ?rt) ''/api/market/%2e%2e/admin'' = Some [] \<and> path_values ?rt [] = []" by code_simp+
  then have rt: "?rt \<in> set routes" by (auto simp: list_ex_iff) (metis route.surjective old.unit.exhaust)
  have "canonical_request r" using clean by (simp add: canonical_request_def assms(1) u)
  from findHandler_iff [OF routes_wf this, of Market "[]"] have "findHandler routes r = Handler Market []"
    using rt seg by (auto simp: route_serves_def takes_method_def u intro!: exI [of _ ?rt])
  moreover have "px_path (market_director target token r) = ''/api/../admin''"
    by (simp add: market_director_def u trimPrefix_def singleJoiningSlash_def assms(3) Let_def)
  ultimately show ?thesis using clean assms(4) by (simp add: market_director_def Let_def)
qed

end
