(* ===== verification/Server_Run.thy ===== *)
theory Server_Run
  imports Service_Properties
begin


datatype run_error = NotStarted start_error | ShutdownFailed | ListenFailed




record run_result =
  rr_error :: "run_error option"
  rr_answers :: "avatar_response list"
  rr_avatars :: avatar_cache
  rr_system :: system


text \<open>\<open>main\<close>: an error is logged and gives the exit status 1.\<close>

definition exit_status :: "run_result \<Rightarrow> nat" where
  "exit_status res = (if rr_error res = None then 0 else 1)"

subsection \<open>Runs\<close>






end
