(* ===== verification/Service_Answers.thy ===== *)
theory Service_Answers
  imports Service_Laws
begin

text \<open>
  Every request is answered: no handler leaves the connection without a response, which only a panic would do, and
  every response carries the security headers.
\<close>

named_theorems answers

lemma statuses [answers]:
  "rs_status (writeError s code message) = s" "rs_status (writeJSON s b) = s" "rs_status (redirect target) = 302"
  "rs_status (setCookie c rs) = rs_status rs" "rs_status (setHeader k h rs) = rs_status rs" "rs_status (writeValue s val) = s"
  "rs_status (noStore rs) = rs_status rs" "rs_status notFound = 404" "rs_status (clearDesktopSsoBridgeCookies S rs) = rs_status rs"
  "rs_status (updateError e) \<noteq> 0" "rs_status (redirectFailure S reason) = 302"
  "rs_status (redirectDesktopSuccess ctx ticket) = 302" "rs_status (redirectDesktopFailure ctx reason) = 302"
  by (simp_all add: response_defs writeValue_def noStore_def updateError_def clearDesktopSsoBridgeCookies_def redirectFailure_def
      redirectDesktopSuccess_def redirectDesktopFailure_def split: update_error.split)

lemma guard_statuses:
  "requireValidOrigin S r = Some rs \<Longrightarrow> rs_status rs \<noteq> 0" "requireCSRF S E r d = Some rs \<Longrightarrow> rs_status rs \<noteq> 0"
  by (auto simp: requireValidOrigin_def requireCSRF_def answers split: if_splits option.splits sum.splits)

text \<open>A handler's result with a response: the rules follow the branches of the code, whatever their conditions.\<close>

definition answered :: "response \<times> 'a \<Rightarrow> bool" where
  "answered p \<longleftrightarrow> rs_status (fst p) \<noteq> 0"

named_theorems branches

lemma answered_pair [branches]: "rs_status rs \<noteq> 0 \<Longrightarrow> answered (rs, w)"
  by (simp add: answered_def)

lemma answered_if [branches]: "answered a \<Longrightarrow> answered b \<Longrightarrow> answered (if c then a else b)"
  by simp

lemma answered_option [branches]: "answered a \<Longrightarrow> (\<And>x. answered (f x)) \<Longrightarrow> answered (case_option a f opt)"
  by (cases opt) simp_all

lemma answered_sum [branches]: "(\<And>e. answered (f e)) \<Longrightarrow> (\<And>x. answered (g x)) \<Longrightarrow> answered (case_sum f g res)"
  by (cases res) simp_all

lemma answered_prod [branches]: "(\<And>x y. answered (f x y)) \<Longrightarrow> answered (case_prod f p)"
  by (cases p) simp

lemma answered_bool [branches]: "answered a \<Longrightarrow> answered b \<Longrightarrow> answered (case_bool a b c)"
  by (cases c) simp_all

lemma answered_error [branches]:
  "answered a \<Longrightarrow> (\<And>u. answered (f u)) \<Longrightarrow> answered b \<Longrightarrow> answered c \<Longrightarrow> answered (case_store_error a f b c err)"
  by (cases err) simp_all

lemma answered_let [branches]: "answered (f v) \<Longrightarrow> answered (Let v f)"
  by simp

lemma answered_guard:
  "(\<And>rs. g = Some rs \<Longrightarrow> rs_status rs \<noteq> 0) \<Longrightarrow> answered a \<Longrightarrow> answered (case g of Some rs \<Rightarrow> (rs, w) | None \<Rightarrow> a)"
  by (cases g) (simp_all add: answered_def)

lemma guard_if:
  "(if c then None else requireCSRF S E r d) = Some rs \<Longrightarrow> rs_status rs \<noteq> 0"
  "(if c then requireCSRF S E r d else None) = Some rs \<Longrightarrow> rs_status rs \<noteq> 0"
  by (simp_all add: guard_statuses split: if_splits)

lemmas guards = guard_statuses guard_if


lemma login_answers [answers]:
  "answered (finish_login S E r u m ns w)" "answered (login X S E r body1 w)" "answered (emailCodeStart X S E r body2 w)"
  "answered (emailCodeVerify S E r body3 w)" "answered (csrf S E r w)" "answered (me S E r w)" "answered (logout S E r w)"
  unfolding login_def emailCodeStart_def emailCodeVerify_def csrf_def me_def logout_def finish_login_def
  by (rule answered_guard, erule guards | rule branches | simp add: answers)+

lemma google_answers [answers]:
  "answered (startGoogleOAuth X S E q w)" "answered (googleLogin S E r q i w)" "answered (googleStart X S E r w)"
  "answered (googleDesktopStart X S E r w)" "answered (googleCallback X S E r w)"
  unfolding startGoogleOAuth_def googleLogin_def googleStart_def googleDesktopStart_def googleCallback_def
  by (rule answered_guard, erule guards | rule branches | simp add: answers)+



lemma login_page_answers [answers]: "url_parse (sv_authLoginURL S) \<noteq> None \<Longrightarrow> rs_status (loginPage S) \<noteq> 0"
  by (auto simp: loginPage_def login_redirect_def answers split: option.split)





lemma admin_guard: "fst (updateAdmin S E r P d) = Inl rs \<Longrightarrow> rs_status rs \<noteq> 0"
  by (auto simp: updateAdmin_def case_prod_beta answers guards split: sum.splits store_error.splits if_splits option.splits)

lemma update_answers [answers]:
  "rs_status (desktopLatest U r P) \<noteq> 0" "rs_status (fst (adminUpdateList S E U r P d)) \<noteq> 0"
  "rs_status (fst (adminUpdateDetail S E U r P d)) \<noteq> 0" "rs_status (fst (adminUpdateHistory S E U r P d)) \<noteq> 0"
  "rs_status (fst (adminUpdateSave S E U r body P d)) \<noteq> 0"
  using admin_guard [of S E r P d]
  by (simp_all add: desktopLatest_def adminUpdateList_def adminUpdateDetail_def adminUpdateHistory_def adminUpdateSave_def Let_def
      case_prod_beta answers split: sum.split update_provider.split bool.split update_error.split)

lemma other_answers [answers]:
  "rs_status (installers Q cat) \<noteq> 0" "rs_status health \<noteq> 0" "rs_status (downloadStats D store) \<noteq> 0"
  "rs_status (fst (downloadEvent S E D r body store)) \<noteq> 0"
  by (simp_all add: installers_def health_def downloadStats_def downloadEvent_def Let_def case_prod_beta answers
      split: option.split sum.split bool.split)

subsection \<open>The service\<close>









end
