(* ===== verification/Service_Witnesses.thy ===== *)
theory Service_Witnesses
  imports Server_Run Service_Answers
begin

text \<open>
  The properties of the service on a small server: one local administrator, a case-insensitive collation, empty
  feeds and no other sites.
\<close>

definition sample_backend :: "int \<Rightarrow> backend" where
  "sample_backend now =
     \<lparr>be_db = sample_env now,
      be_updates = \<lparr>ue_sqlite = \<lparr>sq_fails = \<lambda>op. False, sq_now = now\<rparr>, ue_dir = \<lparr>dr_fails = \<lambda>op p n. False, dr_now = now, dr_mtime = now\<rparr>\<rparr>,
      be_catalog = \<lparr>sq_fails = \<lambda>op. False, sq_now = now\<rparr>, be_downloads = \<lparr>dl_fails = \<lambda>op. False, dl_now = now\<rparr>,
      be_avatars = \<lparr>ae_fails = \<lambda>op n. False, ae_now = now, ae_order = \<lambda>k. []\<rparr>, be_web = \<lambda>u. None, be_market = \<lambda>pr. None\<rparr>"

definition sample_service :: service where
  "sample_service = \<lparr>sc_world = sample_world, sc_updates = DirectoryUpdates empty_dir, sc_release = None, sc_downloads = None,
     sc_avatars = \<lambda>p. None\<rparr>"

definition request_to :: "string \<Rightarrow> string \<Rightarrow> request" where
  "request_to method path = sample_request\<lparr>rq_method := method, rq_url := the (url_parse path)\<rparr>"

lemma sample_backend_db [simp]: "be_db (sample_backend now) = sample_env now"
  by (simp add: sample_backend_def)

lemma request_to_simps [simp]: "rq_method (request_to m p) = m" "rq_url (request_to m p) = the (url_parse p)"
  by (simp_all add: request_to_def)

text \<open>Requests with these paths need no cleaning, and these are their routes.\<close>

lemma sample_routes:
  "findHandler routes sample_request = Handler Login []" 
  "findHandler routes (request_to ''GET'' ''/api/auth/me'') = Handler Me []"
  "findHandler routes (request_to ''GET'' ''/api/health'') = Handler Health []"
  by code_simp+

subsection \<open>Logins\<close>

definition sample_document :: string where
  "sample_document = login_document '' ROOT@x.io'' ''hash''"

lemma sample_document_decoded: "decode_login sample_document = sample_login"
proof -
  have "valid_utf8 '' ROOT@x.io'' \<and> valid_utf8 ''hash''" by code_simp
  then show ?thesis by (simp add: sample_document_def decode_login_document sample_login_def)
qed

definition logged_in :: "avatar_response \<times> service" where
  "logged_in = serveHTTP sample_libs sample_server (sample_backend 2) sample_request sample_document sample_service"

lemma sample_request_path: "sample_request\<lparr>rq_pathValue := (\<lambda>n. [])\<rparr> = sample_request"
  by (simp add: sample_request_def)

lemma logged_in_world: "sc_world (snd logged_in) = snd login_result"
  and logged_in_answer: "\<exists>rs. fst logged_in = Plain rs \<and> rs_cookies rs = rs_cookies (fst login_result)"
  by (simp_all add: logged_in_def serve_endpoint [OF sample_routes(1)] sample_document_decoded sample_request_path on_world_def
      sample_service_def login_result_def case_prod_beta secured_def)

definition after_health :: service where
  "after_health = snd (serveHTTP sample_libs sample_server (sample_backend 3) (request_to ''GET'' ''/api/health'') [] (snd logged_in))"

lemma health_step: "other_step sample_libs sample_server (map lower_char) k (snd logged_in) after_health"
  by (rule other_step.request [of "sample_backend 3" _ _ _ "request_to ''GET'' ''/api/health''"])
    (simp_all add: logs_out_def sample_routes after_health_def prod_eq_iff)

definition me_request :: request where
  "me_request = (request_to ''GET'' ''/api/auth/me'')\<lparr>rq_cookie := (\<lambda>_. Some (ns_token sample_session))\<rparr>"

lemma findHandler_cookie: "findHandler rs (r\<lparr>rq_cookie := c\<rparr>) = findHandler rs r"
  by (simp add: findHandler_def)

lemma login_lasts_witness:
  "\<exists>u u' rs' sc3. fst (FindLocalUserByEmail (be_db (sample_backend 2)) (lr_email (the (decode_login sample_document))) (users_db sample_service)) = Inr u
    \<and> serveHTTP sample_libs sample_server (sample_backend 9) me_request [] after_health = (Plain rs', sc3) \<and> rs_status rs' = 200
    \<and> rs_body rs' = JsonBody (JObj [(''user'', publicUser sample_server u')]) \<and> usr_id u' = usr_id u"
proof -
  obtain rs where rs: "fst logged_in = Plain rs" "rs_cookies rs = rs_cookies (fst login_result)" using logged_in_answer by blast
  show ?thesis
  proof (rule login_lasts)
    show "store_wf (map lower_char) (users_db sample_service)" unfolding sample_service_def by code_simp
    show "serveHTTP sample_libs sample_server (sample_backend 2) sample_request sample_document sample_service = (Plain rs, snd logged_in)"
      using rs by (simp add: logged_in_def prod_eq_iff)
    show "sample_cookie \<in> set (rs_cookies rs)" by (simp add: rs sample_login_cookie sample_cookie_def)
    show "(other_step sample_libs sample_server (map lower_char) (map lower_char (tokenHash (ck_value sample_cookie))))\<^sup>*\<^sup>* (snd logged_in) after_health"
      using health_step by (rule r_into_rtranclp)
    show "findHandler routes me_request = Handler Me []" by (simp add: me_request_def findHandler_cookie sample_routes)
    show "rq_cookie me_request (ck_name sample_cookie) = Some (ck_value sample_cookie)"
      by (simp add: me_request_def sample_cookie_def sessionCookie_def)
    show "db_now (be_db (sample_backend 9)) < db_time (be_db (sample_backend 2)) (ck_expires sample_cookie)"
      by (simp add: sample_cookie_def sessionCookie_def sample_session_def sample_env_def time_units)
  qed (simp_all add: sample_routes, simp_all add: sample_env_def)
qed

lemma requests_grant_no_role_witness:
  "\<exists>new. map access_facts (db_users (users_db after_health)) = map access_facts (db_users (users_db sample_service)) @ new
    \<and> list_all (\<lambda>(i, role, enabled). role = ''user'' \<and> enabled) new"
proof (rule requests_grant_no_role)
  have "service_step sample_libs sample_server (map lower_char) sample_service (snd logged_in)"
    by (rule service_step.request [of "sample_backend 2" _ _ _ sample_request sample_document]) (simp_all add: logged_in_def prod_eq_iff)
  then show "(service_step sample_libs sample_server (map lower_char))\<^sup>*\<^sup>* sample_service after_health"
    using other_step_service [OF health_step] by (rule rtranclp.rtrancl_into_rtrancl [OF r_into_rtranclp])
qed

lemma sample_origin: "originAllowed (fst sample_start) sample_request"
proof -
  have "trimSpace (hdr sample_request ''Origin'') = []" by code_simp
  then show ?thesis by (simp add: originAllowed_def validRequestOrigin_def)
qed

lemma administrator_logs_in_witness:
  "\<exists>u c rs sc. serveHTTP sample_libs (fst sample_start) (sample_backend 2) sample_request sample_document
      (start_service (replicate 64 CHR ''a'') (\<lambda>p. None) (snd sample_start)) = (Plain rs, sc)
    \<and> rs_status rs = 200 \<and> rs_body rs = JsonBody (JObj [(''user'', publicUser (fst sample_start) u)]) \<and> usr_role u = ''admin'' \<and> usr_enabled u
    \<and> usr_email u = normalizeEmail ''Root@X.io'' \<and> rs_cookies rs = [c] \<and> ck_name c = sv_cookieName (fst sample_start)"
proof -
  have libs: "me_libs sample_machine = sample_libs" by (simp add: sample_machine_def)
  have utf8: "valid_utf8 '' ROOT@x.io''" "valid_utf8 (sample_environ ''INIT_ADMIN_PASSWORD'')"
    by (simp_all, code_simp+)
  have email: "normalizeEmail '' ROOT@x.io'' = normalizeEmail (sample_environ ''INIT_ADMIN_EMAIL'')" by (simp, code_simp)
  have empty: "sy_db empty_system = emptyDb" by (simp add: empty_system_def)
  have works: "\<forall>op. \<not> db_fails (be_db (sample_backend 2)) op" by (simp add: sample_env_def)
  have hash: "lib_bcryptCompare sample_libs h (sample_environ ''INIT_ADMIN_PASSWORD'')"
    if "lib_bcryptHash sample_libs (sample_environ ''INIT_ADMIN_PASSWORD'') = Some h" for h
    using that by (simp add: sample_libs_def)
  show ?thesis
    using administrator_logs_in [OF sample_starts empty, unfolded libs, OF hash email utf8 sample_routes(1) sample_origin works,
        of "replicate 64 CHR ''a''" "\<lambda>p. None"]
    by (simp add: sample_document_def)
qed

lemma service_reachable_wf_witness:
  "store_run (db_collate (me_db sample_machine)) (sy_db empty_system)
     (users_db (snd (serveHTTP sample_libs (fst sample_start) (sample_backend 2) sample_request sample_document (start_service [] (\<lambda>p. None) (snd sample_start)))))
   \<and> store_wf (db_collate (me_db sample_machine))
     (users_db (snd (serveHTTP sample_libs (fst sample_start) (sample_backend 2) sample_request sample_document (start_service [] (\<lambda>p. None) (snd sample_start)))))"
proof (rule service_reachable_wf [OF sample_starts])
  show "store_wf (db_collate (me_db sample_machine)) (sy_db empty_system)"
    by (simp add: empty_system_def sample_machine_def store_wf_empty)
  have "service_step sample_libs (fst sample_start) (map lower_char) (start_service [] (\<lambda>p. None) (snd sample_start))
     (snd (serveHTTP sample_libs (fst sample_start) (sample_backend 2) sample_request sample_document (start_service [] (\<lambda>p. None) (snd sample_start))))"
    by (rule service_step.request [of "sample_backend 2" _ _ _ sample_request sample_document]) (simp_all add: prod_eq_iff)
  then show "(service_step sample_libs (fst sample_start) (db_collate (me_db sample_machine)))\<^sup>*\<^sup>* (start_service [] (\<lambda>p. None) (snd sample_start))
     (snd (serveHTTP sample_libs (fst sample_start) (sample_backend 2) sample_request sample_document (start_service [] (\<lambda>p. None) (snd sample_start))))"
    by (simp add: sample_machine_def)
qed



subsection \<open>Routes\<close>



lemma market_dot_segments_witness:
  "findHandler routes (request_to ''GET'' ''/api/market/%2e%2e/admin'') = Handler Market []
    \<and> px_path (market_director (empty_url\<lparr>url_host := ''market''\<rparr>) ''jwt'' (request_to ''GET'' ''/api/market/%2e%2e/admin'')) = ''/api/../admin''
    \<and> path_clean ''/api/../admin'' = ''/admin''
    \<and> header_get (px_header (market_director (empty_url\<lparr>url_host := ''market''\<rparr>) ''jwt'' (request_to ''GET'' ''/api/market/%2e%2e/admin'')))
        ''Authorization'' = ''Bearer '' @ ''jwt''"
proof (rule market_dot_segments)
  have "url_parse ''/api/market/%2e%2e/admin'' \<noteq> None" by code_simp
  then show "url_parse ''/api/market/%2e%2e/admin'' = Some (rq_url (request_to ''GET'' ''/api/market/%2e%2e/admin''))" by auto
qed (simp_all add: empty_url_def)

subsection \<open>Tickets\<close>

definition ticket_document :: string where
  "ticket_document = json_compact (VObj [(''ticket'', VStr ''t'')])"

lemma sso_route: "findHandler routes (request_to ''POST'' ''/api/auth/desktop-sso/session'') = Handler DesktopSsoSession []"
  by code_simp

lemma ticket_document_decoded: "decode_sso ticket_document = Some \<lparr>sr_provider = [], sr_idToken = [], sr_ticket = ''t''\<rparr>"
proof -
  have "valid_utf8 ''ticket'' \<and> valid_utf8 ''t''" by code_simp
  then have "json_first ticket_document = Some (VObj [(''ticket'', VStr ''t'')], [])"
    unfolding ticket_document_def by (intro first_compact) (simp_all add: maxNesting_def)
  then show ?thesis by (simp add: decode_sso_def decode_body_def dec_struct_def find_field_def)
qed

definition sso_call :: request where
  "sso_call = request_to ''POST'' ''/api/auth/desktop-sso/session''"

lemma sample_ticket_request: "ticket_request ''t'' sso_call ticket_document"
proof -
  have "trimSpace ''t'' = ''t''" by code_simp
  then show ?thesis by (simp add: ticket_request_def sso_call_def sso_route ticket_document_decoded)
qed

definition ticket_service :: service where
  "ticket_service = set_db (snd (SaveDesktopSsoTicket (sample_env 2) 1 (tokenHash ''t'') 100 [] [] (w_db sample_world))) sample_service"

definition exchange :: "int \<Rightarrow> service \<Rightarrow> avatar_response \<times> service" where
  "exchange now sc = serveHTTP sample_libs sample_server (sample_backend now) sso_call ticket_document sc"

lemma ticket_service_wf: "store_wf (map lower_char) (users_db ticket_service)"
proof -
  have "store_wf (map lower_char) (w_db sample_world)" by code_simp
  from SaveDesktopSsoTicket_wf [OF this, of "sample_env 2"] show ?thesis by (simp add: ticket_service_def set_db_def)
qed

lemma exchanged: "\<exists>rs. fst (exchange 3 ticket_service) = Plain rs \<and> rs_status rs = 200"
proof -
  have origin: "requireValidOrigin sample_server (sso_call\<lparr>rq_pathValue := (\<lambda>n. [])\<rparr>) = None" by code_simp
  have tok: "randomToken (w_rnd sample_world) = Some (ns_token sample_session, replicate 32 CHR ''a'')"
    "randomToken (replicate 32 CHR ''a'') = Some (ns_csrf sample_session, [])" "trimSpace ''t'' = ''t''" by code_simp+
  have db: "db_sessions (w_db sample_world) = []" "db_tickets (w_db sample_world) = []" by (simp_all add: sample_world_code)
  obtain row where row: "db_users (w_db sample_world) = [row]" "u_enabled row" "u_id row = 1"
    by (simp add: sample_world_code)
  define d where "d = users_db ticket_service"
  have d: "db_users d = [row]" "db_sessions d = []"
    "db_tickets d = [\<lparr>t_id = db_nextTicket (w_db sample_world), t_user = 1, t_ticketHash = tokenHash ''t'', t_expiresAt = 100,
      t_consumedAt = None, t_createdAt = 2, t_ip = truncateStr [] 64, t_userAgent = truncateStr [] 512\<rparr>]"
    using row db by (simp_all add: d_def ticket_service_def set_db_def SaveDesktopSsoTicket_def sample_env_def user_by_id_def)
  obtain d1 where consume: "ConsumeDesktopSsoTicket (sample_env 3) (tokenHash ''t'') 3 d = (Inr (scanUserWithPassword [] row), d1)"
    and d1: "db_users d1 = [row]" "db_sessions d1 = []"
    using row d by (simp add: ConsumeDesktopSsoTicket_def live_ticket_def sqlEq_def sample_env_def user_by_id_def update_rows_def
        scanUserWithPassword_def Let_def)
  have world: "w_db (sc_world ticket_service) = d" "w_rnd (sc_world ticket_service) = w_rnd sample_world"
    by (simp_all add: d_def ticket_service_def set_db_def sample_service_def)
  have "\<exists>ns w. createSession sample_server (sample_env 3) q 1 ((sc_world ticket_service)\<lparr>w_db := d1\<rparr>) = (Some ns, w)" for q
    using d1 row tok by (simp add: createSession_def CreateSession_def sample_env_def user_by_id_def world Let_def)
  then obtain ns w where "createSession sample_server (sample_env 3) (sso_call\<lparr>rq_pathValue := (\<lambda>n. [])\<rparr>) 1
      ((sc_world ticket_service)\<lparr>w_db := d1\<rparr>) = (Some ns, w)" by blast
  then show ?thesis
    using origin tok(3) consume row
    by (simp add: exchange_def serve_endpoint [OF sso_route [folded sso_call_def]] on_world_def desktopSsoSession_def ticket_document_decoded
        desktopSsoTicketSession_def serverNow_def world writeDesktopSsoSessionResponse_def scanUserWithPassword_def Let_def
        secured_def response_defs securityHeaders_def sample_env_def)
qed

lemma ticket_opens_one_session_witness:
  "\<exists>rs rs' sc3. fst (exchange 3 ticket_service) = Plain rs \<and> rs_status rs = 200
    \<and> exchange 4 (snd (exchange 3 ticket_service)) = (Plain rs', sc3) \<and> rs_status rs' \<noteq> 200"
proof -
  obtain rs where rs: "fst (exchange 3 ticket_service) = Plain rs" "rs_status rs = 200" using exchanged by blast
  obtain rs' sc3 where again: "exchange 4 (snd (exchange 3 ticket_service)) = (Plain rs', sc3)"
    by (simp add: exchange_def serve_endpoint [OF sso_route [folded sso_call_def]] on_world_def secured_def case_prod_beta)
  have "rs_status rs' \<noteq> 200"
  proof (rule ticket_opens_one_session [OF ticket_service_wf sample_ticket_request])
    show "serveHTTP sample_libs sample_server (sample_backend 3) sso_call ticket_document ticket_service
        = (Plain rs, snd (exchange 3 ticket_service))" using rs(1) by (simp add: exchange_def prod_eq_iff)
    show "serveHTTP sample_libs sample_server (sample_backend 4) sso_call ticket_document (snd (exchange 3 ticket_service)) = (Plain rs', sc3)"
      using again by (simp add: exchange_def)
  qed (simp_all add: rs sample_ticket_request)
  with rs again show ?thesis by blast
qed

subsection \<open>Feeds\<close>

definition save_call :: request where
  "save_call = save_request\<lparr>rq_url := the (url_parse (''/api/admin/updates/'' @ sample_feed_name))\<rparr>"

lemma save_route: "findHandler routes save_call = Handler AdminUpdateSave [(''name'', sample_feed_name)]"
  by code_simp

lemma request_url [simp]:
  "hdr (r\<lparr>rq_url := f\<rparr>) = hdr r" "sessionToken S (r\<lparr>rq_url := f\<rparr>) = sessionToken S r" "currentUser S E (r\<lparr>rq_url := f\<rparr>) = currentUser S E r"
  "rq_remoteAddr (r\<lparr>rq_url := f\<rparr>) = rq_remoteAddr r" "rq_tls (r\<lparr>rq_url := f\<rparr>) = rq_tls r" "rq_host (r\<lparr>rq_url := f\<rparr>) = rq_host r"
  "rq_method (r\<lparr>rq_url := f\<rparr>) = rq_method r" "rq_pathValue (r\<lparr>rq_url := f\<rparr>) = rq_pathValue r"
  by (simp_all add: hdr_def sessionToken_def currentUser_def fun_eq_iff)

lemma updateAdmin_url [simp]: "updateAdmin S E (r\<lparr>rq_url := u\<rparr>) = updateAdmin S E r"
proof -
  have "originAllowed S (r\<lparr>rq_url := u\<rparr>) = originAllowed S r"
    unfolding originAllowed_def validRequestOrigin_def request_scheme_def by (simp only: request_url)
  then have "requireCSRF S E (r\<lparr>rq_url := u\<rparr>) = requireCSRF S E r"
    by (intro ext) (simp only: requireCSRF_def request_url)
  then show ?thesis by (intro ext) (simp only: updateAdmin_def request_url)
qed

definition feeds_service :: service where
  "feeds_service = (set_db session_db sample_service)\<lparr>sc_updates := SqliteUpdates empty_feeds\<rparr>"

lemma feeds_need_administrator_witness:
  "\<exists>u. update_administrator sample_server (sample_env 9) save_call session_db u"
proof -
  define B where "B = (sample_backend 9)\<lparr>be_updates := sample_update_env\<rparr>"
  have path: "save_call\<lparr>rq_pathValue := (\<lambda>n. case map_of [(''name'', sample_feed_name)] n of None \<Rightarrow> [] | Some v \<Rightarrow> v)\<rparr>
      = save_request\<lparr>rq_url := rq_url save_call\<rparr>"
    by (simp add: save_call_def save_request_def fun_eq_iff)
  obtain rs d' P' where save: "adminUpdateSave sample_server (sample_env 9) sample_update_env save_request save_body
      (SqliteUpdates empty_feeds) session_db = (rs, d', P')" "rs_status rs = 200"
    using sample_update_saved by blast
  have "adminUpdateSave sample_server (sample_env 9) sample_update_env (save_request\<lparr>rq_url := rq_url save_call\<rparr>) save_body
      (SqliteUpdates empty_feeds) session_db = (rs, d', P')"
    using save(1) unfolding adminUpdateSave_def by (simp only: updateAdmin_url request_url)
  then have served: "serveHTTP sample_libs sample_server B save_call save_body feeds_service
      = (Plain (securityHeaders rs), (set_db d' feeds_service)\<lparr>sc_updates := P'\<rparr>)"
    using save(2) by (simp add: serve_endpoint [OF save_route] path [simplified] B_def feeds_service_def set_db_def secured_def)
  have "\<exists>u. update_administrator sample_server (be_db B) save_call (users_db feeds_service) u
    \<and> (sc_updates ((set_db d' feeds_service)\<lparr>sc_updates := P'\<rparr>) \<noteq> sc_updates feeds_service \<longrightarrow> rq_method save_call = ''PUT''
       \<and> requireCSRF sample_server (be_db B) save_call (snd (currentUser sample_server (be_db B) save_call (users_db feeds_service))) = None)"
    by (rule feeds_need_administrator [OF served]) (use save(2) save_route in \<open>auto simp: admin_endpoints_def\<close>)
  then show ?thesis by (auto simp: B_def feeds_service_def set_db_def)
qed

end
