(* ===== verification/Server_Helpers.thy ===== *)
theory Server_Helpers
  imports Auth_Session
begin

text \<open>
  The helpers of \<open>server.go\<close> that no handler calls: the cookies of the desktop's OAuth flow and of the OAuth state,
  which the rows of the OAuth requests have replaced, the bearer token of a request, and the target after a login.
\<close>

subsection \<open>Cookies\<close>

definition oauthStateCookieName :: "server \<Rightarrow> string" where
  "oauthStateCookieName S = sv_cookieName S @ ''_oauth_state''"

definition oauthStateCookie :: "server \<Rightarrow> int \<Rightarrow> string \<Rightarrow> cookie" where
  "oauthStateCookie S now state =
     \<lparr>ck_name = oauthStateCookieName S, ck_value = state, ck_path = ''/'', ck_expires = now + 10 * minute, ck_maxAge = 600,
      ck_httpOnly = True, ck_secure = sv_cookieSecure S, ck_sameSiteLax = True\<rparr>"

definition desktopOAuthStateCookieName :: "server \<Rightarrow> string" where
  "desktopOAuthStateCookieName S = sv_cookieName S @ ''_desktop_oauth_state''"

definition desktopOAuthCallbackCookieName :: "server \<Rightarrow> string" where
  "desktopOAuthCallbackCookieName S = sv_cookieName S @ ''_desktop_oauth_callback''"

definition desktopOAuthDesktopStateCookieName :: "server \<Rightarrow> string" where
  "desktopOAuthDesktopStateCookieName S = sv_cookieName S @ ''_desktop_state''"

definition desktopOAuthCookie :: "server \<Rightarrow> int \<Rightarrow> string \<Rightarrow> string \<Rightarrow> cookie" where
  "desktopOAuthCookie S now name v =
     \<lparr>ck_name = name, ck_value = v, ck_path = ''/'', ck_expires = now + 10 * minute, ck_maxAge = 600,
      ck_httpOnly = True, ck_secure = sv_cookieSecure S, ck_sameSiteLax = True\<rparr>"

definition clearDesktopOAuthCookies :: "server \<Rightarrow> response \<Rightarrow> response" where
  "clearDesktopOAuthCookies S rs =
     setCookie (expiredNamedCookie S (desktopOAuthDesktopStateCookieName S))
       (setCookie (expiredNamedCookie S (desktopOAuthCallbackCookieName S))
         (setCookie (expiredNamedCookie S (desktopOAuthStateCookieName S)) rs))"

text \<open>The context, if it is complete and valid, and whether any of the cookies was sent.\<close>

definition readDesktopOAuthContext :: "server \<Rightarrow> request \<Rightarrow> desktop_context option \<times> bool" where
  "readDesktopOAuthContext S r =
     (case (rq_cookie r (desktopOAuthStateCookieName S), rq_cookie r (desktopOAuthCallbackCookieName S),
            rq_cookie r (desktopOAuthDesktopStateCookieName S)) of
        (None, None, None) \<Rightarrow> (None, False)
      | (Some os, Some cb, Some st) \<Rightarrow>
          (let ctx = \<lparr>dc_oauthState = trimSpace os, dc_callbackURL = trimSpace cb, dc_desktopState = trimSpace st\<rparr>
           in if dc_oauthState ctx = [] \<or> dc_desktopState ctx = [] \<or> \<not> isAllowedDesktopCallbackURL (dc_callbackURL ctx)
              then (None, True) else (Some ctx, True))
      | _ \<Rightarrow> (None, True))"

text \<open>A context that was read sends the desktop client to its loopback callback only.\<close>

lemma readDesktopOAuthContext_allowed:
  "readDesktopOAuthContext S r = (Some ctx, b) \<Longrightarrow>
   b \<and> isAllowedDesktopCallbackURL (dc_callbackURL ctx) \<and> dc_oauthState ctx \<noteq> [] \<and> dc_desktopState ctx \<noteq> []"
  by (auto simp: readDesktopOAuthContext_def Let_def split: option.splits if_splits)

lemma oauth_cookie_names_distinct:
  "distinct [oauthStateCookieName S, desktopOAuthStateCookieName S, desktopOAuthCallbackCookieName S,
     desktopOAuthDesktopStateCookieName S, desktopSsoBridgeCallbackCookieName S, desktopSsoBridgeStateCookieName S, sv_cookieName S]"
  by (simp add: oauthStateCookieName_def desktopOAuthStateCookieName_def desktopOAuthCallbackCookieName_def
      desktopOAuthDesktopStateCookieName_def desktopSsoBridgeCallbackCookieName_def desktopSsoBridgeStateCookieName_def)

subsection \<open>Tokens and targets\<close>

text \<open>\<open>strings.Fields\<close>: the first argument counts the bytes of a space that are still to be skipped.\<close>

fun fields_loop :: "nat \<Rightarrow> string \<Rightarrow> string \<Rightarrow> string list" where
  "fields_loop n cur [] = (if cur = [] then [] else [rev cur])"
| "fields_loop (Suc n) cur (c # s) = fields_loop n cur s"
| "fields_loop 0 cur (c # s) =
     (case find (\<lambda>p. prefix p (c # s)) space_runes of
        None \<Rightarrow> fields_loop 0 (c # cur) s
      | Some p \<Rightarrow> (if cur = [] then [] else [rev cur]) @ fields_loop (length p - 1) [] s)"

definition string_fields :: "string \<Rightarrow> string list" where
  "string_fields s = fields_loop 0 [] s"

definition bearerTokenFromRequest :: "request \<Rightarrow> string" where
  "bearerTokenFromRequest r =
     (case string_fields (trimSpace (hdr r ''Authorization'')) of
        [scheme, token] \<Rightarrow> if equalFold scheme ''Bearer'' then trimSpace token else []
      | _ \<Rightarrow> [])"

definition successURL :: "server \<Rightarrow> string" where
  "successURL S = (if sv_authSuccessURL S \<noteq> [] then sv_authSuccessURL S else ''/login'')"

end
