(* ===== verification/Email_Login.thy ===== *)
theory Email_Login
  imports Login_Properties
begin

text \<open>
  Logging in by e-mail from end to end: the code in the message that the mail server has accepted is the code that
  the login accepts.
\<close>

lemma newest_code_last:
  "\<forall>r' \<in> set rs. k_createdAt r' \<le> k_createdAt r \<Longrightarrow> newest_code (rs @ [r]) = Some r"
  by (induction rs) auto

text \<open>A code that was saved last is the pending one, unless the clock of the database has been set back.\<close>

lemma saved_code_pending:
  assumes "SaveEmailCode E email h t d = (Inr (), d')"
    and "\<forall>k \<in> set (db_codes d). k_createdAt k \<le> db_time E (db_now E)"
    and "db_codes d2 = db_codes d'" and "db_collate E2 = db_collate E"
  shows "\<exists>r. pending_code E2 (normalizeEmail email) d2 = Some r \<and> k_codeHash r = h \<and> k_expiresAt r = db_time E t"
  using assms newest_code_last
  by (auto simp: SaveEmailCode_def pending_code_def sqlEq_def split: if_splits)

lemma saved_code_accepted:
  assumes "SaveEmailCode E email h t d = (Inr (), d')"
    and "\<forall>k \<in> set (db_codes d). k_createdAt k \<le> db_time E (db_now E)"
    and "db_codes d2 = db_codes d'" and "db_collate E2 = db_collate E"
    and "\<not> db_fails E2 OpConsumeEmailCode" and "now < db_time E t"
  shows "fst (ConsumeEmailCode E2 email h now d2) = Inr ()"
proof -
  obtain r where "pending_code E2 (normalizeEmail email) d2 = Some r" "k_codeHash r = h" "k_expiresAt r = db_time E t"
    using saved_code_pending [OF assms(1-4)] by blast
  then show ?thesis using assms(5,6) by (simp add: ConsumeEmailCode_def challenge_of_def)
qed

text \<open>What has happened when the start of a login by e-mail is answered with 200.\<close>

lemma emailCodeStart_ok:
  assumes "emailCodeStart X S E r (Some email) w = (rs, w')" and "rs_status rs = 200"
  obtains code events d where "validEmail (normalizeEmail email)" and "validEmailCode code"
    and "sendEmailCode (lib_smtp X) (sv_mailer S) (normalizeEmail email) code = (True, events)"
    and "SaveEmailCode E (normalizeEmail email) (emailCodeHash (normalizeEmail email) code) (db_now E + 10 * minute) (w_db w)
      = (Inr (), w_db w')" and "w_smtp w' = events @ w_smtp w"
proof -
  obtain b1 w1 where l1: "limited (''email-send:address:'' @ normalizeEmail email) 3 E w = (b1, w1)" by fastforce
  obtain b2 w2 where l2: "limited (''email-send:ip:'' @ clientIP S r) 10 E w1 = (b2, w2)" by fastforce
  note frame = limited_frame [OF l1] limited_frame [OF l2]
  have "originAllowed S r"
    using assms by (cases "originAllowed S r") (auto simp: emailCodeStart_def requireValidOrigin_def response_defs)
  then have origin: "requireValidOrigin S r = None" by (simp add: requireValidOrigin_def)
  have valid: "validEmail (normalizeEmail email)"
    using assms origin by (cases "validEmail (normalizeEmail email)") (auto simp: emailCodeStart_def Let_def response_defs)
  have b: "\<not> b1 \<and> \<not> b2"
    using assms l1 l2 origin valid by (cases b1; cases b2) (auto simp: emailCodeStart_def Let_def response_defs)
  obtain code rnd where digits: "randomDigits 6 (w_rnd w2) = Some (code, rnd)"
    using assms l1 l2 origin valid b
    by (cases "randomDigits 6 (w_rnd w2)") (auto simp: emailCodeStart_def Let_def response_defs)
  obtain res d where save: "SaveEmailCode E (normalizeEmail email) (emailCodeHash (normalizeEmail email) code)
      (db_now E + 10 * minute) (w_db w2) = (res, d)" by fastforce
  obtain sent events where send: "sendEmailCode (lib_smtp X) (sv_mailer S) (normalizeEmail email) code = (sent, events)"
    by fastforce
  note run = assms l1 l2 origin valid b digits save send
  have "res = Inr () \<and> sent \<and> w_db w' = d \<and> w_smtp w' = events @ w_smtp w2"
    using run by (cases res) (auto simp: emailCodeStart_def response_defs serverNow_def Let_def split: if_splits)
  then show thesis using that [OF valid randomDigits_code [OF digits]] send save frame by simp
qed

text \<open>A code that the store accepts is not answered as a wrong one.\<close>

lemma emailCodeVerify_accepted:
  assumes "validEmail (normalizeEmail (vr_email v))" and "validEmailCode (trimSpace (vr_code v))"
    and "\<And>d2. db_codes d2 = db_codes (w_db w) \<Longrightarrow>
      fst (ConsumeEmailCode E (normalizeEmail (vr_email v)) (emailCodeHash (normalizeEmail (vr_email v)) (trimSpace (vr_code v))) (db_now E) d2) = Inr ()"
  shows "rs_status (fst (emailCodeVerify S E r (Some v) w)) \<noteq> 401"
proof (cases "limited (''email-verify:'' @ clientIP S r @ '':'' @ normalizeEmail (vr_email v)) 10 E w")
  case (Pair b w1)
  then have "w_db w1 = w_db w" using limited_frame by blast
  then obtain d1 where "ConsumeEmailCode E (normalizeEmail (vr_email v))
      (emailCodeHash (normalizeEmail (vr_email v)) (trimSpace (vr_code v))) (db_now E) (w_db w1) = (Inr (), d1)"
    using assms(3) by (metis prod.collapse)
  then show ?thesis using assms(1,2) Pair
    by (auto simp: emailCodeVerify_def Let_def serverNow_def response_defs requireValidOrigin_def finish_login_def
        split: option.splits prod.splits bool.splits sum.splits)
qed

text \<open>C15: Functional behaviour. When the start of a login by e-mail is answered with 200, the mail server has accepted
  a message with a code for the normalised address, and within ten minutes (as the database rounds them) an attempt
  with this address and this code is never answered as a wrong code, as long as the table of codes is the same and
  the clock of the database was not set back before.
\<close>

theorem mailed_code_accepted:
  assumes "emailCodeStart X S E r (Some email) w = (rs, w')" and "rs_status rs = 200"
    and "sv_mailer S = SMTPMailer host port username password from'"
    and "\<forall>k \<in> set (db_codes (w_db w)). k_createdAt k \<le> db_time E (db_now E)"
  shows "\<exists>code log before ls. w_smtp w' = log @ w_smtp w
    \<and> log = Sent ''QUIT'' # Message (mail_message from' (normalizeEmail (normalizeEmail email)) code) # before
    \<and> lib_smtp X (tl log) = Some (250, ls)
    \<and> (\<forall>E2 S2 r2 v w2. db_codes (w_db w2) = db_codes (w_db w') \<and> db_collate E2 = db_collate E
          \<and> \<not> db_fails E2 OpConsumeEmailCode \<and> db_now E2 < db_time E (db_now E + 10 * minute)
          \<and> normalizeEmail (vr_email v) = normalizeEmail email \<and> trimSpace (vr_code v) = code
        \<longrightarrow> rs_status (fst (emailCodeVerify S2 E2 r2 (Some v) w2)) \<noteq> 401)"
proof -
  obtain code log where valid: "validEmail (normalizeEmail email)" "validEmailCode code"
    and sent: "sendEmailCode (lib_smtp X) (SMTPMailer host port username password from') (normalizeEmail email) code = (True, log)"
    and save: "SaveEmailCode E (normalizeEmail email) (emailCodeHash (normalizeEmail email) code) (db_now E + 10 * minute) (w_db w)
      = (Inr (), w_db w')" and smtp: "w_smtp w' = log @ w_smtp w"
    using emailCodeStart_ok [OF assms(1,2)] assms(3) by metis
  obtain before ls where "log = Sent ''QUIT'' # Message (mail_message from' (normalizeEmail (normalizeEmail email)) code) # before"
      "lib_smtp X (tl log) = Some (250, ls)"
    using send_accepted [OF sent] by blast
  moreover have "rs_status (fst (emailCodeVerify S2 E2 r2 (Some v) w2)) \<noteq> 401"
    if "db_codes (w_db w2) = db_codes (w_db w')" "db_collate E2 = db_collate E" "\<not> db_fails E2 OpConsumeEmailCode"
      "db_now E2 < db_time E (db_now E + 10 * minute)" "normalizeEmail (vr_email v) = normalizeEmail email"
      "trimSpace (vr_code v) = code" for E2 S2 r2 v w2
    using that valid saved_code_accepted [OF save assms(4)] by (intro emailCodeVerify_accepted) simp_all
  ultimately show ?thesis using smtp by blast
qed

text \<open>The mailer, the limiter and the random bytes of the sample server.\<close>

definition mail_result :: "response \<times> world" where
  "mail_result = emailCodeStart sample_libs sample_server (sample_env 2) sample_request (Some '' New@x.io'') sample_world"

lemma limited_absent:
  assumes "map_of (w_limiter w) key = None" and "length (w_limiter w) \<le> 10000" and "key \<noteq> []" and "0 < limit"
  shows "limited key limit E w
    = (False, w\<lparr>w_limiter := AList.update key \<lparr>re_count = 1, re_windowStart = serverNow E\<rparr> (w_limiter w)\<rparr>)"
  using assms by (simp add: limited_def allow_def rate_lookup_def Let_def time_units)

lemma sample_mail_sent:
  "\<exists>log. sendEmailCode sample_peer (sv_mailer sample_server) ''new@x.io'' code = (True, log)"
proof -
  have "fst (sendEmailCode sample_peer (sv_mailer sample_server) ''new@x.io'' code) = True" by code_simp
  then show ?thesis by (cases "sendEmailCode sample_peer (sv_mailer sample_server) ''new@x.io'' code") simp
qed

lemma mail_result_sent: "rs_status (fst mail_result) = 200"
proof -
  define w1 where "w1 = sample_world\<lparr>w_limiter := [(''email-send:address:new@x.io'', \<lparr>re_count = 1, re_windowStart = 2\<rparr>)]\<rparr>"
  have email: "normalizeEmail '' New@x.io'' = ''new@x.io''" "validEmail ''new@x.io''" by code_simp+
  have l1: "limited ''email-send:address:new@x.io'' 3 (sample_env 2) sample_world = (False, w1)"
    by (subst limited_absent) (simp_all add: sample_world_code w1_def serverNow_def sample_env_def)
  obtain w2 where l2: "limited (''email-send:ip:'' @ clientIP sample_server sample_request) 10 (sample_env 2) w1 = (False, w2)"
    using limited_absent [of w1 "''email-send:ip:'' @ clientIP sample_server sample_request" 10 "sample_env 2"]
    by (simp add: w1_def)
  have rnd: "w_rnd w2 = w_rnd sample_world" using limited_frame [OF l1] limited_frame [OF l2] by simp
  have "6 \<le> length (filter (\<lambda>b. byte b \<le> 249) (w_rnd sample_world))" by code_simp
  then obtain code rest where digits: "randomDigits 6 (w_rnd sample_world) = Some (code, rest)"
    using digits_loop_returns by (force simp: randomDigits_def)
  obtain log where sent: "sendEmailCode sample_peer (sv_mailer sample_server) ''new@x.io'' code = (True, log)"
    using sample_mail_sent by blast
  have "requireValidOrigin sample_server sample_request = None" by code_simp
  then show ?thesis using l1 l2 digits rnd sent
    by (simp add: mail_result_def emailCodeStart_def email Let_def SaveEmailCode_def sample_env_def sample_libs_def response_defs)
qed

lemma mailed_code_accepted_witness:
  "\<exists>code log before ls. w_smtp (snd mail_result) = log @ w_smtp sample_world
    \<and> log = Sent ''QUIT'' # Message (mail_message ''from'' (normalizeEmail (normalizeEmail '' New@x.io'')) code) # before
    \<and> lib_smtp sample_libs (tl log) = Some (250, ls)
    \<and> (\<forall>E2 S2 r2 v w2. db_codes (w_db w2) = db_codes (w_db (snd mail_result)) \<and> db_collate E2 = db_collate (sample_env 2)
          \<and> \<not> db_fails E2 OpConsumeEmailCode \<and> db_now E2 < db_time (sample_env 2) (db_now (sample_env 2) + 10 * minute)
          \<and> normalizeEmail (vr_email v) = normalizeEmail '' New@x.io'' \<and> trimSpace (vr_code v) = code
        \<longrightarrow> rs_status (fst (emailCodeVerify S2 E2 r2 (Some v) w2)) \<noteq> 401)"
proof (rule mailed_code_accepted)
  show "emailCodeStart sample_libs sample_server (sample_env 2) sample_request (Some '' New@x.io'') sample_world
      = (fst mail_result, snd mail_result)" by (simp add: mail_result_def)
  show "rs_status (fst mail_result) = 200" by (rule mail_result_sent)
  show "sv_mailer sample_server = SMTPMailer ''smtp'' ''587'' ''u'' ''p'' ''from''" by (simp add: sample_server_code)
  show "\<forall>k \<in> set (db_codes (w_db sample_world)). k_createdAt k \<le> db_time (sample_env 2) (db_now (sample_env 2))"
    by (simp add: sample_world_code)
qed

end
