(* ===== verification/Spec2Isabelle.thy ===== *)
theory Spec2Isabelle
  imports Login_Properties Google_Handlers Desktop_Sso Market_Proxy Redirect_Laws
    Oversized_Feed Import_Properties Update_Handlers_Laws Release_Catalog_Laws Downloads_Laws Entry_Properties Avatar_Laws Service_Witnesses Server_Helpers Email_Login
begin

text \<open>
  A verification library for the ZenMind official server (Go, \<open>src/\<close>): the HTTP service of
  \<open>cmd/server\<close> with its packages \<open>internal/auth\<close>, \<open>internal/config\<close> and \<open>internal/release\<close>, and the command
  \<open>cmd/releasectl\<close>. The service logs users in (password, e-mail code, Google, single sign-on of the desktop client),
  publishes desktop updates, installers and download counts, shows avatars and forwards requests to the market.

  \<^bold>\<open>How the program is modelled.\<close> A Go function is a function of the same name (its first letter, and a name that
  clashes with HOL, adapted). State is passed explicitly: an operation gets the state last and returns it last, also
  where it reports an error. Errors are values: \<open>Inl\<close> the error or \<open>None\<close>; every early return is a branch. A Go string
  is a list of bytes (\<^typ>\<open>string\<close>); times are nanoseconds since the epoch (\<^typ>\<open>int\<close>); \<open>int64\<close> values that can
  overflow wrap explicitly. Random bytes are a stream that is consumed from the front. Everything computes, so the
  witnesses run the code on concrete data.

  \<^bold>\<open>The Go library\<close>, as far as the program uses it: \<open>Go_Strings\<close> (the prelude: \<open>strings\<close>, UTF-8, decimal
  numbers, and the theorem collections), \<open>Go_Strconv\<close>, \<open>Go_Time\<close>, \<open>Go_Crypto\<close> (SHA-256, hexadecimal, base64),
  \<open>Go_Netip\<close>, \<open>Go_Url\<close>, \<open>Go_Path\<close>, \<open>Go_Media\<close>, \<open>Go_Json\<close> and \<open>Go_Json_Decode\<close> with the round trip of
  printing and scanning in \<open>Go_Json_Laws\<close>, \<open>Http\<close> (requests and responses), \<open>Smtp\<close> (the client of
  \<open>net/smtp\<close>), and \<open>Go_Mux\<close> (\<open>http.ServeMux\<close>).

  \<^bold>\<open>The users' database\<close> (\<open>internal/auth/store.go\<close>).
  \<^item> \<open>Auth_Types\<close>: the data, e-mail addresses, codes, tokens and their hashes.
  \<^item> \<open>Auth_Store\<close>: the tables of \<open>EnsureSchema\<close> as lists of rows (\<open>db\<close>) and every operation of \<open>MySQLStore\<close>. The
    engine (collation, rounding of times, clock, which statement fails) is the record \<open>dbenv\<close>; a failed
    transaction changes nothing.
  \<^item> \<open>Auth_Store_Laws\<close>: the keys and references of the schema (\<open>store_wf\<close>) hold in every database the operations
    can reach. \<open>store_step\<close> is one operation.
  \<^item> \<open>Store_Interfaces\<close>: the locale \<open>one_shot\<close> (a secret is accepted at most once, whatever happens in between),
    interpreted for OAuth states and desktop tickets, and \<open>session_store\<close> (a map from token hashes), interpreted
    on the session table. \<open>Store_Properties\<close> has the properties and runs the operations on a small database.

  \<^bold>\<open>Requests and logins\<close> (\<open>server.go\<close>, \<open>request_security.go\<close>, \<open>google.go\<close>, \<open>desktop_jwt.go\<close>, \<open>mailer.go\<close>).
  \<^item> \<open>Request_Security\<close>: the rate limiter, the client's address, the origin check. \<open>Rate_Limit_Laws\<close> states a
    fixed-window counter as the locale \<open>window_limit\<close>, derives the bound on sliding windows, and interprets it for
    the limits on logins, on codes sent and on codes tried.
  \<^item> \<open>Auth_Server\<close>, \<open>Auth_Session\<close>, \<open>Server_Helpers\<close>: the server's configuration (\<open>server\<close>), what its handlers
    work on (\<open>world\<close>: database, limiter, random bytes, SMTP dialogues), redirect targets, cookies, sessions, CSRF.
    \<open>Redirect_Laws\<close> says where redirects can lead.
  \<^item> \<open>Google_Provider\<close>, \<open>Desktop_Jwt\<close>, \<open>Mailer\<close>: the services the logins use. \<open>Mailer_Laws\<close>: what is sent to the
    mail server before the connection is encrypted, and what a reported success means.
  \<^item> \<open>Login_Handlers\<close>, \<open>Google_Handlers\<close>, \<open>Desktop_Sso\<close>, \<open>Market_Proxy\<close>: the handlers, each from the first
    check to the response. \<open>Login_Properties\<close> has the properties of logging in and out, \<open>Email_Login\<close> follows a code from
    the message to the login.
  \<^item> \<open>Avatar_Proxy\<close>, \<open>Avatar_Fetch\<close> (\<open>avatar_proxy.go\<close>): source addresses, the download with its redirects, the
    files of the cache; \<open>Avatar_Laws\<close> shows which sites are asked and where the images come from, also when
    handlers interleave.

  \<^bold>\<open>Updates and installers\<close> (\<open>internal/release\<close>, \<open>desktop_updates.go\<close>, \<open>download_store.go\<close>).
  \<^item> \<open>Release_Manifest\<close> (and its laws): the manifest, its JSON and its validation.
  \<^item> \<open>Update_Catalog\<close>: the interface \<open>DesktopUpdateCatalog\<close> as the locale \<open>update_catalog\<close>: what a successful save
    promises. That no update is lost and other feeds are left alone is proved there once.
  \<^item> \<open>Release_Feeds\<close> (SQLite) and \<open>Release_Directory\<close> (files): the two implementations; their \<open>_Laws\<close> interpret the
    locale. \<open>Release_Properties\<close>, \<open>Directory_Properties\<close>, \<open>Oversized_Feed\<close> and \<open>Import_Properties\<close> have the
    properties, among them what a save that fails half-way leaves behind and what the import of SQLite feeds does.
  \<^item> \<open>Update_Handlers\<close>: the public address and the administration over the configured provider, which is a third
    interpretation of the locale (\<open>Update_Handlers_Laws\<close>).
  \<^item> \<open>Release_Catalog\<close> (installers, \<open>UpsertFile\<close>) and \<open>Downloads\<close> (events and totals), with their laws.

  \<^bold>\<open>The whole service.\<close>
  \<^item> \<open>Config\<close> reads the environment; \<open>Entry_Points\<close> is \<open>run\<close> up to the new server, and \<open>releasectl\<close> with the parsing
    of its command line. \<open>Entry_Properties\<close> says what an accepted configuration is like. \<open>Server_Run\<close> is the whole of
    \<open>run\<close> and \<open>main\<close>, from the environment over the requests to the exit status.
  \<^item> \<open>Routes\<close>: the table of addresses, the decoding of bodies, and \<open>serveHTTP\<close>, which takes a request through the
    mux to its handler and sets the security headers. Its state \<open>service\<close> gathers the users' world, the feeds, the
    installers, the downloads and the avatar cache; \<open>backend\<close> gathers what is outside the program during one
    request.
  \<^item> \<open>Mux_Laws\<close>: the search of the mux finds exactly the pattern that matches.
  \<^item> \<open>Handler_Runs\<close>: the locale \<open>store_client\<close> (its extension \<open>store_client_revoking\<close> adds \<open>logout\<close>) states that a
    relation between databases is respected by every store operation; it follows that every handler respects it.
    \<open>Service_Laws\<close> makes a request a step of the service (\<open>service_step\<close>) and interprets the locales with three
    relations: reachability by store operations, roles and flags that no request changes, and a session that
    stays until it expires.
  \<^item> \<open>Service_Properties\<close>, \<open>Service_Answers\<close> and \<open>Service_Witnesses\<close>: properties of any sequence of requests, that
    every request is answered, and a small server on which they are run.

  \<^bold>\<open>Bounds and termination.\<close> No definition uses fuel for the program's own loops. Recursion is structural, except
  for parsers, which consume their input, and the paths of the mux, which get shorter. The avatar download follows at
  most three redirects, as the code does.

  \<^bold>\<open>Parameters.\<close> MySQL and SQLite (\<open>dbenv\<close>, \<open>sqlenv\<close>, \<open>dlenv\<close>), the file system (\<open>fsenv\<close>, \<open>direnv\<close>,
  \<open>avatar_env\<close>), bcrypt, RSA, PEM and X.509, OAuth2 and OIDC, the SMTP server, the sites of avatars and the market.
  Where a property needs more of them than their type, the hypothesis says so and a witness instantiates it.

  \<^bold>\<open>Not modelled.\<close>
  \<^item> Sockets and the delivery of signals, log output, connection pools and contexts, and the data definition
    statements of the schemas beyond what the row types and the integrity predicates say of them.
  \<^item> The bytes on a connection: serialisation of responses, dropping the body of an answer to \<open>HEAD\<close>, and the
    ranges of \<open>http.ServeContent\<close> are left to \<open>net/http\<close>, hop-by-hop headers to \<open>httputil.ReverseProxy\<close>.
  \<^item> Concurrency: \<open>service_step\<close> serves one request at a time. The store properties hold for every interleaving
    of store operations, each of which is one transaction or statement, and the avatar handler gets the cache as it
    is at each of its two looks. Data races and locks are not modelled.
\<close>

end
